(* ===== verification/Prelude.thy ===== *)
theory Prelude
  imports Main "HOL-Library.Sublist" "HOL-Library.Word" "HOL-Library.Multiset"
begin

unbundle bit_operations_syntax

text \<open>
  The prelude of the development: the collections of rewrite and introduction rules the
  component theories extend, the rendering of C's integer conversions, and the recogniser of the
  line by which a ported test announces its success.

  A ported test (\<^verbatim>\<open>independent tests/syscalls/*/*.c\<close>) reports its verdict only by printing:
  the function \<^verbatim>\<open>runTest\<close> of \<^verbatim>\<open>brain.py\<close> searches the captured output for \<open>test succeeded\<close>.
  \<open>announces\<close> is that substring test; \<open>scan\<close> is a matching automaton for it that the simplifier can
  run over string literals, and \<open>announces_scan\<close> proves the two equal.
\<close>

named_theorems run_simps \<open>symbolic execution of C test programs\<close>
named_theorems quiet_intros \<open>programs that never announce success\<close>
named_theorems extends_intros \<open>programs that only add to their output and history\<close>
named_theorems returns_intros \<open>programs that always come back to their caller\<close>

section \<open>Integer conversions of printf\<close>

text \<open>The digit characters of the conversions \<^verbatim>\<open>%d\<close>, \<^verbatim>\<open>%x\<close>, \<^verbatim>\<open>%o\<close>.\<close>

definition digit :: "nat \<Rightarrow> char" where
  "digit d = ''0123456789abcdef'' ! (d mod 16)"

fun show_base :: "nat \<Rightarrow> nat \<Rightarrow> string" where
  "show_base b n = (if b \<le> 1 \<or> n < b then [digit n] else show_base b (n div b) @ [digit (n mod b)])"

declare show_base.simps [simp del]

definition show_int :: "int \<Rightarrow> string" where
  "show_int i = (if i < 0 then CHR ''-'' # show_base 10 (nat (- i)) else show_base 10 (nat i))"

definition show_hex :: "nat \<Rightarrow> string" where
  "show_hex n = show_base 16 n"

definition show_oct :: "nat \<Rightarrow> string" where
  "show_oct n = show_base 8 n"

text \<open>\<^verbatim>\<open>%X\<close>: capital digits.\<close>

definition upcase :: "char \<Rightarrow> char" where
  "upcase c = (if c = CHR ''a'' then CHR ''A'' else if c = CHR ''b'' then CHR ''B''
     else if c = CHR ''c'' then CHR ''C'' else if c = CHR ''d'' then CHR ''D''
     else if c = CHR ''e'' then CHR ''E'' else if c = CHR ''f'' then CHR ''F'' else c)"

definition show_HEX :: "nat \<Rightarrow> string" where
  "show_HEX n = map upcase (show_hex n)"

text \<open>\<^verbatim>\<open>%zu\<close>, \<^verbatim>\<open>%lu\<close> of a signed 64-bit value: it is read as unsigned.\<close>

definition show_zu :: "int \<Rightarrow> string" where
  "show_zu i = show_base 10 (unat (word_of_int i :: 64 word))"

text \<open>glibc's \<^verbatim>\<open>%p\<close>: \<open>(nil)\<close> for the null pointer, \<open>0x\<close> and hexadecimal digits otherwise.\<close>

definition show_ptr :: "64 word \<Rightarrow> string" where
  "show_ptr a = (if a = 0 then ''(nil)'' else ''0x'' @ show_hex (unat a))"

text \<open>Reading back a rendered decimal: the left inverse of \<open>show_base 10\<close>.\<close>

definition undigit :: "char \<Rightarrow> nat" where
  "undigit c = of_char c - 48"

definition read_dec :: "string \<Rightarrow> nat" where
  "read_dec s = foldl (\<lambda>n c. 10 * n + undigit c) 0 s"

lemma digit_set: "digit d \<in> set ''0123456789abcdef''"
proof -
  have "d mod 16 < length ''0123456789abcdef''" by simp
  then show ?thesis unfolding digit_def by (rule nth_mem)
qed

lemma digit_not_t: "digit d \<noteq> CHR ''t''"
  using digit_set [of d] by auto

lemma undigit_digit: "d < 10 \<Longrightarrow> undigit (digit d) = d"
proof -
  assume "d < 10"
  then have "d \<in> {0, 1, 2, 3, 4, 5, 6, 7, 8, 9}" by auto
  then show ?thesis by (auto simp: undigit_def digit_def)
qed

lemma show_base_no_t: "CHR ''t'' \<notin> set (show_base b n)"
proof (induction b n rule: show_base.induct)
  case (1 b n)
  then show ?case
    by (subst show_base.simps) (auto simp: digit_not_t [symmetric])
qed

lemma show_base_nonempty: "show_base b n \<noteq> []"
  by (subst show_base.simps) simp

lemma show_int_no_t: "CHR ''t'' \<notin> set (show_int i)"
  by (auto simp: show_int_def show_base_no_t)

lemma show_ptr_no_t: "CHR ''t'' \<notin> set (show_ptr a)"
  by (auto simp: show_ptr_def show_hex_def show_base_no_t)

lemma upcase_t: "upcase c = CHR ''t'' \<longleftrightarrow> c = CHR ''t''"
  unfolding upcase_def by (simp only: split: if_split) simp

lemma show_HEX_no_t: "CHR ''t'' \<notin> set (show_HEX n)"
  using show_base_no_t [of 16 n] upcase_t by (metis (no_types) imageE list.set_map show_HEX_def show_hex_def)

lemma read_dec_show_base: "read_dec (show_base 10 n) = n"
proof (induction "10::nat" n rule: show_base.induct)
  case (1 n)
  then show ?case
    by (subst show_base.simps) (auto simp: read_dec_def undigit_digit)
qed

definition is_digit :: "char \<Rightarrow> bool" where
  "is_digit c \<longleftrightarrow> 48 \<le> (of_char c :: nat) \<and> (of_char c :: nat) \<le> 57"

lemma is_digit_digit: "d < 10 \<Longrightarrow> is_digit (digit d)"
proof -
  assume "d < 10"
  then have "d \<in> {0, 1, 2, 3, 4, 5, 6, 7, 8, 9}" by auto
  then show ?thesis by (auto simp: is_digit_def digit_def)
qed

lemma show_base_digits: "list_all is_digit (show_base 10 n)"
proof (induction "10::nat" n rule: show_base.induct)
  case (1 n)
  then show ?case by (subst show_base.simps) (auto simp: is_digit_digit)
qed

text \<open>\<^verbatim>\<open>atoi\<close> on an argument: spaces, a sign, digits.\<close>

definition atoi :: "string \<Rightarrow> int" where
  "atoi t = (case dropWhile (\<lambda>c. c = CHR '' '' \<or> (of_char c :: nat) \<in> {9, 10, 11, 12, 13}) t of
       [] \<Rightarrow> 0
     | c # cs \<Rightarrow>
         if c = CHR ''-'' then - int (read_dec (takeWhile is_digit cs))
         else if c = CHR ''+'' then int (read_dec (takeWhile is_digit cs))
         else int (read_dec (takeWhile is_digit (c # cs))))"

lemma show_base_short: "0 < k \<Longrightarrow> n < 10 ^ k \<Longrightarrow> length (show_base 10 n) \<le> k"
proof (induction k arbitrary: n)
  case (Suc k)
  show ?case
  proof (cases "n < 10")
    case True
    then show ?thesis by (subst show_base.simps) simp
  next
    case False
    with Suc.prems have "0 < k" by (cases k) auto
    moreover have "n div 10 < 10 ^ k" using Suc.prems by (simp add: less_mult_imp_div_less mult.commute)
    ultimately have "length (show_base 10 (n div 10)) \<le> k" by (rule Suc.IH)
    with False show ?thesis by (subst show_base.simps) simp
  qed
qed simp

lemma takeWhile_digits: "takeWhile is_digit (show_base 10 n) = show_base 10 n"
  using show_base_digits [of n] by (simp add: list_all_iff takeWhile_eq_all_conv)

lemma digit_first: "\<exists>c cs. show_base 10 n = c # cs \<and> is_digit c"
  using show_base_digits [of n] show_base_nonempty [of 10 n] by (cases "show_base 10 n") auto

lemma atoi_show_int: "atoi (show_int i) = i"
proof (cases "i < 0")
  case True
  then show ?thesis by (simp add: atoi_def show_int_def takeWhile_digits read_dec_show_base)
next
  case False
  obtain c cs where c: "show_base 10 (nat i) = c # cs" "is_digit c" using digit_first by blast
  then have "c \<noteq> CHR '' ''" "c \<noteq> CHR ''-''" "c \<noteq> CHR ''+''" "(of_char c :: nat) \<notin> {9, 10, 11, 12, 13}"
    by (auto simp: is_digit_def)
  then have "atoi (show_int i) = int (read_dec (takeWhile is_digit (show_base 10 (nat i))))"
    using False c(1) by (simp add: atoi_def show_int_def)
  with False show ?thesis by (simp add: takeWhile_digits read_dec_show_base)
qed

section \<open>The success line\<close>

abbreviation success_line :: string where
  "success_line \<equiv> ''test succeeded''"

text \<open>Python's \<^verbatim>\<open>"test succeeded" in cont\<close>.\<close>

definition announces :: "string \<Rightarrow> bool" where
  "announces s = sublist success_line s"

text \<open>The matching automaton: state \<open>q\<close> is the number of characters of the line matched so far,
  14 the accepting state, which is never left.\<close>

definition delta :: "nat \<Rightarrow> char \<Rightarrow> nat" where
  "delta q c =
     (if 14 \<le> q then 14
      else if c = success_line ! q then Suc q
      else if c = CHR ''t'' then 1
      else if q = 4 \<and> c = CHR ''e'' then 2
      else 0)"

definition scan :: "nat \<Rightarrow> string \<Rightarrow> nat" where
  "scan q s = foldl delta q s"

lemma scan_Nil [simp]: "scan q [] = q"
  by (simp add: scan_def)

lemma scan_Cons: "scan q (c # s) = scan (delta q c) s"
  by (simp add: scan_def)

lemma scan_append [simp]: "scan q (s @ t) = scan (scan q s) t"
  by (simp add: scan_def)

lemma scan_accepted [simp]: "scan 14 s = 14"
  by (induction s) (simp_all add: scan_Cons delta_def)

text \<open>One rewrite rule per state, so that the simplifier runs the automaton over a literal.\<close>

lemma scan_steps [simp]:
  "scan 0 (c # s) = (if c = CHR ''t'' then scan 1 s else scan 0 s)"
  "scan (Suc 0) (c # s) = (if c = CHR ''e'' then scan 2 s else if c = CHR ''t'' then scan 1 s else scan 0 s)"
  "scan 2 (c # s) = (if c = CHR ''s'' then scan 3 s else if c = CHR ''t'' then scan 1 s else scan 0 s)"
  "scan 3 (c # s) = (if c = CHR ''t'' then scan 4 s else scan 0 s)"
  "scan 4 (c # s) = (if c = CHR '' '' then scan 5 s else if c = CHR ''t'' then scan 1 s
     else if c = CHR ''e'' then scan 2 s else scan 0 s)"
  "scan 5 (c # s) = (if c = CHR ''s'' then scan 6 s else if c = CHR ''t'' then scan 1 s else scan 0 s)"
  "scan 6 (c # s) = (if c = CHR ''u'' then scan 7 s else if c = CHR ''t'' then scan 1 s else scan 0 s)"
  "scan 7 (c # s) = (if c = CHR ''c'' then scan 8 s else if c = CHR ''t'' then scan 1 s else scan 0 s)"
  "scan 8 (c # s) = (if c = CHR ''c'' then scan 9 s else if c = CHR ''t'' then scan 1 s else scan 0 s)"
  "scan 9 (c # s) = (if c = CHR ''e'' then scan 10 s else if c = CHR ''t'' then scan 1 s else scan 0 s)"
  "scan 10 (c # s) = (if c = CHR ''e'' then scan 11 s else if c = CHR ''t'' then scan 1 s else scan 0 s)"
  "scan 11 (c # s) = (if c = CHR ''d'' then scan 12 s else if c = CHR ''t'' then scan 1 s else scan 0 s)"
  "scan 12 (c # s) = (if c = CHR ''e'' then scan 13 s else if c = CHR ''t'' then scan 1 s else scan 0 s)"
  "scan 13 (c # s) = (if c = CHR ''d'' then 14 else if c = CHR ''t'' then scan 1 s else scan 0 s)"
  by (auto simp: scan_Cons delta_def numeral_2_eq_2 [symmetric])

text \<open>A character that occurs nowhere in the line sends every state but the accepting one back to the
  start, so that a text printed between two such characters is searched on its own.\<close>

lemma delta_le: "q \<le> 14 \<Longrightarrow> delta q c \<le> 14"
  by (auto simp: delta_def)

lemma scan_le: "q \<le> 14 \<Longrightarrow> scan q s \<le> 14"
  by (induction s arbitrary: q) (auto simp: scan_Cons delta_le)

lemma scan_foreign:
  assumes "c \<notin> set success_line"
  shows "scan (scan 0 t) (c # s) = (if scan 0 t = 14 then 14 else scan 0 s)"
proof (cases "14 \<le> scan 0 t")
  case True
  with scan_le [of 0 t] have "scan 0 t = 14" by simp
  then show ?thesis by simp
next
  case False
  then have "success_line ! scan 0 t \<in> set success_line" by (intro nth_mem) simp
  with assms have "c \<noteq> success_line ! scan 0 t" by metis
  moreover from assms have "c \<noteq> CHR ''t''" "c \<noteq> CHR ''e''" by auto
  ultimately show ?thesis using False by (simp add: scan_Cons delta_def)
qed

lemma scan_newline [simp]:
  "scan (scan 0 t) (CHR ''\<newline>'' # s) = (if scan 0 t = 14 then 14 else scan 0 s)"
  by (rule scan_foreign) simp

lemma scan_comma [simp]:
  "scan (scan 0 t) (CHR '','' # s) = (if scan 0 t = 14 then 14 else scan 0 s)"
  by (rule scan_foreign) simp

lemma scan_quote [simp]:
  "scan (scan 0 t) (CHR 0x27 # s) = (if scan 0 t = 14 then 14 else scan 0 s)"
  by (rule scan_foreign) simp

lemma scan_no_t: "CHR ''t'' \<notin> set s \<Longrightarrow> scan 0 s = 0"
  by (induction s) auto

lemma scan_show [simp]:
  "scan 0 (show_int i) = 0" "scan 0 (show_ptr a) = 0"
  "scan 0 (show_hex n) = 0" "scan 0 (show_oct n) = 0" "scan 0 (show_zu i) = 0" "scan 0 (show_HEX n) = 0"
  by (simp_all add: scan_no_t show_HEX_no_t show_int_no_t show_ptr_no_t show_hex_def show_oct_def show_zu_def show_base_no_t)

text \<open>The automaton accepts exactly the texts that contain the line: running it from state \<open>q\<close> is
  searching the text with the \<open>q\<close> characters already matched put in front of it.\<close>

lemma delta_sublist:
  assumes "q < 14"
  shows "sublist success_line (take q success_line @ c # t) \<longleftrightarrow>
    sublist success_line (take (delta q c) success_line @ t)"
proof -
  from assms have "q \<in> {0, 1, 2, 3, 4, 5, 6, 7, 8, 9, 10, 11, 12, 13}"
    by (simp only: insert_iff empty_iff) arith
  then show ?thesis
    by (elim insertE emptyE; simp only:; simp add: delta_def sublist_code)
qed

lemma scan_sublist:
  "q \<le> 14 \<Longrightarrow> scan q t = 14 \<longleftrightarrow> sublist success_line (take q success_line @ t)"
proof (induction t arbitrary: q)
  case Nil
  show ?case
  proof (cases "q = 14")
    case False
    with Nil have "length (take q success_line) < length success_line" by simp
    then have "\<not> sublist success_line (take q success_line)"
      using sublist_length_le by fastforce
    with False show ?thesis by simp
  qed simp
next
  case (Cons c t)
  have le: "delta q c \<le> 14" using Cons.prems by (auto simp: delta_def)
  show ?case
  proof (cases "q = 14")
    case True
    then show ?thesis by simp
  next
    case False
    with Cons.prems Cons.IH [OF le] show ?thesis
      by (simp add: scan_Cons delta_sublist)
  qed
qed

lemma announces_scan: "announces s \<longleftrightarrow> scan 0 s = 14"
  using scan_sublist [of 0 s] by (simp add: announces_def)

end
