(* ===== verification/Process.thy ===== *)
theory Process
  imports Prelude
begin

text \<open>
  The process model shared by all test programs: what a C test program can do, the environment it
  runs against, and the contracts its callers rely on.

  The kernel under test is not part of the repository, so it is a parameter: a \<open>kernel\<close> answers
  each call from the whole history of calls and answers so far, so that any deterministic kernel,
  and each run of a nondeterministic one, is such a function. Everything whose result the C program
  text does not determine is asked of it: system calls, \<^verbatim>\<open>malloc\<close>, loads and stores through
  pointers (which may fault), values of uninitialised objects (\<open>Indet\<close>).

  A program is a function from the state of its process to a control flow (\<open>Ret\<close> of a value,
  \<open>Exit\<close> through \<^verbatim>\<open>exit()\<close>, \<open>Killed\<close> by a signal) and the new state. The state has \<open>errno\<close>, the text
  printed so far, the history of calls, and, as a record extension, the program's C globals.
\<close>

section \<open>Header constants\<close>

abbreviation (input) "O_RDONLY \<equiv> (0::int)"
abbreviation (input) "O_WRONLY \<equiv> (1::int)"
abbreviation (input) "O_RDWR \<equiv> (2::int)"
abbreviation (input) "O_ACCMODE \<equiv> (3::int)"
abbreviation (input) "O_CREAT \<equiv> (64::int)"
abbreviation (input) "O_TRUNC \<equiv> (512::int)"
abbreviation (input) "O_APPEND \<equiv> (1024::int)"
abbreviation (input) "O_NONBLOCK \<equiv> (2048::int)"
abbreviation (input) "O_NDELAY \<equiv> (2048::int)"
abbreviation (input) "O_DIRECTORY \<equiv> (65536::int)"
abbreviation (input) "O_TMPFILE \<equiv> (4259840::int)"
abbreviation (input) "AT_FDCWD \<equiv> (- 100::int)"
abbreviation (input) "AT_SYMLINK_FOLLOW \<equiv> (1024::int)"
abbreviation (input) "SEEK_SET \<equiv> (0::int)"
abbreviation (input) "SEEK_CUR \<equiv> (1::int)"
abbreviation (input) "PROT_NONE \<equiv> (0::int)"
abbreviation (input) "PROT_READ \<equiv> (1::int)"
abbreviation (input) "PROT_WRITE \<equiv> (2::int)"
abbreviation (input) "PROT_EXEC \<equiv> (4::int)"
abbreviation (input) "MAP_FILE \<equiv> (0::int)"
abbreviation (input) "MAP_SHARED \<equiv> (1::int)"
abbreviation (input) "MAP_PRIVATE \<equiv> (2::int)"
abbreviation (input) "MAP_FIXED \<equiv> (16::int)"
abbreviation (input) "MAP_ANONYMOUS \<equiv> (32::int)"
abbreviation (input) "MAP_GROWSDOWN \<equiv> (256::int)"
abbreviation (input) "MAP_LOCKED \<equiv> (8192::int)"
abbreviation (input) "MAP_POPULATE \<equiv> (32768::int)"
abbreviation (input) "MAP_FIXED_NOREPLACE \<equiv> (1048576::int)"
abbreviation (input) "MS_SYNC \<equiv> (4::int)"
abbreviation (input) "F_DUPFD \<equiv> (0::int)"
abbreviation (input) "F_GETFD \<equiv> (1::int)"
abbreviation (input) "F_SETFD \<equiv> (2::int)"
abbreviation (input) "F_GETFL \<equiv> (3::int)"
abbreviation (input) "F_SETFL \<equiv> (4::int)"
abbreviation (input) "F_GETLK \<equiv> (5::int)"
abbreviation (input) "F_SETLK \<equiv> (6::int)"
abbreviation (input) "F_SETLKW \<equiv> (7::int)"
abbreviation (input) "F_RDLCK \<equiv> (0::int)"
abbreviation (input) "F_WRLCK \<equiv> (1::int)"
abbreviation (input) "F_UNLCK \<equiv> (2::int)"
abbreviation (input) "EPERM \<equiv> (1::int)"
abbreviation (input) "ENOENT \<equiv> (2::int)"
abbreviation (input) "ESRCH \<equiv> (3::int)"
abbreviation (input) "EINTR \<equiv> (4::int)"
abbreviation (input) "ENOEXEC \<equiv> (8::int)"
abbreviation (input) "EBADF \<equiv> (9::int)"
abbreviation (input) "EAGAIN \<equiv> (11::int)"
abbreviation (input) "ENOMEM \<equiv> (12::int)"
abbreviation (input) "EACCES \<equiv> (13::int)"
abbreviation (input) "EFAULT \<equiv> (14::int)"
abbreviation (input) "EEXIST \<equiv> (17::int)"
abbreviation (input) "ENOTDIR \<equiv> (20::int)"
abbreviation (input) "EISDIR \<equiv> (21::int)"
abbreviation (input) "EINVAL \<equiv> (22::int)"
abbreviation (input) "EPIPE \<equiv> (32::int)"
abbreviation (input) "ENAMETOOLONG \<equiv> (36::int)"
abbreviation (input) "ENOTSUP \<equiv> (95::int)"
abbreviation (input) "SIGINT \<equiv> (2::int)"
abbreviation (input) "SIGBUS \<equiv> (7::int)"
abbreviation (input) "SIGSEGV \<equiv> (11::int)"
abbreviation (input) "SIGUSR2 \<equiv> (12::int)"
abbreviation (input) "SIGPIPE \<equiv> (13::int)"
abbreviation (input) "SIGTERM \<equiv> (15::int)"
abbreviation (input) "S_IFIFO \<equiv> (4096::int)"
abbreviation (input) "S_IFDIR \<equiv> (16384::int)"
abbreviation (input) "S_IFMT \<equiv> (61440::int)"
abbreviation (input) "S_ISGID \<equiv> (1024::int)"
abbreviation (input) "S_IXGRP \<equiv> (8::int)"
abbreviation (input) "EXIT_FAILURE \<equiv> (1::int)"
abbreviation (input) "BUFSIZ \<equiv> (8192::nat)"
abbreviation (input) "NUL \<equiv> CHR 0x00"

text \<open>File modes, written in octal in the source.\<close>

abbreviation (input) "mode_0111 \<equiv> (73::int)"
abbreviation (input) "mode_0222 \<equiv> (146::int)"
abbreviation (input) "mode_0333 \<equiv> (219::int)"
abbreviation (input) "mode_0444 \<equiv> (292::int)"
abbreviation (input) "mode_0555 \<equiv> (365::int)"
abbreviation (input) "mode_0600 \<equiv> (384::int)"
abbreviation (input) "mode_0644 \<equiv> (420::int)"
abbreviation (input) "mode_0666 \<equiv> (438::int)"
abbreviation (input) "mode_0700 \<equiv> (448::int)"
abbreviation (input) "mode_0755 \<equiv> (493::int)"
abbreviation (input) "mode_0766 \<equiv> (502::int)"
abbreviation (input) "mode_0777 \<equiv> (511::int)"

section \<open>Calls and answers\<close>

type_synonym addr = "64 word"

abbreviation (input) "NULL \<equiv> (0::addr)"
abbreviation (input) "MAP_FAILED \<equiv> (- 1::addr)"

text \<open>A buffer handed to the kernel: known contents, a raw pointer, or uninitialised storage.\<close>

datatype ubuf = Bytes string | Addr addr | Uninit

record flock =
  l_type :: int
  l_whence :: int
  l_start :: int
  l_len :: int
  l_pid :: int

record stat =
  st_mode :: int
  st_size :: int
  st_gid :: int
  st_atime :: int

record pollfd =
  pfd_fd :: int
  pfd_events :: int
  pfd_revents :: int

text \<open>An argument of \<^verbatim>\<open>prctl\<close>: a number, a string, or the address of a named object of the program.\<close>

datatype prctl_arg = PNum int | PStr string | PObj string

text \<open>Calls on open descriptors.\<close>

datatype io_call =
    Open_io string int int
  | Creat_io string int
  | Openat_io int string int int
  | Close_io int
  | Read_io int nat
  | ReadAt_io int addr nat
  | Write_io int ubuf nat
  | Lseek_io int int int
  | Pipe_io
  | Socket_io int int int
  | Fstat_io int
  | Fchmod_io int int
  | Ftruncate_io int int
  | Fcntl_io int int int
  | FcntlLk_io int int flock

text \<open>Calls on path names and on the identity of the process.\<close>

datatype path_call =
    Mknod_pa string int
  | Mkstemp_pa string
  | Unlink_pa string
  | Mkdir_pa string int
  | Rmdir_pa string
  | Chdir_pa string
  | Getcwd_pa
  | Link_pa int string int string int
  | Readlink_pa string
  | Umask_pa int
  | Chown_pa string int int
  | Chmod_pa string int
  | Stat_pa string
  | Lstat_pa string
  | Fstatat_pa int string int
  | Access_pa string int
  | Symlink_pa string string
  | Mkfifo_pa string int
  | Mount_pa string string string int addr

text \<open>Memory: mappings, the heap, and the accesses of the program itself.\<close>

datatype mem_call =
    Mmap_me addr int int int int int
  | Munmap_me addr int
  | Mprotect_me addr int int
  | Msync_me addr int int
  | Brk_me addr
  | Sbrk_me int
  | Malloc_me int
  | MemLoad_me addr nat
  | MemStore_me addr string
  | Getpagesize_me
  | Sysconf_me int
  | Getrlimit_me int

text \<open>Processes, signals, scheduling, and the undetermined values of C objects.\<close>

datatype proc_call =
    Getpid_pr
  | Geteuid_pr
  | Setgid_pr int
  | Setreuid_pr int int
  | Getpwnam_pr string
  | System_pr string
  | Signal_pr int
  | Sigaction_pr int
  | Kill_pr int int
  | Wait_pr
  | Fork_pr
  | Forked_pr
  | Waitpid_pr int int
  | Getppid_pr
  | Setuid_pr int
  | Seteuid_pr int
  | Getegid_pr
  | Sigprocmask_pr int "int list"
  | Sigpending_pr
  | Prctl_pr int "prctl_arg list"
  | Execve_pr "string option"
  | Execve_with_pr string "string list" "string list option"
  | Execvp_pr string "string list"
  | Rdtsc_pr
  | Sleep_pr int
  | Pthread_attr_init_pr
  | Pthread_attr_setdetachstate_pr int
  | Pthread_create_pr string addr
  | Pthread_join_pr
  | Ppoll_pr "pollfd option" int "(int \<times> int) option" addr
  | SchedSetattr_pr int int int
  | SchedGetaffinity_pr int int ubuf
  | SetTidAddress_pr
  | Fopen_pr string
  | Fgets_pr
  | Libcap_pr string
  | Indet_pr string

datatype syscall = Io io_call | Pa path_call | Me mem_call | Pr proc_call

text \<open>The calls are written without the name of their group.\<close>

abbreviation "Open a b c \<equiv> Io (Open_io a b c)"
abbreviation "Creat a b \<equiv> Io (Creat_io a b)"
abbreviation "Openat a b c d \<equiv> Io (Openat_io a b c d)"
abbreviation "Close a \<equiv> Io (Close_io a)"
abbreviation "Read a b \<equiv> Io (Read_io a b)"
abbreviation "ReadAt a b c \<equiv> Io (ReadAt_io a b c)"
abbreviation "Write a b c \<equiv> Io (Write_io a b c)"
abbreviation "Lseek a b c \<equiv> Io (Lseek_io a b c)"
abbreviation "Pipe \<equiv> Io Pipe_io"
abbreviation "Socket a b c \<equiv> Io (Socket_io a b c)"
abbreviation "Fstat a \<equiv> Io (Fstat_io a)"
abbreviation "Fchmod a b \<equiv> Io (Fchmod_io a b)"
abbreviation "Ftruncate a b \<equiv> Io (Ftruncate_io a b)"
abbreviation "Fcntl a b c \<equiv> Io (Fcntl_io a b c)"
abbreviation "FcntlLk a b c \<equiv> Io (FcntlLk_io a b c)"
abbreviation "Mknod a b \<equiv> Pa (Mknod_pa a b)"
abbreviation "Mkstemp a \<equiv> Pa (Mkstemp_pa a)"
abbreviation "Unlink a \<equiv> Pa (Unlink_pa a)"
abbreviation "Mkdir a b \<equiv> Pa (Mkdir_pa a b)"
abbreviation "Rmdir a \<equiv> Pa (Rmdir_pa a)"
abbreviation "Chdir a \<equiv> Pa (Chdir_pa a)"
abbreviation "Getcwd \<equiv> Pa Getcwd_pa"
abbreviation "Link a b c d e \<equiv> Pa (Link_pa a b c d e)"
abbreviation "Readlink a \<equiv> Pa (Readlink_pa a)"
abbreviation "Umask a \<equiv> Pa (Umask_pa a)"
abbreviation "Chown a b c \<equiv> Pa (Chown_pa a b c)"
abbreviation "Chmod a b \<equiv> Pa (Chmod_pa a b)"
abbreviation "Stat a \<equiv> Pa (Stat_pa a)"
abbreviation "Lstat a \<equiv> Pa (Lstat_pa a)"
abbreviation "Fstatat a b c \<equiv> Pa (Fstatat_pa a b c)"
abbreviation "Access a b \<equiv> Pa (Access_pa a b)"
abbreviation "Symlink a b \<equiv> Pa (Symlink_pa a b)"
abbreviation "Mkfifo a b \<equiv> Pa (Mkfifo_pa a b)"
abbreviation "Mount a b c d e \<equiv> Pa (Mount_pa a b c d e)"
abbreviation "Mmap a b c d e f \<equiv> Me (Mmap_me a b c d e f)"
abbreviation "Munmap a b \<equiv> Me (Munmap_me a b)"
abbreviation "Mprotect a b c \<equiv> Me (Mprotect_me a b c)"
abbreviation "Msync a b c \<equiv> Me (Msync_me a b c)"
abbreviation "Brk a \<equiv> Me (Brk_me a)"
abbreviation "Sbrk a \<equiv> Me (Sbrk_me a)"
abbreviation "Malloc a \<equiv> Me (Malloc_me a)"
abbreviation "MemLoad a b \<equiv> Me (MemLoad_me a b)"
abbreviation "MemStore a b \<equiv> Me (MemStore_me a b)"
abbreviation "Getpagesize \<equiv> Me Getpagesize_me"
abbreviation "Sysconf a \<equiv> Me (Sysconf_me a)"
abbreviation "Getrlimit a \<equiv> Me (Getrlimit_me a)"
abbreviation "Getpid \<equiv> Pr Getpid_pr"
abbreviation "Geteuid \<equiv> Pr Geteuid_pr"
abbreviation "Setgid a \<equiv> Pr (Setgid_pr a)"
abbreviation "Setreuid a b \<equiv> Pr (Setreuid_pr a b)"
abbreviation "Getpwnam a \<equiv> Pr (Getpwnam_pr a)"
abbreviation "System a \<equiv> Pr (System_pr a)"
abbreviation "Signal a \<equiv> Pr (Signal_pr a)"
abbreviation "Sigaction a \<equiv> Pr (Sigaction_pr a)"
abbreviation "Kill a b \<equiv> Pr (Kill_pr a b)"
abbreviation "Wait \<equiv> Pr Wait_pr"
abbreviation "Fork \<equiv> Pr Fork_pr"
abbreviation "Forked \<equiv> Pr Forked_pr"
abbreviation "Waitpid a b \<equiv> Pr (Waitpid_pr a b)"
abbreviation "Getppid \<equiv> Pr Getppid_pr"
abbreviation "Setuid a \<equiv> Pr (Setuid_pr a)"
abbreviation "Seteuid a \<equiv> Pr (Seteuid_pr a)"
abbreviation "Getegid \<equiv> Pr Getegid_pr"
abbreviation "Sigprocmask a b \<equiv> Pr (Sigprocmask_pr a b)"
abbreviation "Sigpending \<equiv> Pr Sigpending_pr"
abbreviation "Prctl a b \<equiv> Pr (Prctl_pr a b)"
abbreviation "Execve a \<equiv> Pr (Execve_pr a)"
abbreviation "ExecveWith a b c \<equiv> Pr (Execve_with_pr a b c)"
abbreviation "Execvp a b \<equiv> Pr (Execvp_pr a b)"
abbreviation "Rdtsc \<equiv> Pr Rdtsc_pr"
abbreviation "Sleep a \<equiv> Pr (Sleep_pr a)"
abbreviation "PthreadAttrInit \<equiv> Pr Pthread_attr_init_pr"
abbreviation "PthreadAttrSetdetachstate a \<equiv> Pr (Pthread_attr_setdetachstate_pr a)"
abbreviation "PthreadCreate a b \<equiv> Pr (Pthread_create_pr a b)"
abbreviation "PthreadJoin \<equiv> Pr Pthread_join_pr"
abbreviation "Ppoll a b c d \<equiv> Pr (Ppoll_pr a b c d)"
abbreviation "SchedSetattr a b c \<equiv> Pr (SchedSetattr_pr a b c)"
abbreviation "SchedGetaffinity a b c \<equiv> Pr (SchedGetaffinity_pr a b c)"
abbreviation "SetTidAddress \<equiv> Pr SetTidAddress_pr"
abbreviation "Fopen a \<equiv> Pr (Fopen_pr a)"
abbreviation "Fgets \<equiv> Pr Fgets_pr"
abbreviation "Libcap a \<equiv> Pr (Libcap_pr a)"
abbreviation "Indet a \<equiv> Pr (Indet_pr a)"

text \<open>An answer: the error number or the value, and what the kernel stored in the caller's objects
  (bytes read, a stat buffer, a pair of descriptors, an integer, a set of signals) and the signals it
  delivered before the call returned, those left out whose action is to be ignored.\<close>

record sysres =
  sr_ret :: "int + nat"
  sr_bytes :: string
  sr_stat :: stat
  sr_fds :: "int \<times> int"
  sr_int :: int
  sr_sigs :: "int list"
  sr_set :: "int list"

definition sys_ok :: "nat \<Rightarrow> sysres" where
  "sys_ok v = \<lparr>sr_ret = Inr v, sr_bytes = [], sr_stat = \<lparr>st_mode = 0, st_size = 0, st_gid = 0, st_atime = 0\<rparr>,
     sr_fds = (0, 0), sr_int = 0, sr_sigs = [], sr_set = []\<rparr>"

definition sys_err :: "int \<Rightarrow> sysres" where
  "sys_err e = (sys_ok 0)\<lparr>sr_ret := Inl e\<rparr>"

type_synonym event = "syscall \<times> sysres"
type_synonym kernel = "event list \<Rightarrow> syscall \<Rightarrow> sysres"

lemma sys_ok_sel [simp]:
  "sr_ret (sys_ok v) = Inr v" "sr_bytes (sys_ok v) = []" "sr_sigs (sys_ok v) = []"
  "sr_fds (sys_ok v) = (0, 0)" "sr_int (sys_ok v) = 0" "sr_set (sys_ok v) = []"
  "sr_stat (sys_ok v) = \<lparr>st_mode = 0, st_size = 0, st_gid = 0, st_atime = 0\<rparr>"
  by (simp_all add: sys_ok_def)

lemma sys_err_sel [simp]:
  "sr_ret (sys_err e) = Inl e" "sr_bytes (sys_err e) = []" "sr_sigs (sys_err e) = []"
  by (simp_all add: sys_err_def)

text \<open>What a C wrapper returns: the value, or \<open>-1\<close> after an error; the same as a pointer.\<close>

definition rv :: "sysres \<Rightarrow> int" where
  "rv r = (case sr_ret r of Inl e \<Rightarrow> -1 | Inr v \<Rightarrow> int v)"

definition ptr_of :: "sysres \<Rightarrow> addr" where
  "ptr_of r = word_of_int (rv r)"

definition failed_with :: "sysres \<Rightarrow> int \<Rightarrow> bool" where
  "failed_with r e \<longleftrightarrow> sr_ret r = Inl e"

lemma rv_ret [simp]: "sr_ret r = Inl e \<Longrightarrow> rv r = -1" "sr_ret r = Inr v \<Longrightarrow> rv r = int v"
  by (simp_all add: rv_def)

text \<open>A wrapper returns \<open>-1\<close>, and a negative value at all, exactly after an error.\<close>

lemma rv_negative:
  "rv r = -1 \<longleftrightarrow> (\<exists>e. failed_with r e)" "rv r < 0 \<longleftrightarrow> (\<exists>e. failed_with r e)"
  by (auto simp: rv_def failed_with_def split: sum.splits)

lemma rv_not_m1: "rv r \<noteq> -1 \<longleftrightarrow> 0 \<le> rv r"
  by (auto simp: rv_def split: sum.splits)

section \<open>Processes\<close>

datatype 'a flow = Ret 'a | Exit int | Killed int

record proc =
  errno :: int
  out :: string
  trace :: "event list"

type_synonym ('s, 'a) cprog = "'s \<Rightarrow> 'a flow \<times> 's"

definition ret :: "'a \<Rightarrow> ('s, 'a) cprog" where
  "ret a = (\<lambda>s. (Ret a, s))"

definition bind :: "('s, 'a) cprog \<Rightarrow> ('a \<Rightarrow> ('s, 'b) cprog) \<Rightarrow> ('s, 'b) cprog" where
  "bind m f = (\<lambda>s. case m s of
       (Ret a, s') \<Rightarrow> f a s'
     | (Exit c, s') \<Rightarrow> (Exit c, s')
     | (Killed g, s') \<Rightarrow> (Killed g, s'))"

definition seq :: "('s, 'a) cprog \<Rightarrow> ('s, 'b) cprog \<Rightarrow> ('s, 'b) cprog" where
  "seq m n = bind m (\<lambda>_. n)"

definition skip :: "('s, unit) cprog" where
  "skip = ret ()"

definition call :: "('s, 'a) cprog \<Rightarrow> ('s, unit) cprog" where
  "call m = bind m (\<lambda>_. skip)"

text \<open>A block of statements; an \<^verbatim>\<open>if\<close> without \<^verbatim>\<open>else\<close>.\<close>

fun block :: "('s, unit) cprog list \<Rightarrow> ('s, unit) cprog" where
  "block [] = skip"
| "block (m # ms) = seq m (block ms)"

definition if_then :: "bool \<Rightarrow> ('s, unit) cprog \<Rightarrow> ('s, unit) cprog" where
  "if_then b m = (if b then m else skip)"

definition c_exit :: "int \<Rightarrow> ('s, 'a) cprog" where
  "c_exit c = (\<lambda>s. (Exit c, s))"

definition die :: "int \<Rightarrow> ('s, 'a) cprog" where
  "die g = (\<lambda>s. (Killed g, s))"

definition gets :: "('s \<Rightarrow> 'a) \<Rightarrow> ('s, 'a) cprog" where
  "gets f = (\<lambda>s. (Ret (f s), s))"

definition modify :: "('s \<Rightarrow> 's) \<Rightarrow> ('s, unit) cprog" where
  "modify f = (\<lambda>s. (Ret (), f s))"

definition printf :: "string \<Rightarrow> ('m proc_scheme, unit) cprog" where
  "printf t = modify (\<lambda>s. s\<lparr>out := out s @ t\<rparr>)"

definition set_errno :: "int \<Rightarrow> ('m proc_scheme, unit) cprog" where
  "set_errno e = modify (\<lambda>s. s\<lparr>errno := e\<rparr>)"

text \<open>A message that ends with the current \<open>errno\<close>, as in \<^verbatim>\<open>printf("..., error number %d\n", errno)\<close>.\<close>

definition printf_errno :: "string \<Rightarrow> string \<Rightarrow> ('m proc_scheme, unit) cprog" where
  "printf_errno pre post = bind (gets errno) (\<lambda>e. printf (pre @ show_int e @ post))"

text \<open>A call to the environment, recorded in the history.\<close>

definition invoke :: "kernel \<Rightarrow> syscall \<Rightarrow> ('m proc_scheme, sysres) cprog" where
  "invoke K c = (\<lambda>s. let r = K (trace s) c in (Ret r, s\<lparr>trace := trace s @ [(c, r)]\<rparr>))"

text \<open>A C library wrapper of a system call: after an error it sets \<open>errno\<close> and returns \<open>-1\<close>;
  after a success it leaves \<open>errno\<close> alone.\<close>

definition libc_res :: "kernel \<Rightarrow> syscall \<Rightarrow> ('m proc_scheme, sysres) cprog" where
  "libc_res K c = bind (invoke K c) (\<lambda>r.
     case sr_ret r of Inl e \<Rightarrow> seq (set_errno e) (ret r) | Inr v \<Rightarrow> ret r)"

definition libc :: "kernel \<Rightarrow> syscall \<Rightarrow> ('m proc_scheme, int) cprog" where
  "libc K c = bind (libc_res K c) (\<lambda>r. ret (rv r))"

definition libc_ptr :: "kernel \<Rightarrow> syscall \<Rightarrow> ('m proc_scheme, addr) cprog" where
  "libc_ptr K c = bind (libc_res K c) (\<lambda>r. ret (ptr_of r))"

text \<open>\<^verbatim>\<open>malloc\<close> and \<^verbatim>\<open>calloc\<close>: the null pointer when the environment refuses.\<close>

definition c_malloc :: "kernel \<Rightarrow> int \<Rightarrow> ('m proc_scheme, addr) cprog" where
  "c_malloc K n = bind (libc_res K (Malloc n)) (\<lambda>r.
     ret (case sr_ret r of Inl e \<Rightarrow> NULL | Inr v \<Rightarrow> of_nat v))"

text \<open>The value of an uninitialised object, or of a function that falls off its end.\<close>

definition indet :: "kernel \<Rightarrow> string \<Rightarrow> ('m proc_scheme, int) cprog" where
  "indet K x = bind (invoke K (Indet x)) (\<lambda>r. ret (sr_int r))"

text \<open>\<open>fit n bs\<close> are \<open>n\<close> bytes taken from \<open>bs\<close>, \<open>fit_to n bs\<close> at most \<open>n\<close> of them; \<open>fill n c\<close> is what \<^verbatim>\<open>memset\<close> leaves; \<open>overlay bs old\<close> is a buffer after its first bytes
  were overwritten by \<open>bs\<close>.\<close>

definition fit :: "nat \<Rightarrow> string \<Rightarrow> string" where
  "fit n bs = take n (bs @ replicate n NUL)"

definition fit_to :: "nat \<Rightarrow> string \<Rightarrow> string" where
  "fit_to n bs = take n bs"

definition overlay :: "string \<Rightarrow> string \<Rightarrow> string" where
  "overlay bs old = take (length old) bs @ drop (length bs) old"

definition fill :: "nat \<Rightarrow> char \<Rightarrow> string" where
  "fill n c = replicate n c"

lemma length_fill [simp]: "length (fill n c) = n"
  by (simp add: fill_def)

lemma length_fit [simp]: "length (fit n bs) = n"
  by (simp add: fit_def)

lemma length_overlay [simp]: "length (overlay bs old) = length old"
  by (simp add: overlay_def)

text \<open>Loads and stores through a pointer: the error value of the answer is the signal that the
  faulting access raises.\<close>

definition mem_load :: "kernel \<Rightarrow> addr \<Rightarrow> nat \<Rightarrow> ('m proc_scheme, string) cprog" where
  "mem_load K a n = bind (invoke K (MemLoad a n)) (\<lambda>r.
     case sr_ret r of Inl g \<Rightarrow> die g | Inr _ \<Rightarrow> ret (fit n (sr_bytes r)))"

definition mem_store :: "kernel \<Rightarrow> addr \<Rightarrow> string \<Rightarrow> ('m proc_scheme, unit) cprog" where
  "mem_store K a bs = bind (invoke K (MemStore a bs)) (\<lambda>r.
     case sr_ret r of Inl g \<Rightarrow> die g | Inr _ \<Rightarrow> skip)"

text \<open>A call with undefined behaviour, such as \<^verbatim>\<open>fprintf\<close> on something that is not a stream: the
  environment decides whether the process survives it.\<close>

definition undefined_call :: "kernel \<Rightarrow> string \<Rightarrow> ('m proc_scheme, unit) cprog" where
  "undefined_call K x = bind (invoke K (Indet x)) (\<lambda>r.
     case sr_ret r of Inl g \<Rightarrow> die g | Inr _ \<Rightarrow> skip)"

text \<open>The storage of an uninitialised array of \<open>n\<close> bytes.\<close>

definition indet_bytes :: "kernel \<Rightarrow> string \<Rightarrow> nat \<Rightarrow> ('m proc_scheme, string) cprog" where
  "indet_bytes K x n = bind (invoke K (Indet x)) (\<lambda>r. ret (fit n (sr_bytes r)))"

text \<open>What a stat buffer, and the array given to \<^verbatim>\<open>pipe\<close>, hold after a call.\<close>

definition stat_seen :: "sysres \<Rightarrow> stat \<Rightarrow> stat" where
  "stat_seen r old = (case sr_ret r of Inl e \<Rightarrow> old | Inr v \<Rightarrow> sr_stat r)"

definition fds_seen :: "sysres \<Rightarrow> int \<times> int \<Rightarrow> int \<times> int" where
  "fds_seen r old = (case sr_ret r of Inl e \<Rightarrow> old | Inr v \<Rightarrow> sr_fds r)"

text \<open>\<^verbatim>\<open>pipe(fds)\<close>: the array keeps its old contents when the call fails.\<close>

definition c_pipe :: "kernel \<Rightarrow> int \<times> int \<Rightarrow> ('m proc_scheme, int \<times> int) cprog" where
  "c_pipe K old = bind (libc_res K Pipe) (\<lambda>r. ret (fds_seen r old))"

text \<open>\<^verbatim>\<open>read(fd, buf, n)\<close> into a buffer of the program: the value and the new contents.\<close>

definition c_read :: "kernel \<Rightarrow> int \<Rightarrow> string \<Rightarrow> nat \<Rightarrow> ('m proc_scheme, int \<times> string) cprog" where
  "c_read K fd old n = bind (libc_res K (Read fd n)) (\<lambda>r. ret (rv r, overlay (fit_to n (sr_bytes r)) old))"

text \<open>\<^verbatim>\<open>stat\<close>-like calls: the buffer keeps its old contents when the call fails.\<close>

definition c_stat :: "kernel \<Rightarrow> syscall \<Rightarrow> stat \<Rightarrow> ('m proc_scheme, int \<times> stat) cprog" where
  "c_stat K c old = bind (libc_res K c) (\<lambda>r.
     ret (rv r, stat_seen r old))"

text \<open>An uninitialised \<^verbatim>\<open>struct stat\<close>.\<close>

definition indet_stat :: "kernel \<Rightarrow> string \<Rightarrow> ('m proc_scheme, stat) cprog" where
  "indet_stat K x = bind (invoke K (Indet x)) (\<lambda>r. ret (sr_stat r))"

text \<open>A signal handler around a program whose own accesses may fault.\<close>

definition on_signal :: "int \<Rightarrow> ('s, 'a) cprog \<Rightarrow> ('s, 'a) cprog \<Rightarrow> ('s, 'a) cprog" where
  "on_signal g h m = (\<lambda>s. case m s of
       (Killed g', s') \<Rightarrow> (if g' = g then h s' else (Killed g', s'))
     | (Ret a, s') \<Rightarrow> (Ret a, s')
     | (Exit c, s') \<Rightarrow> (Exit c, s'))"

lemmas flow_defs = ret_def bind_def seq_def skip_def call_def if_then_def c_exit_def die_def gets_def
  modify_def printf_def printf_errno_def set_errno_def invoke_def libc_res_def libc_def libc_ptr_def c_malloc_def
  indet_def mem_load_def mem_store_def on_signal_def
  undefined_call_def indet_bytes_def c_read_def c_pipe_def c_stat_def indet_stat_def

lemma outcome_cases:
  obtains (1) g s where "x = (Killed g, s)" | (2) a s where "x = (Ret a, s)" | (3) c s where "x = (Exit c, s)"
  by (metis flow.exhaust surj_pair)

lemma bind_ret [simp]: "bind (ret a) f = f a"
  by (simp add: bind_def ret_def)

lemma ret_bind [simp]: "bind m ret = m"
  by (auto simp: bind_def ret_def fun_eq_iff split: prod.splits flow.splits)

lemma bind_assoc: "bind (bind m f) g = bind m (\<lambda>a. bind (f a) g)"
  by (auto simp: bind_def fun_eq_iff split: prod.splits flow.splits)

section \<open>Verdicts\<close>

text \<open>
  What the harness finds in \<^verbatim>\<open>log.txt\<close>. Standard output is redirected to that file, hence fully
  buffered: it is written when the process returns from \<^verbatim>\<open>main\<close> or calls \<^verbatim>\<open>exit\<close>, and lost when
  a signal kills it.
\<close>

fun log_of :: "'a flow \<times> 'm proc_scheme \<Rightarrow> string" where
  "log_of (Killed g, s) = []"
| "log_of (Ret a, s) = out s"
| "log_of (Exit c, s) = out s"

definition passes :: "('m proc_scheme, 'a) cprog \<Rightarrow> 'm proc_scheme \<Rightarrow> bool" where
  "passes m s = announces (log_of (m s))"

definition calls :: "('m proc_scheme, 'a) cprog \<Rightarrow> 'm proc_scheme \<Rightarrow> event list" where
  "calls m s = trace (snd (m s))"

text \<open>The empty output, as a constant of its own, so that the simplifier keeps a printed text as the
  sequence of its messages.\<close>

definition no_output :: string where
  "no_output = []"

lemma scan_no_output [simp]: "scan q no_output = q"
  by (simp add: no_output_def)

text \<open>The state of a process at \<^verbatim>\<open>main\<close>: nothing printed, no call made, \<open>errno\<close> zero.\<close>

definition fresh :: "'m proc_scheme \<Rightarrow> bool" where
  "fresh s \<longleftrightarrow> errno s = 0 \<and> out s = [] \<and> trace s = []"

definition proc_init :: proc where
  "proc_init = \<lparr>errno = 0, out = no_output, trace = []\<rparr>"

definition clear :: "'m proc_scheme \<Rightarrow> bool" where
  "clear s \<longleftrightarrow> scan 0 (out s) = 0"

text \<open>A program is \<open>quiet\<close> when it never prints the success line.\<close>

definition quiet :: "('m proc_scheme, 'a) cprog \<Rightarrow> bool" where
  "quiet m \<longleftrightarrow> (\<forall>s. clear s \<longrightarrow> clear (snd (m s)))"

lemma fresh_clear: "fresh s \<Longrightarrow> clear s"
  by (simp add: fresh_def clear_def)

lemma passes_scan:
  "passes m s \<longleftrightarrow> (case m s of (Killed g, s') \<Rightarrow> False | (_, s') \<Rightarrow> scan 0 (out s') = 14)"
  by (cases "m s" rule: log_of.cases) (simp_all add: passes_def announces_scan)

lemma quiet_not_passes:
  assumes "quiet m" and "clear s"
  shows "\<not> passes m s"
proof -
  from assms have "scan 0 (out (snd (m s))) = 0"
    by (simp add: quiet_def clear_def)
  then show ?thesis
    by (cases "m s" rule: log_of.cases) (auto simp: passes_def announces_scan)
qed

lemma quiet_ret [quiet_intros]: "quiet (ret a)"
  by (simp add: quiet_def ret_def)

lemma quiet_bind [quiet_intros]: "quiet m \<Longrightarrow> (\<And>a. quiet (f a)) \<Longrightarrow> quiet (bind m f)"
  by (fastforce simp: quiet_def bind_def split: prod.splits flow.splits)

lemma quiet_seq [quiet_intros]: "quiet m \<Longrightarrow> quiet n \<Longrightarrow> quiet (seq m n)"
  by (simp add: seq_def quiet_bind)

lemma quiet_skip [quiet_intros]: "quiet skip"
  by (simp add: skip_def quiet_ret)

lemma quiet_call [quiet_intros]: "quiet m \<Longrightarrow> quiet (call m)"
  by (simp add: call_def quiet_bind quiet_skip)

lemma quiet_block [quiet_intros]: "list_all quiet ms \<Longrightarrow> quiet (block ms)"
  by (induction ms) (simp_all add: quiet_skip quiet_seq)

lemma quiet_if_then [quiet_intros]: "quiet m \<Longrightarrow> quiet (if_then b m)"
  by (simp add: if_then_def quiet_skip)

lemma quiet_if [quiet_intros]: "(b \<Longrightarrow> quiet m) \<Longrightarrow> (\<not> b \<Longrightarrow> quiet n) \<Longrightarrow> quiet (if b then m else n)"
  by simp

lemma quiet_case_sum [quiet_intros]:
  "(\<And>x. r = Inl x \<Longrightarrow> quiet (f x)) \<Longrightarrow> (\<And>y. r = Inr y \<Longrightarrow> quiet (g y)) \<Longrightarrow>
   quiet (case r of Inl x \<Rightarrow> f x | Inr y \<Rightarrow> g y)"
  by (cases r) simp_all

lemma quiet_let [quiet_intros]: "(\<And>x. x = e \<Longrightarrow> quiet (f x)) \<Longrightarrow> quiet (let x = e in f x)"
  by simp

lemma quiet_case_option [quiet_intros]:
  "(p = None \<Longrightarrow> quiet m) \<Longrightarrow> (\<And>x. p = Some x \<Longrightarrow> quiet (f x)) \<Longrightarrow>
   quiet (case p of None \<Rightarrow> m | Some x \<Rightarrow> f x)"
  by (cases p) simp_all

lemma quiet_case_prod [quiet_intros]: "(\<And>x y. p = (x, y) \<Longrightarrow> quiet (f x y)) \<Longrightarrow> quiet (case p of (x, y) \<Rightarrow> f x y)"
  by (cases p) simp

lemma quiet_exit [quiet_intros]: "quiet (c_exit c)"
  by (simp add: quiet_def c_exit_def)

lemma quiet_die [quiet_intros]: "quiet (die g)"
  by (simp add: quiet_def die_def)

lemma quiet_gets [quiet_intros]: "quiet (gets f)"
  by (simp add: quiet_def gets_def)

lemma quiet_modify [quiet_intros]: "(\<And>s. out (f s) = out s) \<Longrightarrow> quiet (modify f)"
  by (simp add: quiet_def modify_def clear_def)

lemma quiet_printf [quiet_intros]: "scan 0 t = 0 \<Longrightarrow> quiet (printf t)"
  by (simp add: quiet_def printf_def modify_def clear_def)

lemma quiet_printf_errno [quiet_intros]:
  "scan 0 pre = 0 \<Longrightarrow> scan 0 post = 0 \<Longrightarrow> quiet (printf_errno pre post)"
  unfolding printf_errno_def by (intro quiet_intros) simp

lemma quiet_set_errno [quiet_intros]: "quiet (set_errno e)"
  by (simp add: set_errno_def quiet_modify)

lemma quiet_invoke [quiet_intros]: "quiet (invoke K c)"
  by (simp add: quiet_def invoke_def clear_def Let_def)

lemma quiet_libc_res [quiet_intros]: "quiet (libc_res K c)"
  unfolding libc_res_def by (intro quiet_intros)

lemma quiet_libc [quiet_intros]: "quiet (libc K c)"
  unfolding libc_def by (intro quiet_intros)

lemma quiet_libc_ptr [quiet_intros]: "quiet (libc_ptr K c)"
  unfolding libc_ptr_def by (intro quiet_intros)

lemma quiet_malloc [quiet_intros]: "quiet (c_malloc K n)"
  unfolding c_malloc_def by (intro quiet_intros)

lemma quiet_indet [quiet_intros]: "quiet (indet K x)"
  unfolding indet_def by (intro quiet_intros)

lemma quiet_mem_load [quiet_intros]: "quiet (mem_load K a n)"
  unfolding mem_load_def by (intro quiet_intros)

lemma quiet_mem_store [quiet_intros]: "quiet (mem_store K a bs)"
  unfolding mem_store_def by (intro quiet_intros)

lemma quiet_undefined_call [quiet_intros]: "quiet (undefined_call K x)"
  unfolding undefined_call_def by (intro quiet_intros)

lemma quiet_indet_bytes [quiet_intros]: "quiet (indet_bytes K x n)"
  unfolding indet_bytes_def by (intro quiet_intros)

lemma quiet_c_pipe [quiet_intros]: "quiet (c_pipe K old)"
  unfolding c_pipe_def by (intro quiet_intros)

lemma quiet_c_read [quiet_intros]: "quiet (c_read K fd old n)"
  unfolding c_read_def by (intro quiet_intros)

lemma quiet_c_stat [quiet_intros]: "quiet (c_stat K c old)"
  unfolding c_stat_def by (intro quiet_intros)

lemma quiet_indet_stat [quiet_intros]: "quiet (indet_stat K x)"
  unfolding indet_stat_def by (intro quiet_intros)

lemma quiet_on_signal [quiet_intros]: "quiet h \<Longrightarrow> quiet m \<Longrightarrow> quiet (on_signal g h m)"
  by (fastforce simp: quiet_def on_signal_def split: prod.splits flow.splits)

section \<open>Symbolic execution\<close>

text \<open>
  \<open>runs m s P\<close>: the outcome of \<open>m\<close> started in \<open>s\<close> satisfies \<open>P\<close>. The rewrite rules \<open>run_simps\<close>
  turn it into a tree with one node per answer of the environment; \<open>answered K h c Q\<close> names the
  answer, so that a history, which contains all earlier answers, stays small.
\<close>

definition runs :: "('s, 'a) cprog \<Rightarrow> 's \<Rightarrow> ('a flow \<times> 's \<Rightarrow> bool) \<Rightarrow> bool" where
  "runs m s P = P (m s)"

definition answered :: "kernel \<Rightarrow> event list \<Rightarrow> syscall \<Rightarrow> (sysres \<Rightarrow> bool) \<Rightarrow> bool" where
  "answered K h c Q = Q (K h c)"

fun kont :: "('a \<Rightarrow> ('s, 'b) cprog) \<Rightarrow> ('b flow \<times> 's \<Rightarrow> bool) \<Rightarrow> 'a flow \<times> 's \<Rightarrow> bool" where
  "kont f P (Ret a, s) = runs (f a) s P"
| "kont f P (Exit c, s) = P (Exit c, s)"
| "kont f P (Killed g, s) = P (Killed g, s)"

definition new_errno :: "sysres \<Rightarrow> int \<Rightarrow> int" where
  "new_errno r e = (case sr_ret r of Inl e' \<Rightarrow> e' | Inr _ \<Rightarrow> e)"

lemma new_errno_ret [simp]:
  "sr_ret r = Inl e' \<Longrightarrow> new_errno r e = e'" "sr_ret r = Inr v \<Longrightarrow> new_errno r e = e"
  by (simp_all add: new_errno_def)

definition ptr_or_null :: "sysres \<Rightarrow> addr" where
  "ptr_or_null r = (case sr_ret r of Inl e \<Rightarrow> NULL | Inr v \<Rightarrow> of_nat v)"

lemma new_errno_zero [simp]:
  "new_errno r 0 = numeral w \<longleftrightarrow> sr_ret r = Inl (numeral w)"
  "new_errno r 0 = 1 \<longleftrightarrow> sr_ret r = Inl 1"
  by (auto simp: new_errno_def split: sum.splits)

lemma new_errno_ptr [simp]: "ptr_of r \<noteq> -1 \<Longrightarrow> new_errno r e = e"
  by (auto simp: new_errno_def ptr_of_def split: sum.splits)

lemma answeredI: "(\<And>r. Q r) \<Longrightarrow> answered K h c Q"
  by (simp add: answered_def)

lemma answeredI': "(\<And>r. K h c = r \<Longrightarrow> Q r) \<Longrightarrow> answered K h c Q"
  by (simp add: answered_def)

lemma runs_ret [run_simps]: "runs (ret a) s P = P (Ret a, s)"
  by (simp add: runs_def ret_def)

lemma runs_bind [run_simps]: "runs (bind m f) s P = runs m s (kont f P)"
  by (auto simp: runs_def bind_def split: prod.splits flow.splits)

lemma runs_seq [run_simps]: "runs (seq m n) s P = runs m s (kont (\<lambda>_. n) P)"
  by (simp add: seq_def runs_bind)

lemma runs_skip [run_simps]: "runs skip s P = P (Ret (), s)"
  by (simp add: skip_def runs_ret)

lemma runs_call [run_simps]: "runs (call m) s P = runs m s (kont (\<lambda>_. skip) P)"
  by (simp add: call_def runs_bind)

lemma runs_block [run_simps]:
  "runs (block []) s P = P (Ret (), s)"
  "runs (block (m # ms)) s P = runs m s (kont (\<lambda>_. block ms) P)"
  by (simp_all add: runs_skip runs_seq)

lemma runs_if [run_simps]:
  "runs (if b then m else n) s P = ((b \<longrightarrow> runs m s P) \<and> (\<not> b \<longrightarrow> runs n s P))"
  by simp

lemma runs_if_then [run_simps]:
  "runs (if_then b m) s P = ((b \<longrightarrow> runs m s P) \<and> (\<not> b \<longrightarrow> P (Ret (), s)))"
  by (simp add: if_then_def runs_skip)

lemma runs_let [run_simps]: "runs (Let e f) s P = runs (f e) s P"
  by simp

lemma runs_pair [run_simps]: "runs (case (a, b) of (x, y) \<Rightarrow> f x y) s P = runs (f a b) s P"
  by simp

lemma runs_option [run_simps]:
  "runs (case None of None \<Rightarrow> m | Some x \<Rightarrow> f x) s P = runs m s P"
  "runs (case Some a of None \<Rightarrow> m | Some x \<Rightarrow> f x) s P = runs (f a) s P"
  by simp_all

lemma runs_exit [run_simps]: "runs (c_exit c) s P = P (Exit c, s)"
  by (simp add: runs_def c_exit_def)

lemma runs_die [run_simps]: "runs (die g) s P = P (Killed g, s)"
  by (simp add: runs_def die_def)

lemma runs_gets [run_simps]: "runs (gets f) s P = P (Ret (f s), s)"
  by (simp add: runs_def gets_def)

lemma runs_modify [run_simps]: "runs (modify f) s P = P (Ret (), f s)"
  by (simp add: runs_def modify_def)

lemma runs_printf [run_simps]: "runs (printf t) s P = P (Ret (), s\<lparr>out := out s @ t\<rparr>)"
  by (simp add: printf_def runs_modify)

lemma runs_printf_errno [run_simps]:
  "runs (printf_errno pre post) s P = P (Ret (), s\<lparr>out := out s @ (pre @ show_int (errno s) @ post)\<rparr>)"
  by (simp add: printf_errno_def runs_bind runs_gets runs_printf)

lemma runs_set_errno [run_simps]: "runs (set_errno e) s P = P (Ret (), s\<lparr>errno := e\<rparr>)"
  by (simp add: set_errno_def runs_modify)

lemma runs_invoke [run_simps]:
  "runs (invoke K c) s P = answered K (trace s) c (\<lambda>r. P (Ret r, s\<lparr>trace := trace s @ [(c, r)]\<rparr>))"
  by (simp add: runs_def invoke_def answered_def Let_def)

lemma runs_libc_res [run_simps]:
  "runs (libc_res K c) s P = answered K (trace s) c (\<lambda>r.
     P (Ret r, s\<lparr>trace := trace s @ [(c, r)], errno := new_errno r (errno s)\<rparr>))"
  by (auto simp: runs_def libc_res_def flow_defs answered_def new_errno_def Let_def split: sum.splits)

lemma runs_libc [run_simps]:
  "runs (libc K c) s P = answered K (trace s) c (\<lambda>r.
     P (Ret (rv r), s\<lparr>trace := trace s @ [(c, r)], errno := new_errno r (errno s)\<rparr>))"
  by (simp add: libc_def runs_bind runs_libc_res runs_ret)

lemma runs_libc_ptr [run_simps]:
  "runs (libc_ptr K c) s P = answered K (trace s) c (\<lambda>r.
     P (Ret (ptr_of r), s\<lparr>trace := trace s @ [(c, r)], errno := new_errno r (errno s)\<rparr>))"
  by (simp add: libc_ptr_def runs_bind runs_libc_res runs_ret)

lemma runs_malloc [run_simps]:
  "runs (c_malloc K n) s P = answered K (trace s) (Malloc n) (\<lambda>r.
     P (Ret (ptr_or_null r), s\<lparr>trace := trace s @ [(Malloc n, r)], errno := new_errno r (errno s)\<rparr>))"
  by (simp add: c_malloc_def runs_bind runs_libc_res runs_ret ptr_or_null_def)

lemma runs_indet [run_simps]:
  "runs (indet K x) s P = answered K (trace s) (Indet x) (\<lambda>r.
     P (Ret (sr_int r), s\<lparr>trace := trace s @ [(Indet x, r)]\<rparr>))"
  by (simp add: indet_def runs_bind runs_invoke runs_ret)

lemma runs_mem_load [run_simps]:
  "runs (mem_load K a n) s P = answered K (trace s) (MemLoad a n) (\<lambda>r.
     (\<forall>g. sr_ret r = Inl g \<longrightarrow> P (Killed g, s\<lparr>trace := trace s @ [(MemLoad a n, r)]\<rparr>)) \<and>
     (\<forall>v. sr_ret r = Inr v \<longrightarrow>
        P (Ret (fit n (sr_bytes r)), s\<lparr>trace := trace s @ [(MemLoad a n, r)]\<rparr>)))"
  by (auto simp: mem_load_def runs_def flow_defs answered_def Let_def split: sum.splits)

lemma runs_mem_store [run_simps]:
  "runs (mem_store K a bs) s P = answered K (trace s) (MemStore a bs) (\<lambda>r.
     (\<forall>g. sr_ret r = Inl g \<longrightarrow> P (Killed g, s\<lparr>trace := trace s @ [(MemStore a bs, r)]\<rparr>)) \<and>
     (\<forall>v. sr_ret r = Inr v \<longrightarrow> P (Ret (), s\<lparr>trace := trace s @ [(MemStore a bs, r)]\<rparr>)))"
  by (auto simp: mem_store_def runs_def flow_defs answered_def Let_def split: sum.splits)

lemma runs_undefined_call [run_simps]:
  "runs (undefined_call K x) s P = answered K (trace s) (Indet x) (\<lambda>r.
     (\<forall>g. sr_ret r = Inl g \<longrightarrow> P (Killed g, s\<lparr>trace := trace s @ [(Indet x, r)]\<rparr>)) \<and>
     (\<forall>v. sr_ret r = Inr v \<longrightarrow> P (Ret (), s\<lparr>trace := trace s @ [(Indet x, r)]\<rparr>)))"
  by (auto simp: undefined_call_def runs_def flow_defs answered_def Let_def split: sum.splits)

lemma runs_indet_bytes [run_simps]:
  "runs (indet_bytes K x n) s P = answered K (trace s) (Indet x) (\<lambda>r.
     P (Ret (fit n (sr_bytes r)), s\<lparr>trace := trace s @ [(Indet x, r)]\<rparr>))"
  by (simp add: indet_bytes_def runs_bind runs_invoke runs_ret)

lemma runs_indet_stat [run_simps]:
  "runs (indet_stat K x) s P = answered K (trace s) (Indet x) (\<lambda>r.
     P (Ret (sr_stat r), s\<lparr>trace := trace s @ [(Indet x, r)]\<rparr>))"
  by (simp add: indet_stat_def runs_bind runs_invoke runs_ret)

lemma runs_pipe [run_simps]:
  "runs (c_pipe K old) s P = answered K (trace s) Pipe (\<lambda>r.
     P (Ret (fds_seen r old),
        s\<lparr>trace := trace s @ [(Pipe, r)], errno := new_errno r (errno s)\<rparr>))"
  by (simp add: c_pipe_def runs_bind runs_libc_res runs_ret)

lemma runs_read [run_simps]:
  "runs (c_read K fd old n) s P = answered K (trace s) (Read fd n) (\<lambda>r.
     P (Ret (rv r, overlay (fit_to n (sr_bytes r)) old),
        s\<lparr>trace := trace s @ [(Read fd n, r)], errno := new_errno r (errno s)\<rparr>))"
  by (simp add: c_read_def runs_bind runs_libc_res runs_ret)

lemma runs_stat [run_simps]:
  "runs (c_stat K c old) s P = answered K (trace s) c (\<lambda>r.
     P (Ret (rv r, stat_seen r old),
        s\<lparr>trace := trace s @ [(c, r)], errno := new_errno r (errno s)\<rparr>))"
  by (simp add: c_stat_def runs_bind runs_libc_res runs_ret)

fun catch :: "int \<Rightarrow> ('s, 'a) cprog \<Rightarrow> ('a flow \<times> 's \<Rightarrow> bool) \<Rightarrow> 'a flow \<times> 's \<Rightarrow> bool" where
  "catch g h P (Ret a, s) = P (Ret a, s)"
| "catch g h P (Exit c, s) = P (Exit c, s)"
| "catch g h P (Killed g', s) = ((g' = g \<longrightarrow> runs h s P) \<and> (g' \<noteq> g \<longrightarrow> P (Killed g', s)))"

lemma runs_on_signal [run_simps]: "runs (on_signal g h m) s P = runs m s (catch g h P)"
  by (auto simp: runs_def on_signal_def split: prod.splits flow.splits)

text \<open>Congruences that keep the simplifier out of the program text still to be run and out of the
  printed text: only the state is simplified.\<close>

lemma runs_cong: "s = s' \<Longrightarrow> runs m s P = runs m s' P"
  by simp

lemma kont_cong: "x = y \<Longrightarrow> kont f P x = kont f P y"
  by simp

lemma catch_cong: "x = y \<Longrightarrow> catch g h P x = catch g h P y"
  by simp

lemma text_cong: "xs = ys \<Longrightarrow> xs @ t = ys @ (t :: string)"
  by simp

lemma char_cong: "Char b0 b1 b2 b3 b4 b5 b6 b7 = Char b0 b1 b2 b3 b4 b5 b6 b7"
  by simp

lemmas run_congs = runs_cong kont_cong catch_cong text_cong char_cong

text \<open>Branches that only differ in what they print, or in the value they return, need not split the
  execution: unfolding \<open>merges\<close> before it joins them.\<close>

lemma merge_printf: "(if b then printf t else printf u) = printf (if b then t else u)"
  by simp

lemma merge_if_then: "if_then b (printf t) = printf (if b then t else [])"
  by (simp add: if_then_def skip_def ret_def printf_def modify_def fun_eq_iff)

lemma merge_seq:
  "(if b then seq (printf t) m else seq (printf u) n) = seq (printf (if b then t else u)) (if b then m else n)"
  by simp

lemma merge_ret: "(if b then ret x else ret y) = ret (if b then x else y)"
  by simp

lemma merge_errno:
  "(if b then printf_errno t u else printf v) =
   bind (gets errno) (\<lambda>e. printf (if b then t @ show_int e @ u else v))"
  "(if b then printf v else printf_errno t u) =
   bind (gets errno) (\<lambda>e. printf (if b then v else t @ show_int e @ u))"
  "if_then b (printf_errno t u) = bind (gets errno) (\<lambda>e. printf (if b then t @ show_int e @ u else []))"
  by (auto simp: printf_errno_def if_then_def skip_def ret_def bind_def gets_def printf_def modify_def fun_eq_iff)

lemmas merges = merge_printf merge_if_then merge_seq merge_ret merge_errno

lemma scan_if [simp]: "scan q (if b then t else u) = (if b then scan q t else scan q u)"
  by simp

text \<open>Whether an outcome announces success; a verdict as a property of the run.\<close>

fun announced :: "'a flow \<times> 'm proc_scheme \<Rightarrow> bool" where
  "announced (Ret a, s) = (scan 0 (out s) = 14)"
| "announced (Exit c, s) = (scan 0 (out s) = 14)"
| "announced (Killed g, s) = False"

lemma passes_announced: "passes m s = announced (m s)"
  by (cases "m s" rule: log_of.cases) (simp_all add: passes_def announces_scan)

lemma passes_runs: "passes m s = runs m s announced"
  by (simp add: passes_announced runs_def)

lemma verdictI:
  assumes "runs m s (\<lambda>(fl, s'). announced (fl, s') \<longleftrightarrow> C (trace s'))"
  shows "passes m s \<longleftrightarrow> C (calls m s)"
  using assms by (auto simp: runs_def passes_announced calls_def split: prod.splits)

text \<open>Whether every store of a history went through, and whether it has no memory access of the program.\<close>

fun stores_ok :: "event list \<Rightarrow> bool" where
  "stores_ok [] = True"
| "stores_ok ((c, r) # h) =
     (case c of Me (MemStore_me a bs) \<Rightarrow> (\<exists>v. sr_ret r = Inr v) \<and> stores_ok h | _ \<Rightarrow> stores_ok h)"

fun no_access :: "event list \<Rightarrow> bool" where
  "no_access [] = True"
| "no_access ((c, r) # h) =
     (case c of Me (MemStore_me a bs) \<Rightarrow> False | Me (MemLoad_me a n) \<Rightarrow> False | _ \<Rightarrow> no_access h)"

lemma stores_ok_append [simp]: "stores_ok (h @ h') \<longleftrightarrow> stores_ok h \<and> stores_ok h'"
  by (induction h rule: stores_ok.induct) (auto split: syscall.splits mem_call.splits)

section \<open>Programs only add to their output and to their history\<close>

definition extends :: "('m proc_scheme, 'a) cprog \<Rightarrow> bool" where
  "extends m \<longleftrightarrow> (\<forall>s. prefix (out s) (out (snd (m s))) \<and> prefix (trace s) (trace (snd (m s))))"

lemma extends_ret [extends_intros]: "extends (ret a)"
  by (simp add: extends_def ret_def)

lemma extends_bind [extends_intros]:
  assumes "extends m" and "\<And>a. extends (f a)"
  shows "extends (bind m f)"
proof -
  have "prefix (out s) (out (snd (bind m f s))) \<and> prefix (trace s) (trace (snd (bind m f s)))" for s
  proof (cases "m s" rule: log_of.cases)
    case (2 a s')
    with assms(1) have "prefix (out s) (out s') \<and> prefix (trace s) (trace s')"
      by (metis extends_def snd_conv)
    moreover have "prefix (out s') (out (snd (f a s'))) \<and> prefix (trace s') (trace (snd (f a s')))"
      using assms(2) by (simp add: extends_def)
    ultimately show ?thesis using 2
      by (auto simp: bind_def dest: prefix_order.trans)
  qed (use assms(1) in \<open>auto simp: bind_def extends_def dest: spec [of _ s]\<close>)
  then show ?thesis by (simp add: extends_def)
qed

lemma extends_seq [extends_intros]: "extends m \<Longrightarrow> extends n \<Longrightarrow> extends (seq m n)"
  by (simp add: seq_def extends_bind)

lemma extends_skip [extends_intros]: "extends skip"
  by (simp add: skip_def extends_ret)

lemma extends_call [extends_intros]: "extends m \<Longrightarrow> extends (call m)"
  by (simp add: call_def extends_bind extends_skip)

lemma extends_block [extends_intros]: "list_all extends ms \<Longrightarrow> extends (block ms)"
  by (induction ms) (simp_all add: extends_skip extends_seq)

lemma extends_if_then [extends_intros]: "extends m \<Longrightarrow> extends (if_then b m)"
  by (simp add: if_then_def extends_skip)

lemma extends_if [extends_intros]:
  "(b \<Longrightarrow> extends m) \<Longrightarrow> (\<not> b \<Longrightarrow> extends n) \<Longrightarrow> extends (if b then m else n)"
  by simp

lemma extends_case_sum [extends_intros]:
  "(\<And>x. r = Inl x \<Longrightarrow> extends (f x)) \<Longrightarrow> (\<And>y. r = Inr y \<Longrightarrow> extends (g y)) \<Longrightarrow>
   extends (case r of Inl x \<Rightarrow> f x | Inr y \<Rightarrow> g y)"
  by (cases r) simp_all

lemma extends_case_option [extends_intros]:
  "(p = None \<Longrightarrow> extends m) \<Longrightarrow> (\<And>x. p = Some x \<Longrightarrow> extends (f x)) \<Longrightarrow>
   extends (case p of None \<Rightarrow> m | Some x \<Rightarrow> f x)"
  by (cases p) simp_all

lemma extends_case_prod [extends_intros]: "(\<And>x y. p = (x, y) \<Longrightarrow> extends (f x y)) \<Longrightarrow> extends (case p of (x, y) \<Rightarrow> f x y)"
  by (cases p) simp

lemma extends_let [extends_intros]: "(\<And>x. x = e \<Longrightarrow> extends (f x)) \<Longrightarrow> extends (let x = e in f x)"
  by simp

lemma extends_exit [extends_intros]: "extends (c_exit c)"
  by (simp add: extends_def c_exit_def)

lemma extends_die [extends_intros]: "extends (die g)"
  by (simp add: extends_def die_def)

lemma extends_gets [extends_intros]: "extends (gets f)"
  by (simp add: extends_def gets_def)

lemma extends_modify [extends_intros]:
  "(\<And>s. out (f s) = out s) \<Longrightarrow> (\<And>s. trace (f s) = trace s) \<Longrightarrow> extends (modify f)"
  by (simp add: extends_def modify_def)

lemma extends_printf [extends_intros]: "extends (printf t)"
  by (simp add: extends_def printf_def modify_def)

lemma extends_printf_errno [extends_intros]: "extends (printf_errno pre post)"
  unfolding printf_errno_def by (intro extends_intros)

lemma extends_set_errno [extends_intros]: "extends (set_errno e)"
  by (simp add: set_errno_def extends_modify)

lemma extends_invoke [extends_intros]: "extends (invoke K c)"
  by (simp add: extends_def invoke_def Let_def)

lemma extends_libc_res [extends_intros]: "extends (libc_res K c)"
  unfolding libc_res_def by (intro extends_intros)

lemma extends_libc [extends_intros]: "extends (libc K c)"
  unfolding libc_def by (intro extends_intros)

lemma extends_libc_ptr [extends_intros]: "extends (libc_ptr K c)"
  unfolding libc_ptr_def by (intro extends_intros)

lemma extends_malloc [extends_intros]: "extends (c_malloc K n)"
  unfolding c_malloc_def by (intro extends_intros)

lemma extends_indet [extends_intros]: "extends (indet K x)"
  unfolding indet_def by (intro extends_intros)

lemma extends_mem_load [extends_intros]: "extends (mem_load K a n)"
  unfolding mem_load_def by (intro extends_intros)

lemma extends_mem_store [extends_intros]: "extends (mem_store K a bs)"
  unfolding mem_store_def by (intro extends_intros)

lemma extends_undefined_call [extends_intros]: "extends (undefined_call K x)"
  unfolding undefined_call_def by (intro extends_intros)

lemma extends_indet_bytes [extends_intros]: "extends (indet_bytes K x n)"
  unfolding indet_bytes_def by (intro extends_intros)

lemma extends_c_pipe [extends_intros]: "extends (c_pipe K old)"
  unfolding c_pipe_def by (intro extends_intros)

lemma extends_c_read [extends_intros]: "extends (c_read K fd old n)"
  unfolding c_read_def by (intro extends_intros)

lemma extends_c_stat [extends_intros]: "extends (c_stat K c old)"
  unfolding c_stat_def by (intro extends_intros)

lemma extends_indet_stat [extends_intros]: "extends (indet_stat K x)"
  unfolding indet_stat_def by (intro extends_intros)

text \<open>Once announced, success stays announced.\<close>

lemma extends_announced:
  assumes "extends m" and "scan 0 (out s) = 14"
  shows "scan 0 (out (snd (m s))) = 14"
proof -
  obtain t where "out (snd (m s)) = out s @ t"
    using assms(1) by (auto simp: extends_def prefix_def)
  with assms(2) show ?thesis by simp
qed

text \<open>A program that always comes back to its caller.\<close>

definition returns :: "('s, 'a) cprog \<Rightarrow> bool" where
  "returns m \<longleftrightarrow> (\<forall>s. \<exists>a s'. m s = (Ret a, s'))"

lemma returnsE: "returns m \<Longrightarrow> (\<And>a s'. m s = (Ret a, s') \<Longrightarrow> Q) \<Longrightarrow> Q"
  by (auto simp: returns_def)

lemma returns_ret [returns_intros]: "returns (ret a)"
  by (simp add: returns_def ret_def)

lemma returns_bind [returns_intros]: "returns m \<Longrightarrow> (\<And>a. returns (f a)) \<Longrightarrow> returns (bind m f)"
  unfolding returns_def bind_def
proof
  fix s
  assume m: "\<forall>s. \<exists>a s'. m s = (Ret a, s')" and f: "\<And>a. \<forall>s. \<exists>b s'. f a s = (Ret b, s')"
  from m obtain a s' where "m s = (Ret a, s')" by blast
  moreover from f obtain b s'' where "f a s' = (Ret b, s'')" by blast
  ultimately show "\<exists>b s'. (case m s of (Ret a, s') \<Rightarrow> f a s' | (Exit c, s') \<Rightarrow> (Exit c, s')
     | (Killed g, s') \<Rightarrow> (Killed g, s')) = (Ret b, s')" by simp
qed

lemma returns_seq [returns_intros]: "returns m \<Longrightarrow> returns n \<Longrightarrow> returns (seq m n)"
  by (simp add: seq_def returns_bind)

lemma returns_skip [returns_intros]: "returns skip"
  by (simp add: skip_def returns_ret)

lemma returns_call [returns_intros]: "returns m \<Longrightarrow> returns (call m)"
  by (simp add: call_def returns_bind returns_skip)

lemma returns_block [returns_intros]: "list_all returns ms \<Longrightarrow> returns (block ms)"
  by (induction ms) (simp_all add: returns_skip returns_seq)

lemma returns_if_then [returns_intros]: "returns m \<Longrightarrow> returns (if_then b m)"
  by (simp add: if_then_def returns_skip)

lemma returns_if [returns_intros]:
  "(b \<Longrightarrow> returns m) \<Longrightarrow> (\<not> b \<Longrightarrow> returns n) \<Longrightarrow> returns (if b then m else n)"
  by simp

lemma returns_case_sum [returns_intros]:
  "(\<And>x. r = Inl x \<Longrightarrow> returns (f x)) \<Longrightarrow> (\<And>y. r = Inr y \<Longrightarrow> returns (g y)) \<Longrightarrow>
   returns (case r of Inl x \<Rightarrow> f x | Inr y \<Rightarrow> g y)"
  by (cases r) simp_all

lemma returns_case_option [returns_intros]:
  "(p = None \<Longrightarrow> returns m) \<Longrightarrow> (\<And>x. p = Some x \<Longrightarrow> returns (f x)) \<Longrightarrow>
   returns (case p of None \<Rightarrow> m | Some x \<Rightarrow> f x)"
  by (cases p) simp_all

lemma returns_case_prod [returns_intros]: "(\<And>x y. p = (x, y) \<Longrightarrow> returns (f x y)) \<Longrightarrow> returns (case p of (x, y) \<Rightarrow> f x y)"
  by (cases p) simp

lemma returns_let [returns_intros]: "(\<And>x. x = e \<Longrightarrow> returns (f x)) \<Longrightarrow> returns (let x = e in f x)"
  by simp

lemma returns_gets [returns_intros]: "returns (gets f)"
  by (simp add: returns_def gets_def)

lemma returns_modify [returns_intros]: "returns (modify f)"
  by (simp add: returns_def modify_def)

lemma returns_printf [returns_intros]: "returns (printf t)"
  by (simp add: printf_def returns_modify)

lemma returns_printf_errno [returns_intros]: "returns (printf_errno pre post)"
  unfolding printf_errno_def by (intro returns_intros)

lemma returns_set_errno [returns_intros]: "returns (set_errno e)"
  by (simp add: set_errno_def returns_modify)

lemma returns_invoke [returns_intros]: "returns (invoke K c)"
  by (simp add: returns_def invoke_def Let_def)

lemma returns_libc_res [returns_intros]: "returns (libc_res K c)"
  unfolding libc_res_def by (intro returns_intros)

lemma returns_libc [returns_intros]: "returns (libc K c)"
  unfolding libc_def by (intro returns_intros)

lemma returns_libc_ptr [returns_intros]: "returns (libc_ptr K c)"
  unfolding libc_ptr_def by (intro returns_intros)

lemma returns_malloc [returns_intros]: "returns (c_malloc K n)"
  unfolding c_malloc_def by (intro returns_intros)

lemma returns_indet [returns_intros]: "returns (indet K x)"
  unfolding indet_def by (intro returns_intros)

lemma returns_indet_bytes [returns_intros]: "returns (indet_bytes K x n)"
  unfolding indet_bytes_def by (intro returns_intros)

lemma returns_c_pipe [returns_intros]: "returns (c_pipe K old)"
  unfolding c_pipe_def by (intro returns_intros)

lemma returns_c_read [returns_intros]: "returns (c_read K fd old n)"
  unfolding c_read_def by (intro returns_intros)

lemma returns_c_stat [returns_intros]: "returns (c_stat K c old)"
  unfolding c_stat_def by (intro returns_intros)

lemma returns_indet_stat [returns_intros]: "returns (indet_stat K x)"
  unfolding indet_stat_def by (intro returns_intros)

section \<open>The shape of a ported test\<close>

text \<open>
  The ported tests share two shapes of \<^verbatim>\<open>main\<close>, and with them two contracts: one verification
  whose result decides, and a table of cases of which every one must hold. The locales state what
  such a \<^verbatim>\<open>main\<close> owes its parts and prove what its verdict then means.
\<close>

locale verified_main =
  fixes prepare :: "('m proc_scheme, unit) cprog"
    and verify :: "('m proc_scheme, int) cprog"
    and good :: "int \<Rightarrow> bool"
    and success :: string
    and report :: "int \<Rightarrow> ('m proc_scheme, unit) cprog"
    and cleanup :: "('m proc_scheme, unit) cprog"
    and main :: "('m proc_scheme, unit) cprog"
  assumes main_eq: "main = seq prepare (bind verify (\<lambda>r.
      seq (if good r then printf success else report r) cleanup))"
    and success_announces: "scan 0 success = 14"
    and quiet_prepare: "quiet prepare"
    and quiet_verify: "quiet verify"
    and quiet_report: "quiet (report r)"
    and quiet_cleanup: "quiet cleanup"
    and extends_cleanup: "extends cleanup"
    and returns_cleanup: "returns cleanup"
begin

lemma passes_iff:
  assumes "clear s"
  shows "passes main s \<longleftrightarrow>
    (\<exists>s1 r s2. prepare s = (Ret (), s1) \<and> verify s1 = (Ret r, s2) \<and> good r)"
proof (cases "prepare s" rule: log_of.cases)
  case (2 u s1)
  have c1: "clear s1" using quiet_prepare assms 2 by (metis quiet_def snd_conv)
  show ?thesis
  proof (cases "verify s1" rule: log_of.cases)
    case (2 r s2)
    have c2: "clear s2" using quiet_verify c1 2 by (metis quiet_def snd_conv)
    have main_s: "main s = (bind (if good r then printf success else report r) (\<lambda>_. cleanup)) s2"
      using \<open>prepare s = (Ret u, s1)\<close> 2 by (simp add: main_eq seq_def bind_def)
    show ?thesis
    proof (cases "good r")
      case True
      obtain s3 where s3: "cleanup (s2\<lparr>out := out s2 @ success\<rparr>) = (Ret (), s3)"
        using returns_cleanup by (metis returnsE old.unit.exhaust)
      have "scan 0 (out (s2\<lparr>out := out s2 @ success\<rparr>)) = 14"
        using c2 success_announces by (simp add: clear_def)
      from extends_announced [OF extends_cleanup this] s3 have "scan 0 (out s3) = 14" by simp
      moreover have "main s = (Ret (), s3)"
        using True s3 by (simp add: main_s bind_def printf_def modify_def)
      ultimately have "passes main s" by (simp add: passes_announced)
      with True \<open>prepare s = (Ret u, s1)\<close> 2 show ?thesis by auto
    next
      case False
      have "quiet (bind (if good r then printf success else report r) (\<lambda>_. cleanup))"
        using False by (simp add: quiet_bind quiet_report quiet_cleanup)
      from quiet_not_passes [OF this c2] have "\<not> passes main s"
        by (simp add: passes_def main_s)
      with False \<open>prepare s = (Ret u, s1)\<close> 2 show ?thesis by auto
    qed
  next
    case (1 g s2)
    with \<open>prepare s = (Ret u, s1)\<close> show ?thesis
      by (simp add: passes_announced main_eq seq_def bind_def)
  next
    case (3 c s2)
    have "clear s2" using quiet_verify c1 3 by (metis quiet_def snd_conv)
    with 3 \<open>prepare s = (Ret u, s1)\<close> show ?thesis
      by (simp add: passes_announced main_eq seq_def bind_def clear_def)
  qed
next
  case (1 g s1)
  then show ?thesis by (simp add: passes_announced main_eq seq_def bind_def)
next
  case (3 c s1)
  have "clear s1" using quiet_prepare assms 3 by (metis quiet_def snd_conv)
  with 3 show ?thesis by (simp add: passes_announced main_eq seq_def bind_def clear_def)
qed

end

text \<open>A \<^verbatim>\<open>main\<close> that ends with the verdict, and reports nothing otherwise, has this shape too.\<close>

lemma if_then_seq: "if_then b m = seq (if b then m else skip) skip"
proof -
  have "seq m skip = m"
    by (auto simp: seq_def bind_def skip_def ret_def fun_eq_iff split: prod.splits flow.splits)
  then show ?thesis by (simp add: if_then_def seq_def skip_def)
qed

lemma if_then_main:
  "seq p (bind v (\<lambda>r. if_then (good r) (printf t))) =
   seq p (bind v (\<lambda>r. seq (if good r then printf t else skip) skip))"
  "bind v (\<lambda>r. if_then (good r) (printf t)) =
   seq skip (bind v (\<lambda>r. seq (if good r then printf t else skip) skip))"
  by (simp_all only: if_then_seq) (simp add: seq_def skip_def)

text \<open>\<open>ok *= verify(i)\<close> over the cases of a table, for verifications that answer 0 or 1.\<close>

fun mult_cases :: "(nat \<Rightarrow> ('s, int) cprog) \<Rightarrow> nat list \<Rightarrow> int \<Rightarrow> ('s, int) cprog" where
  "mult_cases v [] ok = ret ok"
| "mult_cases v (i # is) ok = bind (v i) (\<lambda>r. mult_cases v is (ok * r))"

text \<open>\<open>if (verify(i) == 0) ok = 0\<close> over the cases.\<close>

fun fail_cases :: "(nat \<Rightarrow> ('s, int) cprog) \<Rightarrow> nat list \<Rightarrow> int \<Rightarrow> ('s, int) cprog" where
  "fail_cases v [] ok = ret ok"
| "fail_cases v (i # is) ok = bind (v i) (\<lambda>r. fail_cases v is (if r = 0 then 0 else ok))"

text \<open>Every case of the list, run one after the other from the state the previous one left, comes
  back with a nonzero value.\<close>

fun all_hold :: "(nat \<Rightarrow> ('s, int) cprog) \<Rightarrow> nat list \<Rightarrow> 's \<Rightarrow> bool" where
  "all_hold v [] s = True"
| "all_hold v (i # is) s = (case v i s of
     (Ret r, s') \<Rightarrow> r \<noteq> 0 \<and> all_hold v is s' | (Exit c, s') \<Rightarrow> False | (Killed g, s') \<Rightarrow> False)"

lemma mult_cases_zero: "mult_cases v is 0 s = (Ret r, s') \<Longrightarrow> r = 0"
  by (induction "is" arbitrary: s)
    (auto simp: ret_def bind_def split: prod.splits flow.splits)

lemma mult_cases_nonzero:
  "ok \<noteq> 0 \<Longrightarrow> (\<exists>r s'. mult_cases v is ok s = (Ret r, s') \<and> r \<noteq> 0) \<longleftrightarrow> all_hold v is s"
proof (induction "is" arbitrary: ok s)
  case (Cons i "is")
  show ?case
  proof (cases "v i s" rule: outcome_cases)
    case (2 r s')
    show ?thesis
    proof (cases "r = 0")
      case True
      with 2 show ?thesis by (auto simp: bind_def dest: mult_cases_zero)
    next
      case False
      with Cons.prems have "ok * r \<noteq> 0" by simp
      from Cons.IH [OF this] 2 False show ?thesis by (simp add: bind_def)
    qed
  qed (simp_all add: bind_def)
qed (simp add: ret_def)

lemma fail_cases_zero: "fail_cases v is 0 s = (Ret r, s') \<Longrightarrow> r = 0"
  by (induction "is" arbitrary: s)
    (auto simp: ret_def bind_def split: prod.splits flow.splits if_splits)

lemma fail_cases_nonzero:
  "ok \<noteq> 0 \<Longrightarrow> (\<exists>r s'. fail_cases v is ok s = (Ret r, s') \<and> r \<noteq> 0) \<longleftrightarrow> all_hold v is s"
proof (induction "is" arbitrary: ok s)
  case (Cons i "is")
  show ?case
  proof (cases "v i s" rule: outcome_cases)
    case (2 r s')
    with Cons.IH [OF Cons.prems] show ?thesis
      by (cases "r = 0") (auto simp: bind_def dest: fail_cases_zero)
  qed (simp_all add: bind_def)
qed (simp add: ret_def)

lemma quiet_mult_cases [quiet_intros]: "(\<And>i. quiet (v i)) \<Longrightarrow> quiet (mult_cases v is ok)"
  by (induction "is" arbitrary: ok) (simp_all add: quiet_ret quiet_bind)

lemma quiet_fail_cases [quiet_intros]: "(\<And>i. quiet (v i)) \<Longrightarrow> quiet (fail_cases v is ok)"
  by (induction "is" arbitrary: ok) (simp_all add: quiet_ret quiet_bind)

text \<open>A table-driven test: its verification is such a loop, and any nonzero product is good.\<close>

locale table_main = verified_main prepare verify "\<lambda>r. r \<noteq> 0" success report cleanup main
  for prepare :: "('m proc_scheme, unit) cprog" and verify success report cleanup main +
  fixes cases :: "nat \<Rightarrow> ('m proc_scheme, int) cprog" and n :: nat
  assumes verify_eq: "verify = mult_cases cases [0..<n] 1 \<or> verify = fail_cases cases [0..<n] 1"
begin

lemma passes_all_hold:
  assumes "clear s"
  shows "passes main s \<longleftrightarrow> (\<exists>s1. prepare s = (Ret (), s1) \<and> all_hold cases [0..<n] s1)"
proof -
  have "(\<exists>r s2. verify s1 = (Ret r, s2) \<and> r \<noteq> 0) \<longleftrightarrow> all_hold cases [0..<n] s1" for s1
    using verify_eq mult_cases_nonzero [of 1 cases "[0..<n]" s1]
      fail_cases_nonzero [of 1 cases "[0..<n]" s1] by auto
  with passes_iff [OF assms] show ?thesis by metis
qed

end

end
