(* ===== verification/Close_Tests.thy ===== *)
theory Close_Tests
  imports Process
begin

text \<open>
  The close tests (\<^verbatim>\<open>independent tests/syscalls/close/\<close>). \<^verbatim>\<open>close01\<close> closes a descriptor of each
  kind and prints one verdict per kind; \<^verbatim>\<open>close02\<close> closes an invalid descriptor.
\<close>

section \<open>close01\<close>

definition close01_get_fd_file :: "kernel \<Rightarrow> (proc, int) cprog" where
  "close01_get_fd_file K = libc K (Open ''close01_testfile'' (O_RDWR OR O_CREAT) mode_0700)"

definition close01_get_fd_pipe :: "kernel \<Rightarrow> (proc, int) cprog" where
  "close01_get_fd_pipe K =
     bind (indet K ''pipefildes[0]'') (\<lambda>a.
     bind (indet K ''pipefildes[1]'') (\<lambda>b.
     bind (c_pipe K (a, b)) (\<lambda>pipefildes.
     seq (call (libc K (Close (snd pipefildes)))) (
     ret (fst pipefildes)))))"

definition close01_get_fd_socket :: "kernel \<Rightarrow> (proc, int) cprog" where
  "close01_get_fd_socket K = libc K (Socket 2 1 0)"

definition close01_tc :: "kernel \<Rightarrow> (proc, int) cprog list" where
  "close01_tc K = [close01_get_fd_file K, close01_get_fd_pipe K, close01_get_fd_socket K]"

definition close01_run :: "kernel \<Rightarrow> nat \<Rightarrow> (proc, int) cprog" where
  "close01_run K i =
     bind (close01_tc K ! i) (\<lambda>fd.
     bind (libc K (Close fd)) (\<lambda>r.
     ret (if r = 0 then 1 else 0)))"

definition close01_case :: "kernel \<Rightarrow> nat \<Rightarrow> (proc, unit) cprog" where
  "close01_case K i =
     bind (close01_run K i) (\<lambda>res.
     if res = 1 then printf ''test succeeded\<newline>'' else printf ''test failed\<newline>'')"

definition close01_main :: "kernel \<Rightarrow> (proc, unit) cprog" where
  "close01_main K = block (map (close01_case K) [0..<3])"

lemma close01_tc_nth:
  "close01_tc K ! 0 = close01_get_fd_file K"
  "close01_tc K ! 1 = close01_get_fd_pipe K"
  "close01_tc K ! 2 = close01_get_fd_socket K"
  by (simp_all add: close01_tc_def)

lemma close01_unrolled:
  "close01_main K = block [close01_case K 0, close01_case K 1, close01_case K 2]"
  by (simp add: close01_main_def upt_rec numeral_2_eq_2)

lemmas close01_defs = close01_unrolled close01_case_def close01_run_def close01_tc_nth
  close01_get_fd_file_def close01_get_fd_pipe_def close01_get_fd_socket_def proc_init_def

section \<open>close02\<close>

definition close02_run :: "kernel \<Rightarrow> (proc, int) cprog" where
  "close02_run K = bind (libc K (Close (-1))) (\<lambda>r. ret (- r))"

definition close02_main :: "kernel \<Rightarrow> (proc, unit) cprog" where
  "close02_main K =
     bind (close02_run K) (\<lambda>res.
     if res = 1 then printf ''test succeeded\<newline>'' else printf ''test failed\<newline>'')"

section \<open>Verdicts\<close>

text \<open>\<^verbatim>\<open>close01\<close> always makes the same nine calls, and passes exactly when at least one of the three
  closes under test (the second, seventh and ninth call) returned 0: one closable kind of
  descriptor is enough.\<close>

theorem close01_verdict:
  "length (calls (close01_main K) proc_init) = 9 \<and>
   (passes (close01_main K) proc_init \<longleftrightarrow>
    (\<exists>i\<in>{1, 6, 8}. rv (snd (calls (close01_main K) proc_init ! i)) = 0))"
proof -
  have "runs (close01_main K) proc_init (\<lambda>(fl, s'). length (trace s') = 9 \<and>
      (announced (fl, s') \<longleftrightarrow> (\<exists>i\<in>{1, 6, 8}. rv (snd (trace s' ! i)) = 0)))"
    unfolding close01_defs
    by (auto simp: run_simps cong: run_congs intro!: answeredI)
  then show ?thesis
    by (auto simp: runs_def calls_def passes_announced split: prod.splits)
qed

end
