(* ===== verification/Write_Tests.thy ===== *)
theory Write_Tests
  imports Process
begin

text \<open>
  The write tests (\<^verbatim>\<open>independent tests/syscalls/write/\<close>), except \<^verbatim>\<open>write03\<close>, which calls \<^verbatim>\<open>read\<close> with
  four arguments and does not compile. Per program: the record of its C globals, its functions in
  source order, and what its verdict means.
\<close>

section \<open>write01: every count from BUFSIZ down to 1\<close>

record write01 = proc +
  w01_fd :: int

definition write01_init :: write01 where
  "write01_init = \<lparr>errno = 0, out = no_output, trace = [], w01_fd = 0\<rparr>"

text \<open>The loop of \<^verbatim>\<open>verify_write\<close>, and in its base case the rest of the function.\<close>

fun write01_loop :: "kernel \<Rightarrow> int \<Rightarrow> nat \<Rightarrow> int \<Rightarrow> (write01, int) cprog" where
  "write01_loop K fd 0 badcount =
     (if badcount \<noteq> 0 then
        seq (printf ''write() failed to return proper count\<newline>'') (ret (-1))
      else seq (printf ''write() passed\<newline>'') (ret 1))"
| "write01_loop K fd (Suc i) badcount =
     bind (libc K (Write fd (Bytes (fill (Suc i) (CHR ''w''))) (Suc i))) (\<lambda>r.
     if r = -1 then
       seq (printf_errno ''write failed, error '' ''\<newline>'') (ret (-1))
     else if r \<noteq> int (Suc i) then
       seq (printf (''write() returned '' @ show_int r @ '', expected '' @ show_int (int (Suc i)) @ ''\<newline>''))
         (write01_loop K fd i (badcount + 1))
     else write01_loop K fd i badcount)"

definition write01_verify_write :: "kernel \<Rightarrow> (write01, int) cprog" where
  "write01_verify_write K =
     bind (gets w01_fd) (\<lambda>fd.
     seq (call (libc K (Lseek fd 0 SEEK_SET)))
       (write01_loop K fd BUFSIZ 0))"

definition write01_setup :: "kernel \<Rightarrow> (write01, unit) cprog" where
  "write01_setup K =
     bind (libc K (Open ''test_file'' (O_RDWR OR O_CREAT) mode_0700)) (\<lambda>fd.
     modify (\<lambda>s. s\<lparr>w01_fd := fd\<rparr>))"

definition write01_cleanup :: "kernel \<Rightarrow> (write01, unit) cprog" where
  "write01_cleanup K = bind (gets w01_fd) (\<lambda>fd. if_then (fd > 0) (call (libc K (Close fd))))"

definition write01_main :: "kernel \<Rightarrow> (write01, unit) cprog" where
  "write01_main K =
     seq (write01_setup K) (
     bind (write01_verify_write K) (\<lambda>r.
     seq (if r = 1 then printf ''test succeeded\<newline>'' else printf ''test failed\<newline>'')
       (write01_cleanup K)))"

section \<open>write02: nothing from nowhere\<close>

record write02 = proc +
  w02_fd :: int

definition write02_init :: write02 where
  "write02_init = \<lparr>errno = 0, out = no_output, trace = [], w02_fd = 0\<rparr>"

definition write02_verify_write :: "kernel \<Rightarrow> (write02, int) cprog" where
  "write02_verify_write K =
     bind (gets w02_fd) (\<lambda>fd.
     bind (libc K (Write fd (Addr NULL) 0)) (\<lambda>r.
     if r \<noteq> 0 then
       seq (printf ''write() should have succeeded with ret=0\<newline>'') (ret (-1))
     else seq (printf ''write(fd, NULL, 0) == 0\<newline>'') (ret 1)))"

definition write02_setup :: "kernel \<Rightarrow> (write02, unit) cprog" where
  "write02_setup K =
     bind (libc K (Open ''test_file'' (O_RDWR OR O_CREAT) mode_0700)) (\<lambda>fd.
     modify (\<lambda>s. s\<lparr>w02_fd := fd\<rparr>))"

definition write02_cleanup :: "kernel \<Rightarrow> (write02, unit) cprog" where
  "write02_cleanup K = bind (gets w02_fd) (\<lambda>fd. if_then (fd > 0) (call (libc K (Close fd))))"

definition write02_main :: "kernel \<Rightarrow> (write02, unit) cprog" where
  "write02_main K =
     seq (write02_setup K) (
     bind (write02_verify_write K) (\<lambda>r.
     seq (if r = 1 then printf ''test succeeded\<newline>'' else printf ''test failed\<newline>'')
       (write02_cleanup K)))"

section \<open>write04: a full pipe\<close>

record write04 = proc +
  w04_fifo :: string
  w04_rfd :: int
  w04_wfd :: int
  w04_page_size :: int

definition write04_init :: write04 where
  "write04_init = \<lparr>errno = 0, out = no_output, trace = [], w04_fifo = [], w04_rfd = 0, w04_wfd = 0,
     w04_page_size = 0\<rparr>"

definition write04_verify_write :: "kernel \<Rightarrow> (write04, int) cprog" where
  "write04_verify_write K =
     bind (gets w04_wfd) (\<lambda>wfd.
     bind (gets w04_page_size) (\<lambda>page_size.
     bind (libc K (Write wfd Uninit (nat (8 * page_size)))) (\<lambda>r.
     ret (- r))))"

definition write04_setup :: "kernel \<Rightarrow> (write04, unit) cprog" where
  "write04_setup K = (bind (libc K Getpagesize) (\<lambda>page_size.
     seq (modify (\<lambda>s. s\<lparr>w04_page_size := page_size\<rparr>)) (
     bind (gets w04_fifo) (\<lambda>old.
     bind (libc K Getpid) (\<lambda>pid.
     let fifo = old @ ''.'' @ show_int pid in
     seq (modify (\<lambda>s. s\<lparr>w04_fifo := fifo\<rparr>)) (
     seq (call (libc K (Mknod fifo (S_IFIFO OR mode_0777)))) (
     bind (libc K (Open fifo (O_RDONLY OR O_NONBLOCK) 0)) (\<lambda>rfd.
     seq (modify (\<lambda>s. s\<lparr>w04_rfd := rfd\<rparr>)) (
     bind (libc K (Open fifo (O_WRONLY OR O_NONBLOCK) 0)) (\<lambda>wfd.
     seq (modify (\<lambda>s. s\<lparr>w04_wfd := wfd\<rparr>)) (
     call (libc K (Write wfd Uninit (nat (17 * page_size)))))))))))))))"

definition write04_cleanup :: "kernel \<Rightarrow> (write04, unit) cprog" where
  "write04_cleanup K =
     bind (gets w04_rfd) (\<lambda>rfd.
     bind (gets w04_wfd) (\<lambda>wfd.
     seq (if_then (rfd > 0) (call (libc K (Close rfd))))
       (if_then (wfd > 0) (call (libc K (Close wfd))))))"

definition write04_main :: "kernel \<Rightarrow> (write04, unit) cprog" where
  "write04_main K =
     seq (write04_setup K) (
     bind (write04_verify_write K) (\<lambda>r.
     seq (if r > 0 then printf ''test succeeded\<newline>'' else printf ''test failed\<newline>'')
       (write04_cleanup K)))"

section \<open>write05: error numbers and SIGPIPE\<close>

record write05 = proc +
  w05_fd :: int
  w05_bad_addr :: addr
  w05_pipefd :: "int \<times> int"
  w05_sigpipe_cnt :: int
  w05_handled :: bool \<comment> \<open>whether \<^verbatim>\<open>signal\<close> installed \<^verbatim>\<open>sighandler\<close>\<close>

definition write05_init :: write05 where
  "write05_init = \<lparr>errno = 0, out = no_output, trace = [], w05_fd = 0, w05_bad_addr = NULL,
     w05_pipefd = (0, 0), w05_sigpipe_cnt = 0, w05_handled = False\<rparr>"

text \<open>The test case table: descriptor, buffer, size and expected error; \<^verbatim>\<open>buf\<close> is a pointer, so
  \<^verbatim>\<open>sizeof(buf)\<close> is 8.\<close>

definition write05_tcases :: "write05 \<Rightarrow> (int \<times> ubuf \<times> nat \<times> int) list" where
  "write05_tcases s =
     [(-1, Bytes (fill 8 NUL), 8, EBADF),
      (w05_fd s, Addr (w05_bad_addr s), 8, EFAULT),
      (snd (w05_pipefd s), Bytes (fill 8 NUL), 8, EPIPE)]"

definition write05_sighandler :: "int \<Rightarrow> (write05, unit) cprog" where
  "write05_sighandler g =
     if_then (g = SIGPIPE) (modify (\<lambda>s. s\<lparr>w05_sigpipe_cnt := w05_sigpipe_cnt s + 1\<rparr>))"

text \<open>Delivery of the signals the call raised: handled, or fatal; an answer does not list signals that are ignored.\<close>

fun write05_deliver :: "int list \<Rightarrow> (write05, unit) cprog" where
  "write05_deliver [] = skip"
| "write05_deliver (g # gs) =
     seq (bind (gets w05_handled) (\<lambda>h. if h \<and> g = SIGPIPE then write05_sighandler g else die g)) (write05_deliver gs)"

definition write05_verify_write :: "kernel \<Rightarrow> nat \<Rightarrow> (write05, int) cprog" where
  "write05_verify_write K i =
     seq (modify (\<lambda>s. s\<lparr>w05_sigpipe_cnt := 0\<rparr>)) (
     bind (gets (\<lambda>s. write05_tcases s ! i)) (\<lambda>tc. case tc of (fd, buf, sz, exp_errno) \<Rightarrow>
     bind (libc_res K (Write fd buf sz)) (\<lambda>r.
     seq (write05_deliver (sr_sigs r)) (
     if rv r \<noteq> -1 then
       seq (printf ''write() succeeded unexpectedly\<newline>'') (ret (-1))
     else
     bind (gets errno) (\<lambda>e.
     if e \<noteq> exp_errno then
       seq (printf (''write() failed unexpectedly, expected '' @ show_int exp_errno @ ''\<newline>'')) (ret (-1))
     else
     bind (gets w05_sigpipe_cnt) (\<lambda>n.
     if exp_errno = EPIPE \<and> n \<noteq> 1 then
       seq (printf (''sigpipe_cnt = '' @ show_int n)) (ret (-1))
     else seq (printf ''write() failed expectedly\<newline>'') (ret 1)))))))"

definition write05_setup :: "kernel \<Rightarrow> (write05, unit) cprog" where
  "write05_setup K =
     bind (libc K (Open ''write_test'' (O_RDWR OR O_CREAT) mode_0644)) (\<lambda>fd.
     seq (modify (\<lambda>s. s\<lparr>w05_fd := fd\<rparr>)) (
     bind (libc_ptr K (Mmap 0 1 PROT_NONE (MAP_PRIVATE OR 32) 0 0)) (\<lambda>a.
     seq (modify (\<lambda>s. s\<lparr>w05_bad_addr := a\<rparr>)) (
     bind (gets w05_pipefd) (\<lambda>old.
     bind (c_pipe K old) (\<lambda>p.
     seq (modify (\<lambda>s. s\<lparr>w05_pipefd := p\<rparr>)) (
     seq (call (libc K (Close (fst p)))) (
     bind (libc_res K (Signal SIGPIPE)) (\<lambda>r.
     modify (\<lambda>s. s\<lparr>w05_handled := (case sr_ret r of Inl e \<Rightarrow> False | Inr v \<Rightarrow> True)\<rparr>))))))))))"

definition write05_cleanup :: "kernel \<Rightarrow> (write05, unit) cprog" where
  "write05_cleanup K =
     bind (gets w05_fd) (\<lambda>fd.
     seq (if_then (fd > 0) (call (libc K (Close fd)))) (
     bind (gets w05_bad_addr) (\<lambda>a. call (libc K (Munmap a 1)))))"

definition write05_case :: "kernel \<Rightarrow> nat \<Rightarrow> (write05, unit) cprog" where
  "write05_case K i =
     bind (write05_verify_write K i) (\<lambda>r.
     if r = 1 then printf ''test succeeded\<newline>'' else printf ''test failed\<newline>'')"

definition write05_main :: "kernel \<Rightarrow> (write05, unit) cprog" where
  "write05_main K =
     seq (write05_setup K) (
     seq (block (map (write05_case K) [0..<3]))
       (write05_cleanup K))"

section \<open>write06: appending\<close>

record write06 = proc +
  w06_fd :: int
  w06_write_buf :: "addr \<times> addr"

definition write06_init :: write06 where
  "write06_init = \<lparr>errno = 0, out = no_output, trace = [], w06_fd = -1, w06_write_buf = (NULL, NULL)\<rparr>"

abbreviation (input) "K1 \<equiv> (1024::nat)"
abbreviation (input) "K2 \<equiv> (2048::nat)"
abbreviation (input) "K3 \<equiv> (3072::nat)"
abbreviation (input) "DATA_FILE \<equiv> ''write06_file''"

definition write06_verify_write :: "kernel \<Rightarrow> (write06, int) cprog" where
  "write06_verify_write K = (bind (indet_stat K ''statbuf'') (\<lambda>statbuf0.
     bind (libc K (Open DATA_FILE (O_RDWR OR O_CREAT OR O_TRUNC) mode_0666)) (\<lambda>fd0.
     seq (modify (\<lambda>s. s\<lparr>w06_fd := fd0\<rparr>)) (
     bind (gets w06_write_buf) (\<lambda>write_buf.
     seq (call (libc K (Write fd0 (Addr (fst write_buf)) K2))) (
     seq (call (libc K (Close fd0))) (
     bind (libc K (Open DATA_FILE (O_RDWR OR O_APPEND) 0)) (\<lambda>fd.
     seq (modify (\<lambda>s. s\<lparr>w06_fd := fd\<rparr>)) (
     bind (c_stat K (Fstat fd) statbuf0) (\<lambda>st1.
     let statbuf1 = snd st1 in
     seq (if_then (st_size statbuf1 \<noteq> int K2)
       (printf (''file size is '' @ show_int (st_size statbuf1) @ '' != K2\<newline>''))) (
     bind (libc K (Lseek fd (int K1) SEEK_SET)) (\<lambda>off1.
     seq (if_then (off1 \<noteq> int K1) (printf ''Failed to seek to K1\<newline>'')) (
     let ok1 = (if off1 \<noteq> int K1 then 0 else -1) in
     seq (call (libc K (Write fd (Addr (snd write_buf)) K1))) (
     bind (libc K (Lseek fd 0 SEEK_CUR)) (\<lambda>off2.
     seq (if off2 \<noteq> int K3
       then printf (''Wrong offset after write '' @ show_zu off2 @ '' expected 3072\<newline>'')
       else printf (''Offset is correct after write '' @ show_zu off2 @ ''\<newline>'')) (
     let ok2 = (if off2 \<noteq> int K3 then ok1 else 1) in
     bind (c_stat K (Fstat fd) statbuf1) (\<lambda>st2.
     let statbuf2 = snd st2 in
     seq (if st_size statbuf2 \<noteq> int K3
       then printf (''Wrong file size after append '' @ show_zu (st_size statbuf2) @ '' expected 3072\<newline>'')
       else printf (''Correct file size after append 3072\<newline>'')) (
     seq (call (libc K (Close fd))) (
     ret (if st_size statbuf2 \<noteq> int K3 then ok2 else 1))))))))))))))))))))"

definition write06_setup :: "kernel \<Rightarrow> (write06, unit) cprog" where
  "write06_setup K =
     bind (gets w06_write_buf) (\<lambda>write_buf.
     seq (mem_store K (fst write_buf) (fill K2 NUL))
       (mem_store K (snd write_buf) (fill K1 (CHR 0x01))))"

definition write06_cleanup :: "kernel \<Rightarrow> (write06, unit) cprog" where
  "write06_cleanup K =
     bind (gets w06_fd) (\<lambda>fd.
     seq (if_then (fd \<noteq> -1) (call (libc K (Close fd))))
       (call (libc K (Unlink DATA_FILE))))"

definition write06_main :: "kernel \<Rightarrow> (write06, unit) cprog" where
  "write06_main K =
     seq (write06_setup K) (
     bind (write06_verify_write K) (\<lambda>res.
     seq (if res = 1 then printf ''test succeeded\<newline>''
          else if res = -1 then printf ''test failed\<newline>''
          else printf ''the test seems to be broken\<newline>'')
       (write06_cleanup K)))"

section \<open>Interfaces\<close>

text \<open>\<^verbatim>\<open>write01\<close>, \<^verbatim>\<open>write02\<close> and \<^verbatim>\<open>write04\<close> have a \<^verbatim>\<open>main\<close> with one verification.\<close>

lemma quiet_write01_loop [quiet_intros]: "quiet (write01_loop K fd n b)"
  by (induction n arbitrary: b) (auto intro!: quiet_intros)

interpretation w01: verified_main "write01_setup K" "write01_verify_write K" "\<lambda>r. r = 1"
  "''test succeeded\<newline>''" "\<lambda>_. printf ''test failed\<newline>''" "write01_cleanup K" "write01_main K" for K
  by unfold_locales (auto simp: write01_main_def write01_setup_def write01_verify_write_def
    write01_cleanup_def intro!: quiet_intros extends_intros returns_intros)

interpretation w02: verified_main "write02_setup K" "write02_verify_write K" "\<lambda>r. r = 1"
  "''test succeeded\<newline>''" "\<lambda>_. printf ''test failed\<newline>''" "write02_cleanup K" "write02_main K" for K
  by unfold_locales (auto simp: write02_main_def write02_setup_def write02_verify_write_def
    write02_cleanup_def intro!: quiet_intros extends_intros returns_intros)

interpretation w04: verified_main "write04_setup K" "write04_verify_write K" "\<lambda>r. r > 0"
  "''test succeeded\<newline>''" "\<lambda>_. printf ''test failed\<newline>''" "write04_cleanup K" "write04_main K" for K
  by unfold_locales (auto simp: write04_main_def write04_setup_def write04_verify_write_def
    write04_cleanup_def Let_def intro!: quiet_intros extends_intros returns_intros)

section \<open>Verdicts\<close>

text \<open>The counts asked of \<^verbatim>\<open>write\<close> in a history, each with the value it returned.\<close>

fun write_results :: "event list \<Rightarrow> (nat \<times> int) list" where
  "write_results [] = []"
| "write_results ((c, r) # h) =
     (case c of Io (Write_io fd b n) \<Rightarrow> (n, rv r) # write_results h | _ \<Rightarrow> write_results h)"

lemma write_results_append [simp]: "write_results (h @ h') = write_results h @ write_results h'"
  by (induction h rule: write_results.induct) (auto split: syscall.splits io_call.splits)

text \<open>The loop adds one result per count, and answers 1 exactly when all of them are full.\<close>

lemma write01_loop_runs:
  assumes "clear s" and "0 \<le> b"
    and "\<And>r s'. clear s' \<Longrightarrow> w01_fd s' = w01_fd s \<Longrightarrow>
      prefix (write_results (trace s)) (write_results (trace s')) \<Longrightarrow>
      (r = 1 \<longleftrightarrow> b = 0 \<and> write_results (trace s') =
         write_results (trace s) @ map (\<lambda>i. (i, int i)) (rev [1..<Suc n])) \<Longrightarrow> P (Ret r, s')"
  shows "runs (write01_loop K fd n b) s P"
  using assms
proof (induction n arbitrary: s b)
  case 0
  show ?case
    using 0(1,2) by (auto simp: run_simps clear_def intro!: 0(3))
next
  case (Suc n)
  show ?case
    using Suc.prems(1,2)
    by (auto simp: run_simps clear_def answered_def prefix_def intro!: Suc.prems(3) Suc.IH)
qed

text \<open>C3. \<^verbatim>\<open>write01\<close> passes exactly when every count from \<^verbatim>\<open>BUFSIZ\<close> down to 1 was written once, in this order,
  and in full.\<close>

theorem write01_verdict:
  "passes (write01_main K) write01_init \<longleftrightarrow>
   write_results (calls (write01_main K) write01_init) = map (\<lambda>i. (i, int i)) (rev [1..<Suc BUFSIZ])"
proof (rule verdictI)
  show "runs (write01_main K) write01_init (\<lambda>(fl, s'). announced (fl, s') \<longleftrightarrow>
    write_results (trace s') = map (\<lambda>i. (i, int i)) (rev [1..<Suc BUFSIZ]))"
    unfolding write01_main_def write01_setup_def write01_verify_write_def write01_cleanup_def write01_init_def
    by (auto simp: run_simps clear_def simp del: upt_Suc cong: run_congs intro!: answeredI write01_loop_runs)
qed

text \<open>\<^verbatim>\<open>write04\<close> passes exactly when its seventh call, the non-blocking write of eight pages into the pipe it
  has filled before, is refused; which error it reports is not looked at.\<close>

theorem write04_verdict:
  "(let h = calls (write04_main K) write04_init in
    fst (h ! 6) = Write (rv (snd (h ! 4))) Uninit (nat (8 * rv (snd (h ! 0)))) \<and>
    (passes (write04_main K) write04_init \<longleftrightarrow> (\<exists>e. failed_with (snd (h ! 6)) e)))"
proof -
  have "runs (write04_main K) write04_init (\<lambda>(fl, s').
      fst (trace s' ! 6) = Write (rv (snd (trace s' ! 4))) Uninit (nat (8 * rv (snd (trace s' ! 0)))) \<and>
      (announced (fl, s') \<longleftrightarrow> (\<exists>e. failed_with (snd (trace s' ! 6)) e)))"
    unfolding write04_main_def write04_setup_def write04_verify_write_def write04_cleanup_def write04_init_def
    by (auto simp: run_simps rv_negative cong: run_congs intro!: answeredI)
  then show ?thesis
    by (auto simp: runs_def calls_def passes_announced Let_def split: prod.splits)
qed

lemma write05_deliver_runs:
  assumes "gs = [] \<or> w05_handled s \<and> set gs \<subseteq> {SIGPIPE} \<Longrightarrow>
      P (Ret (), s\<lparr>w05_sigpipe_cnt := w05_sigpipe_cnt s + int (length gs)\<rparr>)"
    and "\<And>g s'. \<not> (gs = [] \<or> w05_handled s \<and> set gs \<subseteq> {SIGPIPE}) \<Longrightarrow> trace s' = trace s \<Longrightarrow>
      P (Killed g, s')"
  shows "runs (write05_deliver gs) s P"
  using assms
proof (induction gs arbitrary: s)
  case Nil
  then show ?case by (simp add: run_simps)
next
  case (Cons g gs)
  have "runs (write05_deliver gs) (s\<lparr>w05_sigpipe_cnt := w05_sigpipe_cnt s + 1\<rparr>) P"
    if "w05_handled s" "g = SIGPIPE"
    using that Cons.prems by (intro Cons.IH) (auto simp: algebra_simps)
  then show ?case
    using Cons.prems(2) by (auto simp: run_simps write05_sighandler_def)
qed

lemma write05_unrolled:
  "block (map (write05_case K) [0..<3]) = block [write05_case K 0, write05_case K 1, write05_case K 2]"
  by (simp add: upt_rec numeral_2_eq_2)

text \<open>One case of the table: what its write was answered, and whether it is announced.\<close>

definition write05_good :: "int \<Rightarrow> sysres \<Rightarrow> bool" where
  "write05_good e r \<longleftrightarrow> failed_with r e \<and> (e \<noteq> EPIPE \<or> sr_sigs r = [SIGPIPE])"

lemma write05_case_runs:
  assumes "scan 0 (out s) \<in> {0, 14}"
    and "\<And>c r s'. trace s' = trace s @ [(c, r)] \<Longrightarrow>
      scan 0 (out s') = (if scan 0 (out s) = 14 \<or> write05_good (snd (snd (snd (write05_tcases s ! i)))) r then 14 else 0) \<Longrightarrow>
      P (Ret (), s')"
    and "\<And>c g r s'. trace s' = trace s @ [(c, r)] \<Longrightarrow> P (Killed g, s')"
  shows "runs (write05_case K i) s P"
proof -
  obtain fd buf sz e where tc: "write05_tcases s ! i = (fd, buf, sz, e)"
    by (metis surj_pair)
  moreover have "write05_tcases (s\<lparr>w05_sigpipe_cnt := 0\<rparr>) = write05_tcases s"
    by (simp add: write05_tcases_def)
  ultimately show ?thesis
    unfolding write05_case_def write05_verify_write_def
    using assms(1)
    by (auto simp: run_simps write05_good_def rv_negative failed_with_def length_Suc_conv
        intro!: answeredI write05_deliver_runs assms(2,3))
qed

lemma write05_expected [simp]:
  "snd (snd (snd (write05_tcases s ! 0))) = EBADF"
  "snd (snd (snd (write05_tcases s ! Suc 0))) = EFAULT"
  "snd (snd (snd (write05_tcases s ! 2))) = EPIPE"
  by (simp_all add: write05_tcases_def)

text \<open>C27. \<^verbatim>\<open>write05\<close> passes exactly when it survives its three writes and at least one of them failed as
  expected: \<^verbatim>\<open>EBADF\<close>, \<^verbatim>\<open>EFAULT\<close>, or \<^verbatim>\<open>EPIPE\<close> together with exactly one \<^verbatim>\<open>SIGPIPE\<close>.\<close>

theorem write05_verdict:
  "passes (write05_main K) write05_init \<longleftrightarrow>
   (let h = calls (write05_main K) write05_init in 9 \<le> length h \<and>
     (failed_with (snd (h ! 5)) EBADF \<or> failed_with (snd (h ! 6)) EFAULT \<or>
      failed_with (snd (h ! 7)) EPIPE \<and> sr_sigs (snd (h ! 7)) = [SIGPIPE]))"
proof (rule verdictI)
  show "runs (write05_main K) write05_init (\<lambda>(fl, s'). announced (fl, s') \<longleftrightarrow>
     (let h = trace s' in 9 \<le> length h \<and>
       (failed_with (snd (h ! 5)) EBADF \<or> failed_with (snd (h ! 6)) EFAULT \<or>
        failed_with (snd (h ! 7)) EPIPE \<and> sr_sigs (snd (h ! 7)) = [SIGPIPE])))"
    unfolding write05_main_def write05_unrolled write05_setup_def
      write05_cleanup_def write05_init_def
    by (auto simp: run_simps write05_good_def Let_def split: if_splits cong: run_congs
        intro!: answeredI write05_case_runs)
qed

text \<open>\<^verbatim>\<open>write06\<close> begins by clearing a buffer at the null pointer. It passes exactly when that store and the
  next did not fault and the offset or the size it found at the end is 3072, one of the two.\<close>

theorem write06_verdict:
  "(let h = calls (write06_main K) write06_init in
    fst (h ! 0) = MemStore NULL (fill K2 NUL) \<and>
    (passes (write06_main K) write06_init \<longleftrightarrow>
     (\<exists>v. sr_ret (snd (h ! 0)) = Inr v) \<and> (\<exists>v. sr_ret (snd (h ! 1)) = Inr v) \<and>
     (rv (snd (h ! 10)) = 3072 \<or>
      st_size (stat_seen (snd (h ! 11)) (stat_seen (snd (h ! 7)) (sr_stat (snd (h ! 2))))) = 3072)))"
proof -
  have "runs (write06_main K) write06_init (\<lambda>(fl, s'). (let h = trace s' in
    fst (h ! 0) = MemStore NULL (fill K2 NUL) \<and>
    (announced (fl, s') \<longleftrightarrow>
     (\<exists>v. sr_ret (snd (h ! 0)) = Inr v) \<and> (\<exists>v. sr_ret (snd (h ! 1)) = Inr v) \<and>
     (rv (snd (h ! 10)) = 3072 \<or>
      st_size (stat_seen (snd (h ! 11)) (stat_seen (snd (h ! 7)) (sr_stat (snd (h ! 2))))) = 3072))))"
    unfolding write06_main_def write06_setup_def write06_verify_write_def write06_cleanup_def write06_init_def merges
    by (simp add: run_simps Let_def cong: run_congs split del: if_split;
        intro answeredI conjI impI allI; simp)
  then show ?thesis
    by (auto simp: runs_def calls_def passes_announced Let_def split: prod.splits)
qed

end
