(* ===== verification/Read_Tests.thy ===== *)
theory Read_Tests
  imports Process
begin

text \<open>
  The read tests (\<^verbatim>\<open>independent tests/syscalls/read/\<close>). Their \<^verbatim>\<open>incl.h\<close> declares neither \<^verbatim>\<open>read\<close> nor
  \<^verbatim>\<open>memalign\<close>, so both are implicitly declared to return \<^verbatim>\<open>int\<close>.
\<close>

section \<open>read01\<close>

record read01 = proc +
  r01_fd :: int
  r01_buf :: string

definition read01_init :: read01 where
  "read01_init = \<lparr>errno = 0, out = no_output, trace = [], r01_fd = 0, r01_buf = fill 512 NUL\<rparr>"

definition read01_verify_read :: "kernel \<Rightarrow> (read01, int) cprog" where
  "read01_verify_read K = (bind (gets r01_fd) (\<lambda>fd.
     seq (call (libc K (Lseek fd 0 SEEK_SET))) (
     bind (gets r01_buf) (\<lambda>buf.
     bind (c_read K fd buf 512) (\<lambda>(r, buf').
     seq (modify (\<lambda>s. s\<lparr>r01_buf := buf'\<rparr>)) (
     seq (if r = -1 then printf ''read(2) failed\<newline>''
       else printf (''read(2) returned '' @ show_int r @ ''\<newline>'')) (
     ret r)))))))"

text \<open>\<^verbatim>\<open>write(1, fd, buf, SIZE)\<close> writes to descriptor 1, with the descriptor as the buffer and the address
  of the buffer as the count.\<close>

definition read01_setup :: "kernel \<Rightarrow> (read01, unit) cprog" where
  "read01_setup K = (seq (modify (\<lambda>s. s\<lparr>r01_buf := fill 512 (CHR ''*'')\<rparr>)) (
     bind (libc K (Open ''testfile'' (O_RDWR OR O_CREAT) mode_0700)) (\<lambda>fd.
     seq (modify (\<lambda>s. s\<lparr>r01_fd := fd\<rparr>)) (
     bind (indet K ''&buf'') (\<lambda>buf_addr.
     call (libc K (Write 1 (Addr (word_of_int fd)) (nat buf_addr))))))))"

definition read01_cleanup :: "kernel \<Rightarrow> (read01, unit) cprog" where
  "read01_cleanup K = bind (gets r01_fd) (\<lambda>fd. if_then (fd > 0) (call (libc K (Close fd))))"

definition read01_main :: "kernel \<Rightarrow> (read01, unit) cprog" where
  "read01_main K = (seq (read01_setup K) (
     bind (read01_verify_read K) (\<lambda>r.
     seq (if r = -1 then printf ''test failed\<newline>'' else printf ''test succeeded\<newline>'') (
     read01_cleanup K))))"

section \<open>read02\<close>

text \<open>The globals, and the address that \<^verbatim>\<open>memalign\<close> really returned: \<^verbatim>\<open>addr4\<close> gets it through an \<^verbatim>\<open>int\<close>.\<close>

record read02 = proc +
  r02_fd2 :: int
  r02_fd3 :: int
  r02_fd4 :: int
  r02_outside_buf :: addr
  r02_addr4 :: addr
  r02_addr5 :: addr
  r02_chunk :: addr

definition read02_init :: read02 where
  "read02_init = \<lparr>errno = 0, out = no_output, trace = [], r02_fd2 = 0, r02_fd3 = 0, r02_fd4 = -1,
     r02_outside_buf = -1, r02_addr4 = NULL, r02_addr5 = NULL, r02_chunk = NULL\<rparr>"

text \<open>Which descriptor a case points to; \<open>Fd4\<close> is also compared as a pointer.\<close>

datatype read02_fdp = Badfd | Fd2 | Fd3 | Fd4

fun read02_deref :: "read02_fdp \<Rightarrow> read02 \<Rightarrow> int" where
  "read02_deref Badfd s = -1"
| "read02_deref Fd2 s = r02_fd2 s"
| "read02_deref Fd3 s = r02_fd3 s"
| "read02_deref Fd4 s = r02_fd4 s"

definition read02_tcases :: "(read02_fdp \<times> (read02 \<Rightarrow> addr option) \<times> nat \<times> int) list" where
  "read02_tcases =
     [(Badfd, \<lambda>s. None, 1, EBADF),
      (Fd2, \<lambda>s. None, 1, EISDIR),
      (Fd3, \<lambda>s. Some (r02_outside_buf s), 1, EFAULT),
      (Fd4, \<lambda>s. Some (r02_addr4 s), 1, EINVAL),
      (Fd4, \<lambda>s. Some (r02_addr5 s), 4096, EINVAL)]"

definition read02_verify_read :: "kernel \<Rightarrow> nat \<Rightarrow> (read02, int) cprog" where
  "read02_verify_read K n = (case read02_tcases ! n of (fdp, buf, cnt, exp_error) \<Rightarrow>
     (bind (gets (read02_deref fdp)) (\<lambda>fd.
     if fdp = Fd4 \<and> fd = -1 then
       (seq (printf ''O_DIRECT not supported on this filesystem\<newline>'') (
       ret 0))
     else
     bind (gets buf) (\<lambda>b.
     bind (libc K (case b of None \<Rightarrow> Read fd cnt | Some a \<Rightarrow> ReadAt fd a cnt)) (\<lambda>r.
     bind (gets r02_fd4) (\<lambda>fd4.
     if fd = fd4 \<and> r \<ge> 0 then
       (seq (printf ''O_DIRECT unaligned reads fallbacks to buffered I/O\<newline>'') (
       ret 1))
     else
     if r \<noteq> -1 then
       (seq (printf ''read() succeeded unexpectedly\<newline>'') (
       ret (-1)))
     else
     bind (gets errno) (\<lambda>e.
     if e = exp_error then (seq (printf ''read() failed as expected\<newline>'') (
       ret 1))
     else (seq (printf (''read() failed unexpectedly, expected '' @ show_int exp_error @ ''\<newline>'')) (
       ret (-1))))))))))"

text \<open>A pointer that went through an implicitly declared \<^verbatim>\<open>int\<close> function.\<close>

definition through_int :: "addr \<Rightarrow> addr" where
  "through_int a = signed_take_bit 31 a"

definition read02_setup :: "kernel \<Rightarrow> (read02, unit) cprog" where
  "read02_setup K = (bind (libc K (Open ''.'' O_DIRECTORY 0)) (\<lambda>fd2.
     seq (modify (\<lambda>s. s\<lparr>r02_fd2 := fd2\<rparr>)) (
     seq (undefined_call K ''fprintf(test_file, A)'') (
     bind (libc K (Open ''test_file'' O_RDWR 0)) (\<lambda>fd3.
     seq (modify (\<lambda>s. s\<lparr>r02_fd3 := fd3\<rparr>)) (
     bind (libc_ptr K (Mmap 0 1 PROT_NONE (MAP_PRIVATE OR 32) 0 0)) (\<lambda>a.
     seq (modify (\<lambda>s. s\<lparr>r02_outside_buf := a\<rparr>)) (
     seq (call (libc K Getpagesize)) (
     bind (c_malloc K 40960) (\<lambda>p.
     seq (modify (\<lambda>s. s\<lparr>r02_chunk := p\<rparr>)) (
     seq (modify (\<lambda>s. s\<lparr>r02_addr4 := through_int p\<rparr>)) (
     modify (\<lambda>s. s\<lparr>r02_addr5 := r02_addr4 s + 1\<rparr>)))))))))))))"

definition read02_cleanup :: "kernel \<Rightarrow> (read02, unit) cprog" where
  "read02_cleanup K = (bind (gets r02_addr4) (\<lambda>addr4.
     bind (gets r02_chunk) (\<lambda>chunk.
     seq (if_then (addr4 \<noteq> chunk \<and> addr4 \<noteq> NULL) (undefined_call K ''free(addr4)'')) (
     bind (gets r02_fd4) (\<lambda>fd4.
     seq (if_then (fd4 > 0) (call (libc K (Close fd4)))) (
     bind (gets r02_fd3) (\<lambda>fd3.
     seq (if_then (fd3 > 0) (call (libc K (Close fd3)))) (
     bind (gets r02_fd2) (\<lambda>fd2.
     if_then (fd2 > 0) (call (libc K (Close fd2))))))))))))"

definition read02_case :: "kernel \<Rightarrow> nat \<Rightarrow> (read02, unit) cprog" where
  "read02_case K i = (bind (read02_verify_read K i) (\<lambda>r.
     if r = 0 then printf ''Invalid or broken test\<newline>''
     else (bind (read02_verify_read K i) (\<lambda>r'.
       if r' = -1 then printf ''Test failed\<newline>'' else printf ''Test succeeded\<newline>''))))"

definition read02_main :: "kernel \<Rightarrow> (read02, unit) cprog" where
  "read02_main K = (seq (read02_setup K) (
     seq (block (map (read02_case K) [0..<4])) (
     read02_cleanup K)))"

section \<open>read03\<close>

record read03 = proc +
  r03_fifo :: string
  r03_rfd :: int
  r03_wfd :: int

definition read03_init :: read03 where
  "read03_init = \<lparr>errno = 0, out = no_output, trace = [], r03_fifo = [], r03_rfd = 0, r03_wfd = 0\<rparr>"

definition read03_verify_read :: "kernel \<Rightarrow> (read03, int) cprog" where
  "read03_verify_read K = (bind (gets r03_rfd) (\<lambda>rfd.
     bind (libc K (Read rfd 1)) (\<lambda>r.
     if r = -1 then ret 1 else ret (-1))))"

definition read03_setup :: "kernel \<Rightarrow> (read03, unit) cprog" where
  "read03_setup K = (bind (indet_stat K ''buf'') (\<lambda>buf.
     bind (libc K Getpid) (\<lambda>pid.
     let fifo = ''fifo.'' @ show_int pid in
     seq (modify (\<lambda>s. s\<lparr>r03_fifo := fifo\<rparr>)) (
     seq (call (libc K (Mknod fifo (S_IFIFO OR mode_0777)))) (
     bind (c_stat K (Stat fifo) buf) (\<lambda>(r, buf').
     seq (if_then ((st_mode buf' AND S_IFIFO) = 0) (seq (printf ''Mode does not indicate fifo file\<newline>'') (
       c_exit 0))) (
     bind (libc K (Open fifo (O_RDONLY OR O_NONBLOCK) 0)) (\<lambda>rfd.
     seq (modify (\<lambda>s. s\<lparr>r03_rfd := rfd\<rparr>)) (
     bind (libc K (Open fifo (O_WRONLY OR O_NONBLOCK) 0)) (\<lambda>wfd.
     modify (\<lambda>s. s\<lparr>r03_wfd := wfd\<rparr>)))))))))))"

definition read03_cleanup :: "kernel \<Rightarrow> (read03, unit) cprog" where
  "read03_cleanup K = (bind (gets r03_rfd) (\<lambda>rfd.
     seq (call (libc K (Close rfd))) (
     bind (gets r03_wfd) (\<lambda>wfd.
     seq (call (libc K (Close wfd))) (
     bind (gets r03_fifo) (\<lambda>fifo.
     call (libc K (Unlink fifo))))))))"

definition read03_main :: "kernel \<Rightarrow> (read03, unit) cprog" where
  "read03_main K = (seq (read03_setup K) (
     bind (read03_verify_read K) (\<lambda>r.
     seq (if r = 1 then printf ''test succeeded\<newline>'' else printf ''test failed\<newline>'') (
     read03_cleanup K))))"

section \<open>read04\<close>

abbreviation palfa :: string where
  "palfa \<equiv> ''ABCDEFGHIJKLMNOPQRSTUVWXYZ''"

definition read04_verify_read :: "kernel \<Rightarrow> (proc, int) cprog" where
  "read04_verify_read K = (bind (indet_bytes K ''prbuf'' BUFSIZ) (\<lambda>prbuf.
     bind (libc K (Open ''test_file'' O_RDONLY 0)) (\<lambda>fd.
     bind (c_read K fd prbuf BUFSIZ) (\<lambda>(r, prbuf').
     if r \<noteq> 26 then
       (seq (printf (''Bad read count - got '' @ show_int r @ '' - expected 26\<newline>'')) (
       seq (call (libc K (Close fd))) (
       ret (-1))))
     else
     if take 26 prbuf' \<noteq> palfa then
       (seq (printf ''read buffer not equal to write buffer\<newline>'') (
       seq (call (libc K (Close fd))) (
       ret (-1))))
     else
     seq (printf ''read() data correctly\<newline>'') (
     seq (call (libc K (Close fd))) (
     ret 1))))))"

definition read04_setup :: "kernel \<Rightarrow> (proc, unit) cprog" where
  "read04_setup K = (bind (libc K (Creat ''test_file'' mode_0777)) (\<lambda>fd.
     seq (call (libc K (Write fd (Bytes palfa) 26))) (
     call (libc K (Close fd)))))"

definition read04_main :: "kernel \<Rightarrow> (proc, unit) cprog" where
  "read04_main K = (seq (read04_setup K) (
     bind (read04_verify_read K) (\<lambda>r.
     if r = 1 then printf ''test succeeded\<newline>'' else printf ''test failed\<newline>'')))"

section \<open>Verdicts\<close>

lemma quiet_read02_verify_read [quiet_intros]: "quiet (read02_verify_read K n)"
  unfolding read02_verify_read_def by (intro quiet_intros) simp_all

lemma quiet_read02_case: "quiet (read02_case K i)"
  unfolding read02_case_def by (intro quiet_intros) simp_all

text \<open>\<^verbatim>\<open>read02\<close> never passes, on any kernel: its verdict begins with a capital T, which the harness
  does not look for.\<close>

theorem read02_never_passes: "\<not> passes (read02_main K) read02_init"
proof (rule quiet_not_passes)
  have "quiet (read02_setup K)" "quiet (read02_cleanup K)"
    unfolding read02_setup_def read02_cleanup_def by (intro quiet_intros; simp)+
  then show "quiet (read02_main K)"
    unfolding read02_main_def by (intro quiet_intros) (simp_all add: list_all_iff quiet_read02_case)
qed (simp add: clear_def read02_init_def)

text \<open>\<^verbatim>\<open>read01\<close> passes exactly when its read is not refused. Any count will do, 0 included; the
  setup has not put anything into the file.\<close>

theorem read01_verdict:
  "(let h = calls (read01_main K) read01_init in
    fst (h ! 4) = Read (rv (snd (h ! 0))) 512 \<and>
    (passes (read01_main K) read01_init \<longleftrightarrow> 0 \<le> rv (snd (h ! 4))))"
proof -
  have "runs (read01_main K) read01_init (\<lambda>(fl, s'). let h = trace s' in
    fst (h ! 4) = Read (rv (snd (h ! 0))) 512 \<and> (announced (fl, s') \<longleftrightarrow> 0 \<le> rv (snd (h ! 4))))"
    unfolding read01_main_def read01_setup_def read01_verify_read_def read01_cleanup_def read01_init_def merges
    by (simp add: run_simps Let_def rv_not_m1 cong: run_congs split del: if_split;
        intro answeredI conjI impI allI; simp add: rv_not_m1)
  then show ?thesis
    by (auto simp: runs_def calls_def passes_announced Let_def split: prod.splits)
qed

text \<open>\<^verbatim>\<open>read04\<close> passes exactly when its read returned 26 and put the alphabet into the buffer.\<close>

theorem read04_verdict:
  "passes (read04_main K) proc_init \<longleftrightarrow>
   (let h = calls (read04_main K) proc_init in
     rv (snd (h ! 5)) = 26 \<and>
     take 26 (overlay (fit_to BUFSIZ (sr_bytes (snd (h ! 5)))) (fit BUFSIZ (sr_bytes (snd (h ! 3))))) = palfa)"
proof (rule verdictI)
  show "runs (read04_main K) proc_init (\<lambda>(fl, s'). announced (fl, s') \<longleftrightarrow> (let h = trace s' in
     rv (snd (h ! 5)) = 26 \<and>
     take 26 (overlay (fit_to BUFSIZ (sr_bytes (snd (h ! 5)))) (fit BUFSIZ (sr_bytes (snd (h ! 3))))) = palfa))"
    unfolding read04_main_def read04_setup_def read04_verify_read_def proc_init_def merges
    by (simp add: run_simps Let_def cong: run_congs split del: if_split;
        intro answeredI conjI impI allI; simp)
qed

end
