(* ===== verification/Brk_Tests.thy ===== *)
theory Brk_Tests
  imports Process
begin

text \<open>
  The brk tests (\<^verbatim>\<open>independent tests/syscalls/brk/\<close>): moving the program break up and down and asking
  \<^verbatim>\<open>sbrk(0)\<close> where it is. Break addresses are 64-bit words, so that the pointer arithmetic wraps.
\<close>

section \<open>brk01\<close>

text \<open>The \<^verbatim>\<open>switch (i % 3)\<close> of the loop.\<close>

definition brk01_new_brk :: "addr \<Rightarrow> nat \<Rightarrow> addr \<Rightarrow> addr" where
  "brk01_new_brk inc i cur_brk =
     (if i mod 3 = 0 then cur_brk + inc else if i mod 3 = 1 then cur_brk else cur_brk - inc)"

function brk01_loop :: "kernel \<Rightarrow> addr \<Rightarrow> nat \<Rightarrow> addr \<Rightarrow> (proc, int) cprog" where
  "brk01_loop K inc i cur_brk =
     (if i < 33 then
        let new_brk = brk01_new_brk inc i cur_brk in
        seq (call (libc K (Brk new_brk))) (
        bind (libc_ptr K (Sbrk 0)) (\<lambda>cur_brk'.
        if cur_brk' \<noteq> new_brk then
          seq (printf (''brk() failed to set address have '' @ show_ptr cur_brk' @ '' expected ''
            @ show_ptr new_brk @ ''\<newline>'')) (
          ret 0)
        else
          seq (if_then (i mod 3 = 0) (mem_store K cur_brk' [NUL]))
            (brk01_loop K inc (i + 1) cur_brk')))
      else
        seq (printf ''brk() works fine\<newline>'') (ret 1))"
  by pat_completeness auto

termination
  by (relation "measure (\<lambda>(K, inc, i, cur_brk). 33 - i)") auto

declare brk01_loop.simps [simp del]

definition brk01_verify_brk :: "kernel \<Rightarrow> (proc, int) cprog" where
  "brk01_verify_brk K = (bind (libc K Getpagesize) (\<lambda>page.
     let inc = word_of_int (page * 2 - 1) in
     seq (printf ''[I] Testing libc variant\<newline>'') (
     bind (libc_ptr K (Sbrk 0)) (\<lambda>cur_brk.
     if cur_brk = -1 then
       (seq (printf ''sbrk() not implemented\<newline>'') (
       ret 0))
     else
     bind (libc K (Brk cur_brk)) (\<lambda>r.
     if r \<noteq> 0 then
       (seq (printf ''brk() not implemented\<newline>'') (
       ret 0))
     else
     brk01_loop K inc 0 cur_brk)))))"

definition brk01_main :: "kernel \<Rightarrow> (proc, unit) cprog" where
  "brk01_main K = (bind (brk01_verify_brk K) (\<lambda>r.
     if_then (r \<noteq> 0) (printf ''test succeeded\<newline>'')))"

section \<open>brk02\<close>

definition brk02_brk_variants :: "kernel \<Rightarrow> addr \<Rightarrow> (proc, addr) cprog" where
  "brk02_brk_variants K a = (seq (call (libc K (Brk a))) (
     libc_ptr K (Sbrk 0)))"

definition brk02_brk_down_vmas :: "kernel \<Rightarrow> (proc, int) cprog" where
  "brk02_brk_down_vmas K = (seq (printf ''[I] Testing libc variant\<newline>'') (
     bind (libc_ptr K (Sbrk 0)) (\<lambda>brk_addr.
     if brk_addr = -1 then
       (seq (printf ''sbrk() not implemented\<newline>'') (
       ret 0))
     else
     bind (libc K (Brk brk_addr)) (\<lambda>r.
     if r \<noteq> 0 then
       (seq (printf ''brk() not implemented\<newline>'') (
       ret 0))
     else
     bind (libc K Getpagesize) (\<lambda>page.
     let page_size = word_of_int page in
     bind (brk02_brk_variants K (brk_addr + page_size)) (\<lambda>a1.
     if a1 < brk_addr + page_size then
       (seq (printf_errno ''Cannot expand brk() by page size, error number '' ''\<newline>'') (
       ret 0))
     else
     bind (brk02_brk_variants K (brk_addr + page_size + page_size)) (\<lambda>a2.
     if a2 < brk_addr + page_size + page_size then
       (seq (printf_errno ''Cannot expand brk() by 2x page size, error number '' ''\<newline>'') (
       ret 0))
     else
     bind (libc K (Mprotect (brk_addr + page_size + page_size - page_size) (uint page_size) PROT_READ)) (\<lambda>mp.
     if mp \<noteq> 0 then
       (seq (printf_errno ''Cannot mprotect new VMA, error number '' ''\<newline>'') (
       ret 0))
     else
     bind (brk02_brk_variants K (brk_addr + page_size + page_size + page_size)) (\<lambda>a3.
     if a3 < brk_addr + page_size + page_size + page_size then
       (seq (printf_errno ''Cannot expand brk() after mprotect, error number '' ''\<newline>'') (
       ret 0))
     else
     bind (brk02_brk_variants K brk_addr) (\<lambda>a4.
     if a4 \<noteq> brk_addr then
       (seq (printf_errno ''Cannot restore brk() to start address, error number '' ''\<newline>'') (
       ret 0))
     else
     seq (printf ''munmap at least two VMAs of brk() passed\<newline>'') (
     ret 1)))))))))))"

definition brk02_main :: "kernel \<Rightarrow> (proc, unit) cprog" where
  "brk02_main K = (bind (brk02_brk_down_vmas K) (\<lambda>r.
     if_then (r \<noteq> 0) (printf ''test succeeded\<newline>'')))"

section \<open>Verdicts\<close>

text \<open>The addresses \<^verbatim>\<open>sbrk\<close> reported.\<close>

fun sbrk_values :: "event list \<Rightarrow> addr list" where
  "sbrk_values [] = []"
| "sbrk_values ((c, r) # h) =
     (case c of Me (Sbrk_me d) \<Rightarrow> ptr_of r # sbrk_values h | _ \<Rightarrow> sbrk_values h)"

lemma sbrk_values_append [simp]: "sbrk_values (h @ h') = sbrk_values h @ sbrk_values h'"
  by (induction h rule: sbrk_values.induct) (auto split: syscall.splits mem_call.splits)

text \<open>The reference sequence: the break goes up by \<open>inc\<close>, stays, and comes back, eleven times.\<close>

function brk01_expected :: "addr \<Rightarrow> nat \<Rightarrow> addr \<Rightarrow> addr list" where
  "brk01_expected inc i b =
     (if i < 33 then let b' = brk01_new_brk inc i b in b' # brk01_expected inc (i + 1) b' else [])"
  by pat_completeness auto

termination
  by (relation "measure (\<lambda>(inc, i, b). 33 - i)") auto

declare brk01_expected.simps [simp del]

lemma brk01_cycle:
  "j + k = 11 \<Longrightarrow> brk01_expected inc (3 * j) b = concat (replicate k [b + inc, b + inc, b])"
proof (induction k arbitrary: j)
  case 0
  then show ?case by (simp add: brk01_expected.simps)
next
  case (Suc k)
  have "Suc (3 * j) mod 3 = 1" "Suc (Suc (3 * j)) mod 3 = 2"
    by (simp_all add: mod_Suc)
  moreover from Suc.prems have "3 * j < 33" "Suc (3 * j) < 33" "Suc (Suc (3 * j)) < 33"
    by simp_all
  moreover have "brk01_expected inc (Suc (Suc (Suc (3 * j)))) b = concat (replicate k [b + inc, b + inc, b])"
    using Suc.IH [of "Suc j"] Suc.prems by (simp add: numeral_3_eq_3)
  ultimately show ?case
    by (simp add: brk01_expected.simps [of inc "3 * j"] brk01_expected.simps [of inc "Suc (3 * j)"]
        brk01_expected.simps [of inc "Suc (Suc (3 * j))"] Let_def brk01_new_brk_def)
qed

lemma brk01_loop_runs:
  assumes "clear s"
    and "\<And>r s'. clear s' \<Longrightarrow> prefix (sbrk_values (trace s)) (sbrk_values (trace s')) \<Longrightarrow>
      (\<exists>h. trace s' = trace s @ h) \<Longrightarrow>
      (r \<noteq> 0 \<longleftrightarrow> sbrk_values (trace s') = sbrk_values (trace s) @ brk01_expected inc i b) \<Longrightarrow>
      (stores_ok (trace s') \<longleftrightarrow> stores_ok (trace s)) \<Longrightarrow> P (Ret r, s')"
    and "\<And>g s'. (\<exists>h. trace s' = trace s @ h) \<Longrightarrow> \<not> stores_ok (trace s') \<Longrightarrow> P (Killed g, s')"
  shows "runs (brk01_loop K inc i b) s P"
  using assms
proof (induction K inc i b arbitrary: s rule: brk01_loop.induct)
  case (1 K inc i b)
  show ?case
  proof (cases "i < 33")
    case False
    with 1 show ?thesis
      by (simp add: brk01_loop.simps brk01_expected.simps run_simps clear_def)
  next
    case True
    define n where "n = brk01_new_brk inc i b"
    have exp: "brk01_expected inc i b = n # brk01_expected inc (Suc i) n"
      using True by (simp add: brk01_expected.simps [of inc i] Let_def n_def)
    note IH = 1(1) [OF True n_def, unfolded not_not Suc_eq_plus1 [symmetric]]
    from True 1(2) show ?thesis
      by (subst brk01_loop.simps)
        (auto simp: run_simps clear_def exp n_def [symmetric] intro!: answeredI IH 1(3,4) dest: append_prefixD)
  qed
qed

text \<open>C21. \<^verbatim>\<open>brk01\<close> passes exactly when the break it starts from can be set again, no store at the raised break
  faults, and the addresses reported by \<^verbatim>\<open>sbrk(0)\<close> are the start and then eleven times: two pages less a byte above it,
  the same, the start.\<close>

theorem brk01_verdict:
  "passes (brk01_main K) proc_init \<longleftrightarrow>
   (let h = calls (brk01_main K) proc_init; inc = word_of_int (rv (snd (h ! 0)) * 2 - 1);
        b = ptr_of (snd (h ! 1)) in
     b \<noteq> -1 \<and> rv (snd (h ! 2)) = 0 \<and> stores_ok h \<and>
     sbrk_values h = b # concat (replicate 11 [b + inc, b + inc, b]))"
proof (rule verdictI)
  show "runs (brk01_main K) proc_init (\<lambda>(fl, s'). announced (fl, s') \<longleftrightarrow>
   (let h = trace s'; inc = word_of_int (rv (snd (h ! 0)) * 2 - 1); b = ptr_of (snd (h ! 1)) in
     b \<noteq> -1 \<and> rv (snd (h ! 2)) = 0 \<and> stores_ok h \<and>
     sbrk_values h = b # concat (replicate 11 [b + inc, b + inc, b])))"
    unfolding brk01_main_def brk01_verify_brk_def proc_init_def merges
    by (auto simp: run_simps Let_def clear_def brk01_cycle [of 0 11, simplified]
        split del: if_split cong: run_congs intro!: answeredI brk01_loop_runs)
qed

text \<open>\<^verbatim>\<open>brk02\<close> passes exactly when the break starts somewhere, can be set where it is, moves up at least
  one, two and, after the second page was made read-only, three pages, and comes back to its start.\<close>

theorem brk02_verdict:
  "passes (brk02_main K) proc_init \<longleftrightarrow>
   (let h = calls (brk02_main K) proc_init; b = ptr_of (snd (h ! 0)); p = ptr_of (snd (h ! 2)) in
     b \<noteq> -1 \<and> rv (snd (h ! 1)) = 0 \<and> b + p \<le> ptr_of (snd (h ! 4)) \<and> b + p + p \<le> ptr_of (snd (h ! 6)) \<and>
     rv (snd (h ! 7)) = 0 \<and> b + p + p + p \<le> ptr_of (snd (h ! 9)) \<and> ptr_of (snd (h ! 11)) = b)"
proof (rule verdictI)
  show "runs (brk02_main K) proc_init (\<lambda>(fl, s'). announced (fl, s') \<longleftrightarrow>
    (let h = trace s'; b = ptr_of (snd (h ! 0)); p = ptr_of (snd (h ! 2)) in
     b \<noteq> -1 \<and> rv (snd (h ! 1)) = 0 \<and> b + p \<le> ptr_of (snd (h ! 4)) \<and> b + p + p \<le> ptr_of (snd (h ! 6)) \<and>
     rv (snd (h ! 7)) = 0 \<and> b + p + p + p \<le> ptr_of (snd (h ! 9)) \<and> ptr_of (snd (h ! 11)) = b))"
    unfolding brk02_main_def brk02_brk_down_vmas_def brk02_brk_variants_def proc_init_def merges
    by (simp add: run_simps Let_def cong: run_congs split del: if_split;
        intro answeredI conjI impI allI; simp add: ptr_of_def linorder_not_less)
qed

end
