(* ===== verification/Fcntl_Tests.thy ===== *)
theory Fcntl_Tests
  imports Process
begin

text \<open>
  The fcntl tests (\<^verbatim>\<open>independent tests/syscalls/fcntl/\<close>), except \<^verbatim>\<open>fcntl07\<close> and \<^verbatim>\<open>fcntl12\<close>, which fork:
  duplicating descriptors, descriptor and status flags, and record locks.
\<close>

section \<open>fcntl01\<close>

text \<open>The loop that opens eight files. A \<^verbatim>\<open>return 0\<close> in the middle of \<^verbatim>\<open>main\<close> ends the program as
  \<^verbatim>\<open>exit(0)\<close> does, and is written so in the parts of \<^verbatim>\<open>main\<close>.\<close>

fun fcntl01_open_files :: "kernel \<Rightarrow> int \<Rightarrow> nat list \<Rightarrow> (proc, int list) cprog" where
  "fcntl01_open_files K mypid [] = ret []"
| "fcntl01_open_files K mypid (i # is) =
     bind (libc K (Open (''./fcntl'' @ show_int (int i) @ ''.'' @ show_int mypid) (O_WRONLY OR O_CREAT) mode_0666)) (\<lambda>fd.
     if fd = -1 then seq (printf ''open failed\<newline>'') (c_exit 0)
     else bind (fcntl01_open_files K mypid is) (\<lambda>fds.
       ret (fd # fds)))"

text \<open>Closing four of them and duplicating the second onto their numbers: the descriptors \<^verbatim>\<open>fd[2]\<close>,
  \<^verbatim>\<open>fd[4]\<close> and \<^verbatim>\<open>fd[8]\<close>.\<close>

definition fcntl01_dup :: "kernel \<Rightarrow> int list \<Rightarrow> (proc, int \<times> int \<times> int) cprog" where
  "fcntl01_dup K fd2 = (seq (call (libc K (Close (fd2 ! 2)))) (
     seq (call (libc K (Close (fd2 ! 3)))) (
     seq (call (libc K (Close (fd2 ! 4)))) (
     seq (call (libc K (Close (fd2 ! 5)))) (
     bind (libc K (Fcntl (fd2 ! 1) F_DUPFD 1)) (\<lambda>a.
     if a = -1 then
       (seq (printf_errno ''fcntl(.., 1) failed, error number '' ''\<newline>'') (
       c_exit 0))
     else
     if a < fd2 ! 2 then
       (seq (printf (''new fd has unexpected value: got '' @ show_int a @ '', expected greater than 5\<newline>'')) (
       c_exit 0))
     else
     bind (libc K (Fcntl (fd2 ! 1) F_DUPFD (fd2 ! 3))) (\<lambda>b.
     if b < 0 then
       (seq (printf_errno ''fcntl(.., fd2[3]) failed, error number '' ''\<newline>'') (
       c_exit 0))
     else
     if b < fd2 ! 3 then
       (seq (printf (''new fd has unexpected value, got '' @ show_int b @ '', expect greater than '' @ show_int (fd2 ! 3) @ ''\<newline>'')) (
       c_exit 0))
     else
     bind (libc K (Fcntl (fd2 ! 1) F_DUPFD (fd2 ! 5))) (\<lambda>c.
     if c < 0 then
       (seq (printf_errno ''fcntl(.., fd2[5]) failed, error number '' ''\<newline>'') (
       c_exit 0))
     else
     if c \<noteq> fd2 ! 5 then
       (seq (printf (''new fd has unexpected value: got '' @ show_int c @ '', expected '' @ show_int (fd2 ! 5) @ ''\<newline>'')) (
       c_exit 0))
     else
     ret (a, b, c)))))))))"

text \<open>The status flags and the descriptor flag of \<^verbatim>\<open>fd[2]\<close>.\<close>

abbreviation (input) show_flags :: "int \<Rightarrow> string" where
  "show_flags f \<equiv> show_hex (unat (word_of_int f :: 32 word))"

definition fcntl01_status_flags :: "kernel \<Rightarrow> int \<Rightarrow> (proc, unit) cprog" where
  "fcntl01_status_flags K fd = (bind (libc K (Fcntl fd F_GETFL 0)) (\<lambda>flags1.
     if (flags1 AND O_WRONLY) = 0 then
       (seq (printf (''unexpected flag 0x'' @ show_flags flags1 @ '', expected 0x1\<newline>'')) (
       c_exit 0))
     else
     bind (libc K (Fcntl fd F_SETFL O_NDELAY)) (\<lambda>r1.
     if r1 = -1 then
       (seq (printf ''fcntl(.., O_NDELAY) failed\<newline>'') (
       c_exit 0))
     else
     bind (libc K (Fcntl fd F_GETFL 0)) (\<lambda>flags2.
     if (flags2 AND (O_NDELAY OR O_WRONLY)) = 0 then
       (seq (printf (''unexpected flag 0x'' @ show_flags flags2 @ '', expected 0x801\<newline>'')) (
       c_exit 0))
     else
     bind (libc K (Fcntl fd F_SETFL O_APPEND)) (\<lambda>r2.
     if r2 = -1 then
       (seq (printf_errno ''fcntl(.., O_APPEND) failed, error number '' ''\<newline>'') (
       c_exit 0))
     else
     bind (libc K (Fcntl fd F_GETFL 0)) (\<lambda>flags3.
     if (flags3 AND (O_APPEND OR O_WRONLY)) = 0 then
       (seq (printf (''unexpected flag ox'' @ show_flags flags3 @ '', expected 0x401\<newline>'')) (
       c_exit 0))
     else
     bind (libc K (Fcntl fd F_SETFL (O_NDELAY OR O_APPEND))) (\<lambda>r3.
     if r3 < 0 then
       (seq (printf ''fcntl(.., O_NDELAY|O_APPEND) failed\<newline>'') (
       c_exit 0))
     else
     bind (libc K (Fcntl fd F_GETFL 0)) (\<lambda>flags4.
     if (flags4 AND (O_NDELAY OR O_APPEND OR O_WRONLY)) = 0 then
       (seq (printf (''unexpected flag 0x'' @ show_flags flags4 @ '', expected 0x101c01\<newline>'')) (
       c_exit 0))
     else
     bind (libc K (Fcntl fd F_SETFL 0)) (\<lambda>r4.
     if r4 = -1 then
       (seq (printf ''fcntl(.., 0) failed\<newline>'') (
       c_exit 0))
     else
     bind (libc K (Fcntl fd F_GETFL 0)) (\<lambda>flags5.
     if (flags5 AND O_WRONLY) = 0 then
       (seq (printf (''unexpected flag 0x'' @ show_flags flags5 @ '', expected 0x1\<newline>'')) (
       c_exit 0))
     else
     skip))))))))))"

definition fcntl01_fd_flags :: "kernel \<Rightarrow> int \<Rightarrow> (proc, unit) cprog" where
  "fcntl01_fd_flags K fd = (bind (libc K (Fcntl fd F_GETFD 0)) (\<lambda>flags6.
     if flags6 < 0 then
       (seq (printf_errno ''fcntl(.., F_GETFD, ..) #1 failed, error number '' []) (
       c_exit 0))
     else
     if flags6 \<noteq> 0 then
       (seq (printf (''unexpected flags got 0x'' @ show_flags flags6 @ '' expected 0x0\<newline>'')) (
       c_exit 0))
     else
     bind (libc K (Fcntl fd F_SETFD 1)) (\<lambda>flags7.
     if flags7 = -1 then
       (seq (printf ''fcntl(.., F_SETFD, ..) failed\<newline>'') (
       c_exit 0))
     else
     bind (libc K (Fcntl fd F_GETFD 0)) (\<lambda>flags8.
     if flags8 = -1 then
       (seq (printf_errno ''fcntl(.., F_GETFD, ..) #2 failed, error number '' ''\<newline>'') (
       c_exit 0))
     else
     if flags8 \<noteq> 1 then
       (seq (printf (''unexpected flags, got 0x'' @ show_flags flags8 @ '', expected 0x1\<newline>'')) (
       c_exit 0))
     else
     skip))))"

fun fcntl01_unlink_files :: "kernel \<Rightarrow> int \<Rightarrow> nat list \<Rightarrow> (proc, unit) cprog" where
  "fcntl01_unlink_files K mypid [] = skip"
| "fcntl01_unlink_files K mypid (i # is) =
     bind (libc K (Unlink (''./fcntl'' @ show_int (int i) @ ''.'' @ show_int mypid))) (\<lambda>r.
     if r = -1 then
       seq (printf_errno (''unlinking ./fcntl'' @ show_int (int i) @ ''.'' @ show_int mypid @ '' failed, error number '') ''\<newline>'')
         (c_exit 0)
     else fcntl01_unlink_files K mypid is)"

text \<open>\<^verbatim>\<open>setup\<close> and \<^verbatim>\<open>cleanup\<close> are empty. The ten descriptors closed at the end are the eight of the files,
  with the duplicates in places 2 and 4, then \<^verbatim>\<open>fd[8]\<close>, and \<^verbatim>\<open>fd[9]\<close>, which was never set.\<close>

definition fcntl01_main :: "kernel \<Rightarrow> (proc, int) cprog" where
  "fcntl01_main K = (bind (libc K Getpid) (\<lambda>mypid.
     bind (fcntl01_open_files K mypid [0, 1, 2, 3, 4, 5, 6, 7]) (\<lambda>fd2.
     bind (fcntl01_dup K fd2) (\<lambda>(fd_2, fd_4, fd_8).
     seq (fcntl01_status_flags K fd_2) (
     seq (fcntl01_fd_flags K fd_2) (
     bind (indet K ''fd[9]'') (\<lambda>fd_9.
     seq (block (map (\<lambda>fd. call (libc K (Close fd)))
       [fd2 ! 0, fd2 ! 1, fd_2, fd2 ! 3, fd_4, fd2 ! 5, fd2 ! 6, fd2 ! 7, fd_8, fd_9])) (
     seq (fcntl01_unlink_files K mypid [0, 1, 2, 3, 4, 5, 6, 7]) (
     seq (printf ''test succeeded\<newline>'') (
     ret 0))))))))))"

section \<open>fcntl02\<close>

record fcntl02 = proc +
  f02_fd :: int
  f02_fname :: string

definition fcntl02_init :: fcntl02 where
  "fcntl02_init = \<lparr>errno = 0, out = no_output, trace = [], f02_fd = 0, f02_fname = []\<rparr>"

definition fcntl02_min_fds :: "int list" where
  "fcntl02_min_fds = [0, 1, 2, 3, 10, 100]"

definition fcntl02_verify_fcntl :: "kernel \<Rightarrow> nat \<Rightarrow> (fcntl02, int) cprog" where
  "fcntl02_verify_fcntl K n = (let min_fd = fcntl02_min_fds ! n in
     bind (gets f02_fd) (\<lambda>fd.
     bind (gets f02_fname) (\<lambda>fname.
     bind (libc K (Fcntl fd F_DUPFD min_fd)) (\<lambda>r.
     if r = -1 then
       (seq (printf_errno (''fcntl('' @ fname @ '', F_DUPFD, '' @ show_int min_fd @ '') failed, error number '') ''\<newline>'') (
       ret 0))
     else
     if r < min_fd then
       (seq (printf (''fcntl('' @ fname @ '', F_DUPFD, '' @ show_int min_fd @ '') returned '' @ show_int r @ '' < '' @ show_int min_fd @ ''\<newline>'')) (
       ret 0))
     else
     seq (printf (''fcntl('' @ fname @ '', F_DUPFD, '' @ show_int min_fd @ '') returned '' @ show_int r @ ''\<newline>'')) (
     seq (call (libc K (Close r))) (
     ret 1))))))"

definition fcntl02_setup :: "kernel \<Rightarrow> (fcntl02, unit) cprog" where
  "fcntl02_setup K = (bind (libc K Getpid) (\<lambda>pid.
     seq (modify (\<lambda>s. s\<lparr>f02_fname := ''fcntl02_'' @ show_int pid\<rparr>)) (
     bind (gets f02_fname) (\<lambda>fname.
     bind (libc K (Open fname (O_RDWR OR O_CREAT) mode_0700)) (\<lambda>fd.
     modify (\<lambda>s. s\<lparr>f02_fd := fd\<rparr>))))))"

definition fcntl02_cleanup :: "kernel \<Rightarrow> (fcntl02, unit) cprog" where
  "fcntl02_cleanup K = bind (gets f02_fd) (\<lambda>fd. if_then (fd > 0) (call (libc K (Close fd))))"

definition fcntl02_main :: "kernel \<Rightarrow> (fcntl02, unit) cprog" where
  "fcntl02_main K = (seq (fcntl02_setup K) (
     bind (mult_cases (fcntl02_verify_fcntl K) [0..<6] 1) (\<lambda>ok.
     seq (if_then (ok \<noteq> 0) (printf ''test succeeded'')) (
     fcntl02_cleanup K))))"

section \<open>fcntl03\<close>

record fcntl03 = proc +
  f03_fd :: int
  f03_fname :: string

definition fcntl03_init :: fcntl03 where
  "fcntl03_init = \<lparr>errno = 0, out = no_output, trace = [], f03_fd = 0, f03_fname = []\<rparr>"

definition fcntl03_verify_fcntl :: "kernel \<Rightarrow> (fcntl03, int) cprog" where
  "fcntl03_verify_fcntl K = (bind (gets f03_fd) (\<lambda>fd.
     bind (gets f03_fname) (\<lambda>fname.
     bind (libc K (Fcntl fd F_GETFD 0)) (\<lambda>r.
     if r = -1 then
       (seq (printf_errno (''fcntl('' @ fname @ '', F_GETFD, 0) failed, error number '') ''\<newline>'') (
       ret 0))
     else
     seq (printf (''fcntl('' @ fname @ '', F_GETFD, 0) returned '' @ show_int r @ ''\<newline>'')) (
     ret 1)))))"

definition fcntl03_setup :: "kernel \<Rightarrow> (fcntl03, unit) cprog" where
  "fcntl03_setup K = (bind (libc K Getpid) (\<lambda>pid.
     seq (modify (\<lambda>s. s\<lparr>f03_fname := ''fcntl03_'' @ show_int pid\<rparr>)) (
     bind (gets f03_fname) (\<lambda>fname.
     bind (libc K (Open fname (O_RDWR OR O_CREAT) mode_0700)) (\<lambda>fd.
     modify (\<lambda>s. s\<lparr>f03_fd := fd\<rparr>))))))"

definition fcntl03_cleanup :: "kernel \<Rightarrow> (fcntl03, unit) cprog" where
  "fcntl03_cleanup K = bind (gets f03_fd) (\<lambda>fd. if_then (fd > 0) (call (libc K (Close fd))))"

definition fcntl03_main :: "kernel \<Rightarrow> (fcntl03, unit) cprog" where
  "fcntl03_main K = (seq (fcntl03_setup K) (
     bind (fcntl03_verify_fcntl K) (\<lambda>r.
     seq (if_then (r \<noteq> 0) (printf ''test succeeded\<newline>'')) (
     fcntl03_cleanup K))))"

section \<open>fcntl04\<close>

record fcntl04 = proc +
  f04_fd :: int
  f04_fname :: string

definition fcntl04_init :: fcntl04 where
  "fcntl04_init = \<lparr>errno = 0, out = no_output, trace = [], f04_fd = 0, f04_fname = []\<rparr>"

definition fcntl04_verify_fcntl :: "kernel \<Rightarrow> (fcntl04, int) cprog" where
  "fcntl04_verify_fcntl K = (bind (gets f04_fd) (\<lambda>fd.
     bind (gets f04_fname) (\<lambda>fname.
     bind (libc K (Fcntl fd F_GETFL 0)) (\<lambda>r.
     if r = -1 then
       (seq (printf_errno (''fcntl('' @ fname @ '', F_GETFL, 0) failed, error number '') ''\<newline>'') (
       ret 0))
     else
     if (r AND O_ACCMODE) \<noteq> O_RDWR then
       (seq (printf (''fcntl('' @ fname @ '', F_GETFL, 0) returned wrong access mode '' @ show_int (r AND O_ACCMODE) @ '', expected 2\<newline>'')) (
       ret 0))
     else
     seq (printf (''fcntl('' @ fname @ '', F_GETFL, 0) returned '' @ show_hex (nat r) @ ''\<newline>'')) (
     ret 1)))))"

definition fcntl04_setup :: "kernel \<Rightarrow> (fcntl04, unit) cprog" where
  "fcntl04_setup K = (bind (libc K Getpid) (\<lambda>pid.
     seq (modify (\<lambda>s. s\<lparr>f04_fname := ''fcntl04_'' @ show_int pid\<rparr>)) (
     bind (gets f04_fname) (\<lambda>fname.
     bind (libc K (Open fname (O_RDWR OR O_CREAT) mode_0700)) (\<lambda>fd.
     modify (\<lambda>s. s\<lparr>f04_fd := fd\<rparr>))))))"

definition fcntl04_cleanup :: "kernel \<Rightarrow> (fcntl04, unit) cprog" where
  "fcntl04_cleanup K = bind (gets f04_fd) (\<lambda>fd. if_then (fd > 0) (call (libc K (Close fd))))"

definition fcntl04_main :: "kernel \<Rightarrow> (fcntl04, unit) cprog" where
  "fcntl04_main K = (seq (fcntl04_setup K) (
     bind (fcntl04_verify_fcntl K) (\<lambda>r.
     seq (if_then (r \<noteq> 0) (printf ''test succeeded\<newline>'')) (
     fcntl04_cleanup K))))"

section \<open>fcntl05\<close>

record fcntl05 = proc +
  f05_fd :: int
  f05_pid :: int
  f05_flocks :: flock

definition fcntl05_init :: fcntl05 where
  "fcntl05_init = \<lparr>errno = 0, out = no_output, trace = [], f05_fd = -1, f05_pid = 0,
     f05_flocks = \<lparr>l_type = 0, l_whence = 0, l_start = 0, l_len = 0, l_pid = 0\<rparr>\<rparr>"

text \<open>What \<^verbatim>\<open>F_GETLK\<close> stores into \<^verbatim>\<open>flocks\<close> is never read.\<close>

definition fcntl05_verify_fcntl :: "kernel \<Rightarrow> (fcntl05, int) cprog" where
  "fcntl05_verify_fcntl K = (seq (modify (\<lambda>s. s\<lparr>f05_flocks := (f05_flocks s)\<lparr>l_type := F_RDLCK\<rparr>\<rparr>)) (
     bind (gets f05_fd) (\<lambda>fd.
     bind (gets f05_flocks) (\<lambda>fl.
     bind (libc K (FcntlLk fd F_GETLK fl)) (\<lambda>r.
     let ok = (if r \<noteq> -1 then 1 else 0) in
     seq (if_then (ok \<noteq> 0) (printf (''fcntl('' @ show_int fd @ '', F_GETLK, &flocks)\<newline>''))) (
     ret ok))))))"

definition fcntl05_setup :: "kernel \<Rightarrow> (fcntl05, unit) cprog" where
  "fcntl05_setup K = (bind (libc K Getpid) (\<lambda>pid.
     seq (modify (\<lambda>s. s\<lparr>f05_pid := pid\<rparr>)) (
     bind (libc K (Open ''filename'' (O_RDWR OR O_CREAT) mode_0700)) (\<lambda>fd.
     seq (modify (\<lambda>s. s\<lparr>f05_fd := fd\<rparr>)) (
     modify (\<lambda>s. s\<lparr>f05_flocks := (f05_flocks s)\<lparr>l_whence := SEEK_CUR, l_start := 0, l_len := 0, l_pid := pid\<rparr>\<rparr>))))))"

definition fcntl05_cleanup :: "kernel \<Rightarrow> (fcntl05, unit) cprog" where
  "fcntl05_cleanup K = bind (gets f05_fd) (\<lambda>fd. if_then (fd > -1) (call (libc K (Close fd))))"

definition fcntl05_main :: "kernel \<Rightarrow> (fcntl05, unit) cprog" where
  "fcntl05_main K = (seq (fcntl05_setup K) (
     bind (fcntl05_verify_fcntl K) (\<lambda>r.
     seq (if_then (r \<noteq> 0) (printf ''test succeeded\<newline>'')) (
     fcntl05_cleanup K))))"

section \<open>fcntl06\<close>

record fcntl06 = proc +
  f06_fd :: int

definition fcntl06_init :: fcntl06 where
  "fcntl06_init = \<lparr>errno = 0, out = no_output, trace = [], f06_fd = 0\<rparr>"

definition fcntl06_setup :: "kernel \<Rightarrow> (fcntl06, unit) cprog" where
  "fcntl06_setup K = (seq (call (libc K (Umask 0))) (
     bind (libc K (Mkstemp ''fcntl06XXXXXX'')) (\<lambda>fd.
     seq (modify (\<lambda>s. s\<lparr>f06_fd := fd\<rparr>)) (
     if fd = -1 then
       (seq (printf_errno ''mkstemp failed, error number '' ''\<newline>'') (
       c_exit 0))
     else
     bind (libc K (Write fd (Bytes ''abcdefghijklmnopqrstuvwxyz\<newline>'') 27)) (\<lambda>r.
     if_then (r = -1) (seq (printf_errno ''write failed, error number '' ''\<newline>'') (
       c_exit 0)))))))"

text \<open>\<^verbatim>\<open>l_pid\<close> is left uninitialised.\<close>

definition fcntl06_do_lock :: "kernel \<Rightarrow> int \<Rightarrow> int \<Rightarrow> int \<Rightarrow> int \<Rightarrow> int \<Rightarrow> (fcntl06, int) cprog" where
  "fcntl06_do_lock K cmd type whence start len = (bind (indet K ''fl.l_pid'') (\<lambda>pid.
     bind (gets f06_fd) (\<lambda>fd.
     libc K (FcntlLk fd cmd \<lparr>l_type = type, l_whence = whence, l_start = start, l_len = len, l_pid = pid\<rparr>))))"

definition fcntl06_unlock_file :: "kernel \<Rightarrow> (fcntl06, unit) cprog" where
  "fcntl06_unlock_file K = (bind (fcntl06_do_lock K 11 F_UNLCK 0 0 0) (\<lambda>r.
     if_then (r = -1) (printf ''fcntl on file failed\<newline>test succeeded\<newline>'')))"

definition fcntl06_cleanup :: "kernel \<Rightarrow> (fcntl06, unit) cprog" where
  "fcntl06_cleanup K = (bind (gets f06_fd) (\<lambda>fd.
     bind (libc K (Close fd)) (\<lambda>r.
     if_then (r = -1) (printf ''close failed\<newline>''))))"

text \<open>\<^verbatim>\<open>LINUX_FILE_REGION_LOCK\<close> is defined nowhere: \<^verbatim>\<open>main\<close> is its \<^verbatim>\<open>#else\<close> branch.\<close>

definition fcntl06_main :: "kernel \<Rightarrow> (fcntl06, unit) cprog" where
  "fcntl06_main K = (seq (fcntl06_setup K) (
     seq (printf ''system doesn't have LINUX_LOCK_FILE_REGION support\<newline>'') (
     fcntl06_cleanup K)))"

section \<open>fcntl08\<close>

record fcntl08 = proc +
  f08_fd :: int

definition fcntl08_init :: fcntl08 where
  "fcntl08_init = \<lparr>errno = 0, out = no_output, trace = [], f08_fd = 0\<rparr>"

definition fcntl08_setup :: "kernel \<Rightarrow> (fcntl08, unit) cprog" where
  "fcntl08_setup K = (bind (libc K (Open ''test_file'' (O_RDWR OR O_CREAT) mode_0700)) (\<lambda>fd.
     modify (\<lambda>s. s\<lparr>f08_fd := fd\<rparr>)))"

definition fcntl08_cleanup :: "kernel \<Rightarrow> (fcntl08, unit) cprog" where
  "fcntl08_cleanup K = (bind (gets f08_fd) (\<lambda>fd.
     bind (libc K (Close fd)) (\<lambda>r.
     if_then (r = -1) (printf ''close failed\<newline>''))))"

definition fcntl08_main :: "kernel \<Rightarrow> (fcntl08, unit) cprog" where
  "fcntl08_main K = (seq (fcntl08_setup K) (
     bind (gets f08_fd) (\<lambda>fd.
     bind (libc K (Fcntl fd F_SETFL (O_NDELAY OR O_APPEND OR O_NONBLOCK))) (\<lambda>r.
     seq (if r = -1 then printf_errno ''fcntl failed, error number '' ''\<newline>''
       else printf (''fcntl returned '' @ show_int r @ ''\<newline>test succeeded\<newline>'')) (
     fcntl08_cleanup K)))))"

section \<open>fcntl09\<close>

record fcntl09 = proc +
  f09_fname :: string
  f09_fd :: int
  f09_flocks :: flock

definition fcntl09_init :: fcntl09 where
  "fcntl09_init = \<lparr>errno = 0, out = no_output, trace = [], f09_fname = [], f09_fd = 0,
     f09_flocks = \<lparr>l_type = 0, l_whence = 0, l_start = 0, l_len = 0, l_pid = 0\<rparr>\<rparr>"

definition fcntl09_cleanup :: "kernel \<Rightarrow> (fcntl09, unit) cprog" where
  "fcntl09_cleanup K = (bind (gets f09_fd) (\<lambda>fd.
     bind (gets f09_fname) (\<lambda>fname.
     bind (libc K (Close fd)) (\<lambda>r.
     if r = -1 then printf_errno (''close('' @ fname @ '') Failed, errno='') ''\<newline>''
     else (bind (libc K (Unlink fname)) (\<lambda>u.
       if_then (u = -1) (printf_errno (''unlink('' @ fname @ '') Failed, errno='') ''\<newline>'')))))))"

definition fcntl09_setup :: "kernel \<Rightarrow> (fcntl09, unit) cprog" where
  "fcntl09_setup K = (bind (libc K Getpid) (\<lambda>pid.
     let fname = ''./file_'' @ show_int pid in
     seq (modify (\<lambda>s. s\<lparr>f09_fname := fname\<rparr>)) (
     bind (libc K (Creat fname mode_0644)) (\<lambda>fd0.
     seq (modify (\<lambda>s. s\<lparr>f09_fd := fd0\<rparr>)) (
     if fd0 = -1 then
       (seq (printf_errno (''creat('' @ fname @ '', 0644) Failed, errno='') []) (
       seq (fcntl09_cleanup K) (
       c_exit 0)))
     else
     bind (libc K (Close fd0)) (\<lambda>c.
     if c = -1 then
       (seq (printf_errno (''close('' @ fname @ '') Failed, errno='') ''\<newline>'') (
       seq (fcntl09_cleanup K) (
       c_exit 0)))
     else
     bind (libc K (Open fname O_RDWR mode_0700)) (\<lambda>fd.
     seq (modify (\<lambda>s. s\<lparr>f09_fd := fd\<rparr>)) (
     if fd = -1 then
       (seq (printf_errno (''open('' @ fname @ '', O_RDWR,0700) Failed, errno='') ''\<newline>'') (
       seq (fcntl09_cleanup K) (
       c_exit 0)))
     else
     seq (modify (\<lambda>s. s\<lparr>f09_flocks := (f09_flocks s)\<lparr>l_whence := 1, l_start := 0, l_len := 0\<rparr>\<rparr>)) (
     bind (libc K Getpid) (\<lambda>pid'.
     modify (\<lambda>s. s\<lparr>f09_flocks := (f09_flocks s)\<lparr>l_pid := pid'\<rparr>\<rparr>)))))))))))"

text \<open>One round of the loop in \<^verbatim>\<open>main\<close>: lock, then unlock; it returns the new value of \<^verbatim>\<open>ok\<close>.\<close>

definition fcntl09_round :: "kernel \<Rightarrow> int \<Rightarrow> int \<Rightarrow> (fcntl09, int) cprog" where
  "fcntl09_round K type ok = (let lname = (if type \<noteq> 0 then ''F_RDLCK'' else ''F_WRLCK'') in
     seq (modify (\<lambda>s. s\<lparr>f09_flocks := (f09_flocks s)\<lparr>l_type := (if type \<noteq> 0 then F_RDLCK else F_WRLCK)\<rparr>\<rparr>)) (
     bind (gets f09_fd) (\<lambda>fd.
     bind (gets f09_fname) (\<lambda>fname.
     bind (gets f09_flocks) (\<lambda>fl.
     bind (libc K (FcntlLk fd F_SETLK fl)) (\<lambda>r.
     seq (if r = -1
       then printf_errno (''fcntl('' @ fname @ '', F_SETLK, &flocks) flocks.l_type = '' @ lname @ '' Failed, errno='') ''\<newline>''
       else printf (''fcntl('' @ fname @ '', F_SETLK, &flocks) flocks.l_type = '' @ lname @ '' returned '' @ show_int r @ ''\<newline>'')) (
     let ok1 = (if r = -1 then 0 else ok) in
     seq (modify (\<lambda>s. s\<lparr>f09_flocks := (f09_flocks s)\<lparr>l_type := F_UNLCK\<rparr>\<rparr>)) (
     bind (gets f09_flocks) (\<lambda>fl'.
     bind (libc K (FcntlLk fd F_SETLK fl')) (\<lambda>u.
     seq (if u = -1
       then printf_errno (''fcntl('' @ fname @ '', F_SETLK, &flocks) flocks.l_type = F_UNLCK Failed, errno='') ''\<newline>''
       else printf (''fcntl('' @ fname @ '', F_SETLK, &flocks) flocks.l_type = F_UNLCK returned '' @ show_int u @ ''\<newline>'')) (
     ret (if u = -1 then 0 else ok1))))))))))))"

definition fcntl09_main :: "kernel \<Rightarrow> (fcntl09, unit) cprog" where
  "fcntl09_main K = (seq (fcntl09_setup K) (
     bind (fcntl09_round K 0 1) (\<lambda>ok0.
     bind (fcntl09_round K 1 ok0) (\<lambda>ok.
     seq (if_then (ok \<noteq> 0) (printf ''test succeeded\<newline>'')) (
     fcntl09_cleanup K)))))"

section \<open>fcntl10\<close>

record fcntl10 = proc +
  f10_fname :: string
  f10_fd :: int
  f10_flocks :: flock

definition fcntl10_init :: fcntl10 where
  "fcntl10_init = \<lparr>errno = 0, out = no_output, trace = [], f10_fname = [], f10_fd = 0,
     f10_flocks = \<lparr>l_type = 0, l_whence = 0, l_start = 0, l_len = 0, l_pid = 0\<rparr>\<rparr>"

definition fcntl10_cleanup :: "kernel \<Rightarrow> (fcntl10, unit) cprog" where
  "fcntl10_cleanup K = (bind (gets f10_fd) (\<lambda>fd.
     bind (gets f10_fname) (\<lambda>fname.
     bind (libc K (Close fd)) (\<lambda>r.
     if r = -1 then printf_errno (''close('' @ fname @ '') Failed, errno='') ''\<newline>''
     else (bind (libc K (Unlink fname)) (\<lambda>u.
       if_then (u = -1) (printf_errno (''unlink('' @ fname @ '') Failed, errno='') ''\<newline>'')))))))"

definition fcntl10_setup :: "kernel \<Rightarrow> (fcntl10, unit) cprog" where
  "fcntl10_setup K = (bind (libc K Getpid) (\<lambda>pid.
     let fname = ''tfile_'' @ show_int pid in
     seq (modify (\<lambda>s. s\<lparr>f10_fname := fname\<rparr>)) (
     bind (libc K (Creat fname mode_0644)) (\<lambda>fd0.
     seq (modify (\<lambda>s. s\<lparr>f10_fd := fd0\<rparr>)) (
     if fd0 = -1 then
       (seq (printf_errno (''creat('' @ fname @ '', 0644) Failed, errno='') ''\<newline>'') (
       seq (fcntl10_cleanup K) (
       c_exit 0)))
     else
     bind (libc K (Close fd0)) (\<lambda>c.
     if c = -1 then
       (seq (printf_errno (''close('' @ fname @ '') Failed, errno='') ''\<newline>'') (
       seq (fcntl10_cleanup K) (
       c_exit 0)))
     else
     bind (libc K (Open fname O_RDWR mode_0700)) (\<lambda>fd.
     seq (modify (\<lambda>s. s\<lparr>f10_fd := fd\<rparr>)) (
     if fd = -1 then
       (seq (printf_errno (''open('' @ fname @ '', O_RDWR,0700) Failed, errno='') ''\<newline>'') (
       seq (fcntl10_cleanup K) (
       c_exit 0)))
     else
     seq (modify (\<lambda>s. s\<lparr>f10_flocks := (f10_flocks s)\<lparr>l_whence := 1, l_start := 0, l_len := 0\<rparr>\<rparr>)) (
     bind (libc K Getpid) (\<lambda>pid'.
     modify (\<lambda>s. s\<lparr>f10_flocks := (f10_flocks s)\<lparr>l_pid := pid'\<rparr>\<rparr>)))))))))))"

text \<open>One round of the loop in \<^verbatim>\<open>main\<close>: lock, then unlock; it returns the new value of \<^verbatim>\<open>ok\<close>.\<close>

definition fcntl10_round :: "kernel \<Rightarrow> int \<Rightarrow> int \<Rightarrow> (fcntl10, int) cprog" where
  "fcntl10_round K type ok = (let lname = (if type \<noteq> 0 then ''F_RDLCK'' else ''F_WRLCK'') in
     seq (modify (\<lambda>s. s\<lparr>f10_flocks := (f10_flocks s)\<lparr>l_type := (if type \<noteq> 0 then F_RDLCK else F_WRLCK)\<rparr>\<rparr>)) (
     bind (gets f10_fd) (\<lambda>fd.
     bind (gets f10_fname) (\<lambda>fname.
     bind (gets f10_flocks) (\<lambda>fl.
     bind (libc K (FcntlLk fd F_SETLKW fl)) (\<lambda>r.
     seq (if r = -1
       then printf_errno (''fcntl('' @ fname @ '', F_SETLKW, &flocks) flocks.l_type = '' @ lname @ '' Failed, errno='') ''\<newline>''
       else printf (''fcntl('' @ fname @ '', F_SETLKW, &flocks) flocks.l_type = '' @ lname @ '' returned '' @ show_int r @ ''\<newline>'')) (
     let ok1 = (if r = -1 then 0 else ok) in
     seq (modify (\<lambda>s. s\<lparr>f10_flocks := (f10_flocks s)\<lparr>l_type := F_UNLCK\<rparr>\<rparr>)) (
     bind (gets f10_flocks) (\<lambda>fl'.
     bind (libc K (FcntlLk fd F_SETLKW fl')) (\<lambda>u.
     seq (if u = -1
       then printf_errno (''fcntl('' @ fname @ '', F_SETLKW, &flocks) flocks.l_type = F_UNLCK Failed, errno='') ''\<newline>''
       else printf (''fcntl('' @ fname @ '', F_SETLKW, &flocks) flocks.l_type = F_UNLCK returned '' @ show_int u @ ''\<newline>'')) (
     ret (if u = -1 then 0 else ok1))))))))))))"

definition fcntl10_main :: "kernel \<Rightarrow> (fcntl10, unit) cprog" where
  "fcntl10_main K = (seq (fcntl10_setup K) (
     bind (fcntl10_round K 0 1) (\<lambda>ok0.
     bind (fcntl10_round K 1 ok0) (\<lambda>ok.
     seq (if_then (ok \<noteq> 0) (printf ''test succeeded\<newline>'')) (
     fcntl10_cleanup K)))))"

section \<open>Verdicts\<close>

text \<open>The status flag part of \<^verbatim>\<open>fcntl01\<close> goes through exactly when no F_SETFL is refused and every F_GETFL answer has
  one of the bits looked for; a refused F_GETFL, which returns -1, has them all.\<close>

theorem fcntl01_flags_verdict:
  "(fst (fcntl01_status_flags K fd proc_init) = Ret ()) \<longleftrightarrow>
   (let v = (\<lambda>i. rv (snd (calls (fcntl01_status_flags K fd) proc_init ! i))) in
     v 0 AND O_WRONLY \<noteq> 0 \<and> 0 \<le> v 1 \<and> v 2 AND (O_NDELAY OR O_WRONLY) \<noteq> 0 \<and> 0 \<le> v 3 \<and>
     v 4 AND (O_APPEND OR O_WRONLY) \<noteq> 0 \<and> 0 \<le> v 5 \<and>
     v 6 AND (O_NDELAY OR O_APPEND OR O_WRONLY) \<noteq> 0 \<and> 0 \<le> v 7 \<and> v 8 AND O_WRONLY \<noteq> 0)"
proof -
  have "runs (fcntl01_status_flags K fd) proc_init (\<lambda>(fl, s'). fl = Ret () \<longleftrightarrow>
   (let v = (\<lambda>i. rv (snd (trace s' ! i))) in
     v 0 AND O_WRONLY \<noteq> 0 \<and> 0 \<le> v 1 \<and> v 2 AND (O_NDELAY OR O_WRONLY) \<noteq> 0 \<and> 0 \<le> v 3 \<and>
     v 4 AND (O_APPEND OR O_WRONLY) \<noteq> 0 \<and> 0 \<le> v 5 \<and>
     v 6 AND (O_NDELAY OR O_APPEND OR O_WRONLY) \<noteq> 0 \<and> 0 \<le> v 7 \<and> v 8 AND O_WRONLY \<noteq> 0))"
    unfolding fcntl01_status_flags_def proc_init_def merges
    by (simp add: run_simps Let_def cong: run_congs split del: if_split;
        intro answeredI conjI impI allI; simp add: rv_not_m1)
  then show ?thesis
    by (auto simp: runs_def calls_def Let_def split: prod.splits)
qed

text \<open>The lower bounds asked of F_DUPFD in a history, each with the descriptor it returned.\<close>

fun dup_results :: "event list \<Rightarrow> (int \<times> int) list" where
  "dup_results [] = []"
| "dup_results ((c, r) # h) = (case c of
     Io (Fcntl_io fd cmd n) \<Rightarrow> if cmd = F_DUPFD then (n, rv r) # dup_results h else dup_results h
   | _ \<Rightarrow> dup_results h)"

lemma dup_results_append [simp]: "dup_results (h @ h') = dup_results h @ dup_results h'"
  by (induction h rule: dup_results.induct) (auto split: syscall.splits io_call.splits)

lemma fcntl02_case_runs:
  assumes "clear s" and "scan 0 (f02_fname s) = 0" and "0 \<le> fcntl02_min_fds ! n"
    and "\<And>r v s'. clear s' \<Longrightarrow> scan 0 (f02_fname s') = 0 \<Longrightarrow>
      dup_results (trace s') = dup_results (trace s) @ [(fcntl02_min_fds ! n, v)] \<Longrightarrow>
      (r \<noteq> 0 \<longleftrightarrow> fcntl02_min_fds ! n \<le> v) \<Longrightarrow> P (Ret r, s')"
  shows "runs (fcntl02_verify_fcntl K n) s P"
  using assms(1-3) unfolding fcntl02_verify_fcntl_def
  by (auto simp: run_simps clear_def Let_def intro!: answeredI assms(4))

lemma fcntl02_cases_runs:
  assumes "clear s" and "scan 0 (f02_fname s) = 0" and "list_all (\<lambda>n. 0 \<le> fcntl02_min_fds ! n) ns"
    and "\<And>ok' rs s'. clear s' \<Longrightarrow> dup_results (trace s') = dup_results (trace s) @ rs \<Longrightarrow>
      map fst rs = map ((!) fcntl02_min_fds) ns \<Longrightarrow>
      (ok' \<noteq> 0 \<longleftrightarrow> ok \<noteq> 0 \<and> list_all (\<lambda>(m, v). m \<le> v) rs) \<Longrightarrow> P (Ret ok', s')"
  shows "runs (mult_cases (fcntl02_verify_fcntl K) ns ok) s P"
  using assms
proof (induction ns arbitrary: s ok)
  case Nil
  then show ?case by (simp add: run_simps)
next
  case (Cons n ns)
  show ?case
    unfolding mult_cases.simps runs_bind
  proof (rule fcntl02_case_runs)
    fix r v :: int and s' :: fcntl02
    assume "clear s'" "scan 0 (f02_fname s') = 0"
      and "dup_results (trace s') = dup_results (trace s) @ [(fcntl02_min_fds ! n, v)]"
      and "r \<noteq> 0 \<longleftrightarrow> fcntl02_min_fds ! n \<le> v"
    then show "kont (\<lambda>r. mult_cases (fcntl02_verify_fcntl K) ns (ok * r)) P (Ret r, s')"
      using Cons.prems(3) by (auto intro!: Cons.IH Cons.prems(4))
  qed (use Cons.prems in simp_all)
qed

text \<open>C23. \<^verbatim>\<open>fcntl02\<close> asks for duplicates at least 0, 1, 2, 3, 10 and 100, and passes exactly when each of the
  six descriptors it gets is large enough.\<close>

theorem fcntl02_verdict:
  "(let rs = dup_results (calls (fcntl02_main K) fcntl02_init) in
    map fst rs = fcntl02_min_fds \<and>
    (passes (fcntl02_main K) fcntl02_init \<longleftrightarrow> list_all (\<lambda>(m, v). m \<le> v) rs))"
proof -
  have six: "map ((!) fcntl02_min_fds) [0..<6] = fcntl02_min_fds" "list_all (\<lambda>n. 0 \<le> fcntl02_min_fds ! n) [0..<6]"
    by (simp_all add: fcntl02_min_fds_def upt_rec)
  have "runs (fcntl02_main K) fcntl02_init (\<lambda>(fl, s'). map fst (dup_results (trace s')) = fcntl02_min_fds \<and>
    (announced (fl, s') \<longleftrightarrow> list_all (\<lambda>(m, v). m \<le> v) (dup_results (trace s'))))"
    unfolding fcntl02_main_def fcntl02_setup_def fcntl02_cleanup_def fcntl02_init_def merges
    by (auto simp: run_simps clear_def six cong: run_congs intro!: answeredI fcntl02_cases_runs split: if_splits)
  then show ?thesis
    by (auto simp: runs_def calls_def passes_announced Let_def split: prod.splits)
qed

text \<open>\<^verbatim>\<open>fcntl06\<close> never passes: the feature macro it depends on is not defined, and the only place that prints
  the success line is not reached.\<close>

theorem fcntl06_never_passes: "\<not> passes (fcntl06_main K) fcntl06_init"
proof (rule quiet_not_passes)
  show "quiet (fcntl06_main K)"
    unfolding fcntl06_main_def fcntl06_setup_def fcntl06_cleanup_def
    by (intro quiet_intros; simp)
qed (simp add: clear_def fcntl06_init_def)

lemma fcntl09_cleanup_runs:
  assumes "scan 0 (out s) \<in> {0, 14}" and "scan 0 (f09_fname s) = 0"
    and "\<And>s' h. scan 0 (out s') = scan 0 (out s) \<Longrightarrow> trace s' = trace s @ h \<Longrightarrow> P (Ret (), s')"
  shows "runs (fcntl09_cleanup K) s P"
  using assms(1,2) unfolding fcntl09_cleanup_def merges
  by (auto simp: run_simps intro!: answeredI assms(3))

lemma fcntl09_round_runs:
  assumes "clear s" and "scan 0 (f09_fname s) = 0"
    and "\<And>ok' c r d u s'. clear s' \<Longrightarrow> f09_fname s' = f09_fname s \<Longrightarrow>
      trace s' = trace s @ [(c, r), (d, u)] \<Longrightarrow>
      (ok' \<noteq> 0 \<longleftrightarrow> ok \<noteq> 0 \<and> 0 \<le> rv r \<and> 0 \<le> rv u) \<Longrightarrow> P (Ret ok', s')"
  shows "runs (fcntl09_round K type ok) s P"
  using assms(1,2) unfolding fcntl09_round_def merges
  by (auto simp: run_simps clear_def Let_def rv_not_m1 intro!: answeredI assms(3))

text \<open>\<^verbatim>\<open>fcntl09\<close> passes exactly when its file could be made, closed and opened again and none of the two locks
  and two unlocks is refused.\<close>

theorem fcntl09_verdict:
  "passes (fcntl09_main K) fcntl09_init \<longleftrightarrow>
   list_all (\<lambda>i. 0 \<le> rv (snd (calls (fcntl09_main K) fcntl09_init ! i))) [1, 2, 3, 5, 6, 7, 8]"
proof (rule verdictI)
  show "runs (fcntl09_main K) fcntl09_init (\<lambda>(fl, s'). announced (fl, s') \<longleftrightarrow>
    list_all (\<lambda>i. 0 \<le> rv (snd (trace s' ! i))) [1, 2, 3, 5, 6, 7, 8])"
    unfolding fcntl09_main_def fcntl09_setup_def fcntl09_init_def merges
    by (auto simp: run_simps Let_def clear_def rv_not_m1 cong: run_congs split del: if_split
        intro!: answeredI fcntl09_round_runs fcntl09_cleanup_runs)
qed

end
