(* ===== verification/Openat_Tests.thy ===== *)
theory Openat_Tests
  imports Process
begin

text \<open>
  The openat tests (\<^verbatim>\<open>independent tests/syscalls/openat/\<close>), except \<^verbatim>\<open>openat02\<close>, which has its own theory:
  relative and invalid directory descriptors, and temporary files without a name.
\<close>

section \<open>openat01\<close>

record openat01 = proc +
  o01_dir_fd :: int
  o01_fd :: int
  o01_glob_path :: string

definition openat01_init :: openat01 where
  "openat01_init = \<lparr>errno = 0, out = no_output, trace = [], o01_dir_fd = 0, o01_fd = 0, o01_glob_path = []\<rparr>"

text \<open>Directory descriptor, path name, expected value and expected error.\<close>

definition openat01_test_cases :: "openat01 \<Rightarrow> (int \<times> string \<times> int \<times> int) list" where
  "openat01_test_cases s =
     [(o01_dir_fd s, ''test_file'', 0, 0),
      (o01_dir_fd s, o01_glob_path s, 0, 0),
      (o01_fd s, ''test_file'', -1, ENOTDIR),
      (100, ''test_file'', -1, EBADF),
      (AT_FDCWD, ''test_dir/test_file'', 0, 0)]"

text \<open>The cases that should succeed are not run at all: an uninitialised descriptor may be closed, and the
  function ends without a value.\<close>

definition openat01_verify_openat :: "kernel \<Rightarrow> nat \<Rightarrow> (openat01, int) cprog" where
  "openat01_verify_openat K n = (bind (gets (\<lambda>s. openat01_test_cases s ! n)) (\<lambda>tc.
     case tc of (dir_fd, pathname, exp_ret, exp_errno) \<Rightarrow>
     if exp_ret \<noteq> 0 then
       if exp_errno = ENOTDIR then (seq (printf ''[I] openat with a filefd instead of dirfd\<newline>'') (
       seq (call (libc K (Openat dir_fd pathname O_RDWR mode_0600))) (
       bind (gets errno) (\<lambda>e.
       ret (if e = ENOTDIR then 1 else 0)))))
       else (seq (printf ''[I] openat with invalid fd\<newline>'') (
       seq (call (libc K (Openat dir_fd pathname O_RDWR mode_0600))) (
       bind (gets errno) (\<lambda>e.
       ret (if e = EBADF then 1 else 0)))))
     else (bind (indet K ''ret'') (\<lambda>r.
       seq (if_then (r > 0) (call (libc K (Close r)))) (
       indet K ''verify_openat()'')))))"

text \<open>\<^verbatim>\<open>getcwd\<close> fills the buffer; when it fails, \<^verbatim>\<open>snprintf\<close> reads an indeterminate string. The path is cut to
  255 characters.\<close>

definition openat01_setup :: "kernel \<Rightarrow> (openat01, unit) cprog" where
  "openat01_setup K = (bind (indet_bytes K ''buf'' 4096) (\<lambda>old.
     bind (libc_res K Getcwd) (\<lambda>g.
     let buf = (if rv g = -1 then old else overlay (sr_bytes g) old) in
     seq (call (libc K (Mkdir ''test_dir/'' mode_0700))) (
     bind (libc K (Open ''test_dir/'' O_DIRECTORY 0)) (\<lambda>dir_fd.
     seq (modify (\<lambda>s. s\<lparr>o01_dir_fd := dir_fd\<rparr>)) (
     bind (libc K (Open ''test_dir/test_file'' (O_CREAT OR O_RDWR) mode_0600)) (\<lambda>fd.
     seq (modify (\<lambda>s. s\<lparr>o01_fd := fd\<rparr>)) (
     modify (\<lambda>s. s\<lparr>o01_glob_path := take 255 (takeWhile (\<lambda>c. c \<noteq> NUL) buf @ ''/test_dir/test_file'')\<rparr>)))))))))"

definition openat01_cleanup :: "kernel \<Rightarrow> (openat01, unit) cprog" where
  "openat01_cleanup K = (bind (gets o01_fd) (\<lambda>fd.
     seq (if_then (fd > 0) (call (libc K (Close fd)))) (
     bind (gets o01_dir_fd) (\<lambda>dir_fd.
     if_then (dir_fd > 0) (call (libc K (Close dir_fd)))))))"

definition openat01_main :: "kernel \<Rightarrow> (openat01, unit) cprog" where
  "openat01_main K = (seq (openat01_setup K) (
     bind (mult_cases (openat01_verify_openat K) [0..<5] 1) (\<lambda>ok.
     seq (if_then (ok \<noteq> 0) (printf ''test succeeded\<newline>'')) (
     openat01_cleanup K))))"

section \<open>openat03\<close>

record openat03 = proc +
  o03_size :: int
  o03_buf :: string
  o03_st :: stat

definition openat03_init :: openat03 where
  "openat03_init = \<lparr>errno = 0, out = no_output, trace = [], o03_size = 0, o03_buf = fill 1024 NUL,
     o03_st = \<lparr>st_mode = 0, st_size = 0, st_gid = 0, st_atime = 0\<rparr>\<rparr>"

abbreviation (input) "blocks_num \<equiv> (4::nat)"

definition openat03_cleanup :: "(openat03, unit) cprog" where
  "openat03_cleanup = skip"

definition openat03_setup :: "kernel \<Rightarrow> (openat03, unit) cprog" where
  "openat03_setup K = (seq (modify (\<lambda>s. s\<lparr>o03_size := 1024\<rparr>)) (
     seq (modify (\<lambda>s. s\<lparr>o03_buf := fill 1024 (CHR 0x01)\<rparr>)) (
     bind (libc K (Openat AT_FDCWD ''.'' (O_TMPFILE OR O_RDWR) mode_0600)) (\<lambda>fd.
     seq (if_then (fd = -1) (bind (gets errno) (\<lambda>e.
       seq (if_then (e = EISDIR \<or> e = ENOTSUP) (seq (printf ''O_TMPFILE not supported\<newline>'') (
         openat03_cleanup))) (
       seq (printf (''openat() failed, error number '' @ show_int e @ ''\<newline>'')) (
       openat03_cleanup))))) (
     call (libc K (Close fd)))))))"

text \<open>On failure the function ends without a value.\<close>

definition openat03_openat_tmp :: "kernel \<Rightarrow> int \<Rightarrow> (openat03, int) cprog" where
  "openat03_openat_tmp K mode = (bind (libc K (Openat AT_FDCWD ''.'' (O_TMPFILE OR O_RDWR) mode)) (\<lambda>fd.
     if fd \<ge> 0 then
       ret fd
     else
     seq (printf_errno ''openat() failed, error number '' ''\<newline>'') (
     seq openat03_cleanup (
     indet K ''openat_tmp()''))))"

definition openat03_write_file :: "kernel \<Rightarrow> int \<Rightarrow> (openat03, unit) cprog" where
  "openat03_write_file K fd = (bind (gets o03_buf) (\<lambda>buf.
     bind (gets o03_size) (\<lambda>sz.
     block (replicate blocks_num (call (libc K (Write fd (Bytes buf) (nat sz))))))))"

text \<open>\<^verbatim>\<open>tmp\<close> is printed up to its first null byte, whether \<^verbatim>\<open>readlink\<close> wrote one or not.\<close>

definition openat03_test01 :: "kernel \<Rightarrow> (openat03, int) cprog" where
  "openat03_test01 K = (seq (printf ''[I] creating a file with O_TMPFILE flag\<newline>'') (
     bind (openat03_openat_tmp K mode_0600) (\<lambda>fd.
     seq (printf ''[I] writing data to the file\<newline>'') (
     seq (openat03_write_file K fd) (
     bind (gets o03_st) (\<lambda>old.
     bind (c_stat K (Fstat fd) old) (\<lambda>(r, st).
     seq (modify (\<lambda>s. s\<lparr>o03_st := st\<rparr>)) (
     seq (printf (''file size is '' @ [CHR 0x27] @ show_int (st_size st) @ [CHR 0x27] @ ''\<newline>'')) (
     bind (gets o03_size) (\<lambda>sz.
     if st_size st \<noteq> int blocks_num * sz then
       (seq (printf (''not expected size: '' @ [CHR 0x27] @ show_int (st_size st) @ [CHR 0x27] @ '' != '' @ [CHR 0x27]
         @ show_zu (int blocks_num * sz) @ [CHR 0x27] @ ''\<newline>'')) (
       seq (call (libc K (Close fd))) (
       ret 0)))
     else
     seq (printf (''[I] looking for the file in '' @ [CHR 0x27] @ ''.'' @ [CHR 0x27] @ ''\<newline>'')) (
     if (st_mode st AND S_IFDIR) \<noteq> 0 then
       (seq (printf ''found a file, this is not expected\<newline>'') (
       seq openat03_cleanup (
       ret 0)))
     else
     seq (printf ''[I] file not found, OK\<newline>'') (
     let path = ''/proc/self/fd/'' @ show_int fd in
     bind (indet_bytes K ''tmp'' 4096) (\<lambda>tmp0.
     bind (libc_res K (Readlink path)) (\<lambda>l.
     let tmp = overlay (sr_bytes l) tmp0 in
     seq (printf (''renaming '' @ [CHR 0x27] @ takeWhile (\<lambda>c. c \<noteq> NUL) tmp @ [CHR 0x27] @ '' -> '' @ [CHR 0x27]
       @ ''tmpfile'' @ [CHR 0x27] @ ''\<newline>'')) (
     seq (call (libc K (Link AT_FDCWD path AT_FDCWD ''tmpfile'' AT_SYMLINK_FOLLOW))) (
     if (st_mode st AND S_IFDIR) \<noteq> 0 then
       (seq (printf ''file not found\<newline>'') (
       seq openat03_cleanup (
       ret 0)))
     else
     seq (call (libc K (Unlink ''tmpfile''))) (
     seq (call (libc K (Close fd))) (
     seq (printf ''single file tests passed\<newline>'') (
     ret 1)))))))))))))))))))"

text \<open>The loop of \<^verbatim>\<open>read_file\<close>: \<open>n\<close> blocks still to read; the contents of \<^verbatim>\<open>tmp\<close> are kept between reads.\<close>

fun openat03_read_blocks :: "kernel \<Rightarrow> int \<Rightarrow> nat \<Rightarrow> string \<Rightarrow> (openat03, int) cprog" where
  "openat03_read_blocks K fd 0 tmp = ret 1"
| "openat03_read_blocks K fd (Suc n) tmp =
     bind (gets o03_buf) (\<lambda>buf.
     bind (c_read K fd tmp (length tmp)) (\<lambda>rt.
     if take (length tmp) buf \<noteq> snd rt then
       seq (printf ''got unexepected data\<newline>'') (seq openat03_cleanup (ret 0))
     else openat03_read_blocks K fd n (snd rt)))"

definition openat03_read_file :: "kernel \<Rightarrow> int \<Rightarrow> (openat03, int) cprog" where
  "openat03_read_file K fd = (bind (gets o03_size) (\<lambda>sz.
     bind (indet_bytes K ''tmp'' (nat sz)) (\<lambda>tmp.
     seq (call (libc K (Lseek fd 0 SEEK_SET))) (
     openat03_read_blocks K fd blocks_num tmp))))"

fun openat03_make_dirs :: "kernel \<Rightarrow> nat list \<Rightarrow> (openat03, int list) cprog" where
  "openat03_make_dirs K [] = ret []"
| "openat03_make_dirs K (i # is) =
     seq (call (libc K (Mkdir (''tst02_'' @ show_int (int i)) mode_0700))) (
     seq (call (libc K (Chdir (''tst02_'' @ show_int (int i))))) (
     bind (openat03_openat_tmp K mode_0600) (\<lambda>fd.
     bind (openat03_make_dirs K is) (\<lambda>fds. ret (fd # fds)))))"

fun openat03_check_files :: "kernel \<Rightarrow> int list \<Rightarrow> (openat03, bool) cprog" where
  "openat03_check_files K [] = ret True"
| "openat03_check_files K (fd # fds) =
     seq (openat03_write_file K fd) (
     bind (openat03_read_file K fd) (\<lambda>r.
     if r = 0 then ret False else openat03_check_files K fds))"

definition openat03_test02 :: "kernel \<Rightarrow> (openat03, int) cprog" where
  "openat03_test02 K = (seq (printf ''[I] create files in multiple directories\<newline>'') (
     bind (openat03_make_dirs K [0..<100]) (\<lambda>fds.
     seq (printf ''[I] removing test directories\<newline>'') (
     seq (block (map (\<lambda>i. (seq (call (libc K (Chdir ''..''))) (
       call (libc K (Rmdir (''tst02_'' @ show_int (int i))))))) (rev [0..<100]))) (
     seq (printf ''[I] writing/reading temporary files\<newline>'') (
     bind (openat03_check_files K fds) (\<lambda>ok.
     if \<not> ok then
       ret 0
     else
     seq (printf ''[I] closing temporary files\<newline>'') (
     seq (block (map (\<lambda>fd. call (libc K (Close fd))) fds)) (
     seq (printf ''multiple files tests passed\<newline>'') (
     ret 1))))))))))"

definition openat03_link_tmp_file :: "kernel \<Rightarrow> int \<Rightarrow> (openat03, unit) cprog" where
  "openat03_link_tmp_file K fd =
     call (libc K (Link AT_FDCWD (''/proc/self/fd/'' @ show_int fd) AT_FDCWD (''tmpfile_'' @ show_int fd)
       AT_SYMLINK_FOLLOW))"

text \<open>The permissions 0, 07777, 01, 0755, 0644 and 0440.\<close>

definition openat03_test_perms :: "int list" where
  "openat03_test_perms = [0, 4095, 1, 493, 420, 288]"

text \<open>The first loop of \<^verbatim>\<open>test03\<close>: the descriptors, or nothing when a file has the wrong mode. The result
  of \<^verbatim>\<open>read_file\<close> is dropped.\<close>

fun openat03_link_files :: "kernel \<Rightarrow> int \<Rightarrow> nat list \<Rightarrow> stat \<Rightarrow> (openat03, int list option) cprog" where
  "openat03_link_files K msk [] st = ret (Some [])"
| "openat03_link_files K msk (i # is) st =
     seq (call (libc K (Mkdir (''tst03_'' @ show_int (int i)) mode_0700))) (
     seq (call (libc K (Chdir (''tst03_'' @ show_int (int i))))) (
     bind (openat03_openat_tmp K (openat03_test_perms ! (i mod 6))) (\<lambda>fd.
     seq (openat03_write_file K fd) (
     seq (call (openat03_read_file K fd)) (
     seq (openat03_link_tmp_file K fd) (
     bind (c_stat K (Lstat (''tmpfile_'' @ show_int fd)) st) (\<lambda>rs.
     let mode = st_mode (snd rs) AND NOT S_IFMT; exp_mode = openat03_test_perms ! (i mod 6) AND NOT msk in
     if mode \<noteq> exp_mode then
       seq (printf (''file mode read '' @ show_oct (nat mode) @ '', but expected '' @ show_oct (nat exp_mode) @ ''\<newline>''))
         (ret None)
     else bind (openat03_link_files K msk is (snd rs)) (\<lambda>fds.
       ret (case fds of None \<Rightarrow> None | Some fds' \<Rightarrow> Some (fd # fds'))))))))))"

definition openat03_test03 :: "kernel \<Rightarrow> (openat03, int) cprog" where
  "openat03_test03 K = (bind (libc K (Umask 0)) (\<lambda>msk.
     seq (call (libc K (Umask msk))) (
     seq (printf ''[I] create multiple directories, link files into them\<newline>'') (
     seq (printf ''[I] and check file permissions\<newline>'') (
     bind (indet_stat K ''st'') (\<lambda>st.
     bind (openat03_link_files K msk [0..<100] st) (\<lambda>linked.
     case linked of None \<Rightarrow> ret 0 | Some fds \<Rightarrow> (seq (printf ''[I] remove files, directories\<newline>'') (
       seq (block (map (\<lambda>(i, fd). (seq (call (libc K (Unlink (''tmpfile_'' @ show_int fd)))) (
         seq (call (libc K (Close fd))) (
         seq (call (libc K (Chdir ''..''))) (
         call (libc K (Rmdir (''tst03_'' @ show_int (int i))))))))) (rev (zip [0..<100] fds)))) (
       seq (printf ''file permission tests passed\<newline>'') (
       ret 1)))))))))))"

definition openat03_main :: "kernel \<Rightarrow> (openat03, unit) cprog" where
  "openat03_main K = (seq (openat03_setup K) (
     bind (openat03_test01 K) (\<lambda>r1.
     seq (if_then (r1 \<noteq> 0) (bind (openat03_test02 K) (\<lambda>r2.
       if_then (r2 \<noteq> 0) (bind (openat03_test03 K) (\<lambda>r3.
         if_then (r3 \<noteq> 0) (printf ''test succeeded\<newline>'')))))) (
     openat03_cleanup))))"

section \<open>openat04\<close>

record openat04 = proc +
  o04_free_gid :: int
  o04_tmpfile_fd :: int
  o04_dir_fd :: int
  o04_uid :: int
  o04_gid :: int
  o04_mount_flag :: int

definition openat04_init :: openat04 where
  "openat04_init = \<lparr>errno = 0, out = no_output, trace = [], o04_free_gid = 0, o04_tmpfile_fd = -1,
     o04_dir_fd = -1, o04_uid = 0, o04_gid = 0, o04_mount_flag = 0\<rparr>"

abbreviation (input) "WORKDIR \<equiv> ''mntpoint/testdir''"
abbreviation (input) "MODE_SGID \<equiv> S_ISGID OR mode_0777"

text \<open>\<^verbatim>\<open>do_mount\<close> is called nowhere. The flags are printed as an \<^verbatim>\<open>unsigned long\<close>.\<close>

definition openat04_do_mount :: "kernel \<Rightarrow> string \<Rightarrow> string \<Rightarrow> string \<Rightarrow> int \<Rightarrow> addr \<Rightarrow> (openat04, unit) cprog" where
  "openat04_do_mount K source target filesystemtype mountflags data = (bind (libc K (Mount source target filesystemtype mountflags data)) (\<lambda>r.
     bind (gets errno) (\<lambda>e.
     if r = -1 \<and> e = EINVAL then
       (seq (printf ''Kernel does not support noacl feature\<newline>'') (
       c_exit 0))
     else
     if r = -1 then
       (seq (printf (''mount('' @ source @ '', '' @ target @ '', '' @ filesystemtype @ '', '' @ show_zu mountflags @ '', '' @ show_ptr data @
         '') failed, error number '' @ show_int e @ ''\<newline>'')) (
       c_exit 0))
     else
     if r \<noteq> 0 then
       (seq (printf (''Invalid mount return value '' @ show_int r @ ''\<newline>'')) (
       c_exit 0))
     else
     modify (\<lambda>s. s\<lparr>o04_mount_flag := 1\<rparr>))))"

definition openat04_open_tmpfile_supported :: "kernel \<Rightarrow> int \<Rightarrow> (openat04, unit) cprog" where
  "openat04_open_tmpfile_supported K dirfd = (bind (libc K (Openat dirfd ''.'' (O_TMPFILE OR O_RDWR) (S_IXGRP OR S_ISGID))) (\<lambda>r.
     if r = -1 then
       (bind (gets errno) (\<lambda>e.
       seq (if e = ENOTSUP then printf ''fs doesn't support O_TMPFILE\<newline>''
         else printf (''openat('' @ show_int dirfd @ '', O_TMPFILE) failed, error number '' @ show_int e @ ''\<newline>'')) (
       c_exit 0)))
     else
     if r < 0 then
       (seq (printf (''Invalid openat return value '' @ show_int r @ ''\<newline>'')) (
       c_exit 0))
     else
     call (libc K (Close r))))"

text \<open>The entry found by \<^verbatim>\<open>getpwnam\<close> is a pair of identities; when there is none, \<^verbatim>\<open>ltpuser->pw_uid\<close> reads
  through the null pointer.\<close>

definition openat04_setup :: "kernel \<Rightarrow> (openat04, unit) cprog" where
  "openat04_setup K = (bind (libc_res K (Getpwnam ''nobody'')) (\<lambda>pw.
     seq (if_then (rv pw = -1) (die SIGSEGV)) (
     let uid = fst (sr_fds pw) in
     let gid = snd (sr_fds pw) in
     seq (modify (\<lambda>s. s\<lparr>o04_uid := uid\<rparr>)) (
     seq (modify (\<lambda>s. s\<lparr>o04_gid := gid\<rparr>)) (
     seq (printf (''[I] User nobody: uid = '' @ show_int uid @ '', gid = '' @ show_int gid @ ''\<newline>'')) (
     seq (call (libc K (Mkdir WORKDIR mode_0777))) (
     bind (libc K (Open WORKDIR O_RDONLY O_DIRECTORY)) (\<lambda>dir_fd.
     seq (modify (\<lambda>s. s\<lparr>o04_dir_fd := dir_fd\<rparr>)) (
     seq (openat04_open_tmpfile_supported K dir_fd) (
     bind (gets o04_free_gid) (\<lambda>free_gid.
     seq (call (libc K (Chown WORKDIR uid free_gid))) (
     seq (call (libc K (Chmod WORKDIR MODE_SGID))) (
     bind (indet_stat K ''buf'') (\<lambda>old.
     bind (c_stat K (Stat WORKDIR) old) (\<lambda>(r, buf).
     seq (if_then ((st_mode buf AND S_ISGID) = 0) (seq (printf ''mntpoint/testdir: Setgid bit not set\<newline>'') (
       c_exit 0))) (
     seq (if_then (st_gid buf \<noteq> free_gid) (seq (printf (''mntpoint/testdir: Incorrect group, '' @ show_int (st_gid buf) @ '' != '' @ show_int free_gid @ ''\<newline>'')) (
       c_exit 0))) (
     seq (call (libc K (Setgid gid))) (
     call (libc K (Setreuid (-1) uid))))))))))))))))))))"

definition openat04_file_test :: "kernel \<Rightarrow> int \<Rightarrow> string \<Rightarrow> int \<Rightarrow> (openat04, int) cprog" where
  "openat04_file_test K dfd path flags = (bind (indet_stat K ''buf'') (\<lambda>old.
     bind (c_stat K (Fstatat dfd path flags) old) (\<lambda>(r, buf).
     if (st_mode buf AND S_ISGID) \<noteq> 0 then
       (seq (printf (path @ '': Setgid bit is set\<newline>'')) (
       ret 0))
     else
     seq (printf (path @ '': Setgid bit not set\<newline>'')) (
     if (st_mode buf AND S_IXGRP) \<noteq> 0 then (seq (printf (path @ '': S_IXGRP bit is set\<newline>'')) (
       ret 0))
     else (seq (printf (path @ '': S_IXGRP bit is not set\<newline>'')) (
       ret 1))))))"

definition openat04_run :: "kernel \<Rightarrow> (openat04, int) cprog" where
  "openat04_run K = (seq (call (libc K (Umask S_IXGRP))) (
     bind (gets o04_dir_fd) (\<lambda>dir_fd.
     bind (libc K (Openat dir_fd ''.'' (O_TMPFILE OR O_RDWR) MODE_SGID)) (\<lambda>tmpfile_fd.
     seq (modify (\<lambda>s. s\<lparr>o04_tmpfile_fd := tmpfile_fd\<rparr>)) (
     seq (call (libc K (Link AT_FDCWD (''/proc/self/fd/'' @ show_int tmpfile_fd) dir_fd ''open.tmp'' AT_SYMLINK_FOLLOW))) (
     openat04_file_test K dir_fd ''open.tmp'' 0))))))"

definition openat04_cleanup :: "kernel \<Rightarrow> (openat04, unit) cprog" where
  "openat04_cleanup K = (seq (call (libc K (Setreuid (-1) 0))) (
     bind (gets o04_tmpfile_fd) (\<lambda>tmpfile_fd.
     seq (if_then (tmpfile_fd \<ge> 0) (call (libc K (Close tmpfile_fd)))) (
     bind (gets o04_dir_fd) (\<lambda>dir_fd.
     if_then (dir_fd \<ge> 0) (call (libc K (Close dir_fd))))))))"

definition openat04_main :: "kernel \<Rightarrow> (openat04, unit) cprog" where
  "openat04_main K = (seq (openat04_setup K) (
     bind (openat04_run K) (\<lambda>r.
     seq (if_then (r \<noteq> 0) (printf ''test succeeded\<newline>'')) (
     openat04_cleanup K))))"

section \<open>Interfaces\<close>

lemma quiet_openat01_verify_openat [quiet_intros]: "quiet (openat01_verify_openat K n)"
  unfolding openat01_verify_openat_def by (intro quiet_intros; simp)

lemma openat01_main_eq:
  "openat01_main K = seq (openat01_setup K) (bind (mult_cases (openat01_verify_openat K) [0..<5] 1) (\<lambda>r.
     seq (if r \<noteq> 0 then printf ''test succeeded\<newline>'' else skip) (openat01_cleanup K)))"
  by (simp add: openat01_main_def if_then_def)

interpretation o01: table_main "openat01_setup K" "mult_cases (openat01_verify_openat K) [0..<5] 1"
  "''test succeeded\<newline>''" "\<lambda>_. skip" "openat01_cleanup K" "openat01_main K" "openat01_verify_openat K" 5 for K
  by unfold_locales (auto simp: openat01_main_eq openat01_setup_def openat01_cleanup_def
    intro!: quiet_intros extends_intros returns_intros)

lemma quiet_openat04_run: "quiet (openat04_run K)"
  unfolding openat04_run_def openat04_file_test_def by (intro quiet_intros; simp)

lemma quiet_openat04_setup: "quiet (openat04_setup K)"
  unfolding openat04_setup_def openat04_open_tmpfile_supported_def by (intro quiet_intros; simp)

interpretation o04: verified_main "openat04_setup K" "openat04_run K" "\<lambda>r. r \<noteq> 0"
  "''test succeeded\<newline>''" "\<lambda>_. skip" "openat04_cleanup K" "openat04_main K" for K
  by unfold_locales (auto simp: openat04_main_def if_then_def openat04_cleanup_def
    intro!: quiet_openat04_run quiet_openat04_setup quiet_intros extends_intros returns_intros)

section \<open>Verdicts\<close>

text \<open>\<^verbatim>\<open>openat01\<close> passes exactly when all five cases of its table come back with a nonzero value, among them the
  indeterminate values of the three cases that should succeed and do nothing.\<close>

theorem openat01_verdict:
  "passes (openat01_main K) openat01_init \<longleftrightarrow>
   (\<exists>s1. openat01_setup K openat01_init = (Ret (), s1) \<and> all_hold (openat01_verify_openat K) [0..<5] s1)"
  by (rule o01.passes_all_hold) (simp add: clear_def openat01_init_def)

text \<open>The blocks read in a history.\<close>

fun read_blocks :: "event list \<Rightarrow> sysres list" where
  "read_blocks [] = []"
| "read_blocks ((c, r) # h) = (case c of Io (Read_io fd n) \<Rightarrow> r # read_blocks h | _ \<Rightarrow> read_blocks h)"

lemma read_blocks_append [simp]: "read_blocks (h @ h') = read_blocks h @ read_blocks h'"
  by (induction h rule: read_blocks.induct) (auto split: syscall.splits io_call.splits)

text \<open>Every read leaves the expected block in the buffer.\<close>

fun blocks_ok :: "string \<Rightarrow> string \<Rightarrow> sysres list \<Rightarrow> bool" where
  "blocks_ok buf tmp [] = True"
| "blocks_ok buf tmp (r # rs) \<longleftrightarrow>
     overlay (fit_to (length tmp) (sr_bytes r)) tmp = take (length tmp) buf \<and>
     blocks_ok buf (overlay (fit_to (length tmp) (sr_bytes r)) tmp) rs"

lemma openat03_read_blocks_runs:
  assumes "\<And>r s' rs h. trace s' = trace s @ h \<Longrightarrow> read_blocks h = rs \<Longrightarrow>
      length rs \<le> n \<Longrightarrow> (r \<noteq> 0 \<longleftrightarrow> length rs = n \<and> blocks_ok (o03_buf s) tmp rs) \<Longrightarrow> P (Ret r, s')"
  shows "runs (openat03_read_blocks K fd n tmp) s P"
  using assms
proof (induction n arbitrary: tmp s)
  case 0
  show ?case by (auto simp: run_simps intro!: 0)
next
  case (Suc n)
  show ?case
    by (auto simp: run_simps openat03_cleanup_def intro!: answeredI Suc.IH Suc.prems)
qed

text \<open>C28. After \<^verbatim>\<open>setup\<close>, \<^verbatim>\<open>read_file\<close> of \<^verbatim>\<open>openat03\<close> always returns. It reads at most four blocks, and its value is nonzero
  exactly when it read four and after each of them the whole buffer, which starts with indeterminate contents, is
  the block of ones.\<close>

theorem openat03_read_file_returns:
  "\<exists>r s'. seq (openat03_setup K) (openat03_read_file K fd) openat03_init = (Ret r, s') \<and>
     (let rs = read_blocks (trace s'); tmp = fit 1024 (sr_bytes (snd (trace s' ! 2))) in
       length rs \<le> 4 \<and> (r \<noteq> 0 \<longleftrightarrow> length rs = 4 \<and> blocks_ok (fill 1024 (CHR 0x01)) tmp rs))"
proof -
  have "runs (seq (openat03_setup K) (openat03_read_file K fd)) openat03_init (\<lambda>(fl, s'). \<exists>r. fl = Ret r \<and>
     (let rs = read_blocks (trace s'); tmp = fit 1024 (sr_bytes (snd (trace s' ! 2))) in
       length rs \<le> 4 \<and> (r \<noteq> 0 \<longleftrightarrow> length rs = 4 \<and> blocks_ok (fill 1024 (CHR 0x01)) tmp rs)))"
    unfolding openat03_setup_def openat03_read_file_def openat03_init_def openat03_cleanup_def
    by (auto simp: run_simps Let_def nth_append cong: run_congs intro!: answeredI openat03_read_blocks_runs)
  then show ?thesis
    by (auto simp: runs_def split: prod.splits)
qed

end
