(* ===== verification/Munmap_Tests.thy ===== *)
theory Munmap_Tests
  imports Process
begin

text \<open>
  The munmap tests (\<^verbatim>\<open>independent tests/syscalls/munmap/\<close>) and the first mprotect test
  (\<^verbatim>\<open>independent tests/syscalls/mprotect/\<close>). \<^verbatim>\<open>munmap01\<close> and \<^verbatim>\<open>munmap02\<close> succeed from a signal handler: the
  store through the unmapped pointer has to fault. Lengths are \<^verbatim>\<open>unsigned int\<close>, so they are taken modulo
  \<open>2 ^ 32\<close>.
\<close>

definition uint32 :: "int \<Rightarrow> int" where
  "uint32 i = i mod 2 ^ 32"

section \<open>munmap01\<close>

text \<open>The last field records whether \<^verbatim>\<open>sig_handler\<close> is installed for SIGSEGV.\<close>

record munmap01 = proc +
  mu1_addr :: addr
  mu1_fildes :: int
  mu1_map_len :: int
  mu1_handled :: bool

definition munmap01_init :: munmap01 where
  "munmap01_init = \<lparr>errno = 0, out = no_output, trace = [], mu1_addr = NULL, mu1_fildes = 0,
     mu1_map_len = 0, mu1_handled = False\<rparr>"

definition munmap01_cleanup :: "kernel \<Rightarrow> (munmap01, unit) cprog" where
  "munmap01_cleanup K = (bind (gets mu1_fildes) (\<lambda>fildes.
     bind (libc K (Close fildes)) (\<lambda>r.
     if_then (r < 0) (printf_errno ''close() on mmapfile Failed, errno='' ''\<newline>''))))"

definition munmap01_sig_handler :: "kernel \<Rightarrow> (munmap01, unit) cprog" where
  "munmap01_sig_handler K = (seq (printf ''Functionality of munmap() successful\<newline>test succeeded\<newline>'') (
     seq (munmap01_cleanup K) (
     c_exit 0)))"

definition munmap01_setup :: "kernel \<Rightarrow> (munmap01, unit) cprog" where
  "munmap01_setup K = (bind (libc K (Signal SIGSEGV)) (\<lambda>sg.
     if sg = -1 then
       (seq (printf ''signal fails to catch signal\<newline>'') (
       munmap01_cleanup K))
     else
     seq (modify (\<lambda>s. s\<lparr>mu1_handled := True\<rparr>)) (
     bind (libc K Getpagesize) (\<lambda>page_sz.
     let map_len = uint32 (3 * page_sz) in
     seq (modify (\<lambda>s. s\<lparr>mu1_map_len := map_len\<rparr>)) (
     bind (libc K (Open ''mmapfile'' (O_RDWR OR O_CREAT) mode_0666)) (\<lambda>fildes.
     seq (modify (\<lambda>s. s\<lparr>mu1_fildes := fildes\<rparr>)) (
     seq (if_then (fildes < 0) (printf_errno ''open() on mmapfile Failed, errno='' ''\<newline>'')) (
     seq (call (libc K (Lseek fildes map_len SEEK_SET))) (
     bind (libc K (Write fildes (Bytes ''a'') 1)) (\<lambda>w.
     seq (if_then (w \<noteq> 1) (seq (printf_errno ''write() on mmapfile Failed, errno='' ''\<newline>'') (
       munmap01_cleanup K))) (
     bind (libc_ptr K (Mmap NULL map_len (PROT_READ OR PROT_WRITE) (MAP_FILE OR MAP_SHARED) fildes 0)) (\<lambda>a.
     seq (modify (\<lambda>s. s\<lparr>mu1_addr := a\<rparr>)) (
     if_then (a = MAP_FAILED) (seq (printf_errno ''mmap() Failed on mmapfile, errno='' ''\<newline>'') (
       munmap01_cleanup K)))))))))))))))"

text \<open>\<^verbatim>\<open>UCLINUX\<close> is not defined. A store that faults runs the handler, when it is installed.\<close>

definition munmap01_main :: "kernel \<Rightarrow> (munmap01, int) cprog" where
  "munmap01_main K = (seq (munmap01_setup K) (
     bind (gets mu1_addr) (\<lambda>a.
     bind (gets mu1_map_len) (\<lambda>map_len.
     bind (libc K (Munmap a map_len)) (\<lambda>r.
     if r = -1 then
       (seq (printf_errno ''munmap() fails, errno='' ''\<newline>'') (
       ret 0))
     else
     bind (gets mu1_handled) (\<lambda>handled.
     seq (if handled then on_signal SIGSEGV (munmap01_sig_handler K) (mem_store K a [CHR 0x32])
       else mem_store K a [CHR 0x32]) (
     seq (printf ''process succeeds to refer unmapped memory region\<newline>'') (
     seq (munmap01_cleanup K) (
     ret 0)))))))))"

section \<open>munmap02\<close>

record munmap02 = proc +
  mu2_page_sz :: int
  mu2_addr :: addr
  mu2_fildes :: int
  mu2_map_len :: int

definition munmap02_init :: munmap02 where
  "munmap02_init = \<lparr>errno = 0, out = no_output, trace = [], mu2_page_sz = 0, mu2_addr = NULL,
     mu2_fildes = 0, mu2_map_len = 0\<rparr>"

definition munmap02_cleanup :: "kernel \<Rightarrow> (munmap02, unit) cprog" where
  "munmap02_cleanup K = (bind (gets mu2_page_sz) (\<lambda>page_sz.
     seq (modify (\<lambda>s. s\<lparr>mu2_addr := mu2_addr s - word_of_int page_sz\<rparr>)) (
     seq (modify (\<lambda>s. s\<lparr>mu2_map_len := uint32 (mu2_map_len s - page_sz)\<rparr>)) (
     bind (gets mu2_addr) (\<lambda>a.
     bind (gets mu2_map_len) (\<lambda>map_len.
     seq (call (libc K (Munmap a map_len))) (
     bind (gets mu2_fildes) (\<lambda>fildes.
     call (libc K (Close fildes))))))))))"

definition munmap02_sig_handler :: "kernel \<Rightarrow> (munmap02, unit) cprog" where
  "munmap02_sig_handler K = (seq (printf ''Functionality of munmap() successful\<newline>test succeeded\<newline>'') (
     seq (munmap02_cleanup K) (
     c_exit 0)))"

definition munmap02_setup :: "kernel \<Rightarrow> (munmap02, unit) cprog" where
  "munmap02_setup K = (bind (libc K (Signal SIGSEGV)) (\<lambda>sg.
     if sg = -1 then
       (seq (printf ''signal fails to catch signal\<newline>'') (
       seq (munmap02_cleanup K) (
       c_exit 0)))
     else
     bind (libc K Getpagesize) (\<lambda>page_sz.
     seq (modify (\<lambda>s. s\<lparr>mu2_page_sz := page_sz\<rparr>)) (
     let map_len = uint32 (3 * page_sz) in
     seq (modify (\<lambda>s. s\<lparr>mu2_map_len := map_len\<rparr>)) (
     bind (libc K (Open ''mmapfile'' (O_RDWR OR O_CREAT) mode_0666)) (\<lambda>fildes.
     seq (modify (\<lambda>s. s\<lparr>mu2_fildes := fildes\<rparr>)) (
     if fildes < 0 then
       (seq (printf_errno ''open() on mmapfile Failed, errno='' ''\<newline>'') (
       seq (munmap02_cleanup K) (
       c_exit 0)))
     else
     seq (call (libc K (Lseek fildes map_len SEEK_SET))) (
     bind (libc K (Write fildes (Bytes ''a'') 1)) (\<lambda>w.
     if w \<noteq> 1 then
       (seq (printf_errno ''write() on mmapfile Failed, errno='' ''\<newline>'') (
       seq (munmap02_cleanup K) (
       c_exit 0)))
     else
     bind (libc_ptr K (Mmap NULL map_len (PROT_READ OR PROT_WRITE) (MAP_FILE OR MAP_SHARED) fildes 0)) (\<lambda>a.
     seq (modify (\<lambda>s. s\<lparr>mu2_addr := a\<rparr>)) (
     if a = MAP_FAILED then
       (seq (printf_errno ''mmap() Failed on mmapfile, errno='' ''\<newline>'') (
       seq (munmap02_cleanup K) (
       c_exit 0)))
     else
     seq (modify (\<lambda>s. s\<lparr>mu2_addr := a + word_of_int page_sz\<rparr>)) (
     modify (\<lambda>s. s\<lparr>mu2_map_len := uint32 (map_len - page_sz)\<rparr>)))))))))))))"

text \<open>Past its \<^verbatim>\<open>setup\<close> the handler is always installed.\<close>

definition munmap02_main :: "kernel \<Rightarrow> (munmap02, int) cprog" where
  "munmap02_main K = (seq (munmap02_setup K) (
     bind (gets mu2_addr) (\<lambda>a.
     bind (gets mu2_map_len) (\<lambda>map_len.
     bind (libc K (Munmap a map_len)) (\<lambda>r.
     if r = -1 then
       (seq (printf_errno ''munmap() fails, errno='' ''\<newline>'') (
       ret 0))
     else
     seq (on_signal SIGSEGV (munmap02_sig_handler K) (mem_store K a [CHR 0x32])) (
     seq (printf ''process succeeds to refer unmapped memory region\<newline>'') (
     seq (munmap02_cleanup K) (
     ret 0))))))))"

section \<open>munmap03\<close>

record munmap03 = proc +
  mu3_page_sz :: int
  mu3_global_addr :: addr
  mu3_global_maplen :: int
  mu3_ret :: int

definition munmap03_init :: munmap03 where
  "munmap03_init = \<lparr>errno = 0, out = no_output, trace = [], mu3_page_sz = 0, mu3_global_addr = NULL,
     mu3_global_maplen = 0, mu3_ret = 0\<rparr>"

definition munmap03_setup :: "kernel \<Rightarrow> (munmap03, unit) cprog" where
  "munmap03_setup K = (bind (libc K (Sysconf 30)) (\<lambda>page_sz.
     seq (modify (\<lambda>s. s\<lparr>mu3_page_sz := page_sz\<rparr>)) (
     seq (modify (\<lambda>s. s\<lparr>mu3_global_maplen := page_sz * 2\<rparr>)) (
     bind (libc_ptr K (Mmap NULL (page_sz * 2) (PROT_READ OR PROT_WRITE) MAP_ANONYMOUS (-1) 0)) (\<lambda>a.
     modify (\<lambda>s. s\<lparr>mu3_global_addr := a\<rparr>))))))"

definition munmap03_check_and_print :: "int \<Rightarrow> (munmap03, unit) cprog" where
  "munmap03_check_and_print expected_errno = (bind (gets mu3_ret) (\<lambda>r.
     bind (gets errno) (\<lambda>e.
     if r = -1 then
       if e = expected_errno then (seq (printf ''failed as expected\<newline>test succeeded\<newline>'') (
       c_exit 0))
       else printf (''failed unexpectedly; expected - '' @ show_int expected_errno @ ''\<newline>'')
     else printf ''munmap succeeded unexpectedly\<newline>'')))"

text \<open>\<^verbatim>\<open>brkval.rlim_max\<close>: what \<^verbatim>\<open>getrlimit\<close> stored, or indeterminate when it failed.\<close>

definition munmap03_test_einval1 :: "kernel \<Rightarrow> (munmap03, unit) cprog" where
  "munmap03_test_einval1 K = (bind (indet K ''brkval.rlim_max'') (\<lambda>old.
     bind (libc_res K (Getrlimit 2)) (\<lambda>g.
     let rlim_max = (if rv g = -1 then old else sr_int g) in
     bind (gets mu3_page_sz) (\<lambda>page_sz.
     bind (libc K (Munmap (word_of_int rlim_max) (page_sz * 2))) (\<lambda>r.
     seq (modify (\<lambda>s. s\<lparr>mu3_ret := r\<rparr>)) (
     munmap03_check_and_print EINVAL))))))"

definition munmap03_test_einval2 :: "kernel \<Rightarrow> (munmap03, unit) cprog" where
  "munmap03_test_einval2 K = (bind (gets mu3_global_addr) (\<lambda>a.
     bind (libc K (Munmap a 0)) (\<lambda>r.
     seq (modify (\<lambda>s. s\<lparr>mu3_ret := r\<rparr>)) (
     munmap03_check_and_print EINVAL))))"

definition munmap03_test_einval3 :: "kernel \<Rightarrow> (munmap03, unit) cprog" where
  "munmap03_test_einval3 K = (bind (gets mu3_global_addr) (\<lambda>a.
     bind (gets mu3_page_sz) (\<lambda>page_sz.
     bind (libc K (Munmap (a + 1) page_sz)) (\<lambda>r.
     seq (modify (\<lambda>s. s\<lparr>mu3_ret := r\<rparr>)) (
     munmap03_check_and_print EINVAL)))))"

definition munmap03_cleanup :: "kernel \<Rightarrow> (munmap03, unit) cprog" where
  "munmap03_cleanup K = (bind (gets mu3_global_addr) (\<lambda>a.
     bind (gets mu3_global_maplen) (\<lambda>len.
     bind (libc K (Munmap a len)) (\<lambda>r.
     if_then (r = -1) (printf_errno ''munmap failed, error number '' [])))))"

definition munmap03_testfunc :: "kernel \<Rightarrow> (munmap03, unit) cprog list" where
  "munmap03_testfunc K = [munmap03_test_einval1 K, munmap03_test_einval2 K, munmap03_test_einval3 K]"

definition munmap03_main :: "kernel \<Rightarrow> (munmap03, unit) cprog" where
  "munmap03_main K = (seq (munmap03_setup K) (
     seq (block (munmap03_testfunc K)) (
     munmap03_cleanup K)))"

section \<open>mprotect01\<close>

record mprotect01_case =
  tc_addr :: addr
  tc_len :: int
  tc_prot :: int
  tc_error :: int

record mprotect01 = proc +
  mp1_fd :: int

definition mprotect01_init :: mprotect01 where
  "mprotect01_init = \<lparr>errno = 0, out = no_output, trace = [], mp1_fd = 0\<rparr>"

definition mprotect01_cleanup :: "kernel \<Rightarrow> (mprotect01, unit) cprog" where
  "mprotect01_cleanup K = (bind (gets mp1_fd) (\<lambda>fd.
     call (libc K (Close fd))))"

definition mprotect01_setup1 :: "kernel \<Rightarrow> mprotect01_case \<Rightarrow> (mprotect01, mprotect01_case) cprog" where
  "mprotect01_setup1 K self = (bind (libc K Getpagesize) (\<lambda>page.
     ret (self\<lparr>tc_len := page + 1\<rparr>)))"

definition mprotect01_setup2 :: "kernel \<Rightarrow> mprotect01_case \<Rightarrow> (mprotect01, mprotect01_case) cprog" where
  "mprotect01_setup2 K self = (bind (libc K Getpagesize) (\<lambda>page.
     bind (c_malloc K page) (\<lambda>a.
     if a = NULL then
       (seq (printf ''malloc failed\<newline>'') (
       seq (mprotect01_cleanup K) (
       c_exit 0)))
     else
     ret (self\<lparr>tc_addr := a + 1\<rparr>))))"

definition mprotect01_setup3 :: "kernel \<Rightarrow> mprotect01_case \<Rightarrow> (mprotect01, mprotect01_case) cprog" where
  "mprotect01_setup3 K self = (bind (libc K (Open ''/dev/zero'' O_RDONLY 0)) (\<lambda>fd.
     seq (modify (\<lambda>s. s\<lparr>mp1_fd := fd\<rparr>)) (
     bind (libc K Getpagesize) (\<lambda>len.
     bind (libc_ptr K (Mmap NULL len PROT_READ MAP_SHARED fd 0)) (\<lambda>a.
     if a = MAP_FAILED then
       (seq (printf ''mmap failed\<newline>'') (
       seq (mprotect01_cleanup K) (
       c_exit 0)))
     else
     ret (self\<lparr>tc_len := len, tc_addr := a\<rparr>))))))"

definition mprotect01_TC :: "kernel \<Rightarrow> (mprotect01_case \<times> (mprotect01_case \<Rightarrow> (mprotect01, mprotect01_case) cprog)) list" where
  "mprotect01_TC K =
     [(\<lparr>tc_addr = NULL, tc_len = 0, tc_prot = PROT_READ, tc_error = ENOMEM\<rparr>, mprotect01_setup1 K),
      (\<lparr>tc_addr = NULL, tc_len = 1024, tc_prot = PROT_READ, tc_error = EINVAL\<rparr>, mprotect01_setup2 K),
      (\<lparr>tc_addr = NULL, tc_len = 0, tc_prot = PROT_WRITE, tc_error = EACCES\<rparr>, mprotect01_setup3 K)]"

text \<open>One round of the loop in \<^verbatim>\<open>main\<close>; it returns the new value of \<^verbatim>\<open>ok\<close>.\<close>

definition mprotect01_case_run :: "kernel \<Rightarrow> mprotect01_case \<times> (mprotect01_case \<Rightarrow> (mprotect01, mprotect01_case) cprog)
    \<Rightarrow> int \<Rightarrow> (mprotect01, int) cprog" where
  "mprotect01_case_run K tc ok = (bind (snd tc (fst tc)) (\<lambda>c.
     bind (libc K (Mprotect (tc_addr c) (tc_len c) (tc_prot c))) (\<lambda>r.
     if r \<noteq> -1 then
       (seq (printf ''call succeeded unexpectedly\<newline>'') (
       ret 0))
     else
     bind (gets errno) (\<lambda>e.
     if e = tc_error c then (seq (printf (''expected failure - errno = '' @ show_int e @ ''\<newline>'')) (
       ret ok))
     else (seq (printf (''unexpected error - '' @ show_int e @ '' - expected '' @ show_int (tc_error c) @ ''\<newline>'')) (
       ret 0))))))"

fun mprotect01_loop :: "kernel \<Rightarrow> (mprotect01_case \<times> (mprotect01_case \<Rightarrow> (mprotect01, mprotect01_case) cprog)) list
    \<Rightarrow> int \<Rightarrow> (mprotect01, int) cprog" where
  "mprotect01_loop K [] ok = ret ok"
| "mprotect01_loop K (tc # tcs) ok = bind (mprotect01_case_run K tc ok) (mprotect01_loop K tcs)"

definition mprotect01_main :: "kernel \<Rightarrow> (mprotect01, unit) cprog" where
  "mprotect01_main K = (bind (mprotect01_loop K (mprotect01_TC K) 1) (\<lambda>ok.
     seq (if_then (ok \<noteq> 0) (printf ''test succeeded\<newline>'')) (
     mprotect01_cleanup K)))"

section \<open>Verdicts\<close>

text \<open>\<^verbatim>\<open>munmap02\<close> maps three pages and unmaps the last two. It passes exactly when its preparations succeed, the
  unmapping succeeds, and the store to the second page then raises SIGSEGV.\<close>

theorem munmap02_verdict:
  "passes (munmap02_main K) munmap02_init \<longleftrightarrow>
   (let h = calls (munmap02_main K) munmap02_init; p = rv (snd (h ! 1)); a = ptr_of (snd (h ! 5)) in
     0 \<le> rv (snd (h ! 0)) \<and> 0 \<le> rv (snd (h ! 2)) \<and> rv (snd (h ! 4)) = 1 \<and> a \<noteq> MAP_FAILED \<and>
     fst (h ! 6) = Munmap (a + word_of_int p) (uint32 (uint32 (3 * p) - p)) \<and> 0 \<le> rv (snd (h ! 6)) \<and>
     fst (h ! 7) = MemStore (a + word_of_int p) [CHR 0x32] \<and> sr_ret (snd (h ! 7)) = Inl SIGSEGV)"
proof (rule verdictI)
  show "runs (munmap02_main K) munmap02_init (\<lambda>(fl, s'). announced (fl, s') \<longleftrightarrow>
   (let h = trace s'; p = rv (snd (h ! 1)); a = ptr_of (snd (h ! 5)) in
     0 \<le> rv (snd (h ! 0)) \<and> 0 \<le> rv (snd (h ! 2)) \<and> rv (snd (h ! 4)) = 1 \<and> a \<noteq> MAP_FAILED \<and>
     fst (h ! 6) = Munmap (a + word_of_int p) (uint32 (uint32 (3 * p) - p)) \<and> 0 \<le> rv (snd (h ! 6)) \<and>
     fst (h ! 7) = MemStore (a + word_of_int p) [CHR 0x32] \<and> sr_ret (snd (h ! 7)) = Inl SIGSEGV))"
    unfolding munmap02_main_def munmap02_setup_def munmap02_sig_handler_def munmap02_cleanup_def munmap02_init_def merges
    by (simp add: run_simps Let_def cong: run_congs split del: if_split;
        intro answeredI conjI impI allI; simp add: rv_not_m1)
qed

text \<open>\<^verbatim>\<open>munmap03\<close> passes exactly when one of its three invalid unmappings fails with EINVAL; it stops at the
  first that does, and the others are not tried.\<close>

theorem munmap03_verdict:
  "passes (munmap03_main K) munmap03_init \<longleftrightarrow>
   (let h = calls (munmap03_main K) munmap03_init in
     failed_with (snd (h ! 4)) EINVAL \<and> length h = 5 \<or> failed_with (snd (h ! 5)) EINVAL \<and> length h = 6 \<or>
     failed_with (snd (h ! 6)) EINVAL \<and> length h = 7)"
proof (rule verdictI)
  show "runs (munmap03_main K) munmap03_init (\<lambda>(fl, s'). announced (fl, s') \<longleftrightarrow> (let h = trace s' in
     failed_with (snd (h ! 4)) EINVAL \<and> length h = 5 \<or> failed_with (snd (h ! 5)) EINVAL \<and> length h = 6 \<or>
     failed_with (snd (h ! 6)) EINVAL \<and> length h = 7))"
    unfolding munmap03_main_def munmap03_testfunc_def munmap03_setup_def munmap03_test_einval1_def
      munmap03_test_einval2_def munmap03_test_einval3_def munmap03_check_and_print_def munmap03_cleanup_def
      munmap03_init_def merges
    by (auto simp: run_simps Let_def rv_negative failed_with_def cong: run_congs split: if_splits intro!: answeredI)
qed

text \<open>\<^verbatim>\<open>mprotect01\<close> passes exactly when its allocation and its mapping succeed and the three protections fail with
  ENOMEM, EINVAL and EACCES.\<close>

theorem mprotect01_verdict:
  "passes (mprotect01_main K) mprotect01_init \<longleftrightarrow>
   (let h = calls (mprotect01_main K) mprotect01_init in
     failed_with (snd (h ! 1)) ENOMEM \<and> ptr_or_null (snd (h ! 3)) \<noteq> NULL \<and> failed_with (snd (h ! 4)) EINVAL \<and>
     ptr_of (snd (h ! 7)) \<noteq> MAP_FAILED \<and> failed_with (snd (h ! 8)) EACCES)"
proof (rule verdictI)
  show "runs (mprotect01_main K) mprotect01_init (\<lambda>(fl, s'). announced (fl, s') \<longleftrightarrow> (let h = trace s' in
     failed_with (snd (h ! 1)) ENOMEM \<and> ptr_or_null (snd (h ! 3)) \<noteq> NULL \<and> failed_with (snd (h ! 4)) EINVAL \<and>
     ptr_of (snd (h ! 7)) \<noteq> MAP_FAILED \<and> failed_with (snd (h ! 8)) EACCES))"
    unfolding mprotect01_main_def mprotect01_TC_def mprotect01_loop.simps mprotect01_case_run_def fst_conv snd_conv
      mprotect01_setup1_def mprotect01_setup2_def mprotect01_setup3_def mprotect01_cleanup_def mprotect01_init_def merges
    by (simp add: run_simps Let_def cong: run_congs split del: if_split;
        intro answeredI conjI impI allI; auto simp add: rv_negative failed_with_def)
qed

end
