(* ===== verification/Mmap_File_Tests.thy ===== *)
theory Mmap_File_Tests
  imports Process
begin

text \<open>
  The mmap tests that map one page of a file they have just written (\<^verbatim>\<open>independent tests/syscalls/mmap/\<close>,
  \<^verbatim>\<open>mmap02\<close> to \<^verbatim>\<open>mmap08\<close>): mappings that must show the file's contents, mappings without access, and
  mappings that must be refused.
\<close>

section \<open>Globals\<close>

text \<open>The globals these files declare. \<^verbatim>\<open>dummy\<close> is a page from \<^verbatim>\<open>calloc\<close>, or null; the last field tells
  whether it has been freed and dangles.\<close>

record mmap_file = proc +
  mm_page_sz :: int
  mm_addr :: addr
  mm_dummy :: "string option"
  mm_fildes :: int
  mm_freed :: bool

definition mmap_file_init :: mmap_file where
  "mmap_file_init = \<lparr>errno = 0, out = no_output, trace = [], mm_page_sz = 0, mm_addr = NULL,
     mm_dummy = None, mm_fildes = 0, mm_freed = False\<rparr>"

text \<open>\<^verbatim>\<open>free(dummy)\<close>: of the null pointer nothing happens, of a dangling pointer the outcome is undefined.\<close>

definition free_dummy :: "kernel \<Rightarrow> (mmap_file, unit) cprog" where
  "free_dummy K = (bind (gets mm_freed) (\<lambda>freed.
     bind (gets mm_dummy) (\<lambda>dummy.
     seq (if_then freed (undefined_call K ''free(dummy)'')) (
     modify (\<lambda>s. s\<lparr>mm_freed := (dummy \<noteq> None)\<rparr>)))))"

text \<open>\<^verbatim>\<open>read(fildes, dummy, page_sz) < 0\<close>, with the new contents of the page.\<close>

definition read_dummy :: "kernel \<Rightarrow> (mmap_file, bool) cprog" where
  "read_dummy K = (bind (gets mm_fildes) (\<lambda>fd.
     bind (gets mm_page_sz) (\<lambda>page_sz.
     bind (gets mm_dummy) (\<lambda>dummy.
     bind (c_read K fd (the dummy) (nat page_sz)) (\<lambda>(r, dummy').
     seq (modify (\<lambda>s. s\<lparr>mm_dummy := Some dummy'\<rparr>)) (
     ret (r < 0)))))))"

text \<open>\<^verbatim>\<open>memcmp(dummy, addr, page_sz)\<close>: whether the page differs from the mapping. A dangling \<^verbatim>\<open>dummy\<close> has
  indeterminate contents.\<close>

definition differs :: "kernel \<Rightarrow> (mmap_file, bool) cprog" where
  "differs K = (bind (gets mm_page_sz) (\<lambda>page_sz.
     bind (gets mm_addr) (\<lambda>a.
     bind (gets mm_freed) (\<lambda>freed.
     bind (gets mm_dummy) (\<lambda>dummy.
     bind ((if freed then indet_bytes K ''dummy'' (nat page_sz) else ret (the dummy))) (\<lambda>now.
     bind (mem_load K a (nat page_sz)) (\<lambda>bs.
     ret (now \<noteq> bs))))))))"

section \<open>mmap02\<close>

definition mmap02_cleanup :: "kernel \<Rightarrow> (mmap_file, unit) cprog" where
  "mmap02_cleanup K = (bind (gets mm_fildes) (\<lambda>fd.
     seq (call (libc K (Close fd))) (
     free_dummy K)))"

definition mmap02_setup :: "kernel \<Rightarrow> (mmap_file, unit) cprog" where
  "mmap02_setup K = (bind (libc K Getpagesize) (\<lambda>page_sz.
     seq (modify (\<lambda>s. s\<lparr>mm_page_sz := page_sz\<rparr>)) (
     bind (c_malloc K page_sz) (\<lambda>tst_buff.
     if tst_buff = NULL then
       (seq (printf ''calloc failed (tst_buff)'') (
       c_exit EXIT_FAILURE))
     else
     bind (libc K (Open ''mmapfile'' (O_RDWR OR O_CREAT) mode_0666)) (\<lambda>fd.
     seq (modify (\<lambda>s. s\<lparr>mm_fildes := fd\<rparr>)) (
     if fd < 0 then
       (seq (printf_errno ''opening mmapfile failed, error number '' ''\<newline>'') (
       seq (mmap02_cleanup K) (
       c_exit EXIT_FAILURE)))
     else
     bind (libc K (Write fd (Bytes (fill (nat page_sz) (CHR ''A''))) (nat page_sz))) (\<lambda>w.
     if w < page_sz then
       (seq (printf_errno ''writing to mmapfile failed, error number '' ''\<newline>'') (
       seq (mmap02_cleanup K) (
       c_exit EXIT_FAILURE)))
     else
     bind (libc K (Fchmod fd mode_0444)) (\<lambda>m.
     if m < 0 then
       (seq (printf_errno ''fchmod(mmapfile, 0444) failed, error number '' []) (
       seq (mmap02_cleanup K) (
       c_exit EXIT_FAILURE)))
     else
     bind (libc K (Close fd)) (\<lambda>c.
     if c < 0 then
       (seq (printf_errno ''closing mmapfile failed, error number '' ''\<newline>'') (
       seq (mmap02_cleanup K) (
       c_exit EXIT_FAILURE)))
     else
     bind (libc K (Open ''mmapfile'' O_RDONLY 0)) (\<lambda>fd'.
     seq (modify (\<lambda>s. s\<lparr>mm_fildes := fd'\<rparr>)) (
     if fd' < 0 then
       (seq (printf ''reopening mmapfile readonly failed\<newline>'') (
       seq (mmap02_cleanup K) (
       c_exit EXIT_FAILURE)))
     else
     bind (c_malloc K page_sz) (\<lambda>dm.
     if dm = NULL then
       (seq (printf ''calloc failed (dummy)\<newline>'') (
       seq (mmap02_cleanup K) (
       c_exit EXIT_FAILURE)))
     else
     seq (modify (\<lambda>s. s\<lparr>mm_dummy := Some (fill (nat page_sz) NUL)\<rparr>)) (
     skip)))))))))))))"

definition mmap02_main :: "kernel \<Rightarrow> (mmap_file, int) cprog" where
  "mmap02_main K = (seq (mmap02_setup K) (
     seq (set_errno 0) (
     bind (gets mm_page_sz) (\<lambda>page_sz.
     bind (gets mm_fildes) (\<lambda>fd.
     bind (libc_ptr K (Mmap NULL page_sz PROT_READ (MAP_FILE OR MAP_SHARED) fd 0)) (\<lambda>a.
     seq (modify (\<lambda>s. s\<lparr>mm_addr := a\<rparr>)) (
     if a = MAP_FAILED then
       (seq (printf_errno ''mmap of mmapfile failed, error number '' ''\<newline>'') (
       ret 0))
     else
     bind (read_dummy K) (\<lambda>bad.
     seq (if_then bad (seq (printf ''reading mmapfile failed'') (
       mmap02_cleanup K))) (
     bind (differs K) (\<lambda>diff.
     seq (if diff then printf ''mapped memory area contains invalid data\<newline>''
       else printf ''test succeeded\<newline>'') (
     bind (libc K (Munmap a page_sz)) (\<lambda>u.
     seq (if_then (u \<noteq> 0) (printf_errno ''munmapping failed, error number '' ''\<newline>'')) (
     seq (mmap02_cleanup K) (
     ret 0))))))))))))))"

section \<open>mmap03\<close>

definition mmap03_cleanup :: "kernel \<Rightarrow> (mmap_file, unit) cprog" where
  "mmap03_cleanup K = (bind (gets mm_fildes) (\<lambda>fd.
     seq (call (libc K (Close fd))) (
     free_dummy K)))"

definition mmap03_setup :: "kernel \<Rightarrow> (mmap_file, unit) cprog" where
  "mmap03_setup K = (bind (libc K Getpagesize) (\<lambda>page_sz.
     seq (modify (\<lambda>s. s\<lparr>mm_page_sz := page_sz\<rparr>)) (
     bind (c_malloc K page_sz) (\<lambda>tst_buff.
     if tst_buff = NULL then
       (seq (printf ''calloc failed (tst_buff)'') (
       c_exit EXIT_FAILURE))
     else
     bind (libc K (Open ''mmapfile'' (O_WRONLY OR O_CREAT) mode_0666)) (\<lambda>fd.
     seq (modify (\<lambda>s. s\<lparr>mm_fildes := fd\<rparr>)) (
     if fd < 0 then
       (seq (printf_errno ''opening mmapfile failed, error number '' ''\<newline>'') (
       seq (mmap03_cleanup K) (
       c_exit EXIT_FAILURE)))
     else
     bind (libc K (Write fd (Bytes (fill (nat page_sz) (CHR ''A''))) (nat page_sz))) (\<lambda>w.
     if w < page_sz then
       (seq (printf_errno ''writing to mmapfile failed, error number '' ''\<newline>'') (
       seq (mmap03_cleanup K) (
       c_exit EXIT_FAILURE)))
     else
     bind (libc K (Fchmod fd mode_0555)) (\<lambda>m.
     if m < 0 then
       (seq (printf ''fchmod of mmapfile failed\<newline>'') (
       seq (mmap03_cleanup K) (
       c_exit EXIT_FAILURE)))
     else
     bind (libc K (Close fd)) (\<lambda>c.
     if c < 0 then
       (seq (printf_errno ''closing mmapfile failed, error number '' ''\<newline>'') (
       seq (mmap03_cleanup K) (
       c_exit EXIT_FAILURE)))
     else
     bind (c_malloc K page_sz) (\<lambda>dm.
     if dm = NULL then
       (seq (printf ''calloc failed (dummy)'') (
       seq (mmap03_cleanup K) (
       c_exit EXIT_FAILURE)))
     else
     seq (modify (\<lambda>s. s\<lparr>mm_dummy := Some (fill (nat page_sz) NUL)\<rparr>)) (
     bind (libc K (Open ''mmapfile'' O_RDONLY 0)) (\<lambda>fd'.
     seq (modify (\<lambda>s. s\<lparr>mm_fildes := fd'\<rparr>)) (
     if fd' < 0 then
       (seq (printf_errno ''opening mmapfile read-only failed, error number '' ''\<newline>'') (
       seq (mmap03_cleanup K) (
       c_exit EXIT_FAILURE)))
     else
     skip)))))))))))))"

text \<open>\<^verbatim>\<open>pass\<close> is only looked at on machines other than the one modelled.\<close>

definition mmap03_main :: "kernel \<Rightarrow> (mmap_file, int) cprog" where
  "mmap03_main K = (seq (mmap03_setup K) (
     seq (set_errno 0) (
     bind (gets mm_page_sz) (\<lambda>page_sz.
     bind (gets mm_fildes) (\<lambda>fd.
     bind (libc_ptr K (Mmap NULL page_sz PROT_EXEC (MAP_FILE OR MAP_SHARED) fd 0)) (\<lambda>a.
     seq (modify (\<lambda>s. s\<lparr>mm_addr := a\<rparr>)) (
     if a = MAP_FAILED then
       (seq (printf_errno ''mmap() failed on mmapfile, error number '' ''\<newline>'') (
       c_exit EXIT_FAILURE))
     else
     bind (read_dummy K) (\<lambda>bad.
     seq (if_then bad (seq (printf_errno ''reading mmapfile failed, error number '' ''\<newline>'') (
       mmap03_cleanup K))) (
     bind (differs K) (\<lambda>diff.
     if diff then
       (seq (printf ''mapped memory region, contains invalid data\<newline>'') (
       c_exit EXIT_FAILURE))
     else
     seq (printf ''test succeeded\<newline>'') (
     bind (libc K (Munmap a page_sz)) (\<lambda>u.
     if u \<noteq> 0 then
       (seq (printf_errno ''failed to unmap the mmapped pages, error number '' []) (
       seq (mmap03_cleanup K) (
       c_exit EXIT_FAILURE)))
     else
     seq (mmap03_cleanup K) (
     ret 0)))))))))))))"

section \<open>mmap04\<close>

definition mmap04_cleanup :: "kernel \<Rightarrow> (mmap_file, unit) cprog" where
  "mmap04_cleanup K = (bind (gets mm_fildes) (\<lambda>fd.
     seq (call (libc K (Close fd))) (
     free_dummy K)))"

definition mmap04_setup :: "kernel \<Rightarrow> (mmap_file, unit) cprog" where
  "mmap04_setup K = (bind (libc K Getpagesize) (\<lambda>page_sz.
     seq (modify (\<lambda>s. s\<lparr>mm_page_sz := page_sz\<rparr>)) (
     bind (c_malloc K page_sz) (\<lambda>tst_buff.
     if tst_buff = NULL then
       (seq (printf ''calloc failed (tst_buff)\<newline>'') (
       c_exit EXIT_FAILURE))
     else
     bind (libc K (Open ''mmapfile'' (O_WRONLY OR O_CREAT) mode_0666)) (\<lambda>fd.
     seq (modify (\<lambda>s. s\<lparr>mm_fildes := fd\<rparr>)) (
     if fd < 0 then
       (seq (printf ''opening mmapfile failed\<newline>'') (
       seq (mmap04_cleanup K) (
       c_exit EXIT_FAILURE)))
     else
     bind (libc K (Write fd (Bytes (fill (nat page_sz) (CHR ''A''))) (nat page_sz))) (\<lambda>w.
     if w < page_sz then
       (seq (printf ''writing to mmapfile failed\<newline>'') (
       seq (mmap04_cleanup K) (
       c_exit EXIT_FAILURE)))
     else
     bind (libc K (Fchmod fd mode_0555)) (\<lambda>m.
     if m < 0 then
       (seq (printf ''fchmod of mmapfile failed\<newline>'') (
       seq (mmap04_cleanup K) (
       c_exit EXIT_FAILURE)))
     else
     bind (libc K (Close fd)) (\<lambda>c.
     if c < 0 then
       (seq (printf ''closing mmapfile failed\<newline>'') (
       seq (mmap04_cleanup K) (
       c_exit EXIT_FAILURE)))
     else
     bind (c_malloc K page_sz) (\<lambda>dm.
     if dm = NULL then
       (seq (printf ''calloc failed (dummy)\<newline>'') (
       seq (mmap04_cleanup K) (
       c_exit EXIT_FAILURE)))
     else
     seq (modify (\<lambda>s. s\<lparr>mm_dummy := Some (fill (nat page_sz) NUL)\<rparr>)) (
     bind (libc K (Open ''mmapfile'' O_RDONLY 0)) (\<lambda>fd'.
     seq (modify (\<lambda>s. s\<lparr>mm_fildes := fd'\<rparr>)) (
     if fd' < 0 then
       (seq (printf ''opening mmapfile read-only failed'') (
       seq (mmap04_cleanup K) (
       c_exit EXIT_FAILURE)))
     else
     skip)))))))))))))"

text \<open>A refused mapping is reported, and then read through all the same.\<close>

definition mmap04_main :: "kernel \<Rightarrow> (mmap_file, int) cprog" where
  "mmap04_main K = (seq (mmap04_setup K) (
     seq (set_errno 0) (
     bind (gets mm_page_sz) (\<lambda>page_sz.
     bind (gets mm_fildes) (\<lambda>fd.
     bind (libc_ptr K (Mmap NULL page_sz (PROT_READ OR PROT_EXEC) (MAP_FILE OR MAP_SHARED) fd 0)) (\<lambda>a.
     seq (modify (\<lambda>s. s\<lparr>mm_addr := a\<rparr>)) (
     seq (if_then (a = MAP_FAILED) (printf_errno ''mmap of mmapfile failed, error number '' ''\<newline>'')) (
     bind (read_dummy K) (\<lambda>bad.
     seq (if_then bad (seq (printf ''reading mmapfile failed\<newline>'') (
       mmap04_cleanup K))) (
     bind (differs K) (\<lambda>diff.
     seq (if diff then printf ''mapped memory region contains invalid data\<newline>''
       else printf ''test succeeded\<newline>'') (
     bind (libc K (Munmap a page_sz)) (\<lambda>u.
     seq (if_then (u \<noteq> 0) (seq (printf ''munmapping failed\<newline>'') (
       mmap04_cleanup K))) (
     seq (mmap04_cleanup K) (
     ret 0)))))))))))))))"

section \<open>mmap05\<close>

definition mmap05_cleanup :: "kernel \<Rightarrow> (mmap_file, unit) cprog" where
  "mmap05_cleanup K = (bind (gets mm_fildes) (\<lambda>fd.
     call (libc K (Close fd))))"

definition mmap05_setup :: "kernel \<Rightarrow> (mmap_file, unit) cprog" where
  "mmap05_setup K = (bind (libc K Getpagesize) (\<lambda>page_sz.
     seq (modify (\<lambda>s. s\<lparr>mm_page_sz := page_sz\<rparr>)) (
     bind (c_malloc K page_sz) (\<lambda>tst_buff.
     if tst_buff = NULL then
       (seq (printf ''calloc failed (tst_buff)\<newline>'') (
       c_exit EXIT_FAILURE))
     else
     bind (libc K (Open ''mmapfile'' (O_WRONLY OR O_CREAT) mode_0666)) (\<lambda>fd.
     seq (modify (\<lambda>s. s\<lparr>mm_fildes := fd\<rparr>)) (
     if fd < 0 then
       (seq (printf_errno ''opening mmapfile failed, eror number '' ''\<newline>'') (
       seq (mmap05_cleanup K) (
       c_exit EXIT_FAILURE)))
     else
     bind (libc K (Write fd (Bytes (fill (nat page_sz) (CHR ''A''))) (nat page_sz))) (\<lambda>w.
     if w \<noteq> page_sz then
       (seq (printf ''writing to mmapfile failed\<newline>'') (
       seq (mmap05_cleanup K) (
       c_exit EXIT_FAILURE)))
     else
     bind (libc K (Fchmod fd mode_0444)) (\<lambda>m.
     if m < 0 then
       (seq (printf_errno ''fchmod of mmapfile failed, error number '' ''\<newline>'') (
       seq (mmap05_cleanup K) (
       c_exit EXIT_FAILURE)))
     else
     bind (libc K (Close fd)) (\<lambda>c.
     if c < 0 then
       (seq (printf_errno ''closing mmapfile failed, error number '' []) (
       seq (mmap05_cleanup K) (
       c_exit EXIT_FAILURE)))
     else
     bind (libc K (Open ''mmapfile'' O_RDONLY 0)) (\<lambda>fd'.
     seq (modify (\<lambda>s. s\<lparr>mm_fildes := fd'\<rparr>)) (
     if fd' < 0 then
       (seq (printf_errno ''opening mmapfile readonly failed, error number '' ''\<newline>'') (
       seq (mmap05_cleanup K) (
       c_exit EXIT_FAILURE)))
     else
     skip)))))))))))"

definition mmap05_main :: "kernel \<Rightarrow> (mmap_file, int) cprog" where
  "mmap05_main K = (seq (mmap05_setup K) (
     seq (set_errno 0) (
     bind (gets mm_page_sz) (\<lambda>page_sz.
     bind (gets mm_fildes) (\<lambda>fd.
     bind (libc_ptr K (Mmap NULL page_sz PROT_NONE (MAP_FILE OR MAP_SHARED) fd 0)) (\<lambda>a.
     seq (modify (\<lambda>s. s\<lparr>mm_addr := a\<rparr>)) (
     if a = MAP_FAILED then
       (seq (printf_errno ''mmap() failed on mmapfile, error number '' ''\<newline>'') (
       c_exit EXIT_FAILURE))
     else
     bind (gets errno) (\<lambda>e.
     if e \<noteq> 0 then
       (seq (printf ''Mapped memory region with NO access is accessible\<newline>'') (
       c_exit EXIT_FAILURE))
     else
     seq (printf ''test succeeded\<newline>'') (
     bind (libc K (Munmap a page_sz)) (\<lambda>u.
     if u \<noteq> 0 then
       (seq (printf_errno ''munmap failed, error number '' ''\<newline>'') (
       seq (mmap05_cleanup K) (
       c_exit EXIT_FAILURE)))
     else
     seq (mmap05_cleanup K) (
     ret 0)))))))))))"

section \<open>mmap06\<close>

definition mmap06_cleanup :: "kernel \<Rightarrow> (mmap_file, unit) cprog" where
  "mmap06_cleanup K = (bind (gets mm_fildes) (\<lambda>fd.
     call (libc K (Close fd))))"

definition mmap06_setup :: "kernel \<Rightarrow> (mmap_file, unit) cprog" where
  "mmap06_setup K = (bind (libc K Getpagesize) (\<lambda>page_sz.
     seq (modify (\<lambda>s. s\<lparr>mm_page_sz := page_sz\<rparr>)) (
     bind (c_malloc K page_sz) (\<lambda>tst_buff.
     if tst_buff = NULL then
       (seq (printf ''calloc() failed (tst_buff)\<newline>'') (
       c_exit EXIT_FAILURE))
     else
     bind (libc K (Open ''mmapfile'' (O_WRONLY OR O_CREAT) mode_0666)) (\<lambda>fd.
     seq (modify (\<lambda>s. s\<lparr>mm_fildes := fd\<rparr>)) (
     if fd < 0 then
       (seq (printf ''opening mmapfile failed\<newline>'') (
       seq (mmap06_cleanup K) (
       c_exit EXIT_FAILURE)))
     else
     bind (libc K (Write fd (Bytes (fill (nat page_sz) (CHR ''A''))) (nat page_sz))) (\<lambda>w.
     if w < page_sz then
       (seq (printf ''writing to mmapfile failed\<newline>'') (
       seq (mmap06_cleanup K) (
       c_exit EXIT_FAILURE)))
     else
     skip)))))))"

definition mmap06_main :: "kernel \<Rightarrow> (mmap_file, int) cprog" where
  "mmap06_main K = (seq (mmap06_setup K) (
     seq (set_errno 0) (
     bind (gets mm_page_sz) (\<lambda>page_sz.
     bind (gets mm_fildes) (\<lambda>fd.
     bind (libc_ptr K (Mmap NULL page_sz PROT_READ (MAP_FILE OR MAP_SHARED) fd 0)) (\<lambda>a.
     seq (modify (\<lambda>s. s\<lparr>mm_addr := a\<rparr>)) (
     if a \<noteq> MAP_FAILED then
       (seq (printf_errno ''mmap() returned invalid value, expected: 0xffffffffffffffff, got '' ''\<newline>'') (
       bind (libc K (Munmap a page_sz)) (\<lambda>u.
       seq (if_then (u \<noteq> 0) (seq (printf ''munmap() failed\<newline>'') (
         mmap06_cleanup K))) (
       c_exit EXIT_FAILURE))))
     else
     bind (gets errno) (\<lambda>e.
     seq (if e = EACCES then printf ''test succeeded\<newline>''
       else printf (''mmap failed with unexpected errno: '' @ show_int e @ ''\<newline>'')) (
     seq (mmap06_cleanup K) (
     ret 0))))))))))"

section \<open>mmap07\<close>

definition mmap07_cleanup :: "kernel \<Rightarrow> (mmap_file, unit) cprog" where
  "mmap07_cleanup K = (bind (gets mm_fildes) (\<lambda>fd.
     call (libc K (Close fd))))"

definition mmap07_setup :: "kernel \<Rightarrow> (mmap_file, unit) cprog" where
  "mmap07_setup K = (bind (libc K Getpagesize) (\<lambda>page_sz.
     seq (modify (\<lambda>s. s\<lparr>mm_page_sz := page_sz\<rparr>)) (
     bind (c_malloc K page_sz) (\<lambda>tst_buff.
     if tst_buff = NULL then
       (seq (printf ''calloc() failed to allocate space for tst_buff\<newline>'') (
       c_exit EXIT_FAILURE))
     else
     bind (libc K (Open ''mmapfile'' (O_WRONLY OR O_CREAT) mode_0666)) (\<lambda>fd.
     seq (modify (\<lambda>s. s\<lparr>mm_fildes := fd\<rparr>)) (
     if fd < 0 then
       (seq (printf ''open() on mmapfile failed\<newline>'') (
       seq (mmap07_cleanup K) (
       c_exit EXIT_FAILURE)))
     else
     bind (libc K (Write fd (Bytes (fill (nat page_sz) (CHR ''A''))) (nat page_sz))) (\<lambda>w.
     if w < page_sz then
       (seq (printf ''writing to mmapfile failed\<newline>'') (
       seq (mmap07_cleanup K) (
       c_exit EXIT_FAILURE)))
     else
     skip)))))))"

definition mmap07_main :: "kernel \<Rightarrow> (mmap_file, int) cprog" where
  "mmap07_main K = (seq (mmap07_setup K) (
     seq (set_errno 0) (
     bind (gets mm_page_sz) (\<lambda>page_sz.
     bind (gets mm_fildes) (\<lambda>fd.
     bind (libc_ptr K (Mmap NULL page_sz PROT_WRITE (MAP_FILE OR MAP_PRIVATE) fd 0)) (\<lambda>a.
     seq (modify (\<lambda>s. s\<lparr>mm_addr := a\<rparr>)) (
     if a \<noteq> MAP_FAILED then
       (seq (printf_errno ''mmap() returned invalid value, expected: 0xffffffffffffffff, got '' ''\<newline>'') (
       bind (libc K (Munmap a page_sz)) (\<lambda>u.
       seq (if_then (u \<noteq> 0) (seq (printf ''munmap() failed\<newline>'') (
         mmap07_cleanup K))) (
       c_exit EXIT_FAILURE))))
     else
     bind (gets errno) (\<lambda>e.
     seq (if e = EACCES then printf ''test succeeded\<newline>''
       else printf (''mmap failed with unexpected errno, error number '' @ show_int e @ ''\<newline>'')) (
     seq (mmap07_cleanup K) (
     ret 0))))))))))"

section \<open>mmap08\<close>

definition mmap08_setup :: "kernel \<Rightarrow> (mmap_file, unit) cprog" where
  "mmap08_setup K = (bind (libc K Getpagesize) (\<lambda>page_sz.
     seq (modify (\<lambda>s. s\<lparr>mm_page_sz := page_sz\<rparr>)) (
     bind (c_malloc K page_sz) (\<lambda>tst_buff.
     if tst_buff = NULL then
       (seq (printf ''calloc() failed to allocate space for tst_buff\<newline>'') (
       c_exit EXIT_FAILURE))
     else
     bind (libc K (Open ''mmapfile'' (O_WRONLY OR O_CREAT) mode_0666)) (\<lambda>fd.
     seq (modify (\<lambda>s. s\<lparr>mm_fildes := fd\<rparr>)) (
     if fd < 0 then
       (seq (printf ''opening mmapfile failed\<newline>'') (
       c_exit EXIT_FAILURE))
     else
     bind (libc K (Write fd (Bytes (fill (nat page_sz) (CHR ''A''))) (nat page_sz))) (\<lambda>w.
     if w \<noteq> page_sz then
       (seq (printf ''writing to mmapfile failed\<newline>'') (
       c_exit EXIT_FAILURE))
     else
     bind (libc K (Close fd)) (\<lambda>c.
     if c < 0 then
       (seq (printf ''closing mmapfile failed\<newline>'') (
       c_exit EXIT_FAILURE))
     else
     skip))))))))"

definition mmap08_main :: "kernel \<Rightarrow> (mmap_file, int) cprog" where
  "mmap08_main K = (seq (mmap08_setup K) (
     seq (set_errno 0) (
     bind (gets mm_page_sz) (\<lambda>page_sz.
     bind (gets mm_fildes) (\<lambda>fd.
     bind (libc_ptr K (Mmap NULL page_sz PROT_WRITE (MAP_FILE OR MAP_SHARED) fd 0)) (\<lambda>a.
     seq (modify (\<lambda>s. s\<lparr>mm_addr := a\<rparr>)) (
     if a \<noteq> MAP_FAILED then
       (seq (printf (''mmap() didn't fail ('' @ show_ptr a @ '' != 0xffffffffffffffff)\<newline>'')) (
       bind (libc K (Munmap a page_sz)) (\<lambda>u.
       seq (if_then (u \<noteq> 0) (printf ''munmap() failed\<newline>'')) (
       c_exit EXIT_FAILURE))))
     else
     bind (gets errno) (\<lambda>e.
     seq (if e = EBADF then printf ''test succeeded\<newline>''
       else printf (''mmap failed with an invalid errno, error number '' @ show_int e @ ''\<newline>'')) (
     ret 0)))))))))"

section \<open>Verdicts\<close>

lemmas mmap_file_defs = mmap_file_init_def free_dummy_def read_dummy_def differs_def

text \<open>\<^verbatim>\<open>mmap05\<close> maps a page without any access, and passes exactly when its file could be prepared and the mapping is
  not refused: the page is never accessed.\<close>

theorem mmap05_verdict:
  "passes (mmap05_main K) mmap_file_init \<longleftrightarrow>
   (let h = calls (mmap05_main K) mmap_file_init in
     ptr_or_null (snd (h ! 1)) \<noteq> NULL \<and> 0 \<le> rv (snd (h ! 2)) \<and> rv (snd (h ! 3)) = rv (snd (h ! 0)) \<and>
     0 \<le> rv (snd (h ! 4)) \<and> 0 \<le> rv (snd (h ! 5)) \<and> 0 \<le> rv (snd (h ! 6)) \<and> ptr_of (snd (h ! 7)) \<noteq> MAP_FAILED)"
proof (rule verdictI)
  show "runs (mmap05_main K) mmap_file_init (\<lambda>(fl, s'). announced (fl, s') \<longleftrightarrow> (let h = trace s' in
     ptr_or_null (snd (h ! 1)) \<noteq> NULL \<and> 0 \<le> rv (snd (h ! 2)) \<and> rv (snd (h ! 3)) = rv (snd (h ! 0)) \<and>
     0 \<le> rv (snd (h ! 4)) \<and> 0 \<le> rv (snd (h ! 5)) \<and> 0 \<le> rv (snd (h ! 6)) \<and> ptr_of (snd (h ! 7)) \<noteq> MAP_FAILED))"
    unfolding mmap05_main_def mmap05_setup_def mmap05_cleanup_def mmap_file_defs merges
    by (simp add: run_simps Let_def cong: run_congs split del: if_split;
        intro answeredI conjI impI allI; (simp)?)
qed

text \<open>\<^verbatim>\<open>mmap06\<close> passes exactly when its file could be prepared and the readable mapping of the write-only descriptor fails
  with EACCES.\<close>

theorem mmap06_verdict:
  "passes (mmap06_main K) mmap_file_init \<longleftrightarrow>
   (let h = calls (mmap06_main K) mmap_file_init in
     ptr_or_null (snd (h ! 1)) \<noteq> NULL \<and> 0 \<le> rv (snd (h ! 2)) \<and> rv (snd (h ! 0)) \<le> rv (snd (h ! 3)) \<and>
     failed_with (snd (h ! 4)) EACCES)"
proof (rule verdictI)
  show "runs (mmap06_main K) mmap_file_init (\<lambda>(fl, s'). announced (fl, s') \<longleftrightarrow> (let h = trace s' in
     ptr_or_null (snd (h ! 1)) \<noteq> NULL \<and> 0 \<le> rv (snd (h ! 2)) \<and> rv (snd (h ! 0)) \<le> rv (snd (h ! 3)) \<and>
     failed_with (snd (h ! 4)) EACCES))"
    unfolding mmap06_main_def mmap06_setup_def mmap06_cleanup_def mmap_file_defs merges
    by (simp add: run_simps Let_def cong: run_congs split del: if_split;
        intro answeredI conjI impI allI; auto simp add: failed_with_def ptr_of_def)
qed

text \<open>What \<^verbatim>\<open>setup\<close> of \<^verbatim>\<open>mmap02\<close> needs from its first eight calls, and the state it hands to \<^verbatim>\<open>main\<close>.\<close>

definition mmap02_prepared :: "event list \<Rightarrow> bool" where
  "mmap02_prepared h \<longleftrightarrow>
     ptr_or_null (snd (h ! 1)) \<noteq> NULL \<and> 0 \<le> rv (snd (h ! 2)) \<and> rv (snd (h ! 0)) \<le> rv (snd (h ! 3)) \<and>
     0 \<le> rv (snd (h ! 4)) \<and> 0 \<le> rv (snd (h ! 5)) \<and> 0 \<le> rv (snd (h ! 6)) \<and> ptr_or_null (snd (h ! 7)) \<noteq> NULL"

lemma mmap02_prepared_append [simp]:
  "length h = 8 \<Longrightarrow> mmap02_prepared (h @ h') = mmap02_prepared h"
  by (simp add: mmap02_prepared_def nth_append)

lemma mmap02_setup_runs:
  assumes "\<And>s'. clear s' \<Longrightarrow> mm_dummy s' = Some (fill (nat (mm_page_sz s')) NUL) \<Longrightarrow> \<not> mm_freed s' \<Longrightarrow>
      length (trace s') = 8 \<Longrightarrow> rv (snd (trace s' ! 0)) = mm_page_sz s' \<Longrightarrow> mmap02_prepared (trace s') \<Longrightarrow>
      P (Ret (), s')"
    and "\<And>c s'. clear s' \<Longrightarrow> \<not> mmap02_prepared (trace s') \<Longrightarrow> P (Exit c, s')"
  shows "runs (mmap02_setup K) mmap_file_init P"
  unfolding mmap02_setup_def mmap02_cleanup_def mmap_file_defs merges
  by (simp add: run_simps Let_def cong: run_congs split del: if_split;
      intro answeredI conjI impI allI assms; simp add: mmap02_prepared_def clear_def)

text \<open>\<^verbatim>\<open>mmap02\<close> passes with a successful read exactly when its file could be prepared and mapped, reading the mapping does not
  fault, and the page read from the file is the page seen in the mapping.\<close>

theorem mmap02_verdict:
  "(let h = calls (mmap02_main K) mmap_file_init; p = nat (rv (snd (h ! 0))) in
    passes (mmap02_main K) mmap_file_init \<and> 0 \<le> rv (snd (h ! 9)) \<longleftrightarrow>
     mmap02_prepared h \<and>
     ptr_of (snd (h ! 8)) \<noteq> MAP_FAILED \<and> 0 \<le> rv (snd (h ! 9)) \<and> (\<exists>v. sr_ret (snd (h ! 10)) = Inr v) \<and>
     overlay (fit_to p (sr_bytes (snd (h ! 9)))) (fill p NUL) = fit p (sr_bytes (snd (h ! 10))))"
proof -
  have "runs (mmap02_main K) mmap_file_init (\<lambda>(fl, s'). let h = trace s'; p = nat (rv (snd (h ! 0))) in
    announced (fl, s') \<and> 0 \<le> rv (snd (h ! 9)) \<longleftrightarrow>
     mmap02_prepared h \<and>
     ptr_of (snd (h ! 8)) \<noteq> MAP_FAILED \<and> 0 \<le> rv (snd (h ! 9)) \<and> (\<exists>v. sr_ret (snd (h ! 10)) = Inr v) \<and>
     overlay (fit_to p (sr_bytes (snd (h ! 9)))) (fill p NUL) = fit p (sr_bytes (snd (h ! 10))))"
    unfolding mmap02_main_def mmap02_cleanup_def free_dummy_def read_dummy_def differs_def runs_seq merges
    by (rule mmap02_setup_runs;
        simp add: run_simps Let_def clear_def nth_append cong: run_congs split del: if_split;
        intro answeredI conjI impI allI; simp)
  then show ?thesis
    by (auto simp: runs_def calls_def passes_announced Let_def split: prod.splits)
qed

end
