(* ===== verification/Mmap_Tests.thy ===== *)
theory Mmap_Tests
  imports Process
begin

text \<open>
  The other single-process mmap tests (\<^verbatim>\<open>independent tests/syscalls/mmap/\<close>): \<^verbatim>\<open>mmap001\<close>, \<^verbatim>\<open>mmap01\<close>,
  \<^verbatim>\<open>mmap09\<close>, \<^verbatim>\<open>mmap12\<close> to \<^verbatim>\<open>mmap15\<close>, \<^verbatim>\<open>mmap17\<close> and \<^verbatim>\<open>mmap19\<close>.
\<close>

section \<open>mmap001\<close>

record mmap001 = proc +
  m001_filename :: string

definition mmap001_init :: mmap001 where
  "mmap001_init = \<lparr>errno = 0, out = no_output, trace = [], m001_filename = []\<rparr>"

text \<open>\<^verbatim>\<open>strdup\<close> allocates.\<close>

definition mmap001_setup :: "kernel \<Rightarrow> (mmap001, unit) cprog" where
  "mmap001_setup K = (bind (libc K Getpid) (\<lambda>pid.
     let buf = ''testfile.'' @ show_int pid in
     bind (c_malloc K (int (length buf) + 1)) (\<lambda>p.
     if p = NULL then
       (seq (printf ''strdup failed\<newline>'') (
       c_exit EXIT_FAILURE))
     else
     modify (\<lambda>s. s\<lparr>m001_filename := buf\<rparr>))))"

text \<open>The loop that stores \<^verbatim>\<open>(char)i\<close> into every byte of the mapping, from byte \<open>i\<close> on, \<open>n\<close> bytes left.\<close>

fun mmap001_touch :: "kernel \<Rightarrow> addr \<Rightarrow> nat \<Rightarrow> nat \<Rightarrow> (mmap001, unit) cprog" where
  "mmap001_touch K array i 0 = skip"
| "mmap001_touch K array i (Suc n) =
     seq (mem_store K (array + of_nat i) [char_of i]) (mmap001_touch K array (Suc i) n)"

text \<open>The size of the mapping, an \<^verbatim>\<open>unsigned int\<close>.\<close>

definition mmap001_memsize :: "int \<Rightarrow> int" where
  "mmap001_memsize page = 1000 * page mod 2 ^ 32"

text \<open>\<^verbatim>\<open>m_opt\<close> is 0 and never set. One message has a conversion without its argument.
  \<^verbatim>\<open>cleanup\<close> frees the file name.\<close>

definition mmap001_main :: "kernel \<Rightarrow> (mmap001, int) cprog" where
  "mmap001_main K = (bind (libc K Getpagesize) (\<lambda>page.
     let memsize = mmap001_memsize page in
     seq (mmap001_setup K) (
     bind (gets m001_filename) (\<lambda>filename.
     bind (libc K (Open filename (O_RDWR OR O_CREAT) mode_0666)) (\<lambda>fd.
     if fd = -1 then
       (seq (printf (''opening '' @ filename @ '' failed\<newline>'')) (
       c_exit EXIT_FAILURE))
     else
     bind (libc K (Lseek fd memsize SEEK_SET)) (\<lambda>off.
     if off \<noteq> memsize then
       (seq (call (libc K (Close fd))) (
       seq (printf_errno ''lseek failed, error number '' ''\<newline>'') (
       c_exit EXIT_FAILURE)))
     else
     bind (libc K (Write fd (Bytes [NUL]) 1)) (\<lambda>w.
     if w \<noteq> 1 then
       (seq (call (libc K (Close fd))) (
       bind (indet K ''%d'') (\<lambda>d.
       seq (printf (''writing to '' @ filename @ '' failed, error number '' @ show_int d @ ''\<newline>'')) (
       c_exit EXIT_FAILURE))))
     else
     bind (libc_ptr K (Mmap NULL memsize PROT_WRITE MAP_SHARED fd 0)) (\<lambda>array.
     if array = MAP_FAILED then
       (seq (call (libc K (Close fd))) (
       seq (printf_errno (''mmapping '' @ filename @ '' failed, error number '') ''\<newline>'') (
       c_exit EXIT_FAILURE)))
     else
     seq (printf ''mmap() completed successfully.\<newline>'') (
     seq (printf ''[I] touching mmaped memory\<newline>'') (
     seq (mmap001_touch K array 0 (nat memsize)) (
     seq (printf ''we're still here, mmaped area must be good\<newline>'') (
     bind (libc K (Msync array memsize MS_SYNC)) (\<lambda>sy.
     if sy = -1 then
       (seq (printf_errno ''synchronizing mmapped page failed, error number '' ''\<newline>'') (
       c_exit EXIT_FAILURE))
     else
     seq (printf ''synchronizing mmapped page passed\<newline>'') (
     bind (libc K (Munmap array memsize)) (\<lambda>u.
     if u = -1 then
       (seq (printf_errno (''munmapping '' @ filename @ '' failed, error number '') ''\<newline>'') (
       c_exit EXIT_FAILURE))
     else
     seq (printf (''munmapping '' @ filename @ '' successful\<newline>test succeeded\<newline>'')) (
     seq (call (libc K (Close fd))) (
     seq (call (libc K (Unlink filename))) (
     ret 0))))))))))))))))))"

section \<open>mmap01\<close>

record mmap01 = proc +
  m01_page_sz :: int
  m01_file_sz :: int
  m01_fildes :: int
  m01_cmd_buffer :: string

definition mmap01_init :: mmap01 where
  "mmap01_init = \<lparr>errno = 0, out = no_output, trace = [], m01_page_sz = 0, m01_file_sz = 0,
     m01_fildes = 0, m01_cmd_buffer = []\<rparr>"

definition mmap01_cleanup :: "kernel \<Rightarrow> (mmap01, unit) cprog" where
  "mmap01_cleanup K = (bind (gets m01_fildes) (\<lambda>fildes.
     call (libc K (Close fildes))))"

definition mmap01_setup :: "kernel \<Rightarrow> (mmap01, unit) cprog" where
  "mmap01_setup K = (bind (libc_res K Getcwd) (\<lambda>cwd.
     if rv cwd = -1 then
       (seq (printf ''getcwd failed to get current working directory\<newline>'') (
       seq (mmap01_cleanup K) (
       c_exit EXIT_FAILURE)))
     else
     bind (libc K (Open ''mmapfile'' (O_RDWR OR O_CREAT) mode_0666)) (\<lambda>fildes.
     seq (modify (\<lambda>s. s\<lparr>m01_fildes := fildes\<rparr>)) (
     if fildes < 0 then
       (seq (printf ''opening mmapfile failed\<newline>test failed\<newline>'') (
       seq (mmap01_cleanup K) (
       c_exit EXIT_FAILURE)))
     else
     bind (libc K (Write fildes (Bytes ''hello world\<newline>'') 12)) (\<lambda>w.
     if w \<noteq> 12 then
       (seq (printf ''writing to mmapfile\<newline>test failed\<newline>'') (
       seq (mmap01_cleanup K) (
       c_exit EXIT_FAILURE)))
     else
     bind (indet_stat K ''stat_buf'') (\<lambda>old.
     bind (c_stat K (Stat ''mmapfile'') old) (\<lambda>(r, stat_buf).
     if r < 0 then
       (seq (printf ''stat of mmapfile failed\<newline>test failed\<newline>'') (
       seq (mmap01_cleanup K) (
       c_exit EXIT_FAILURE)))
     else
     seq (modify (\<lambda>s. s\<lparr>m01_file_sz := st_size stat_buf\<rparr>)) (
     bind (libc K Getpagesize) (\<lambda>page_sz.
     seq (modify (\<lambda>s. s\<lparr>m01_page_sz := page_sz\<rparr>)) (
     bind (c_malloc K page_sz) (\<lambda>dummy.
     if dummy = NULL then
       (seq (printf ''calloc failed (dummy)\<newline>test failed\<newline>'') (
       seq (mmap01_cleanup K) (
       c_exit EXIT_FAILURE)))
     else
     modify (\<lambda>s. s\<lparr>m01_cmd_buffer := ''grep XYZ '' @ sr_bytes cwd @ ''/mmapfile > /dev/null''\<rparr>))))))))))))"

text \<open>\<^verbatim>\<open>dummy\<close> is a page of zeros.\<close>

definition mmap01_main :: "kernel \<Rightarrow> (mmap01, int) cprog" where
  "mmap01_main K = (seq (mmap01_setup K) (
     seq (set_errno 0) (
     bind (gets m01_page_sz) (\<lambda>page_sz.
     bind (gets m01_file_sz) (\<lambda>file_sz.
     bind (gets m01_fildes) (\<lambda>fildes.
     bind (libc_ptr K (Mmap NULL page_sz (PROT_READ OR PROT_WRITE) (MAP_FILE OR MAP_SHARED) fildes 0)) (\<lambda>a.
     if a = MAP_FAILED then
       (seq (printf ''mmap of mmapfile failed\<newline>'') (
       c_exit EXIT_FAILURE))
     else
     let n = nat ((page_sz - file_sz) mod 2 ^ 64) in
     bind (mem_load K (a + word_of_int file_sz) n) (\<lambda>bs.
     if bs \<noteq> fill n NUL then
       (seq (printf ''mapped memory area contains invalid data\<newline>'') (
       seq (mmap01_cleanup K) (
       c_exit EXIT_FAILURE)))
     else
     seq (mem_store K (a + word_of_int file_sz) ''X'') (
     seq (mem_store K (a + word_of_int (file_sz + 1)) ''Y'') (
     seq (mem_store K (a + word_of_int (file_sz + 2)) ''Z'') (
     bind (libc K (Msync a page_sz MS_SYNC)) (\<lambda>ms.
     if ms \<noteq> 0 then
       (seq (printf ''failed to synchronize mapped file\<newline>'') (
       c_exit EXIT_FAILURE))
     else
     bind (gets m01_cmd_buffer) (\<lambda>cmd.
     bind (libc K (System cmd)) (\<lambda>sy.
     seq (if sy \<noteq> 0 then printf ''test succeded\<newline>''
       else printf ''Specified pattern found in file\<newline>'') (
     seq (mmap01_cleanup K) (
     ret 0))))))))))))))))"

section \<open>mmap09\<close>

record mmap09 = proc +
  m09_fd :: int
  m09_maddr :: addr

definition mmap09_init :: mmap09 where
  "mmap09_init = \<lparr>errno = 0, out = no_output, trace = [], m09_fd = 0, m09_maddr = NULL\<rparr>"

definition mmap09_TC :: "(int \<times> string) list" where
  "mmap09_TC =
     [(16384 - 8192, ''ftruncate mmaped file to a smaller size''),
      (16384 + 1024, ''ftruncate mmaped file to a larger size''),
      (0, ''ftruncate mmaped file to 0 size'')]"

definition mmap09_cleanup :: "kernel \<Rightarrow> (mmap09, unit) cprog" where
  "mmap09_cleanup K = (bind (gets m09_maddr) (\<lambda>maddr.
     seq (call (libc K (Munmap maddr 16384))) (
     bind (gets m09_fd) (\<lambda>fd.
     call (libc K (Close fd))))))"

definition mmap09_setup :: "kernel \<Rightarrow> (mmap09, unit) cprog" where
  "mmap09_setup K = (bind (libc K (Open ''mmaptest'' (O_RDWR OR O_CREAT) mode_0666)) (\<lambda>fd.
     seq (modify (\<lambda>s. s\<lparr>m09_fd := fd\<rparr>)) (
     if fd < 0 then
       (seq (printf_errno ''opening mmaptest failed, error number '' []) (
       seq (mmap09_cleanup K) (
       c_exit EXIT_FAILURE)))
     else
     bind (libc K (Ftruncate fd 16384)) (\<lambda>t.
     if t < 0 then
       (seq (printf_errno ''ftruncate file failed, error number '' []) (
       seq (mmap09_cleanup K) (
       c_exit EXIT_FAILURE)))
     else
     bind (libc_ptr K (Mmap NULL 16384 (PROT_READ OR PROT_WRITE) (MAP_FILE OR MAP_SHARED) fd 0)) (\<lambda>maddr.
     seq (modify (\<lambda>s. s\<lparr>m09_maddr := maddr\<rparr>)) (
     if maddr = MAP_FAILED then
       (seq (printf_errno ''mmapping mmaptest failed, error number '' ''\<newline>'') (
       seq (mmap09_cleanup K) (
       c_exit EXIT_FAILURE)))
     else
     mem_store K maddr (fill 16384 (CHR ''A''))))))))"

fun mmap09_loop :: "kernel \<Rightarrow> (int \<times> string) list \<Rightarrow> int \<Rightarrow> (mmap09, int) cprog" where
  "mmap09_loop K [] ok = ret ok"
| "mmap09_loop K ((newsize, desc) # tcs) ok =
     bind (gets m09_fd) (\<lambda>fd.
     bind (libc K (Ftruncate fd newsize)) (\<lambda>r.
     seq (if r = -1 then printf_errno (desc @ '', error number '') ''\<newline>'' else printf (desc @ ''\<newline>''))
       (mmap09_loop K tcs (if r = -1 then 0 else ok))))"

definition mmap09_main :: "kernel \<Rightarrow> (mmap09, int) cprog" where
  "mmap09_main K = (seq (mmap09_setup K) (
     bind (mmap09_loop K mmap09_TC 1) (\<lambda>ok.
     seq (mmap09_cleanup K) (
     seq (if_then (ok \<noteq> 0) (printf ''test succeeded\<newline>'')) (
     ret 0)))))"

section \<open>mmap12\<close>

record mmap12 = proc +
  m12_fildes :: int
  m12_addr :: addr

definition mmap12_init :: mmap12 where
  "mmap12_init = \<lparr>errno = 0, out = no_output, trace = [], m12_fildes = 0, m12_addr = NULL\<rparr>"

abbreviation (input) "MMAPSIZE \<equiv> (1048576::int)"

text \<open>The 64-bit little-endian word in the first eight bytes of a buffer.\<close>

definition le_word :: "string \<Rightarrow> nat" where
  "le_word bs = foldr (\<lambda>c n. of_char c + 256 * n) (take 8 bs) 0"

text \<open>The loop over the page map entries: \<open>n\<close> of them left, from page \<open>i\<close> on; it returns \<^verbatim>\<open>flag\<close>.\<close>

fun mmap12_entries :: "kernel \<Rightarrow> int \<Rightarrow> addr \<Rightarrow> int \<Rightarrow> nat \<Rightarrow> int \<Rightarrow> string \<Rightarrow> int \<Rightarrow> (mmap12, int) cprog" where
  "mmap12_entries K pm vmstart page_sz 0 i pagemap flag = ret flag"
| "mmap12_entries K pm vmstart page_sz (Suc n) i pagemap flag =
     bind (c_read K pm pagemap 8) (\<lambda>rp.
     seq (if_then (\<not> bit (le_word (snd rp)) 63)
       (printf (''The '' @ show_int i @ ''th page addressed at '' @ show_HEX (unat (vmstart + word_of_int (i * page_sz)))
         @ '' is not present\<newline>'')))
     (mmap12_entries K pm vmstart page_sz n (i + 1) (snd rp) (if bit (le_word (snd rp)) 63 then flag else 1)))"

text \<open>A page size of 0 would divide by zero.\<close>

definition mmap12_page_check :: "kernel \<Rightarrow> (mmap12, unit) cprog" where
  "mmap12_page_check K = (bind (gets m12_addr) (\<lambda>vmstart.
     bind (libc K Getpagesize) (\<lambda>page_sz.
     if page_sz = 0 then
       die 8
     else
     let num_pages = nat (MMAPSIZE div page_sz) in
     let index = (uint vmstart div page_sz) * 8 in
     bind (libc K (Open ''/proc/self/pagemap'' O_RDONLY 0)) (\<lambda>pm.
     if pm = -1 then
       (bind (gets errno) (\<lambda>e.
       bind ((if e = EPERM then bind (libc K Geteuid) (\<lambda>u. ret (u \<noteq> 0)) else ret False)) (\<lambda>denied.
       if denied then printf_errno ''don't have permission to open dev pagemap, error number '' ''\<newline>''
       else (seq (printf_errno ''pen dev pagemap failed, erorr number '' ''\<newline>'') (
         c_exit EXIT_FAILURE)))))
     else
     bind (libc K (Lseek pm index SEEK_SET)) (\<lambda>off.
     if off \<noteq> index then
       (seq (printf_errno ''Reposition offset failed, error number '' ''\<newline>'') (
       c_exit EXIT_FAILURE))
     else
     bind (indet_bytes K ''pagemap'' 8) (\<lambda>pagemap.
     bind (mmap12_entries K pm vmstart page_sz num_pages 1 pagemap 0) (\<lambda>flag.
     seq (call (libc K (Close pm))) (
     if_then (flag = 0) (printf ''[I] All pages are present\<newline>'')))))))))"

text \<open>The loop that looks for a byte that is not zero: \<open>n\<close> bytes left, from offset \<open>i\<close> on.\<close>

fun mmap12_zeros :: "kernel \<Rightarrow> addr \<Rightarrow> nat \<Rightarrow> nat \<Rightarrow> (mmap12, unit) cprog" where
  "mmap12_zeros K a i 0 = skip"
| "mmap12_zeros K a i (Suc n) =
     bind (mem_load K (a + of_nat i) 1) (\<lambda>bs.
     if bs \<noteq> [NUL] then
       seq (printf (''Non-zero byte at offset '' @ show_int (int i) @ ''\<newline>'')) (
       seq (call (libc K (Munmap a MMAPSIZE))) (
       c_exit EXIT_FAILURE))
     else mmap12_zeros K a (Suc i) n)"

definition mmap12_verify_mmap :: "kernel \<Rightarrow> (mmap12, unit) cprog" where
  "mmap12_verify_mmap K = (bind (gets m12_fildes) (\<lambda>fildes.
     bind (libc_ptr K (Mmap NULL MMAPSIZE (PROT_READ OR PROT_WRITE) (MAP_PRIVATE OR MAP_POPULATE) fildes 0)) (\<lambda>a.
     seq (modify (\<lambda>s. s\<lparr>m12_addr := a\<rparr>)) (
     if a = MAP_FAILED then
       printf_errno ''mmap of mmapfile failed, error number '' ''\<newline>''
     else
     seq (mmap12_page_check K) (
     seq (mmap12_zeros K a 0 1048576) (
     seq (printf ''test succeeded\<newline>'') (
     call (libc K (Munmap a MMAPSIZE)))))))))"

definition mmap12_setup :: "kernel \<Rightarrow> (mmap12, unit) cprog" where
  "mmap12_setup K = (bind (libc K (Open ''mmapfile'' (O_RDWR OR O_CREAT) mode_0766)) (\<lambda>fildes.
     seq (modify (\<lambda>s. s\<lparr>m12_fildes := fildes\<rparr>)) (
     call (libc K (Ftruncate fildes MMAPSIZE)))))"

definition mmap12_cleanup :: "kernel \<Rightarrow> (mmap12, unit) cprog" where
  "mmap12_cleanup K = bind (gets m12_fildes) (\<lambda>fildes. if_then (fildes > 0) (call (libc K (Close fildes))))"

definition mmap12_main :: "kernel \<Rightarrow> (mmap12, unit) cprog" where
  "mmap12_main K = (seq (mmap12_setup K) (
     seq (mmap12_verify_mmap K) (
     mmap12_cleanup K)))"

section \<open>mmap13\<close>

record mmap13 = proc +
  m13_page_sz :: int
  m13_addr :: addr
  m13_fildes :: int
  m13_pass :: int

definition mmap13_init :: mmap13 where
  "mmap13_init = \<lparr>errno = 0, out = no_output, trace = [], m13_page_sz = 0, m13_addr = NULL,
     m13_fildes = 0, m13_pass = 0\<rparr>"

definition mmap13_cleanup :: "kernel \<Rightarrow> (mmap13, unit) cprog" where
  "mmap13_cleanup K = bind (gets m13_fildes) (\<lambda>fildes. call (libc K (Close fildes)))"

definition mmap13_sig_handler :: "kernel \<Rightarrow> int \<Rightarrow> (mmap13, unit) cprog" where
  "mmap13_sig_handler K sg =
     (if sg = SIGBUS then modify (\<lambda>s. s\<lparr>m13_pass := 1\<rparr>)
      else (seq (printf ''received an unexpected signal\<newline>'') (
     seq (mmap13_cleanup K) (
     c_exit 0))))"

definition mmap13_setup :: "kernel \<Rightarrow> (mmap13, unit) cprog" where
  "mmap13_setup K = (bind (libc K Getpagesize) (\<lambda>page_sz.
     seq (modify (\<lambda>s. s\<lparr>m13_page_sz := page_sz\<rparr>)) (
     bind (libc K (Open ''mmapfile'' (O_RDWR OR O_CREAT) mode_0766)) (\<lambda>fildes.
     seq (modify (\<lambda>s. s\<lparr>m13_fildes := fildes\<rparr>)) (
     if fildes < 0 then
       (seq (printf_errno ''opening mmapfile failed, error number '' ''\<newline>'') (
       seq (mmap13_cleanup K) (
       c_exit 0)))
     else
     bind (libc K (Ftruncate fildes (page_sz div 2))) (\<lambda>t.
     if t = -1 then
       (seq (printf_errno ''ftruncate mmapfile failed, error number '' ''\<newline>'') (
       seq (mmap13_cleanup K) (
       c_exit 0)))
     else
     skip))))))"

text \<open>The handler is called as a function; no access to the mapping is made.\<close>

definition mmap13_main :: "kernel \<Rightarrow> (mmap13, int) cprog" where
  "mmap13_main K = (seq (mmap13_setup K) (
     bind (gets m13_page_sz) (\<lambda>page_sz.
     bind (gets m13_fildes) (\<lambda>fildes.
     bind (libc_ptr K (Mmap NULL (page_sz * 2) (PROT_READ OR PROT_WRITE) (MAP_FILE OR MAP_SHARED) fildes 0)) (\<lambda>a.
     seq (modify (\<lambda>s. s\<lparr>m13_addr := a\<rparr>)) (
     seq (mmap13_sig_handler K SIGBUS) (
     if a = MAP_FAILED then
       (seq (printf_errno ''mmap() failed on mmapfile, error number '' ''\<newline>'') (
       c_exit 0))
     else
     bind (gets m13_pass) (\<lambda>pass.
     seq (if pass \<noteq> 0 then printf ''test succeeded\<newline>'' else printf ''Invalid access not rise SIGBUS\<newline>'') (
     bind (libc K (Munmap a (page_sz * 2))) (\<lambda>u.
     seq (if_then (u \<noteq> 0) (seq (printf_errno ''failed to unmap the mmapped pages, error number '' ''\<newline>'') (
       mmap13_cleanup K))) (
     seq (mmap13_cleanup K) (
     ret 0))))))))))))"

section \<open>mmap14\<close>

text \<open>\<^verbatim>\<open>fgets(line, 256, f)\<close>: the next line of the file, at most 255 characters of it.\<close>

definition fgets_line :: "string \<Rightarrow> string" where
  "fgets_line cont = (let l = takeWhile (\<lambda>c. c \<noteq> CHR ''\<newline>'') cont in
     take 255 (if length l < length cont then l @ ''\<newline>'' else l))"

lemma fgets_line_nonempty: "cont \<noteq> [] \<Longrightarrow> fgets_line cont \<noteq> []"
  by (cases cont) (auto simp: fgets_line_def Let_def)

text \<open>The loop over the lines: it stops at the first that contains \<^verbatim>\<open>VmLck\<close>, and otherwise leaves the last one
  in \<^verbatim>\<open>line\<close>.\<close>

function vmlck_line :: "string \<Rightarrow> string \<Rightarrow> string" where
  "vmlck_line line cont =
     (if cont = [] then line
      else if sublist ''VmLck'' (fgets_line cont) then fgets_line cont
      else vmlck_line (fgets_line cont) (drop (length (fgets_line cont)) cont))"
  by pat_completeness auto

termination
  by (relation "measure (\<lambda>(line, cont). length cont)") (auto simp: fgets_line_nonempty)

declare vmlck_line.simps [simp del]

text \<open>\<^verbatim>\<open>sscanf(line, "%*[^0-9]%d%*[^0-9]", lock_sz)\<close>: the number after a nonempty run of other characters, as it is stored in
  \<^verbatim>\<open>*lock_sz\<close>. The standard leaves a number beyond \<^verbatim>\<open>int\<close> undefined; the C library reads it as a \<^verbatim>\<open>long\<close>, which stops at its
  largest value, and stores the low 32 bits.\<close>

definition scan_lock :: "string \<Rightarrow> nat option" where
  "scan_lock line = (let rest = dropWhile (\<lambda>c. \<not> is_digit c) line in
     if rest = [] \<or> rest = line then None else Some (min (read_dec (takeWhile is_digit rest)) (2 ^ 63 - 1) mod 2 ^ 32))"

text \<open>The status file is read as a whole when it is opened. Reading from the null stream is undefined. The result
  is the value left in \<^verbatim>\<open>*lock_sz\<close>.\<close>

definition mmap14_getvmlck :: "kernel \<Rightarrow> nat \<Rightarrow> (proc, nat) cprog" where
  "mmap14_getvmlck K lock_sz = (bind (indet_bytes K ''line'' 256) (\<lambda>line0.
     bind (libc_res K (Fopen ''/proc/self/status'')) (\<lambda>f.
     seq (if_then (rv f = -1) (seq (printf_errno ''Open dev status failed, error number '' ''\<newline>'') (
       undefined_call K ''fgets(NULL)''))) (
     let line = vmlck_line (takeWhile (\<lambda>c. c \<noteq> NUL) line0) (if rv f = -1 then [] else sr_bytes f) in
     seq (if_then (scan_lock line = None) (printf_errno ''Get lock size failed, error number '' ''\<newline>'')) (
     ret (case scan_lock line of None \<Rightarrow> lock_sz | Some n \<Rightarrow> n))))))"

definition mmap14_main :: "kernel \<Rightarrow> (proc, int) cprog" where
  "mmap14_main K = (bind (indet K ''sz_before'') (\<lambda>before.
     bind (indet K ''sz_after'') (\<lambda>after.
     bind (mmap14_getvmlck K (nat (before mod 2 ^ 32))) (\<lambda>sz_before.
     bind (libc_ptr K (Mmap NULL MMAPSIZE (PROT_READ OR PROT_WRITE) (MAP_PRIVATE OR MAP_LOCKED OR MAP_ANONYMOUS) (-1) 0)) (\<lambda>a.
     seq (if_then (a = MAP_FAILED) (printf_errno ''mmap of mmapfile failed, error number '' ''\<newline>'')) (
     bind (mmap14_getvmlck K (nat (after mod 2 ^ 32))) (\<lambda>sz_after.
     let sz_ch = (int sz_after - int sz_before) mod 2 ^ 32 in
     seq (if sz_ch = 1024 then printf ''test succeeded\<newline>''
       else printf (''Expected 1024K locked, get '' @ show_int sz_ch @ ''K locked'')) (
     bind (libc K (Munmap a MMAPSIZE)) (\<lambda>u.
     seq (if_then (u \<noteq> 0) (printf_errno ''munmap failed, erorr number '' ''\<newline>'')) (
     ret 0))))))))))"

section \<open>mmap15\<close>

definition mmap15_main :: "kernel \<Rightarrow> (proc, int) cprog" where
  "mmap15_main K = (bind (libc K Getpagesize) (\<lambda>page_size.
     bind (libc K (Open ''testfile'' (O_RDWR OR O_CREAT) mode_0666)) (\<lambda>fd.
     bind (libc_ptr K (Mmap (word_of_int (- page_size)) page_size PROT_READ (MAP_SHARED OR MAP_FIXED) fd 0)) (\<lambda>a.
     if a \<noteq> MAP_FAILED then
       (seq (printf ''mmap into high region succeeded unexpectedly\<newline>'') (
       seq (call (libc K (Munmap a page_size))) (
       seq (call (libc K (Close fd))) (
       ret 0))))
     else
     bind (gets errno) (\<lambda>e.
     seq (if e \<noteq> ENOMEM \<and> e \<noteq> EINVAL
       then printf (''mmap into high region failed unexpectedly, error number '' @ show_int e @ ''\<newline>'')
       else printf (''mmap into high region failed as expected, error number '' @ show_int e @ ''\<newline>test succeeded\<newline>'')) (
     seq (call (libc K (Close fd))) (
     ret 0)))))))"

section \<open>mmap17\<close>

record mmap17 = proc +
  m17_fd_file1 :: int
  m17_fd_file2 :: int
  m17_mapped_address :: addr

definition mmap17_init :: mmap17 where
  "mmap17_init = \<lparr>errno = 0, out = no_output, trace = [], m17_fd_file1 = 0, m17_fd_file2 = 0,
     m17_mapped_address = NULL\<rparr>"

definition mmap17_setup :: "kernel \<Rightarrow> (mmap17, unit) cprog" where
  "mmap17_setup K = (bind (libc K (Open ''file1_to_mmap'' (O_CREAT OR O_RDWR) mode_0600)) (\<lambda>fd1.
     seq (modify (\<lambda>s. s\<lparr>m17_fd_file1 := fd1\<rparr>)) (
     bind (libc K (Open ''file2_to_mmap'' (O_CREAT OR O_RDWR) mode_0600)) (\<lambda>fd2.
     modify (\<lambda>s. s\<lparr>m17_fd_file2 := fd2\<rparr>)))))"

definition mmap17_cleanup :: "kernel \<Rightarrow> (mmap17, unit) cprog" where
  "mmap17_cleanup K = (bind (gets m17_fd_file2) (\<lambda>fd2.
     seq (if_then (fd2 > 0) (call (libc K (Close fd2)))) (
     bind (gets m17_fd_file1) (\<lambda>fd1.
     seq (if_then (fd1 > 0) (call (libc K (Close fd1)))) (
     bind (gets m17_mapped_address) (\<lambda>a.
     if_then (a \<noteq> NULL) (call (libc K (Munmap a 22)))))))))"

definition mmap17_test_mmap :: "kernel \<Rightarrow> (mmap17, unit) cprog" where
  "mmap17_test_mmap K = (bind (gets m17_fd_file1) (\<lambda>fd1.
     seq (call (libc K (Write fd1 (Bytes ''Writing to mapped file'') 22))) (
     bind (libc_ptr K (Mmap NULL 22 PROT_WRITE MAP_PRIVATE fd1 0)) (\<lambda>mapped.
     seq (modify (\<lambda>s. s\<lparr>m17_mapped_address := mapped\<rparr>)) (
     bind (gets m17_fd_file2) (\<lambda>fd2.
     seq (call (libc K (Write fd2 (Bytes ''Writing to mapped file'') 22))) (
     bind (libc_ptr K (Mmap mapped 22 PROT_WRITE (MAP_PRIVATE OR MAP_FIXED_NOREPLACE) fd2 0)) (\<lambda>a.
     bind (gets errno) (\<lambda>e.
     if a = MAP_FAILED \<and> e = EEXIST then printf ''test succeeded\<newline>''
       else printf (''mmap failed, with unexpected error code '' @ show_int e @ '', expected EEXIST''))))))))))"

definition mmap17_main :: "kernel \<Rightarrow> (mmap17, unit) cprog" where
  "mmap17_main K = (seq (mmap17_setup K) (
     seq (mmap17_test_mmap K) (
     mmap17_cleanup K)))"

section \<open>mmap19\<close>

record mmap19 = proc +
  m19_f1 :: int
  m19_f2 :: int
  m19_mm1 :: addr
  m19_mm2 :: addr

definition mmap19_init :: mmap19 where
  "mmap19_init = \<lparr>errno = 0, out = no_output, trace = [], m19_f1 = -1, m19_f2 = -1, m19_mm1 = NULL, m19_mm2 = NULL\<rparr>"

abbreviation (input) "str1 \<equiv> ''testing 123''"
abbreviation (input) "str2 \<equiv> ''my test mem''"

text \<open>\<^verbatim>\<open>strncmp(s, mm, strlen(s))\<close>: whether the mapping does not begin with \<open>s\<close>.\<close>

definition mmap19_strncmp :: "kernel \<Rightarrow> string \<Rightarrow> addr \<Rightarrow> (mmap19, bool) cprog" where
  "mmap19_strncmp K str mm = (bind (mem_load K mm (length str)) (\<lambda>bs.
     ret (bs \<noteq> str)))"

definition mmap19_run :: "kernel \<Rightarrow> (mmap19, unit) cprog" where
  "mmap19_run K = (bind (gets m19_f1) (\<lambda>f1.
     bind (gets m19_f2) (\<lambda>f2.
     bind (libc_ptr K (Mmap NULL 64 PROT_READ MAP_PRIVATE f1 0)) (\<lambda>save_mm1.
     seq (modify (\<lambda>s. s\<lparr>m19_mm1 := save_mm1\<rparr>)) (
     bind (libc_ptr K (Mmap NULL 64 PROT_READ MAP_PRIVATE f2 0)) (\<lambda>save_mm2.
     seq (modify (\<lambda>s. s\<lparr>m19_mm2 := save_mm2\<rparr>)) (
     bind (mmap19_strncmp K str1 save_mm1) (\<lambda>d1.
     seq (if_then d1 (printf ''failed on compare testfile1\<newline>'')) (
     bind (mmap19_strncmp K str2 save_mm2) (\<lambda>d2.
     seq (if_then d2 (printf ''failed on compare testfile2\<newline>'')) (
     seq (call (libc K (Munmap save_mm1 64))) (
     seq (call (libc K (Munmap save_mm2 64))) (
     bind (libc_ptr K (Mmap save_mm2 64 PROT_READ MAP_PRIVATE f1 0)) (\<lambda>mm1.
     seq (modify (\<lambda>s. s\<lparr>m19_mm1 := mm1\<rparr>)) (
     bind (libc_ptr K (Mmap save_mm1 64 PROT_READ MAP_PRIVATE f2 0)) (\<lambda>mm2.
     seq (modify (\<lambda>s. s\<lparr>m19_mm2 := mm2\<rparr>)) (
     if mm1 \<noteq> save_mm2 \<or> mm2 \<noteq> save_mm1 then
       (seq (printf ''[I] mmap not using same address\<newline>'') (
       c_exit 0))
     else
     bind (mmap19_strncmp K str1 mm1) (\<lambda>e1.
     if e1 then
       (seq (printf ''failed on compare testfile1\<newline>'') (
       c_exit 0))
     else
     bind (mmap19_strncmp K str2 mm2) (\<lambda>e2.
     if e2 then
       (seq (printf ''failed on compare testfile2\<newline>'') (
       c_exit 0))
     else
     printf ''test succeeded\<newline>'')))))))))))))))))))"

definition mmap19_setup :: "kernel \<Rightarrow> (mmap19, unit) cprog" where
  "mmap19_setup K = (bind (libc K (Open ''testfile1'' (O_RDWR OR O_CREAT) mode_0600)) (\<lambda>f1.
     seq (modify (\<lambda>s. s\<lparr>m19_f1 := f1\<rparr>)) (
     bind (libc K (Open ''testfile2'' (O_RDWR OR O_CREAT) mode_0600)) (\<lambda>f2.
     seq (modify (\<lambda>s. s\<lparr>m19_f2 := f2\<rparr>)) (
     seq (call (libc K (Write f1 (Bytes str1) 11))) (
     call (libc K (Write f2 (Bytes str2) 11))))))))"

definition mmap19_cleanup :: "kernel \<Rightarrow> (mmap19, unit) cprog" where
  "mmap19_cleanup K = (bind (gets m19_mm1) (\<lambda>mm1.
     seq (if_then (mm1 \<noteq> NULL) (call (libc K (Munmap mm1 64)))) (
     bind (gets m19_mm2) (\<lambda>mm2.
     seq (if_then (mm2 \<noteq> NULL) (call (libc K (Munmap mm2 64)))) (
     bind (gets m19_f1) (\<lambda>f1.
     seq (if_then (f1 \<noteq> -1) (call (libc K (Close f1)))) (
     bind (gets m19_f2) (\<lambda>f2.
     if_then (f2 \<noteq> -1) (call (libc K (Close f2)))))))))))"

definition mmap19_main :: "kernel \<Rightarrow> (mmap19, unit) cprog" where
  "mmap19_main K = (seq (mmap19_setup K) (
     seq (mmap19_run K) (
     mmap19_cleanup K)))"

section \<open>Verdicts\<close>

lemma mmap001_touch_runs:
  assumes "\<And>s' h. out s' = out s \<Longrightarrow> m001_filename s' = m001_filename s \<Longrightarrow> trace s' = trace s @ h \<Longrightarrow>
      map fst h = map (\<lambda>j. MemStore (a + of_nat j) [char_of j]) [i..<i + n] \<Longrightarrow> stores_ok h \<Longrightarrow> P (Ret (), s')"
    and "\<And>g s' h. trace s' = trace s @ h \<Longrightarrow> \<not> stores_ok h \<Longrightarrow> P (Killed g, s')"
  shows "runs (mmap001_touch K a i n) s P"
  using assms
proof (induction n arbitrary: i s)
  case 0
  show ?case by (auto simp: run_simps intro!: 0)
next
  case (Suc n)
  have "[i..<i + Suc n] = i # [Suc i..<Suc i + n]"
    by (simp add: upt_rec)
  then show ?case
    by (auto simp: run_simps intro!: answeredI Suc.IH Suc.prems simp del: upt_Suc)
qed

text \<open>The part of the history after the mapping was made: one store per byte, in order, then two calls that succeed.\<close>

definition touched :: "nat \<Rightarrow> addr \<Rightarrow> event list \<Rightarrow> bool" where
  "touched n a h \<longleftrightarrow> stores_ok h \<and>
     map fst (take n h) = map (\<lambda>j. MemStore (a + of_nat j) [char_of j]) [0..<n] \<and>
     0 \<le> rv (snd (h ! n)) \<and> 0 \<le> rv (snd (h ! Suc n))"

lemma touched_append:
  assumes "map fst h = map (\<lambda>j. MemStore (a + of_nat j) [char_of j]) [0..<n]"
  shows "touched n a (h @ h') \<longleftrightarrow> stores_ok h \<and> stores_ok h' \<and> 0 \<le> rv (snd (h' ! 0)) \<and> 0 \<le> rv (snd (h' ! 1))"
proof -
  have "length h = n" using arg_cong [OF assms, of length] by simp
  with assms show ?thesis by (simp add: touched_def nth_append)
qed

lemma not_touched: "\<not> stores_ok h \<Longrightarrow> \<not> touched n a h"
  by (simp add: touched_def)

text \<open>\<^verbatim>\<open>mmap001\<close> passes exactly when its file could be prepared and mapped, every single byte of the thousand pages could be
  stored, in order, and the mapping could be synchronised and removed.\<close>

theorem mmap001_verdict:
  "passes (mmap001_main K) mmap001_init \<longleftrightarrow>
   (let h = calls (mmap001_main K) mmap001_init; n = mmap001_memsize (rv (snd (h ! 0))) in
     ptr_or_null (snd (h ! 2)) \<noteq> NULL \<and> 0 \<le> rv (snd (h ! 3)) \<and> rv (snd (h ! 4)) = n \<and> rv (snd (h ! 5)) = 1 \<and>
     ptr_of (snd (h ! 6)) \<noteq> MAP_FAILED \<and> touched (nat n) (ptr_of (snd (h ! 6))) (drop 7 h))"
proof (rule verdictI)
  show "runs (mmap001_main K) mmap001_init (\<lambda>(fl, s'). announced (fl, s') \<longleftrightarrow>
   (let h = trace s'; n = mmap001_memsize (rv (snd (h ! 0))) in
     ptr_or_null (snd (h ! 2)) \<noteq> NULL \<and> 0 \<le> rv (snd (h ! 3)) \<and> rv (snd (h ! 4)) = n \<and> rv (snd (h ! 5)) = 1 \<and>
     ptr_of (snd (h ! 6)) \<noteq> MAP_FAILED \<and> touched (nat n) (ptr_of (snd (h ! 6))) (drop 7 h)))"
    unfolding mmap001_main_def mmap001_setup_def mmap001_init_def merges
    by (simp add: run_simps Let_def cong: run_congs split del: if_split;
        intro answeredI conjI impI allI mmap001_touch_runs;
        simp add: run_simps touched_append not_touched rv_not_m1 cong: run_congs;
        (intro answeredI conjI impI allI)?; (simp add: touched_append)?)
qed

lemma quiet_mmap01_setup: "quiet (mmap01_setup K)"
  unfolding mmap01_setup_def mmap01_cleanup_def by (intro quiet_intros; simp)

text \<open>\<^verbatim>\<open>mmap01\<close> never passes: what it prints is \<^verbatim>\<open>test succeded\<close>, which is not the line the harness looks for.\<close>

theorem mmap01_never_passes: "\<not> passes (mmap01_main K) mmap01_init"
proof (rule quiet_not_passes)
  show "quiet (mmap01_main K)"
    unfolding mmap01_main_def mmap01_cleanup_def
    by (intro quiet_intros quiet_mmap01_setup; simp)
qed (simp add: clear_def mmap01_init_def)

text \<open>\<^verbatim>\<open>mmap13\<close> passes exactly when its file could be prepared and mapped, without a single access to the memory beyond the
  end of the file that should raise SIGBUS.\<close>

theorem mmap13_verdict:
  "(let h = calls (mmap13_main K) mmap13_init in no_access h \<and>
    (passes (mmap13_main K) mmap13_init \<longleftrightarrow>
     0 \<le> rv (snd (h ! 1)) \<and> 0 \<le> rv (snd (h ! 2)) \<and> ptr_of (snd (h ! 3)) \<noteq> MAP_FAILED))"
proof -
  have "runs (mmap13_main K) mmap13_init (\<lambda>(fl, s'). let h = trace s' in no_access h \<and>
    (announced (fl, s') \<longleftrightarrow> 0 \<le> rv (snd (h ! 1)) \<and> 0 \<le> rv (snd (h ! 2)) \<and> ptr_of (snd (h ! 3)) \<noteq> MAP_FAILED))"
    unfolding mmap13_main_def mmap13_setup_def mmap13_sig_handler_def mmap13_cleanup_def mmap13_init_def merges
    by (simp add: run_simps Let_def cong: run_congs split del: if_split;
        intro answeredI conjI impI allI; simp add: rv_not_m1)
  then show ?thesis
    by (auto simp: runs_def calls_def passes_announced Let_def split: prod.splits)
qed

lemma mmap19_strncmps:
  "mmap19_strncmp K str1 mm = bind (mem_load K mm 11) (\<lambda>bs. ret (bs \<noteq> str1))"
  "mmap19_strncmp K str2 mm = bind (mem_load K mm 11) (\<lambda>bs. ret (bs \<noteq> str2))"
  by (simp_all add: mmap19_strncmp_def eval_nat_numeral)

text \<open>\<^verbatim>\<open>mmap19\<close> passes exactly when the four reads of its mappings do not fault, the two files are mapped again at each other's
  first address, and there each mapping begins with its own text; what the first mappings show does not matter.\<close>

theorem mmap19_verdict:
  "passes (mmap19_main K) mmap19_init \<longleftrightarrow>
   (let h = calls (mmap19_main K) mmap19_init; loads = (\<lambda>i bs. (\<exists>v. sr_ret (snd (h ! i)) = Inr v) \<and>
        (case bs of None \<Rightarrow> True | Some t \<Rightarrow> fit 11 (sr_bytes (snd (h ! i))) = t)) in
     loads 6 None \<and> loads 7 None \<and> ptr_of (snd (h ! 10)) = ptr_of (snd (h ! 5)) \<and>
     ptr_of (snd (h ! 11)) = ptr_of (snd (h ! 4)) \<and> loads 12 (Some str1) \<and> loads 13 (Some str2))"
proof (rule verdictI)
  show "runs (mmap19_main K) mmap19_init (\<lambda>(fl, s'). announced (fl, s') \<longleftrightarrow>
   (let h = trace s'; loads = (\<lambda>i bs. (\<exists>v. sr_ret (snd (h ! i)) = Inr v) \<and>
        (case bs of None \<Rightarrow> True | Some t \<Rightarrow> fit 11 (sr_bytes (snd (h ! i))) = t)) in
     loads 6 None \<and> loads 7 None \<and> ptr_of (snd (h ! 10)) = ptr_of (snd (h ! 5)) \<and>
     ptr_of (snd (h ! 11)) = ptr_of (snd (h ! 4)) \<and> loads 12 (Some str1) \<and> loads 13 (Some str2)))"
    unfolding mmap19_main_def mmap19_setup_def mmap19_run_def mmap19_strncmps mmap19_cleanup_def mmap19_init_def merges
    by (simp add: run_simps Let_def cong: run_congs split del: if_split;
        intro answeredI conjI impI allI; auto)
qed

text \<open>How the status file is read back.\<close>

definition lock_value :: "nat \<Rightarrow> string \<Rightarrow> string \<Rightarrow> nat" where
  "lock_value old line0 cont =
     (case scan_lock (vmlck_line (takeWhile (\<lambda>c. c \<noteq> NUL) line0) cont) of None \<Rightarrow> old | Some n \<Rightarrow> n)"

lemma takeWhile_before: "x \<notin> set l \<Longrightarrow> takeWhile (\<lambda>c. c \<noteq> x) (l @ x # cont) = l"
  by (induction l) auto

lemma fgets_line_short:
  "CHR ''\<newline>'' \<notin> set l \<Longrightarrow> length l < 255 \<Longrightarrow> fgets_line (l @ ''\<newline>'' @ cont) = l @ ''\<newline>''"
  by (simp add: fgets_line_def Let_def takeWhile_before)

lemma vmlck_line_skip:
  assumes "CHR ''\<newline>'' \<notin> set l" and "length l < 255" and "\<not> sublist ''VmLck'' (l @ ''\<newline>'')"
  shows "vmlck_line line (l @ ''\<newline>'' @ cont) = vmlck_line (l @ ''\<newline>'') cont"
  using assms by (subst vmlck_line.simps) (simp add: fgets_line_short [simplified])

lemma vmlck_line_found:
  assumes "CHR ''\<newline>'' \<notin> set l" and "length l < 255" and "sublist ''VmLck'' (l @ ''\<newline>'')"
  shows "vmlck_line line (l @ ''\<newline>'' @ cont) = l @ ''\<newline>''"
  using assms by (subst vmlck_line.simps) (simp add: fgets_line_short [simplified])

lemma scan_lock_number:
  assumes "pre \<noteq> []" and "list_all (\<lambda>c. \<not> is_digit c) pre" and "\<not> is_digit c"
  shows "scan_lock (pre @ show_base 10 n @ c # post) = Some (min n (2 ^ 63 - 1) mod 2 ^ 32)"
proof -
  let ?d = "show_base 10 n"
  have d: "\<forall>c\<in>set ?d. is_digit c" "?d \<noteq> []"
    using show_base_digits [of n] show_base_nonempty by (auto simp: list_all_iff)
  then obtain x xs where x: "?d = x # xs" "is_digit x" by (cases ?d) auto
  have "dropWhile (\<lambda>c. \<not> is_digit c) (pre @ ?d @ c # post) = ?d @ c # post"
    using assms(2) x by (auto simp: list_all_iff dropWhile_append2)
  moreover have "takeWhile is_digit (?d @ c # post) = ?d"
    using d(1) assms(3) by (simp add: takeWhile_append2)
  ultimately show ?thesis
    using assms(1) x read_dec_show_base [of n] by (simp add: scan_lock_def Let_def)
qed

text \<open>The line as the kernel prints it: a tab, the number at width 8, and the unit.\<close>

definition status_vmlck :: "nat \<Rightarrow> string" where
  "status_vmlck n = ''VmLck:'' @ [CHR 0x09] @ replicate (8 - length (show_base 10 n)) (CHR '' '') @ show_base 10 n @ '' kB''"

lemma status_vmlck_plain: "CHR ''\<newline>'' \<notin> set (status_vmlck n)"
  using show_base_digits [of n] by (auto simp: status_vmlck_def list_all_iff is_digit_def)

lemma status_vmlck_named: "sublist ''VmLck'' (status_vmlck n @ ''\<newline>'')"
  by (simp add: status_vmlck_def sublist_code)

lemma scan_status_vmlck:
  assumes "n < 2 ^ 31"
  shows "scan_lock (status_vmlck n @ ''\<newline>'') = Some n"
proof -
  let ?pre = "''VmLck:'' @ [CHR 0x09] @ replicate (8 - length (show_base 10 n)) (CHR '' '')"
  have "list_all (\<lambda>c. \<not> is_digit c) ?pre" by (simp add: is_digit_def list_all_iff)
  from scan_lock_number [OF _ this, of "CHR '' ''" n "''kB\<newline>''"] assms show ?thesis
    by (simp add: status_vmlck_def is_digit_def)
qed

lemma vmlck_line_status:
  assumes "list_all (\<lambda>l. CHR ''\<newline>'' \<notin> set l \<and> length l < 255 \<and> \<not> sublist ''VmLck'' (l @ ''\<newline>'')) ls"
    and "length (status_vmlck n) < 255"
  shows "vmlck_line line (concat (map (\<lambda>l. l @ ''\<newline>'') ls) @ status_vmlck n @ ''\<newline>'' @ rest) = status_vmlck n @ ''\<newline>''"
  using assms(1)
proof (induction ls arbitrary: line)
  case Nil
  show ?case using vmlck_line_found [OF status_vmlck_plain assms(2) status_vmlck_named] by simp
next
  case (Cons l ls)
  then show ?case
    using vmlck_line_skip [of l line "concat (map (\<lambda>l. l @ ''\<newline>'') ls) @ status_vmlck n @ ''\<newline>'' @ rest"] by simp
qed

text \<open>C29. \<^verbatim>\<open>getvmlck\<close> reads back the number of the \<^verbatim>\<open>VmLck\<close> line as the kernel prints it, after a tab and at width 8, when
  the number fits an \<^verbatim>\<open>int\<close>: whatever lines of fewer than 255 characters without that name come before it,
  and whatever comes after.\<close>

theorem mmap14_parses_status:
  assumes "list_all (\<lambda>l. CHR ''\<newline>'' \<notin> set l \<and> length l < 255 \<and> \<not> sublist ''VmLck'' (l @ ''\<newline>'')) ls"
    and "n < 2 ^ 31"
  shows "lock_value old line0 (concat (map (\<lambda>l. l @ ''\<newline>'') ls) @ ''VmLck:'' @ [CHR 0x09] @
    replicate (8 - length (show_base 10 n)) (CHR '' '') @ show_base 10 n @ '' kB\<newline>'' @ rest) = n"
proof -
  have "length (status_vmlck n) < 255"
    using show_base_short [of 10 n] assms(2) by (simp add: status_vmlck_def)
  from vmlck_line_status [OF assms(1) this] scan_status_vmlck [OF assms(2)]
  have "lock_value old line0 (concat (map (\<lambda>l. l @ ''\<newline>'') ls) @ status_vmlck n @ ''\<newline>'' @ rest) = n"
    by (simp add: lock_value_def)
  then show ?thesis by (simp add: status_vmlck_def)
qed

text \<open>The same on a status file of four lines.\<close>

theorem mmap14_parses_status_witness:
  "lock_value 7 [] (''Name: x\<newline>VmPeak: 12 kB\<newline>VmLck:'' @ [CHR 0x09] @ ''    1024 kB\<newline>Threads: 1\<newline>'') = 1024"
proof -
  have "show_base 10 1024 = ''1024''"
    by (simp add: show_base.simps digit_def)
  moreover have "replicate 4 (CHR '' '') = ''    ''" by (simp add: numeral_eq_Suc)
  ultimately show ?thesis
    using mmap14_parses_status [of "[''Name: x'', ''VmPeak: 12 kB'']" 1024 7 "[]" "''Threads: 1\<newline>''"]
    by (simp add: sublist_code)
qed

end
