(* ===== verification/Prctl_Tests.thy ===== *)
theory Prctl_Tests
  imports Process
begin

text \<open>
  The prctl tests (\<^verbatim>\<open>independent tests/syscalls/prctl/\<close>) that run in one process: the parent death
  signal (\<^verbatim>\<open>prctl01\<close>), error numbers (\<^verbatim>\<open>prctl02\<close>), the thread name (\<^verbatim>\<open>prctl05\<close>) and the ambient
  capabilities (\<^verbatim>\<open>prctl07\<close>).
\<close>

section \<open>Constants\<close>

abbreviation (input) "PR_SET_PDEATHSIG \<equiv> (1::int)"
abbreviation (input) "PR_GET_PDEATHSIG \<equiv> (2::int)"
abbreviation (input) "PR_SET_DUMPABLE \<equiv> (4::int)"
abbreviation (input) "PR_SET_TIMING \<equiv> (14::int)"
abbreviation (input) "PR_SET_NAME \<equiv> (15::int)"
abbreviation (input) "PR_GET_NAME \<equiv> (16::int)"
abbreviation (input) "PR_GET_SECCOMP \<equiv> (21::int)"
abbreviation (input) "PR_SET_SECCOMP \<equiv> (22::int)"
abbreviation (input) "PR_CAPBSET_DROP \<equiv> (24::int)"
abbreviation (input) "PR_SET_SECUREBITS \<equiv> (28::int)"
abbreviation (input) "PR_SET_NO_NEW_PRIVS \<equiv> (38::int)"
abbreviation (input) "PR_GET_NO_NEW_PRIVS \<equiv> (39::int)"
abbreviation (input) "PR_SET_THP_DISABLE \<equiv> (41::int)"
abbreviation (input) "PR_GET_THP_DISABLE \<equiv> (42::int)"
abbreviation (input) "PR_CAP_AMBIENT \<equiv> (47::int)"
abbreviation (input) "PR_CAP_AMBIENT_IS_SET \<equiv> (1::int)"
abbreviation (input) "PR_CAP_AMBIENT_RAISE \<equiv> (2::int)"
abbreviation (input) "PR_CAP_AMBIENT_LOWER \<equiv> (3::int)"
abbreviation (input) "PR_CAP_AMBIENT_CLEAR_ALL \<equiv> (4::int)"
abbreviation (input) "PR_GET_SPECULATION_CTRL \<equiv> (52::int)"
abbreviation (input) "OPTION_INVALID \<equiv> (999::int)"
abbreviation (input) "ULONG_MAX \<equiv> (18446744073709551615::int)"
abbreviation (input) "CAP_NET_BIND_SERVICE \<equiv> (10::int)"
abbreviation (input) "CAP_NET_RAW \<equiv> (13::int)"
abbreviation (input) "SECBIT_NO_CAP_AMBIENT_RAISE \<equiv> (64::int)"

section \<open>prctl01\<close>

definition prctl01_verify_prctl :: "kernel \<Rightarrow> (proc, int) cprog" where
  "prctl01_verify_prctl K = (bind (libc K (Prctl PR_SET_PDEATHSIG [PNum SIGUSR2])) (\<lambda>r.
     if r = -1 then
       (seq (printf_errno ''prctl(PR_SET_PDEATHSIG) failed, error number '' ''\<newline>'') (
       ret 0))
     else
     seq (printf ''prctl(PR_SET_PDEATHSIG) succeeded\<newline>'') (
     bind (libc_res K (Prctl PR_GET_PDEATHSIG [PObj ''get_sig''])) (\<lambda>a.
     if rv a = -1 then
       (seq (printf_errno ''prctl(PR_GET_PDEATHSIG) failed, error number '' ''\<newline>'') (
       ret 0))
     else
     let get_sig = sr_int a in
     if get_sig = SIGUSR2 then (seq (printf ''prctl(PR_GET_PDEATHSIG) got expected death signal\<newline>'') (
       ret 1))
     else (seq (printf (''prctl(PR_GET_PDEATHSIG) got death signal '' @ show_int get_sig @ '', expected '' @ show_int SIGUSR2)) (
       ret 0))))))"

definition prctl01_main :: "kernel \<Rightarrow> (proc, unit) cprog" where
  "prctl01_main K = (bind (prctl01_verify_prctl K) (\<lambda>r.
     if_then (r \<noteq> 0) (printf ''test succeeded\<newline>'')))"

section \<open>prctl02\<close>

record prctl02 = proc +
  p02_bad_addr :: int
  p02_seccomp_nsup :: int
  p02_nonewprivs_nsup :: int
  p02_thpdisable_nsup :: int
  p02_capambient_nsup :: int
  p02_speculationctrl_nsup :: int

definition prctl02_init :: prctl02 where
  "prctl02_init = \<lparr>errno = 0, out = no_output, trace = [], p02_bad_addr = 0, p02_seccomp_nsup = 0,
     p02_nonewprivs_nsup = 0, p02_thpdisable_nsup = 0, p02_capambient_nsup = 0, p02_speculationctrl_nsup = 0\<rparr>"

text \<open>Option, the two arguments (pointers to variables in the source, of which only \<^verbatim>\<open>bad_addr\<close> is ever
  assigned), expected error and name. \<^verbatim>\<open>strict_addr\<close> is the address of a filter program.\<close>

definition prctl02_tcases :: "prctl02 \<Rightarrow> (int \<times> prctl_arg \<times> prctl_arg \<times> int \<times> string) list" where
  "prctl02_tcases s =
     [(OPTION_INVALID, PNum 1, PNum 0, EINVAL, ''invalid option''),
      (PR_SET_PDEATHSIG, PNum ULONG_MAX, PNum 0, EINVAL, ''PR_SET_PDEATHSIG''),
      (PR_SET_DUMPABLE, PNum 2, PNum 0, EINVAL, ''PR_SET_DUMPABLE''),
      (PR_SET_NAME, PNum (p02_bad_addr s), PNum 0, EFAULT, ''PR_SET_NAME''),
      (PR_SET_SECCOMP, PNum 2, PNum (p02_bad_addr s), EFAULT, ''PR_SET_SECCOMP''),
      (PR_SET_SECCOMP, PNum 2, PObj ''strict'', EACCES, ''PR_SET_SECCOMP''),
      (PR_SET_TIMING, PNum 1, PNum 0, EINVAL, ''PR_SET_TIMING''),
      (PR_SET_NO_NEW_PRIVS, PNum 0, PNum 0, EINVAL, ''PR_SET_NO_NEW_PRIVS''),
      (PR_SET_NO_NEW_PRIVS, PNum 1, PNum 1, EINVAL, ''PR_SET_NO_NEW_PRIVS''),
      (PR_GET_NO_NEW_PRIVS, PNum 1, PNum 0, EINVAL, ''PR_GET_NO_NEW_PRIVS''),
      (PR_SET_THP_DISABLE, PNum 0, PNum 1, EINVAL, ''PR_SET_THP_DISABLE''),
      (PR_GET_THP_DISABLE, PNum 1, PNum 1, EINVAL, ''PR_GET_THP_DISABLE''),
      (PR_CAP_AMBIENT, PNum ULONG_MAX, PNum 0, EINVAL, ''PR_CAP_AMBIENT''),
      (PR_CAP_AMBIENT, PNum PR_CAP_AMBIENT_CLEAR_ALL, PNum 1, EINVAL, ''PR_CAP_AMBIENT''),
      (PR_CAP_AMBIENT, PNum PR_CAP_AMBIENT_IS_SET, PNum ULONG_MAX, EINVAL, ''PR_CAP_AMBIENT''),
      (PR_GET_SPECULATION_CTRL, PNum 0, PNum ULONG_MAX, EINVAL, ''PR_GET_SPECULATION_CTRL''),
      (PR_SET_SECUREBITS, PNum 0, PNum 0, EPERM, ''PR_SET_SECUREBITS''),
      (PR_CAPBSET_DROP, PNum 1, PNum 0, EPERM, ''PR_CAPBSET_DROP'')]"

text \<open>The \<^verbatim>\<open>switch\<close>: the flag that says whether the option was found unsupported.\<close>

definition prctl02_nsup :: "prctl02 \<Rightarrow> int \<Rightarrow> int" where
  "prctl02_nsup s option =
     (if option = PR_SET_SECCOMP then p02_seccomp_nsup s
      else if option = PR_GET_NO_NEW_PRIVS \<or> option = PR_SET_NO_NEW_PRIVS then p02_nonewprivs_nsup s
      else if option = PR_SET_THP_DISABLE \<or> option = PR_GET_THP_DISABLE then p02_thpdisable_nsup s
      else if option = PR_CAP_AMBIENT then p02_capambient_nsup s
      else if option = PR_GET_SPECULATION_CTRL then p02_speculationctrl_nsup s
      else 0)"

text \<open>After an unexpected error the function ends without a value.\<close>

definition prctl02_verify_prctl :: "kernel \<Rightarrow> nat \<Rightarrow> (prctl02, int) cprog" where
  "prctl02_verify_prctl K n = (bind (gets (\<lambda>s. prctl02_tcases s ! n)) (\<lambda>tc.
     case tc of (option, arg2, arg3, exp_errno, tname) \<Rightarrow> (seq (printf (''[I] Test #'' @ show_int (int n) @ '': '' @ tname @ ''\<newline>'')) (
       bind (gets (\<lambda>s. prctl02_nsup s option)) (\<lambda>nsup.
       if nsup \<noteq> 0 then
         (seq (printf ''prctl() doesn't support this option, skip it\<newline>'') (
         ret 0))
       else
       bind (libc K (Prctl option [arg2, arg3, PNum 0, PNum 0])) (\<lambda>r.
       if r = 0 then
         (seq (printf ''prctl() succeeded unexpectedly\<newline>'') (
         ret 0))
       else
       bind (gets errno) (\<lambda>e.
       if exp_errno = e then
         (seq (printf ''prctl() failed as expected\<newline>'') (
         ret 1))
       else
       seq (if option = PR_SET_SECCOMP \<and> e = EINVAL then
       printf ''current system was not built with CONFIG_SECCOMP_FILTER.\<newline>''
       else printf (''prctl() failed unexpectedly, expected '' @ show_int exp_errno @ '', got '' @ show_int e @ ''\<newline>'')) (
       indet K ''verify_prctl()''))))))))"

text \<open>Each probe only looks at \<open>errno\<close>, which an earlier probe may have left at \<^verbatim>\<open>EINVAL\<close>.\<close>

definition prctl02_setup :: "kernel \<Rightarrow> (prctl02, unit) cprog" where
  "prctl02_setup K = (seq (modify (\<lambda>s. s\<lparr>p02_bad_addr := 0\<rparr>)) (
     seq (call (libc K (Prctl PR_GET_SECCOMP []))) (
     bind (gets errno) (\<lambda>e1.
     seq (modify (\<lambda>s. s\<lparr>p02_seccomp_nsup := (if e1 = EINVAL then 1 else p02_seccomp_nsup s)\<rparr>)) (
     seq (call (libc K (Prctl PR_GET_NO_NEW_PRIVS [PNum 0, PNum 0, PNum 0, PNum 0]))) (
     bind (gets errno) (\<lambda>e2.
     seq (modify (\<lambda>s. s\<lparr>p02_nonewprivs_nsup := (if e2 = EINVAL then 1 else p02_nonewprivs_nsup s)\<rparr>)) (
     seq (call (libc K (Prctl PR_GET_THP_DISABLE [PNum 0, PNum 0, PNum 0, PNum 0]))) (
     bind (gets errno) (\<lambda>e3.
     seq (modify (\<lambda>s. s\<lparr>p02_thpdisable_nsup := (if e3 = EINVAL then 1 else p02_thpdisable_nsup s)\<rparr>)) (
     seq (call (libc K (Prctl PR_CAP_AMBIENT [PNum PR_CAP_AMBIENT_CLEAR_ALL, PNum 0, PNum 0, PNum 0]))) (
     bind (gets errno) (\<lambda>e4.
     seq (modify (\<lambda>s. s\<lparr>p02_capambient_nsup := (if e4 = EINVAL then 1 else p02_capambient_nsup s)\<rparr>)) (
     seq (call (libc K (Prctl PR_GET_SPECULATION_CTRL [PNum 0, PNum 0, PNum 0, PNum 0]))) (
     bind (gets errno) (\<lambda>e5.
     modify (\<lambda>s. s\<lparr>p02_speculationctrl_nsup := (if e5 = EINVAL then 1 else p02_speculationctrl_nsup s)\<rparr>)))))))))))))))))"

definition prctl02_main :: "kernel \<Rightarrow> (prctl02, unit) cprog" where
  "prctl02_main K = (seq (prctl02_setup K) (
     bind (fail_cases (prctl02_verify_prctl K) [0..<18] 1) (\<lambda>ok.
     if_then (ok \<noteq> 0) (printf ''test succeeded\<newline>''))))"

section \<open>prctl05\<close>

definition prctl05_tcases :: "(string \<times> string) list" where
  "prctl05_tcases =
     [(''prctl05_test'', ''prctl05_test''),
      (''prctl05_test_xxxxx'', ''prctl05_test_xx'')]"

text \<open>The C string in a buffer; whether \<^verbatim>\<open>strncmp(a, b, n)\<close> is nonzero.\<close>

definition cstring :: "string \<Rightarrow> string" where
  "cstring bs = takeWhile (\<lambda>c. c \<noteq> NUL) bs"

definition strncmp_differ :: "string \<Rightarrow> string \<Rightarrow> nat \<Rightarrow> bool" where
  "strncmp_differ a b n \<longleftrightarrow> cstring (take n a) \<noteq> cstring (take n b)"

text \<open>\<^verbatim>\<open>prctl(PR_GET_NAME, buf)\<close> stores at most 16 bytes.\<close>

definition prctl05_filled :: "sysres \<Rightarrow> string \<Rightarrow> string" where
  "prctl05_filled r old = (case sr_ret r of Inl e \<Rightarrow> old | Inr v \<Rightarrow> overlay (fit_to 16 (sr_bytes r)) old)"

definition prctl05_verify_prctl :: "kernel \<Rightarrow> nat \<Rightarrow> (proc, int) cprog" where
  "prctl05_verify_prctl K n = (bind (indet_bytes K ''buf'' 20) (\<lambda>old.
     case prctl05_tcases ! n of (setname, expname) \<Rightarrow> (bind (libc K (Prctl PR_SET_NAME [PStr setname])) (\<lambda>r.
       if r = -1 then
         (seq (printf_errno ''prctl(PR_SET_NAME) failed, error number '' ''\<newline>'') (
         ret 0))
       else
       seq (printf (''prctl(PR_SET_NAME, '' @ [CHR 0x27] @ setname @ [CHR 0x27] @ '') succeeded\<newline>'')) (
       bind (libc_res K (Prctl PR_GET_NAME [PObj ''buf''])) (\<lambda>g.
       if rv g = -1 then
         (seq (printf_errno ''prctl(PR_GET_NAME) failed, error number '' ''\<newline>'') (
         ret 0))
       else
       let buf = prctl05_filled g old in
       if strncmp_differ (fit 20 expname) buf 20 then
         (seq (printf (''prctl(PR_GET_NAME) failed, expected '' @ expname @ '', got '' @ cstring buf @ ''\<newline>'')) (
         ret 0))
       else
       seq (printf (''prctl(PR_GET_NAME) succeeded, thread name is '' @ cstring buf @ ''\<newline>'')) (
       ret 1)))))))"

definition prctl05_main :: "kernel \<Rightarrow> (proc, unit) cprog" where
  "prctl05_main K = (bind (fail_cases (prctl05_verify_prctl K) [0..<2] 1) (\<lambda>ok.
     if_then (ok \<noteq> 0) (printf ''test succeeded\<newline>'')))"

section \<open>prctl07\<close>

definition prctl07_check_cap_raise :: "kernel \<Rightarrow> int \<Rightarrow> string \<Rightarrow> int \<Rightarrow> (proc, unit) cprog" where
  "prctl07_check_cap_raise K cap message fail_flag = (bind (libc K (Prctl PR_CAP_AMBIENT [PNum PR_CAP_AMBIENT_RAISE, PNum cap, PNum 0, PNum 0])) (\<lambda>r.
     bind (gets errno) (\<lambda>e.
     if fail_flag = 0 then
       if r = 0 then printf (''PR_CAP_AMBIENT_RAISE '' @ message @ '' succeeded\<newline>'')
       else printf (''PR_CAP_AMBIENT_RAISE '' @ message @ '' failed unexpectedly\<newline>'')
     else if fail_flag = 1 then
       if r = 0 then printf (''PR_CAP_AMBIENT_RAISE succeeded unexpectedly '' @ message @ ''\<newline>'')
       else if e = EPERM then printf (''PR_CAP_AMBIENT_RAISE failed with EPERM '' @ message @ ''\<newline>'')
       else printf (''PR_CAP_AMBIENT_RAISE failed '' @ message @ ''\<newline>'')
     else skip)))"

definition prctl07_check_cap_is_set :: "kernel \<Rightarrow> int \<Rightarrow> string \<Rightarrow> int \<Rightarrow> (proc, unit) cprog" where
  "prctl07_check_cap_is_set K cap message val = (bind (libc K (Prctl PR_CAP_AMBIENT [PNum PR_CAP_AMBIENT_IS_SET, PNum cap, PNum 0, PNum 0])) (\<lambda>r.
     if r = 1 then printf (''PR_CAP_AMBIENT_IS_SET '' @ message @ '' in AmbientCap\<newline>'')
     else if r = 0 then printf (''PR_CAP_AMBIENT_IS_SET '' @ message @ '' not in AmbientCap\<newline>'')
     else printf_errno ''PR_CAP_AMBIENT_IS_SET failed, error number '' ''\<newline>''))"

definition prctl07_check_cap_lower :: "kernel \<Rightarrow> int \<Rightarrow> string \<Rightarrow> (proc, unit) cprog" where
  "prctl07_check_cap_lower K cap message = (bind (libc K (Prctl PR_CAP_AMBIENT [PNum PR_CAP_AMBIENT_LOWER, PNum cap, PNum 0, PNum 0])) (\<lambda>r.
     if r = -1 then printf (''PR_CAP_AMBIENT_LOWER '' @ message @ '' failed\<newline>'')
     else printf (''PR_CAP_AMBIENT_LOWER '' @ message @ '' succeeded\<newline>'')))"

text \<open>A call of the capability library; every result of it is dropped.\<close>

definition libcap :: "kernel \<Rightarrow> string \<Rightarrow> (proc, unit) cprog" where
  "libcap K f = call (libc K (Libcap f))"

text \<open>The function under \<^verbatim>\<open>HAVE_LIBCAP\<close>, in two parts: the raises that change the capability sets, and the
  queries and lowerings after them.\<close>

definition prctl07_raises :: "kernel \<Rightarrow> (proc, unit) cprog" where
  "prctl07_raises K = (seq (libcap K ''cap_init'') (
     seq (libcap K ''cap_set_flag CAP_EFFECTIVE'') (
     seq (libcap K ''cap_set_flag CAP_INHERITABLE'') (
     seq (libcap K ''cap_set_flag CAP_PERMITTED'') (
     seq (libcap K ''cap_set_proc'') (
     seq (printf ''[I] At the beginning\<newline>'') (
     seq (libcap K ''cap_clear_flag CAP_INHERITABLE'') (
     seq (libcap K ''cap_set_proc'') (
     seq (prctl07_check_cap_raise K CAP_NET_BIND_SERVICE ''on non-inheritable cap'' 1) (
     seq (libcap K ''cap_set_flag CAP_INHERITABLE'') (
     seq (libcap K ''cap_clear_flag CAP_PERMITTED'') (
     seq (libcap K ''cap_set_proc'') (
     seq (prctl07_check_cap_raise K CAP_NET_RAW ''on non-permitted cap'' 1) (
     seq (libcap K ''cap_set_flag CAP_PERMITTED'') (
     seq (libcap K ''cap_set_proc'') (
     seq (call (libc K (Prctl PR_SET_SECUREBITS [PNum SECBIT_NO_CAP_AMBIENT_RAISE]))) (
     seq (prctl07_check_cap_raise K CAP_NET_BIND_SERVICE ''because of NO_RAISE_SECBIT set'' 1) (
     seq (call (libc K (Prctl PR_SET_SECUREBITS [PNum 0]))) (
     seq (prctl07_check_cap_raise K CAP_NET_BIND_SERVICE ''CAP_NET_BIND_SERVICE'' 0) (
     seq (prctl07_check_cap_raise K CAP_NET_BIND_SERVICE ''CAP_NET_BIND_SERIVCE twice'' 0) (
     printf ''[I] After PR_CAP_AMBIENT_RAISE\<newline>'')))))))))))))))))))))"

definition prctl07_lowers :: "kernel \<Rightarrow> (proc, unit) cprog" where
  "prctl07_lowers K = (seq (prctl07_check_cap_is_set K CAP_NET_BIND_SERVICE ''CAP_NET_BIND_SERVICE was'' 1) (
     seq (prctl07_check_cap_is_set K CAP_NET_RAW ''CAP_NET_RAW was'' 0) (
     seq (prctl07_check_cap_lower K CAP_NET_RAW ''CAP_NET_RAW(it wasn't in ambient set)'') (
     seq (prctl07_check_cap_lower K CAP_NET_BIND_SERVICE ''CAP_NET_BIND_SERVICE(it was in ambient set)'') (
     seq (printf ''[I] After PR_CAP_AMBIENT_LORWER\<newline>'') (
     seq (call (libc K (Prctl PR_CAP_AMBIENT [PNum PR_CAP_AMBIENT_RAISE, PNum CAP_NET_BIND_SERVICE, PNum 0, PNum 0]))) (
     printf ''[I] raise cap for clear\<newline>'')))))))"

definition prctl07_verify_prctl :: "kernel \<Rightarrow> bool \<Rightarrow> (proc, int) cprog" where
  "prctl07_verify_prctl K have_libcap = (if have_libcap then (seq (prctl07_raises K) (
     seq (prctl07_lowers K) (
     bind (libc K (Prctl PR_CAP_AMBIENT [PNum PR_CAP_AMBIENT_CLEAR_ALL, PNum 0, PNum 0, PNum 0])) (\<lambda>r.
     seq (if r = 0 then printf ''PR_CAP_AMBIENT_CLEAR ALL succeeded\<newline>''
       else printf_errno ''PR_AMBIENT_CLEAR_ALL failed, error number '' []) (
     seq (printf ''[I] After PR_CAP_AMBIENT_CLEAR_ALL\<newline>'') (
     seq (libcap K ''cap_free'') (
     ret (if r = 0 then 1 else 0))))))))
   else (seq (printf ''libcap devel files missing during compilation\<newline>'') (
     ret 0)))"

definition prctl07_setup :: "kernel \<Rightarrow> (proc, unit) cprog" where
  "prctl07_setup K = (bind (libc K (Prctl PR_CAP_AMBIENT [PNum PR_CAP_AMBIENT_CLEAR_ALL, PNum 0, PNum 0, PNum 0])) (\<lambda>r.
     if r = 0 then
       printf ''[I] kernel supports PR_CAP_AMBIENT\<newline>''
     else
     bind (gets errno) (\<lambda>e.
     seq (if_then (e = EINVAL) (printf ''kernel doesn't support PR_CAP_AMBIENT\<newline>'')) (
     printf_errno ''current environment doesn't permit PR_CAP_AMBIENT, error number '' []))))"

definition prctl07_main :: "kernel \<Rightarrow> bool \<Rightarrow> (proc, unit) cprog" where
  "prctl07_main K have_libcap = (seq (prctl07_setup K) (
     bind (prctl07_verify_prctl K have_libcap) (\<lambda>r.
     if_then (r \<noteq> 0) (printf ''test succeeded\<newline>''))))"

section \<open>Verdicts\<close>

text \<open>\<^verbatim>\<open>prctl01\<close> passes exactly when setting the parent death signal is not refused and reading it back
  is not refused and stores SIGUSR2.\<close>

theorem prctl01_verdict:
  "passes (prctl01_main K) proc_init \<longleftrightarrow>
   (let h = calls (prctl01_main K) proc_init in
    0 \<le> rv (snd (h ! 0)) \<and> 0 \<le> rv (snd (h ! 1)) \<and> sr_int (snd (h ! 1)) = SIGUSR2)"
proof (rule verdictI)
  show "runs (prctl01_main K) proc_init (\<lambda>(fl, s'). announced (fl, s') \<longleftrightarrow>
    (let h = trace s' in
     0 \<le> rv (snd (h ! 0)) \<and> 0 \<le> rv (snd (h ! 1)) \<and> sr_int (snd (h ! 1)) = SIGUSR2))"
    unfolding prctl01_main_def prctl01_verify_prctl_def proc_init_def
    by (simp add: run_simps Let_def cong: run_congs split del: if_split; intro answeredI conjI impI allI;
      simp add: rv_not_m1)
qed

subsection \<open>prctl02\<close>

text \<open>The expected error of a case, and whether its option was found supported.\<close>

definition prctl02_expected :: "int list" where
  "prctl02_expected = map (\<lambda>(_, _, _, e, _). e) (prctl02_tcases prctl02_init)"

definition prctl02_supported :: "prctl02 \<Rightarrow> bool" where
  "prctl02_supported s \<longleftrightarrow> p02_seccomp_nsup s = 0 \<and> p02_nonewprivs_nsup s = 0 \<and> p02_thpdisable_nsup s = 0 \<and>
     p02_capambient_nsup s = 0 \<and> p02_speculationctrl_nsup s = 0"

text \<open>What the answers must be for the cases of the table to count: each call does not return 0, and leaves \<open>errno\<close> at
  the expected number, or else the value the function leaves behind by falling off its end happens not
  to be 0. \<open>e\<close> is \<open>errno\<close> before.\<close>

fun prctl02_counts :: "int \<Rightarrow> event list \<Rightarrow> int list \<Rightarrow> bool" where
  "prctl02_counts e h [] = True"
| "prctl02_counts e [] (x # xs) = False"
| "prctl02_counts e ((c, r) # h) (x # xs) =
     (rv r \<noteq> 0 \<and> (if new_errno r e = x then prctl02_counts x h xs
       else (case h of [] \<Rightarrow> False | (_, i) # h' \<Rightarrow> sr_int i \<noteq> 0 \<and> prctl02_counts (new_errno r e) h' xs)))"

lemma prctl02_tcases_nth:
  assumes "n < 18"
  obtains option a2 a3 nm where "prctl02_tcases s ! n = (option, a2, a3, prctl02_expected ! n, nm)" and "scan 0 nm = 0"
proof -
  from assms have "n \<in> set [0, 1, 2, 3, 4, 5, 6, 7, 8, 9, 10, 11, 12, 13, 14, 15, 16, 17]" by simp arith
  then have "\<exists>option a2 a3 nm. prctl02_tcases s ! n = (option, a2, a3, prctl02_expected ! n, nm) \<and> scan 0 nm = 0"
    unfolding prctl02_expected_def prctl02_tcases_def by (simp only: set_simps) (elim insertE emptyE; simp)
  then show thesis using that by blast
qed

lemma prctl02_updates [simp]:
  "prctl02_tcases (s\<lparr>out := t\<rparr>) = prctl02_tcases s" "prctl02_nsup (s\<lparr>out := t\<rparr>) = prctl02_nsup s"
  "prctl02_tcases (s\<lparr>trace := h\<rparr>) = prctl02_tcases s" "prctl02_nsup (s\<lparr>trace := h\<rparr>) = prctl02_nsup s"
  "prctl02_tcases (s\<lparr>errno := e\<rparr>) = prctl02_tcases s" "prctl02_nsup (s\<lparr>errno := e\<rparr>) = prctl02_nsup s"
  by (simp_all add: prctl02_tcases_def prctl02_nsup_def fun_eq_iff)

abbreviation prctl02_skipped :: "prctl02 \<Rightarrow> nat \<Rightarrow> bool" where
  "prctl02_skipped s n \<equiv> prctl02_nsup s (fst (prctl02_tcases s ! n)) \<noteq> 0"

lemma prctl02_skips: "(\<exists>n<18. prctl02_skipped s n) \<longleftrightarrow> \<not> prctl02_supported s"
proof
  assume "\<exists>n<18. prctl02_skipped s n"
  then show "\<not> prctl02_supported s" by (auto simp: prctl02_supported_def prctl02_nsup_def split: if_splits)
next
  assume "\<not> prctl02_supported s"
  then have "\<exists>n\<in>{4, 7, 10, 12, 15}. prctl02_skipped s n"
    by (simp add: prctl02_supported_def prctl02_tcases_def prctl02_nsup_def)
  then obtain n where "n \<in> {4, 7, 10, 12, 15}" and "prctl02_skipped s n" ..
  moreover from this(1) have "n < 18" by auto
  ultimately show "\<exists>n<18. prctl02_skipped s n" by blast
qed

text \<open>One case: the flags stay; skipped, it answers 0; otherwise its answers count exactly when it does not
  answer 0.\<close>

definition prctl02_same :: "prctl02 \<Rightarrow> prctl02 \<Rightarrow> bool" where
  "prctl02_same s s' \<longleftrightarrow> prctl02_tcases s' = prctl02_tcases s \<and> prctl02_nsup s' = prctl02_nsup s"

lemma prctl02_case_runs:
  assumes "n < 18" and "clear s"
    and P: "\<And>v s' h. clear s' \<Longrightarrow> trace s' = trace s @ h \<Longrightarrow> prctl02_same s s' \<Longrightarrow>
      (prctl02_skipped s n \<Longrightarrow> v = 0) \<Longrightarrow>
      (\<And>h' xs. \<not> prctl02_skipped s n \<Longrightarrow> prctl02_counts (errno s) (h @ h') (prctl02_expected ! n # xs) \<longleftrightarrow>
         v \<noteq> 0 \<and> prctl02_counts (errno s') h' xs) \<Longrightarrow> P (Ret v, s')"
  shows "runs (prctl02_verify_prctl K n) s P"
proof -
  obtain option a2 a3 nm where tc: "prctl02_tcases s ! n = (option, a2, a3, prctl02_expected ! n, nm)"
    and nm: "scan 0 nm = 0" using assms(1) by (rule prctl02_tcases_nth)
  from assms(2) have out: "scan 0 (out s) = 0" by (simp add: clear_def)
  show ?thesis
    unfolding prctl02_verify_prctl_def
    by (simp add: run_simps tc cong: run_congs split del: if_split; intro answeredI conjI impI allI P;
      simp add: clear_def out nm tc prctl02_same_def split: if_splits) simp_all
qed

lemma prctl02_cases_runs:
  assumes "set ns \<subseteq> {..<18}" and "clear s"
    and P: "\<And>v s' h. clear s' \<Longrightarrow> trace s' = trace (s::prctl02) @ h \<Longrightarrow>
      (v \<noteq> 0 \<longleftrightarrow> ok \<noteq> 0 \<and> (\<forall>n\<in>set ns. \<not> prctl02_skipped s n) \<and>
         prctl02_counts (errno s) h (map ((!) prctl02_expected) ns)) \<Longrightarrow> P (Ret v, s')"
  shows "runs (fail_cases (prctl02_verify_prctl K) ns ok) s P"
  using assms
proof (induction ns arbitrary: s ok)
  case Nil
  then show ?case by (simp add: run_simps)
next
  case (Cons n ns)
  have "n < 18" using Cons.prems(1) by simp
  then show ?case
    unfolding fail_cases.simps runs_bind
  proof (rule prctl02_case_runs [OF _ Cons.prems(2)])
    fix v s' h
    assume s': "clear s'" "trace s' = trace s @ h" "prctl02_same s s'" "prctl02_skipped s n \<Longrightarrow> v = 0"
      and c: "\<And>h' xs. \<not> prctl02_skipped s n \<Longrightarrow>
        prctl02_counts (errno s) (h @ h') (prctl02_expected ! n # xs) \<longleftrightarrow> v \<noteq> 0 \<and> prctl02_counts (errno s') h' xs"
    show "kont (\<lambda>r. fail_cases (prctl02_verify_prctl K) ns (if r = 0 then 0 else ok)) P (Ret v, s')"
      unfolding kont.simps
    proof (rule Cons.IH)
      show "set ns \<subseteq> {..<18}" using Cons.prems(1) by simp
      show "clear s'" by fact
      fix w :: int and u :: prctl02 and h'
      assume "clear u" and tr: "trace u = trace s' @ h'"
        and w: "w \<noteq> 0 \<longleftrightarrow> (if v = 0 then 0 else ok) \<noteq> 0 \<and> (\<forall>n\<in>set ns. \<not> prctl02_skipped s' n) \<and>
          prctl02_counts (errno s') h' (map ((!) prctl02_expected) ns)"
      have same: "prctl02_skipped s' m \<longleftrightarrow> prctl02_skipped s m" for m
        using s'(3) by (simp add: prctl02_same_def)
      show "P (Ret w, u)"
      proof (rule Cons.prems(3))
        show "trace u = trace s @ (h @ h')" using tr s'(2) by simp
        show "w \<noteq> 0 \<longleftrightarrow> ok \<noteq> 0 \<and> (\<forall>m\<in>set (n # ns). \<not> prctl02_skipped s m) \<and>
          prctl02_counts (errno s) (h @ h') (map ((!) prctl02_expected) (n # ns))"
          using w c [of h' "map ((!) prctl02_expected) ns"] s'(4) by (auto simp: same)
      qed fact
    qed
  qed
qed

text \<open>The probes of \<^verbatim>\<open>setup\<close>: everything is found supported exactly when none of the five answers is EINVAL.\<close>

lemma prctl02_setup_runs:
  assumes "\<And>s'. clear s' \<Longrightarrow> length (trace s') = 5 \<Longrightarrow>
      (prctl02_supported s' \<longleftrightarrow> (\<forall>(c, r)\<in>set (trace s'). \<not> failed_with r EINVAL)) \<Longrightarrow>
      errno s' = fold (\<lambda>(c, r). new_errno r) (trace s') 0 \<Longrightarrow> P (Ret (), s')"
  shows "runs (prctl02_setup K) prctl02_init P"
  unfolding prctl02_setup_def prctl02_init_def
  by (simp add: run_simps cong: run_congs split del: if_split; intro answeredI assms;
    simp add: clear_def prctl02_supported_def failed_with_def new_errno_def split: sum.splits if_splits)

text \<open>C22. \<^verbatim>\<open>prctl02\<close> passes exactly when none of the five probes is answered EINVAL and each of the 18 calls
  does not return 0 and leaves \<open>errno\<close> at the expected number. A call that succeeds with a positive value counts as well when an earlier
  one left \<open>errno\<close> at that number. An unexpected error does not fail the test:
  the verification then ends without a value, and whatever is taken for it need only not be 0.\<close>

theorem prctl02_verdict:
  "passes (prctl02_main K) prctl02_init \<longleftrightarrow>
   (let h = calls (prctl02_main K) prctl02_init; probes = take 5 h in
    list_all (\<lambda>(c, r). \<not> failed_with r EINVAL) probes \<and>
    prctl02_counts (fold (\<lambda>(c, r). new_errno r) probes 0) (drop 5 h) prctl02_expected)"
proof (rule verdictI)
  have exp: "map ((!) prctl02_expected) [0..<18] = prctl02_expected"
  proof -
    have "length prctl02_expected = 18" by (simp add: prctl02_expected_def prctl02_tcases_def)
    then show ?thesis by (metis map_nth)
  qed
  show "runs (prctl02_main K) prctl02_init (\<lambda>(fl, s'). announced (fl, s') \<longleftrightarrow>
   (let h = trace s'; probes = take 5 h in
    list_all (\<lambda>(c, r). \<not> failed_with r EINVAL) probes \<and>
    prctl02_counts (fold (\<lambda>(c, r). new_errno r) probes 0) (drop 5 h) prctl02_expected))"
    unfolding prctl02_main_def runs_seq
  proof (rule prctl02_setup_runs, unfold kont.simps runs_bind, rule prctl02_cases_runs)
    fix s' v u h
    assume s': "length (trace s') = 5"
      "prctl02_supported s' \<longleftrightarrow> (\<forall>(c, r)\<in>set (trace s'). \<not> failed_with r EINVAL)"
      "errno s' = fold (\<lambda>(c, r). new_errno r) (trace s') 0"
      and u: "clear u" "trace u = trace s' @ h"
      and v: "v \<noteq> 0 \<longleftrightarrow> (1::int) \<noteq> 0 \<and> (\<forall>n\<in>set [0..<18]. \<not> prctl02_skipped s' n) \<and>
         prctl02_counts (errno s') h (map ((!) prctl02_expected) [0..<18])"
    have "(\<forall>n\<in>set [0..<18]. \<not> prctl02_skipped s' n) \<longleftrightarrow> prctl02_supported s'"
      using prctl02_skips [of s'] by (auto simp del: upt_Suc)
    with v have "v \<noteq> 0 \<longleftrightarrow> prctl02_supported s' \<and> prctl02_counts (errno s') h prctl02_expected"
      by (simp only: exp) simp
    then show "kont (\<lambda>ok. if_then (ok \<noteq> 0) (printf ''test succeeded\<newline>'')) (\<lambda>(fl, s'). announced (fl, s') \<longleftrightarrow>
       (let h = trace s'; probes = take 5 h in
        list_all (\<lambda>(c, r). \<not> failed_with r EINVAL) probes \<and>
        prctl02_counts (fold (\<lambda>(c, r). new_errno r) probes 0) (drop 5 h) prctl02_expected)) (Ret v, u)"
      using s' u by (simp add: run_simps Let_def clear_def list_all_iff)
  qed (auto split: if_splits)
qed

subsection \<open>prctl05\<close>

text \<open>The thread name each round read back, if neither of its two calls was refused. A round begins with the
  indeterminate buffer.\<close>

fun prctl05_names :: "event list \<Rightarrow> string option list" where
  "prctl05_names ((_, b) # (_, r) # h) =
     (if rv r = -1 then None # prctl05_names h
      else case h of [] \<Rightarrow> [] | (_, g) # h' \<Rightarrow>
        (if rv g = -1 then None else Some (cstring (prctl05_filled g (fit 20 (sr_bytes b))))) # prctl05_names h')"
| "prctl05_names _ = []"

lemma length_filled [simp]: "length (prctl05_filled g old) = length old"
  by (simp add: prctl05_filled_def split: sum.splits)

lemma strncmp_filled [simp]:
  "strncmp_differ (fit 20 e) (prctl05_filled g (fit 20 bs)) 20 \<longleftrightarrow>
     cstring (prctl05_filled g (fit 20 bs)) \<noteq> cstring (fit 20 e)"
  by (auto simp: strncmp_differ_def)

lemma cstring_names [simp]:
  "cstring (fit 20 ''prctl05_test'') = ''prctl05_test''"
  "cstring (fit 20 ''prctl05_test_xx'') = ''prctl05_test_xx''"
  by (simp_all add: cstring_def fit_def)

lemma prctl05_tcases_nth:
  "prctl05_tcases ! 0 = (''prctl05_test'', ''prctl05_test'')"
  "prctl05_tcases ! 1 = (''prctl05_test_xxxxx'', ''prctl05_test_xx'')"
  by (simp_all add: prctl05_tcases_def)

lemma prctl05_unrolled:
  "fail_cases v [0..<2] ok = bind (v 0) (\<lambda>r. bind (v 1) (\<lambda>r'. ret (if r' = 0 then 0 else if r = 0 then 0 else ok)))"
  by (simp add: upt_rec numeral_2_eq_2)

text \<open>One round: what it read back, whether the report of it contains the success line, and its value.\<close>

definition tells :: "string option \<Rightarrow> bool" where
  "tells x \<longleftrightarrow> (case x of None \<Rightarrow> False | Some y \<Rightarrow> scan 0 y = 14)"

lemma prctl05_round_runs:
  assumes tc: "prctl05_tcases ! n = (setname, expname)" and q: "scan 0 setname \<noteq> 14" "scan 0 expname \<noteq> 14"
    and e: "cstring (fit 20 expname) = expname" and s: "scan 0 (out s) = 0 \<or> scan 0 (out s) = 14"
    and P: "\<And>v s'. \<exists>h x. trace s' = trace s @ h \<and> (\<forall>h'. prctl05_names (h @ h') = x # prctl05_names h') \<and>
      scan 0 (out s') = (if scan 0 (out s) = 14 \<or> tells x then 14 else 0) \<and>
      (v \<noteq> 0 \<longleftrightarrow> x = Some expname) \<Longrightarrow> P (Ret v, s')"
  shows "runs (prctl05_verify_prctl K n) s P"
proof -
  have q': "scan (scan 0 expname) (CHR '','' # t) = scan 0 t" for t
    using q(2) by (simp add: scan_foreign)
  show ?thesis
    unfolding prctl05_verify_prctl_def tc
    by (simp add: run_simps e Let_def cong: run_congs split del: if_split; intro answeredI conjI impI P;
      use s q in \<open>auto simp: tells_def q'\<close>)
qed

lemma prctl05_quiet_names:
  "scan 0 ''prctl05_test'' \<noteq> 14" "scan 0 ''prctl05_test_xxxxx'' \<noteq> 14" "scan 0 ''prctl05_test_xx'' \<noteq> 14"
  by simp_all

lemmas prctl05_rounds =
  prctl05_round_runs [OF prctl05_tcases_nth(1) prctl05_quiet_names(1,1) cstring_names(1)]
  prctl05_round_runs [OF prctl05_tcases_nth(2) prctl05_quiet_names(2,3) cstring_names(2)]

text \<open>\<^verbatim>\<open>prctl05\<close> passes exactly when the two names read back are the name set and its first 15
  characters. One exception is of its own making: it also passes when a name it reports contains the
  success line.\<close>

theorem prctl05_verdict:
  "passes (prctl05_main K) proc_init \<longleftrightarrow>
   (let names = prctl05_names (calls (prctl05_main K) proc_init) in
    names = [Some ''prctl05_test'', Some ''prctl05_test_xx''] \<or> (\<exists>x. Some x \<in> set names \<and> announces x))"
proof (rule verdictI)
  show "runs (prctl05_main K) proc_init (\<lambda>(fl, s'). announced (fl, s') \<longleftrightarrow>
   (let names = prctl05_names (trace s') in
    names = [Some ''prctl05_test'', Some ''prctl05_test_xx''] \<or> (\<exists>x. Some x \<in> set names \<and> announces x)))"
    unfolding prctl05_main_def prctl05_unrolled runs_bind
  proof (rule prctl05_rounds(1), simp add: proc_init_def, unfold kont.simps runs_bind, rule prctl05_rounds(2))
    fix v1 v2 :: int and s1 s2 :: proc
    assume "\<exists>h x. trace s1 = trace proc_init @ h \<and> (\<forall>h'. prctl05_names (h @ h') = x # prctl05_names h') \<and>
       scan 0 (out s1) = (if scan 0 (out proc_init) = 14 \<or> tells x then 14 else 0) \<and> (v1 \<noteq> 0 \<longleftrightarrow> x = Some ''prctl05_test'')"
    then obtain h1 x1 where s1: "trace s1 = h1" "\<And>h'. prctl05_names (h1 @ h') = x1 # prctl05_names h'"
      "scan 0 (out s1) = (if tells x1 then 14 else 0)" "v1 \<noteq> 0 \<longleftrightarrow> x1 = Some ''prctl05_test''"
      by (auto simp: proc_init_def)
    assume "\<exists>h x. trace s2 = trace s1 @ h \<and> (\<forall>h'. prctl05_names (h @ h') = x # prctl05_names h') \<and>
       scan 0 (out s2) = (if scan 0 (out s1) = 14 \<or> tells x then 14 else 0) \<and> (v2 \<noteq> 0 \<longleftrightarrow> x = Some ''prctl05_test_xx'')"
    then obtain h2 x2 where s2: "trace s2 = trace s1 @ h2" "\<And>h'. prctl05_names (h2 @ h') = x2 # prctl05_names h'"
      "scan 0 (out s2) = (if scan 0 (out s1) = 14 \<or> tells x2 then 14 else 0)" "v2 \<noteq> 0 \<longleftrightarrow> x2 = Some ''prctl05_test_xx''"
      by auto
    have names: "prctl05_names (trace s2) = [x1, x2]"
      using s1(1,2) s2(1) s2(2) [of "[]"] by simp
    have t: "(\<exists>x. (Some x = x1 \<or> Some x = x2) \<and> announces x) \<longleftrightarrow> tells x1 \<or> tells x2"
      by (auto simp: tells_def announces_scan split: option.splits)
    show "kont (\<lambda>r'. ret (if r' = 0 then 0 else if v1 = 0 then 0 else 1 :: int))
        (kont (\<lambda>ok. if_then (ok \<noteq> 0) (printf ''test succeeded\<newline>'')) (\<lambda>(fl, s'). announced (fl, s') \<longleftrightarrow>
          (let names = prctl05_names (trace s') in
           names = [Some ''prctl05_test'', Some ''prctl05_test_xx''] \<or> (\<exists>x. Some x \<in> set names \<and> announces x))))
        (Ret v2, s2)"
      unfolding Let_def kont.simps runs_ret runs_if_then runs_printf
      by (simp add: names t s1(3) s2(3) s1(4) [symmetric] s2(4) [symmetric])
  qed (auto split: if_splits)
qed

subsection \<open>prctl07\<close>

text \<open>Each step of the capability sequence adds one call to the history and prints nothing that matters.\<close>

definition silent :: "nat \<Rightarrow> (proc, unit) cprog \<Rightarrow> bool" where
  "silent k m \<longleftrightarrow> (\<forall>s. clear s \<longrightarrow> (\<exists>s'. m s = (Ret (), s') \<and> clear s' \<and> length (trace s') = length (trace s) + k))"

lemma silent_seq: "silent j m \<Longrightarrow> silent k n \<Longrightarrow> silent (j + k) (seq m n)"
  by (fastforce simp: silent_def seq_def bind_def)

lemma silent_printf: "scan 0 t = 0 \<Longrightarrow> silent 0 (printf t)"
  by (simp add: silent_def printf_def modify_def clear_def)

lemma silent_libcap: "silent 1 (libcap K f)"
  by (auto simp: silent_def libcap_def flow_defs clear_def Let_def split: sum.splits)

lemma silent_call: "silent 1 (call (libc K c))"
  by (auto simp: silent_def flow_defs clear_def Let_def split: sum.splits)

lemma silent_checks:
  assumes "scan 0 message = 0 \<or> scan 0 message = Suc 0"
  shows "silent 1 (prctl07_check_cap_raise K cap message flag)"
    and "silent 1 (prctl07_check_cap_is_set K cap message val)"
    and "silent 1 (prctl07_check_cap_lower K cap message)"
  unfolding prctl07_check_cap_raise_def prctl07_check_cap_is_set_def prctl07_check_cap_lower_def
  using assms by (auto simp: silent_def flow_defs clear_def Let_def split: sum.splits)

lemmas silents = silent_seq silent_printf silent_libcap silent_call silent_checks

lemma silent_raises: "silent 19 (prctl07_raises K)"
proof -
  have "silent (1 + (1 + (1 + (1 + (1 + (0 + (1 + (1 + (1 + (1 + (1 + (1 + (1 + (1 + (1 + (1 + (1 + (1 + (1 + (1 + 0))))))))))))))))))))
    (prctl07_raises K)"
    unfolding prctl07_raises_def by (intro silents) simp_all
  then show ?thesis by (simp add: eval_nat_numeral)
qed

lemma silent_lowers: "silent 5 (prctl07_lowers K)"
proof -
  have "silent (1 + (1 + (1 + (1 + (0 + (1 + 0)))))) (prctl07_lowers K)"
    unfolding prctl07_lowers_def by (intro silents) simp_all
  then show ?thesis by (simp add: eval_nat_numeral)
qed

lemma silent_runs:
  assumes "silent k m" and "clear s"
    and "\<And>s'. clear s' \<Longrightarrow> length (trace s') = length (trace s) + k \<Longrightarrow> P (Ret (), s')"
  shows "runs m s P"
proof -
  from assms(1,2) obtain s' where "m s = (Ret (), s')" "clear s'" "length (trace s') = length (trace s) + k"
    by (auto simp: silent_def)
  with assms(3) show ?thesis by (simp add: runs_def)
qed

lemma prctl07_verify_runs:
  assumes "clear s" and "length (trace s) = 1"
    and P: "\<And>v s'. clear s' \<Longrightarrow> length (trace s') = 27 \<Longrightarrow> (v \<noteq> 0 \<longleftrightarrow> rv (snd (trace s' ! 25)) = 0) \<Longrightarrow> P (Ret v, s')"
  shows "runs (prctl07_verify_prctl K True) s P"
  unfolding prctl07_verify_prctl_def if_True runs_seq
proof (rule silent_runs [OF silent_raises assms(1)], unfold kont.simps runs_seq, rule silent_runs [OF silent_lowers])
  fix s2 s3 :: proc
  assume "clear s2" and "length (trace s2) = length (trace s) + 19" and "clear s3"
    and "length (trace s3) = length (trace s2) + 5"
  with assms have s3: "scan 0 (out s3) = 0" "length (trace s3) = 25" by (simp_all add: clear_def)
  show "kont (\<lambda>_. bind (libc K (Prctl PR_CAP_AMBIENT [PNum PR_CAP_AMBIENT_CLEAR_ALL, PNum 0, PNum 0, PNum 0])) (\<lambda>r.
    seq (if r = 0 then printf ''PR_CAP_AMBIENT_CLEAR ALL succeeded\<newline>''
       else printf_errno ''PR_AMBIENT_CLEAR_ALL failed, error number '' []) (
    seq (printf ''[I] After PR_CAP_AMBIENT_CLEAR_ALL\<newline>'') (
    seq (libcap K ''cap_free'') (ret (if r = 0 then 1 else 0)))))) P (Ret (), s3)"
    unfolding kont.simps merges libcap_def
    by (simp add: run_simps cong: run_congs split del: if_split; intro answeredI P;
      simp add: s3 nth_append clear_def)
qed auto

text \<open>Built with the capability library, \<^verbatim>\<open>prctl07\<close> makes 27 calls and passes exactly when the last \<^verbatim>\<open>prctl\<close>,
  which clears the ambient set, returns 0: no check of raising, querying or lowering a capability has
  any influence. Built without it, the test never passes.\<close>

theorem prctl07_verdict:
  "(let h = calls (prctl07_main K have_libcap) proc_init in
    length h = (if have_libcap then 27 else 1) \<and>
    (passes (prctl07_main K have_libcap) proc_init \<longleftrightarrow> have_libcap \<and> rv (snd (h ! 25)) = 0))"
proof -
  let ?Q = "\<lambda>(fl, s'). length (trace s') = (if have_libcap then 27 else 1) \<and>
    (announced (fl, s') \<longleftrightarrow> have_libcap \<and> rv (snd (trace s' ! 25)) = 0)"
  have probe: "runs (prctl07_setup K) proc_init P"
    if "\<And>s'. clear s' \<Longrightarrow> length (trace s') = 1 \<Longrightarrow> P (Ret (), s')" for P
    unfolding prctl07_setup_def proc_init_def merges
    by (simp add: run_simps cong: run_congs split del: if_split; intro answeredI conjI impI that; simp add: clear_def)
  have "runs (prctl07_main K have_libcap) proc_init ?Q"
    unfolding prctl07_main_def runs_seq
  proof (rule probe)
    fix s1 :: proc
    assume s1: "clear s1" "length (trace s1) = 1"
    show "kont (\<lambda>_. bind (prctl07_verify_prctl K have_libcap)
        (\<lambda>r. if_then (r \<noteq> 0) (printf ''test succeeded\<newline>''))) ?Q (Ret (), s1)"
    proof (cases have_libcap)
      case True
      then have "runs (prctl07_verify_prctl K have_libcap) s1
        (kont (\<lambda>r. if_then (r \<noteq> 0) (printf ''test succeeded\<newline>'')) ?Q)"
        by (simp only:) (rule prctl07_verify_runs [OF s1], simp add: run_simps clear_def)
      then show ?thesis by (simp add: run_simps)
    next
      case False
      with s1 show ?thesis
        by (simp add: prctl07_verify_prctl_def run_simps clear_def)
    qed
  qed
  then show ?thesis by (auto simp: runs_def calls_def passes_announced Let_def split: prod.splits)
qed

end
