(* ===== verification/Execve_Tests.thy ===== *)
theory Execve_Tests
  imports Process
begin

text \<open>
  The execve tests (\<^verbatim>\<open>independent tests/syscalls/execve/\<close>) that need no child: the error numbers of
  \<^verbatim>\<open>execve03\<close>, and the programs that the others execute.
\<close>

section \<open>Replacing the process\<close>

text \<open>A successful \<^verbatim>\<open>execve\<close> does not return: the buffered output of the caller is lost, and the log is what the
  new image prints, which is part of the answer.\<close>

definition c_execve :: "kernel \<Rightarrow> string option \<Rightarrow> ('m proc_scheme, int) cprog" where
  "c_execve K name = bind (libc_res K (Execve name)) (\<lambda>r. case sr_ret r of
       Inl e \<Rightarrow> ret (-1)
     | Inr v \<Rightarrow> seq (modify (\<lambda>s. s\<lparr>out := sr_bytes r\<rparr>)) (c_exit 0))"

section \<open>execve03\<close>

record execve03 = proc +
  e03_test_name3 :: string
  e03_test_name5 :: string
  e03_test_name6 :: string

definition execve03_init :: execve03 where
  "execve03_init = \<lparr>errno = 0, out = no_output, trace = [], e03_test_name3 = [], e03_test_name5 = [], e03_test_name6 = []\<rparr>"

definition long_fname :: string where
  "long_fname =
     ''abcdefghijklmnopqrstuvwxyzabcdefghijklmnopqrstuvwxyz'' @
     ''abcdefghijklmnopqrstmnopqrstuvwxyzabcdefghijklmnopqr'' @
     ''stmnopqrstuvwxyzabcdefghijklmnopqrstmnopqrstuvwxyzab'' @
     ''cdefghijklmnopqrstmnopqrstuvwxyzabcdefghijklmnopqrst'' @
     ''mnopqrstuvwxyzabcdefghijklmnopqrstmnopqrstuvwxyz''"

definition execve03_tcases :: "execve03 \<Rightarrow> (string option \<times> int) list" where
  "execve03_tcases s =
     [(Some long_fname, ENAMETOOLONG),
      (Some ''testdir'', ENOENT),
      (Some (e03_test_name3 s), ENOTDIR),
      (None, EFAULT),
      (Some (e03_test_name5 s), EACCES),
      (Some (e03_test_name6 s), ENOEXEC)]"

text \<open>\<^verbatim>\<open>sprintf\<close> into one of the buffers of 1024 bytes; a longer text overruns it.\<close>

definition execve03_sprintf :: "kernel \<Rightarrow> string \<Rightarrow> (execve03 \<Rightarrow> execve03) \<Rightarrow> (execve03, unit) cprog" where
  "execve03_sprintf K t upd = (seq (if_then (length t \<ge> 1024) (undefined_call K ''sprintf'')) (
     modify upd))"

text \<open>\<^verbatim>\<open>ltpuser->pw_gid\<close> reads through the null pointer when there is no such user; a null \<^verbatim>\<open>cwdname\<close> is printed as
  \<^verbatim>\<open>(null)\<close>. The last loop of the function replaces null names by null and is left out.\<close>

definition execve03_setup :: "kernel \<Rightarrow> (execve03, unit) cprog" where
  "execve03_setup K = (seq (call (libc K (Umask 0))) (
     bind (libc_res K (Getpwnam ''nobody'')) (\<lambda>pw.
     seq (if_then (rv pw = -1) (die SIGSEGV)) (
     seq (call (libc K (Setgid (snd (sr_fds pw))))) (
     bind (libc_res K Getcwd) (\<lambda>g.
     let cwdname = (if rv g = -1 then ''(null)'' else sr_bytes g) in
     let name5 = cwdname @ ''/fake'' in
     seq (execve03_sprintf K name5 (\<lambda>s. s\<lparr>e03_test_name5 := name5\<rparr>)) (
     bind (libc K (Creat name5 mode_0444)) (\<lambda>fd.
     seq (call (libc K (Close fd))) (
     let name3 = name5 @ ''/fake'' in
     seq (execve03_sprintf K name3 (\<lambda>s. s\<lparr>e03_test_name3 := name3\<rparr>)) (
     let name6 = cwdname @ ''/execve03'' in
     seq (execve03_sprintf K name6 (\<lambda>s. s\<lparr>e03_test_name6 := name6\<rparr>)) (
     bind (libc K (Creat name6 mode_0755)) (\<lambda>fd'.
     call (libc K (Close fd'))))))))))))))"

definition execve03_verify_execve :: "kernel \<Rightarrow> nat \<Rightarrow> (execve03, int) cprog" where
  "execve03_verify_execve K i = (bind (gets (\<lambda>s. execve03_tcases s ! i)) (\<lambda>tc.
     bind (c_execve K (fst tc)) (\<lambda>r.
     if r \<noteq> -1 then
       (seq (printf ''call succeeded unexpectedly\<newline>'') (
       ret 0))
     else
     bind (gets errno) (\<lambda>e.
     if e = snd tc then
       (seq (printf ''execve failed as expected\<newline>'') (
       ret 1))
     else
     seq (printf (''execve failed unexpectedly; expected '' @ show_int (snd tc) @ '', got '' @ show_int e @ ''\<newline>'')) (
     ret 0)))))"

definition execve03_main :: "kernel \<Rightarrow> (execve03, unit) cprog" where
  "execve03_main K = (seq (execve03_setup K) (
     bind (fail_cases (execve03_verify_execve K) [0..<6] 1) (\<lambda>ok.
     if_then (ok \<noteq> 0) (printf ''test succeeded\<newline>''))))"

section \<open>The child of execve01\<close>

text \<open>\<^verbatim>\<open>getenv\<close>: the text after the first entry of the environment that begins with the name and an equals sign.\<close>

definition c_getenv :: "string list \<Rightarrow> string \<Rightarrow> string option" where
  "c_getenv environ name = (case filter (prefix (name @ ''='')) environ of
       [] \<Rightarrow> None | e # _ \<Rightarrow> Some (drop (Suc (length name)) e))"

definition execve01_child_main :: "string list \<Rightarrow> string list \<Rightarrow> (proc, unit) cprog" where
  "execve01_child_main argv environ =
     (if length argv \<noteq> 2 then
        printf (''argc is '' @ show_int (int (length argv)) @ '', expected 2\<newline>'')
      else if argv ! 1 \<noteq> ''canary'' then
        printf (''argv[1] is '' @ argv ! 1 @ '', expected '' @ [CHR 0x27] @ ''canary'' @ [CHR 0x27] @ ''\<newline>'')
      else case c_getenv environ ''LTP_TEST_ENV_VAR\<newline>'' of
        None \<Rightarrow> printf ''LTP_TEST_ENV_VAR is missing\<newline>''
      | Some env \<Rightarrow>
          if env \<noteq> ''test'' then
            printf (''LTP_TEST_ENV_VAR='' @ [CHR 0x27] @ env @ [CHR 0x27] @ '', expected test\<newline>'')
          else seq (if_then (c_getenv environ ''PATH'' \<noteq> None) (printf ''PATH is in environment\<newline>''))
            (printf (argv ! 0 @ '' executed\<newline>test succeeded\<newline>'')))"

section \<open>The other children\<close>

text \<open>A process may be started without any argument; \<^verbatim>\<open>argv[0]\<close> is then null, which \<^verbatim>\<open>printf\<close> shows as \<^verbatim>\<open>(null)\<close>.\<close>

definition execve_child_main :: "string list \<Rightarrow> (proc, unit) cprog" where
  "execve_child_main argv =
     (if length argv > 1 \<and> argv ! 1 = ''canary'' then
        printf (''argv[1] is '' @ argv ! 1 @ '', expected '' @ [CHR 0x27] @ ''canary'' @ [CHR 0x27] @ ''\<newline>test succeeded\<newline>'')
      else printf ((if argv = [] then ''(null)'' else argv ! 0) @ '' shouldn'' @ [CHR 0x27] @ ''t be executed\<newline>''))"

definition execve06_child_main :: "string list \<Rightarrow> (proc, unit) cprog" where
  "execve06_child_main argv =
     (if length argv \<noteq> 1 then printf (''argc is '' @ show_int (int (length argv)) @ '', expected 1\<newline>'')
      else printf ''argv[0] was filled in by kernel\<newline>'')"

section \<open>Verdicts\<close>

text \<open>The calls of \<^verbatim>\<open>execve\<close> in a history.\<close>

fun execs :: "event list \<Rightarrow> (string option \<times> sysres) list" where
  "execs [] = []"
| "execs ((c, r) # h) = (case c of Pr (Execve_pr name) \<Rightarrow> (name, r) # execs h | _ \<Rightarrow> execs h)"

lemma execs_append [simp]: "execs (h @ h') = execs h @ execs h'"
  by (induction h rule: execs.induct) (auto split: syscall.splits proc_call.splits)

definition refused :: "sysres \<Rightarrow> bool" where
  "refused r \<longleftrightarrow> (\<exists>e. failed_with r e)"

lemma refused_simps [simp]: "sr_ret r = Inl e \<Longrightarrow> refused r" "sr_ret r = Inr v \<Longrightarrow> \<not> refused r"
  by (simp_all add: refused_def failed_with_def)

lemma runs_execve [run_simps]:
  "runs (c_execve K name) s P = answered K (trace s) (Execve name) (\<lambda>r.
     (refused r \<longrightarrow> P (Ret (-1), s\<lparr>trace := trace s @ [(Execve name, r)], errno := new_errno r (errno s)\<rparr>)) \<and>
     (\<not> refused r \<longrightarrow> P (Exit 0, s\<lparr>trace := trace s @ [(Execve name, r)], out := sr_bytes r\<rparr>)))"
  by (auto simp: runs_def c_execve_def flow_defs answered_def new_errno_def Let_def split: sum.splits)

lemma new_errno_refused: "refused r \<Longrightarrow> new_errno r e = x \<longleftrightarrow> failed_with r x"
  by (auto simp: refused_def failed_with_def)

lemma execve03_case_runs:
  assumes "clear s"
    and ret: "\<And>v r s'. clear s' \<Longrightarrow> trace s' = trace s @ [(Execve (fst (execve03_tcases s ! i)), r)] \<Longrightarrow>
      execve03_tcases s' = execve03_tcases s \<Longrightarrow> refused r \<Longrightarrow>
      (v \<noteq> 0 \<longleftrightarrow> failed_with r (snd (execve03_tcases s ! i))) \<Longrightarrow> P (Ret v, s')"
    and exec: "\<And>r s'. trace s' = trace s @ [(Execve (fst (execve03_tcases s ! i)), r)] \<Longrightarrow> \<not> refused r \<Longrightarrow>
      out s' = sr_bytes r \<Longrightarrow> P (Exit 0, s')"
  shows "runs (execve03_verify_execve K i) s P"
  unfolding execve03_verify_execve_def
  by (simp add: run_simps cong: run_congs split del: if_split; intro answeredI conjI impI)
    ((rule exec; simp; fail) | (rule ret; use assms(1) in \<open>simp add: clear_def new_errno_refused execve03_tcases_def\<close>; fail))+

text \<open>The loop: either every call is refused, and the value says whether each error is the expected one, or the last
  call replaced the process.\<close>

definition all_refused :: "(string option \<times> int) list \<Rightarrow> (string option \<times> sysres) list \<Rightarrow> bool" where
  "all_refused tcs es \<longleftrightarrow> map fst es = map fst tcs \<and> list_all (\<lambda>(n, r). refused r) es"

definition replaced :: "(string option \<times> sysres) list \<Rightarrow> string \<Rightarrow> bool" where
  "replaced es t \<longleftrightarrow> es \<noteq> [] \<and> \<not> refused (snd (last es)) \<and> t = sr_bytes (snd (last es))"

definition as_expected :: "(string option \<times> int) list \<Rightarrow> (string option \<times> sysres) list \<Rightarrow> bool" where
  "as_expected tcs es \<longleftrightarrow> list_all2 (\<lambda>(n, e) (n', r). n' = n \<and> failed_with r e) tcs es"

lemma as_expected_refused: "as_expected tcs es \<Longrightarrow> list_all (\<lambda>(n, r). refused r) es"
  unfolding as_expected_def by (induction rule: list_all2_induct) (auto simp: refused_def)

lemma refused_not_replaced: "list_all (\<lambda>(n, r). refused r) es \<Longrightarrow> \<not> replaced es t"
  by (auto simp: replaced_def list_all_iff case_prod_unfold)

lemma execve03_cases_runs:
  assumes "clear s"
    and ret: "\<And>v s'. \<exists>h. trace s' = trace (s::execve03) @ h \<and> clear s' \<and> all_refused (map ((!) (execve03_tcases s)) ns) (execs h) \<and>
      (v \<noteq> 0 \<longleftrightarrow> ok \<noteq> 0 \<and> as_expected (map ((!) (execve03_tcases s)) ns) (execs h)) \<Longrightarrow> P (Ret v, s')"
    and exec: "\<And>s'. \<exists>h. trace s' = trace s @ h \<and> replaced (execs h) (out s') \<Longrightarrow> P (Exit 0, s')"
  shows "runs (fail_cases (execve03_verify_execve K) ns ok) s P"
  using assms
proof (induction ns arbitrary: s ok)
  case Nil
  then show ?case by (simp add: run_simps all_refused_def as_expected_def)
next
  case (Cons i ns)
  show ?case
    unfolding fail_cases.simps runs_bind
  proof (rule execve03_case_runs [OF Cons.prems(1)])
    fix r and s' :: execve03
    assume "trace s' = trace s @ [(Execve (fst (execve03_tcases s ! i)), r)]" "\<not> refused r" "out s' = sr_bytes r"
    then show "kont (\<lambda>r. fail_cases (execve03_verify_execve K) ns (if r = 0 then 0 else ok)) P (Exit 0, s')"
      by (simp add: Cons.prems(3) replaced_def)
  next
    fix v :: int and r :: sysres and s' :: execve03
    let ?e = "(Execve (fst (execve03_tcases s ! i)), r)"
    assume s': "clear s'" "trace s' = trace s @ [?e]" "execve03_tcases s' = execve03_tcases s" "refused r"
      "v \<noteq> 0 \<longleftrightarrow> failed_with r (snd (execve03_tcases s ! i))"
    show "kont (\<lambda>r. fail_cases (execve03_verify_execve K) ns (if r = 0 then 0 else ok)) P (Ret v, s')"
      unfolding kont.simps
    proof (rule Cons.IH [OF s'(1)])
      fix w :: int and u :: execve03
      assume "\<exists>h. trace u = trace s' @ h \<and> clear u \<and> all_refused (map ((!) (execve03_tcases s')) ns) (execs h) \<and>
        (w \<noteq> 0 \<longleftrightarrow> (if v = 0 then 0 else ok) \<noteq> 0 \<and> as_expected (map ((!) (execve03_tcases s')) ns) (execs h))"
      then obtain h where "trace u = trace s' @ h" "clear u" "all_refused (map ((!) (execve03_tcases s')) ns) (execs h)"
        "w \<noteq> 0 \<longleftrightarrow> (if v = 0 then 0 else ok) \<noteq> 0 \<and> as_expected (map ((!) (execve03_tcases s')) ns) (execs h)"
        by blast
      with s' show "P (Ret w, u)"
        by (intro Cons.prems(2) exI [of _ "?e # h"])
          (auto simp: all_refused_def as_expected_def case_prod_unfold)
    next
      fix u :: execve03
      assume "\<exists>h. trace u = trace s' @ h \<and> replaced (execs h) (out u)"
      then obtain h where "trace u = trace s' @ h" "replaced (execs h) (out u)" by blast
      with s' show "P (Exit 0, u)"
        by (intro Cons.prems(3) exI [of _ "?e # h"]) (auto simp: replaced_def)
    qed
  qed
qed

text \<open>The table once \<^verbatim>\<open>setup\<close> has filled in the names below the current directory.\<close>

definition execve03_table :: "string \<Rightarrow> (string option \<times> int) list" where
  "execve03_table cwd =
     [(Some long_fname, ENAMETOOLONG), (Some ''testdir'', ENOENT), (Some (cwd @ ''/fake/fake''), ENOTDIR),
      (None, EFAULT), (Some (cwd @ ''/fake''), EACCES), (Some (cwd @ ''/execve03''), ENOEXEC)]"

definition cwd_of :: "sysres \<Rightarrow> string" where
  "cwd_of g = (if rv g = -1 then ''(null)'' else sr_bytes g)"

lemma execve03_setup_runs:
  assumes ret: "\<And>s'. clear s' \<Longrightarrow> execs (trace s') = [] \<Longrightarrow> 3 < length (trace s') \<Longrightarrow>
      execve03_tcases s' = execve03_table (cwd_of (snd (trace s' ! 3))) \<Longrightarrow> P (Ret (), s')"
    and killed: "\<And>g s'. execs (trace s') = [] \<Longrightarrow> P (Killed g, s')"
  shows "runs (execve03_setup K) execve03_init P"
  unfolding execve03_setup_def execve03_sprintf_def execve03_init_def cwd_of_def [symmetric]
  by (simp add: run_simps Let_def cong: run_congs split del: if_split; intro answeredI conjI impI allI)
    ((rule killed; simp; fail) | (rule ret; simp add: clear_def execve03_tcases_def execve03_table_def; fail))+

text \<open>\<^verbatim>\<open>execve03\<close> passes exactly when \<^verbatim>\<open>execve\<close> is called with the six names of the table, relative to the current
  directory, and refuses each with the expected error, or when a call replaces the process by a program
  that prints the success line itself.\<close>

theorem execve03_verdict:
  "passes (execve03_main K) execve03_init \<longleftrightarrow>
   (let h = calls (execve03_main K) execve03_init; es = execs h in
    as_expected (execve03_table (cwd_of (snd (h ! 3)))) es \<or> (\<exists>t. replaced es t \<and> announces t))"
proof (rule verdictI)
  let ?C = "\<lambda>h'. let h = h'; es = execs h in
    as_expected (execve03_table (cwd_of (snd (h ! 3)))) es \<or> (\<exists>t. replaced es t \<and> announces t)"
  have table: "map ((!) (execve03_table cwd)) [0..<6] = execve03_table cwd" for cwd
  proof -
    have "length (execve03_table cwd) = 6" by (simp add: execve03_table_def)
    then show ?thesis by (metis map_nth)
  qed
  show "runs (execve03_main K) execve03_init (\<lambda>(fl, s'). announced (fl, s') \<longleftrightarrow> ?C (trace s'))"
    unfolding execve03_main_def runs_seq
  proof (rule execve03_setup_runs)
    fix s1
    assume s1: "clear s1" "execs (trace s1) = []" "3 < length (trace s1)"
      and tcs: "execve03_tcases s1 = execve03_table (cwd_of (snd (trace s1 ! 3)))"
    show "kont (\<lambda>_. bind (fail_cases (execve03_verify_execve K) [0..<6] 1)
        (\<lambda>ok. if_then (ok \<noteq> 0) (printf ''test succeeded\<newline>'')))
      (\<lambda>(fl, s'). announced (fl, s') \<longleftrightarrow> ?C (trace s')) (Ret (), s1)"
      unfolding kont.simps runs_bind
    proof (rule execve03_cases_runs [OF s1(1)], unfold tcs table)
      fix v :: int and u :: execve03
      assume "\<exists>h. trace u = trace s1 @ h \<and> clear u \<and> all_refused (execve03_table (cwd_of (snd (trace s1 ! 3)))) (execs h) \<and>
        (v \<noteq> 0 \<longleftrightarrow> (1::int) \<noteq> 0 \<and> as_expected (execve03_table (cwd_of (snd (trace s1 ! 3)))) (execs h))"
      then obtain h where "trace u = trace s1 @ h" "clear u" "all_refused (execve03_table (cwd_of (snd (trace s1 ! 3)))) (execs h)"
        "v \<noteq> 0 \<longleftrightarrow> as_expected (execve03_table (cwd_of (snd (trace s1 ! 3)))) (execs h)" by auto
      moreover from this(3) have "\<not> replaced (execs h) t" for t
        by (simp add: all_refused_def refused_not_replaced)
      ultimately show "kont (\<lambda>ok. if_then (ok \<noteq> 0) (printf ''test succeeded\<newline>''))
        (\<lambda>(fl, s'). announced (fl, s') \<longleftrightarrow> ?C (trace s')) (Ret v, u)"
        using s1 by (simp add: run_simps clear_def nth_append)
    next
      fix u :: execve03
      assume "\<exists>h. trace u = trace s1 @ h \<and> replaced (execs h) (out u)"
      then obtain h where h: "trace u = trace s1 @ h" "replaced (execs h) (out u)" by blast
      then have "\<not> as_expected tcs (execs h)" for tcs
        using as_expected_refused refused_not_replaced by blast
      moreover have "(\<exists>t. replaced (execs h) t \<and> announces t) \<longleftrightarrow> announces (out u)"
        using h(2) by (auto simp: replaced_def)
      ultimately show "kont (\<lambda>ok. if_then (ok \<noteq> 0) (printf ''test succeeded\<newline>''))
        (\<lambda>(fl, s'). announced (fl, s') \<longleftrightarrow> ?C (trace s')) (Exit 0 :: int flow, u)"
        using s1 h by (simp add: announces_scan)
    qed
  next
    fix g and s1 :: execve03
    assume "execs (trace s1) = []"
    then show "kont (\<lambda>_. bind (fail_cases (execve03_verify_execve K) [0..<6] 1)
        (\<lambda>ok. if_then (ok \<noteq> 0) (printf ''test succeeded\<newline>'')))
      (\<lambda>(fl, s'). announced (fl, s') \<longleftrightarrow> ?C (trace s')) (Killed g :: unit flow, s1)"
      by (simp add: as_expected_def execve03_table_def replaced_def)
  qed
qed

text \<open>\<^verbatim>\<open>execve01_child\<close> passes exactly when it has one argument, \<open>canary\<close>, and the variable whose name ends in a line break
  has the value \<open>test\<close>, or when the argument or value it complains about contains the success line. In
  the environment that \<^verbatim>\<open>execve01\<close> hands over, which has the name without the line break, it fails.\<close>

theorem execve01_child_verdict:
  "(passes (execve01_child_main argv environ) proc_init \<longleftrightarrow>
    (\<exists>prog arg. argv = [prog, arg] \<and>
      (if arg = ''canary'' then
         (\<exists>v. c_getenv environ ''LTP_TEST_ENV_VAR\<newline>'' = Some v \<and> (v = ''test'' \<or> announces v))
       else announces arg))) \<and>
   \<not> passes (execve01_child_main [prog, ''canary''] [''LTP_TEST_ENV_VAR=test'']) proc_init"
proof -
  have good: "scan 0 (t @ '' executed\<newline>test succeeded\<newline>'') = 14" for t
  proof -
    have "announces ((t @ '' executed\<newline>'') @ success_line @ ''\<newline>'')"
      unfolding announces_def by (rule sublist_appendI)
    then show ?thesis by (simp only: announces_scan append_assoc append_Cons append_Nil)
  qed
  have two: "passes (execve01_child_main [prog, arg] environ) proc_init \<longleftrightarrow>
     (if arg = ''canary'' then
         (\<exists>v. c_getenv environ ''LTP_TEST_ENV_VAR\<newline>'' = Some v \<and> (v = ''test'' \<or> announces v))
       else announces arg)" for prog arg environ
    using good by (auto simp: passes_announced execve01_child_main_def flow_defs proc_init_def no_output_def announces_scan
      split: option.splits)
  have "\<not> passes (execve01_child_main argv environ) proc_init" if "length argv \<noteq> 2"
    using that by (simp add: passes_announced execve01_child_main_def flow_defs proc_init_def no_output_def)
  moreover have "length argv = 2 \<longleftrightarrow> (\<exists>prog arg. argv = [prog, arg])"
    by (auto simp: numeral_2_eq_2 length_Suc_conv)
  ultimately have "passes (execve01_child_main argv environ) proc_init \<longleftrightarrow>
    (\<exists>prog arg. argv = [prog, arg] \<and> passes (execve01_child_main [prog, arg] environ) proc_init)" by blast
  moreover have "c_getenv [''LTP_TEST_ENV_VAR=test''] ''LTP_TEST_ENV_VAR\<newline>'' = None"
    by (simp add: c_getenv_def)
  ultimately show ?thesis by (simp only: two) simp
qed

lemma scan_refused_name: "scan (scan 0 t) ('' shouldn'' @ CHR 0x27 # u) = 14 \<longleftrightarrow> scan 0 (t @ '' shouldn'') = 14 \<or> scan 0 u = 14"
proof -
  have "scan (scan 0 t) ('' shouldn'' @ CHR 0x27 # u) = scan (scan 0 (t @ '' shouldn'')) (CHR 0x27 # u)"
    by (simp only: scan_append)
  then show ?thesis by (simp only: scan_quote split: if_split) blast
qed

text \<open>\<^verbatim>\<open>execve_child\<close> passes exactly when its first argument is \<open>canary\<close>, or when the program name it prints
  together with the word after it contains the success line; \<^verbatim>\<open>execve06_child\<close> never passes.\<close>

theorem execve_child_verdict:
  "(passes (execve_child_main argv) proc_init \<longleftrightarrow>
     (length argv > 1 \<and> argv ! 1 = ''canary'') \<or> (0 < length argv \<and> announces (argv ! 0 @ '' shouldn''))) \<and>
   \<not> passes (execve06_child_main argv') proc_init"
proof -
  have canary: "scan 0 (''argv[1] is '' @ ''canary'' @ '', expected '' @ [CHR 0x27] @ ''canary'' @ [CHR 0x27] @ ''\<newline>test succeeded\<newline>'') = 14"
    by simp
  have other: "scan 0 (t @ '' shouldn'' @ [CHR 0x27] @ ''t be executed\<newline>'') = 14 \<longleftrightarrow> announces (t @ '' shouldn'')" for t
    using scan_refused_name [of t "''t be executed\<newline>''"] by (simp only: scan_append announces_scan append_Cons append_Nil) simp
  have null: "scan 0 (''(null)'' @ '' shouldn'' @ [CHR 0x27] @ ''t be executed\<newline>'') \<noteq> 14"
    by simp
  have "passes (execve_child_main argv) proc_init \<longleftrightarrow>
     (length argv > 1 \<and> argv ! 1 = ''canary'') \<or> (0 < length argv \<and> announces (argv ! 0 @ '' shouldn''))"
    unfolding passes_announced execve_child_main_def printf_def modify_def proc_init_def no_output_def
    using canary other null by (cases "length argv > 1 \<and> argv ! 1 = ''canary''"; cases "argv = []") (simp_all, blast)
  moreover have "\<not> passes (execve06_child_main argv') proc_init"
    by (simp add: passes_announced execve06_child_main_def printf_def modify_def proc_init_def)
  ultimately show ?thesis by blast
qed

end
