(* ===== verification/Signal_Tests.thy ===== *)
theory Signal_Tests
  imports Process
begin

text \<open>
  The tests that wait for and block signals: \<^verbatim>\<open>independent tests/syscalls/ppoll/ppoll01.c\<close> and
  \<^verbatim>\<open>independent tests/syscalls/sigprocmask/sigprocmask01.c\<close>. An answer of the environment lists the
  signals that were delivered before the call returned.
\<close>

section \<open>Signal sets\<close>

abbreviation (input) "SIG_BLOCK \<equiv> (0::int)"
abbreviation (input) "SIG_UNBLOCK \<equiv> (1::int)"
abbreviation (input) "SIG_SETMASK \<equiv> (2::int)"

text \<open>The C library's operations on a signal set, which is the list of its members: each returns 0, or \<open>-1\<close>
  with EINVAL for a number that is no signal.\<close>

definition c_sigemptyset :: "('m proc_scheme, int \<times> int list) cprog" where
  "c_sigemptyset = ret (0, [])"

definition c_sigfillset :: "('m proc_scheme, int \<times> int list) cprog" where
  "c_sigfillset = ret (0, [1..64])"

definition c_sigaddset :: "int list \<Rightarrow> int \<Rightarrow> ('m proc_scheme, int \<times> int list) cprog" where
  "c_sigaddset sigs g =
     (if 1 \<le> g \<and> g \<le> 64 then ret (0, List.insert g sigs) else seq (set_errno EINVAL) (ret (-1, sigs)))"

definition c_sigismember :: "int list \<Rightarrow> int \<Rightarrow> int" where
  "c_sigismember sigs g = (if g \<in> set sigs then 1 else 0)"

section \<open>sigprocmask01\<close>

record sigprocmask01 = proc +
  sp_sig_catch :: int
  sp_set :: "int list"
  sp_sigset2 :: "int list"
  sp_handled :: bool \<comment> \<open>whether \<^verbatim>\<open>sigaction\<close> installed \<^verbatim>\<open>sig_handler\<close>\<close>

definition sigprocmask01_init :: sigprocmask01 where
  "sigprocmask01_init = \<lparr>errno = 0, out = no_output, trace = [], sp_sig_catch = 0, sp_set = [], sp_sigset2 = [], sp_handled = False\<rparr>"

definition sigprocmask01_sig_handler :: "int \<Rightarrow> (sigprocmask01, unit) cprog" where
  "sigprocmask01_sig_handler g = modify (\<lambda>s. s\<lparr>sp_sig_catch := sp_sig_catch s + 1\<rparr>)"

definition sigprocmask01_cleanup :: "(sigprocmask01, unit) cprog" where
  "sigprocmask01_cleanup = skip"

text \<open>The delivery of signals: SIGINT to the handler once it is installed; any other one that an answer lists is fatal, since ignored ones
  are not listed.\<close>

fun sigprocmask01_deliver :: "int list \<Rightarrow> (sigprocmask01, unit) cprog" where
  "sigprocmask01_deliver [] = skip"
| "sigprocmask01_deliver (g # gs) =
     seq (bind (gets sp_handled) (\<lambda>h. if h \<and> g = SIGINT then sigprocmask01_sig_handler g else die g))
       (sigprocmask01_deliver gs)"

definition sigprocmask01_call :: "kernel \<Rightarrow> syscall \<Rightarrow> (sigprocmask01, sysres) cprog" where
  "sigprocmask01_call K c = (bind (libc_res K c) (\<lambda>r.
     seq (sigprocmask01_deliver (sr_sigs r)) (
     ret r)))"

definition sigprocmask01_setup :: "kernel \<Rightarrow> (sigprocmask01, unit) cprog" where
  "sigprocmask01_setup K = (bind c_sigemptyset (\<lambda>(r1, set1).
     seq (modify (\<lambda>s. s\<lparr>sp_set := set1\<rparr>)) (
     seq (if_then (r1 = -1) (seq (printf_errno ''sigemptyset() failed, errno='' ''\<newline>'') (
       seq sigprocmask01_cleanup (
       c_exit 0)))) (
     bind c_sigfillset (\<lambda>(r2, set2).
     seq (modify (\<lambda>s. s\<lparr>sp_sigset2 := set2\<rparr>)) (
     seq (if_then (r2 = -1) (seq (printf_errno ''sigfillset() failed, errno='' ''\<newline>'') (
       seq sigprocmask01_cleanup (
       c_exit 0)))) (
     bind (libc_res K (Sigaction SIGINT)) (\<lambda>a.
     seq (modify (\<lambda>s. s\<lparr>sp_handled := (rv a \<noteq> -1)\<rparr>)) (
     seq (sigprocmask01_deliver (sr_sigs a)) (
     seq (if_then (rv a = -1) (seq (printf_errno ''sigaction() failed, errno='' ''\<newline>'') (
       seq sigprocmask01_cleanup (
       c_exit 0)))) (
     bind (c_sigaddset set1 SIGINT) (\<lambda>(r3, set3).
     seq (modify (\<lambda>s. s\<lparr>sp_set := set3\<rparr>)) (
     if_then (r3 = -1) (seq (printf_errno ''sigaddset() failed, errno='' ''\<newline>'') (
       seq sigprocmask01_cleanup (
       c_exit 0))))))))))))))))"

text \<open>The part of \<^verbatim>\<open>main\<close> after the signal was blocked and sent.\<close>

definition sigprocmask01_check :: "kernel \<Rightarrow> (sigprocmask01, unit) cprog" where
  "sigprocmask01_check K = (bind (gets sp_sig_catch) (\<lambda>caught.
     if caught \<noteq> 0 then
       (seq (printf ''sigprocmask fails to change the process signal mask\<newline>'') (
       c_exit 0))
     else
     seq (set_errno 0) (
     bind (sigprocmask01_call K Sigpending) (\<lambda>p.
     if rv p = -1 then
       (seq (printf_errno ''blocked signal not in pending state, error: '' ''\<newline>'') (
       seq sigprocmask01_cleanup (
       c_exit 0)))
     else
     seq (modify (\<lambda>s. s\<lparr>sp_sigset2 := sr_set p\<rparr>)) (
     seq (set_errno 0) (
     if c_sigismember (sr_set p) SIGINT = 0 then
       (seq (printf_errno ''sigismember() failed, error:'' ''\<newline>'') (
       seq sigprocmask01_cleanup (
       c_exit 0)))
     else
     seq (set_errno 0) (
     bind (gets sp_set) (\<lambda>blocked.
     bind (sigprocmask01_call K (Sigprocmask SIG_UNBLOCK blocked)) (\<lambda>u.
     if rv u = -1 then
       (seq (printf_errno ''sigprocmask() failed to unblock signal, error='' ''\<newline>'') (
       seq sigprocmask01_cleanup (
       c_exit 0)))
     else
     bind (gets sp_sig_catch) (\<lambda>caught'.
     if caught' \<noteq> 0 then printf ''Functionality of sigprocmask() Successful\<newline>test succeeded\<newline>''
     else (seq (printf ''Functionality of sigprocmask() Failed\<newline>'') (
       c_exit 0))))))))))))"

definition sigprocmask01_main :: "kernel \<Rightarrow> (sigprocmask01, unit) cprog" where
  "sigprocmask01_main K = (seq (sigprocmask01_setup K) (
     bind (gets sp_set) (\<lambda>blocked.
     bind (sigprocmask01_call K (Sigprocmask SIG_BLOCK blocked)) (\<lambda>b.
     bind (sigprocmask01_call K Getpid) (\<lambda>my_pid.
     seq (call (sigprocmask01_call K (Kill (rv my_pid) SIGINT))) (
     seq (if rv b = -1 then printf_errno ''sigprocmask() Failed, errno='' ''\<newline>''
       else sigprocmask01_check K) (
     sigprocmask01_cleanup)))))))"

section \<open>Verdict of sigprocmask01\<close>

lemma runs_sigsets [run_simps]:
  "runs c_sigemptyset s P = P (Ret (0, []), s)" "runs c_sigfillset s P = P (Ret (0, [1..64]), s)"
  "1 \<le> g \<Longrightarrow> g \<le> 64 \<Longrightarrow> runs (c_sigaddset sigs g) s P = P (Ret (0, List.insert g sigs), s)"
  by (simp_all add: c_sigemptyset_def c_sigfillset_def c_sigaddset_def run_simps)

lemma sigprocmask01_deliver_runs:
  assumes "sp_handled s"
    and "set gs \<subseteq> {SIGINT} \<Longrightarrow> P (Ret (), s\<lparr>sp_sig_catch := sp_sig_catch s + int (length gs)\<rparr>)"
    and "\<And>g s'. \<not> set gs \<subseteq> {SIGINT} \<Longrightarrow> trace s' = trace s \<Longrightarrow> P (Killed g, s')"
  shows "runs (sigprocmask01_deliver gs) s P"
  using assms
proof (induction gs arbitrary: s)
  case (Cons g gs)
  show ?case
  proof (cases "g = SIGINT")
    case True
    have "runs (sigprocmask01_deliver gs) (s\<lparr>sp_sig_catch := sp_sig_catch s + 1\<rparr>) P"
      by (rule Cons.IH) (use Cons.prems True in \<open>simp_all add: algebra_simps\<close>)
    with Cons.prems(1) True show ?thesis
      by (simp add: run_simps sigprocmask01_sig_handler_def)
  next
    case False
    with Cons.prems show ?thesis by (simp add: run_simps)
  qed
qed (simp add: run_simps)

text \<open>A call of this program once the handler is installed.\<close>

lemma sigprocmask01_call_runs:
  assumes "sp_handled s"
    and "\<And>r. set (sr_sigs r) \<subseteq> {SIGINT} \<Longrightarrow> P (Ret r, s\<lparr>trace := trace s @ [(c, r)],
      errno := new_errno r (errno s), sp_sig_catch := sp_sig_catch s + int (length (sr_sigs r))\<rparr>)"
    and "\<And>r g s'. \<not> set (sr_sigs r) \<subseteq> {SIGINT} \<Longrightarrow> trace s' = trace s @ [(c, r)] \<Longrightarrow> P (Killed g, s')"
  shows "runs (sigprocmask01_call K c) s P"
  unfolding sigprocmask01_call_def
  by (simp add: run_simps cong: run_congs; intro answeredI sigprocmask01_deliver_runs;
    simp add: run_simps assms)

text \<open>What passing means: the six calls were made; installing, blocking, sending, looking and unblocking went through;
  nothing was delivered up to the sending, SIGINT was pending, and it was delivered, alone, later.\<close>

definition sigprocmask01_holds :: "event list \<Rightarrow> bool" where
  "sigprocmask01_holds h \<longleftrightarrow> length h = 6 \<and>
     (\<forall>i\<in>{0, 1, 4, 5}. rv (snd (h ! i)) \<noteq> -1) \<and> (\<forall>i\<in>{0, 1, 2, 3}. sr_sigs (snd (h ! i)) = []) \<and>
     SIGINT \<in> set (sr_set (snd (h ! 4))) \<and> set (sr_sigs (snd (h ! 4)) @ sr_sigs (snd (h ! 5))) = {SIGINT}"

lemma sigprocmask01_setup_runs:
  assumes "\<And>a. set (sr_sigs a) \<subseteq> {SIGINT} \<Longrightarrow> rv a \<noteq> -1 \<Longrightarrow> P (Ret (), sigprocmask01_init\<lparr>trace := [(Sigaction SIGINT, a)],
      errno := new_errno a 0, sp_handled := True, sp_sig_catch := int (length (sr_sigs a)), sp_set := [SIGINT], sp_sigset2 := [1..64]\<rparr>)"
    and "\<And>c s'. length (trace s') = 1 \<Longrightarrow> clear s' \<Longrightarrow> P (Exit c, s')"
    and "\<And>g s'. length (trace s') = 1 \<Longrightarrow> P (Killed g, s')"
  shows "runs (sigprocmask01_setup K) sigprocmask01_init P"
proof -
  have fatal: "runs (sigprocmask01_deliver gs) s Q"
    if "\<not> sp_handled s" and "gs = [] \<Longrightarrow> Q (Ret (), s)" and "\<And>g. Q (Killed g, s)" for gs s Q
    using that by (cases gs) (simp_all add: run_simps)
  show ?thesis
    unfolding sigprocmask01_setup_def sigprocmask01_init_def
    apply (simp add: run_simps cong: run_congs)
    apply (rule answeredI)
    subgoal for a
      apply (cases "rv a = -1"; simp)
      subgoal by (rule fatal; simp add: run_simps sigprocmask01_cleanup_def assms(2,3) clear_def)
      subgoal by (rule sigprocmask01_deliver_runs; use assms(1) [of a] in \<open>simp add: run_simps assms(3) sigprocmask01_init_def\<close>)
      done
    done
qed

lemma c_sigismember_0 [simp]: "c_sigismember sigs g = 0 \<longleftrightarrow> g \<notin> set sigs"
  by (simp add: c_sigismember_def)

lemma only_sigint:
  "set gs \<subseteq> {SIGINT} \<Longrightarrow> set hs \<subseteq> {SIGINT} \<Longrightarrow>
   set gs \<union> set hs = {SIGINT} \<longleftrightarrow> int (length gs) + int (length hs) \<noteq> 0"
  by (cases gs; cases hs) auto

lemma sigprocmask01_check_runs:
  assumes s: "sp_handled s" "clear s" "length (trace s) = 4" "0 \<le> sp_sig_catch s"
      "rv (snd (trace s ! 0)) \<noteq> -1" "rv (snd (trace s ! 1)) \<noteq> -1"
      "sp_sig_catch s = 0 \<longleftrightarrow> (\<forall>i\<in>{0, 1, 2, 3}. sr_sigs (snd (trace s ! i)) = [])"
    and P: "\<And>fl s'. (announced (fl, s') \<longleftrightarrow> sigprocmask01_holds (trace s')) \<Longrightarrow> P (fl, s')"
  shows "runs (sigprocmask01_check K) s P"
proof -
  have clr: "scan 0 (out s) = 0" using s(2) by (simp add: clear_def)
  show ?thesis
    unfolding sigprocmask01_check_def sigprocmask01_cleanup_def
    apply (simp add: run_simps cong: run_congs split del: if_split)
    apply (intro conjI impI)
    subgoal by (rule P) (use s clr in \<open>simp add: sigprocmask01_holds_def\<close>)
    subgoal
      apply (rule sigprocmask01_call_runs)
      subgoal using s by simp
      subgoal for p
        apply (simp add: run_simps cong: run_congs split del: if_split)
        apply (intro conjI impI)
        subgoal by (rule P) (use s clr in \<open>simp add: sigprocmask01_holds_def nth_append\<close>)
        subgoal by (rule P) (use s clr in \<open>simp add: sigprocmask01_holds_def nth_append\<close>)
        subgoal
          apply (rule sigprocmask01_call_runs)
          subgoal using s by simp
          subgoal for u
            apply (simp add: run_simps cong: run_congs split del: if_split)
            apply (intro conjI impI)
            subgoal by (rule P) (use s clr in \<open>simp add: sigprocmask01_holds_def nth_append\<close>)
            subgoal by (rule P) (use s clr in \<open>auto simp: sigprocmask01_holds_def nth_append only_sigint\<close>)
            subgoal by (rule P) (use s clr in \<open>auto simp: sigprocmask01_holds_def nth_append only_sigint\<close>)
            done
          subgoal by (simp, rule P) (use s clr in \<open>auto simp: sigprocmask01_holds_def nth_append only_sigint\<close>)
          done
        done
      subgoal by (simp, rule P) (use s clr in \<open>simp add: sigprocmask01_holds_def\<close>)
      done
    done
qed

lemma none_caught:
  "int (length a) + int (length b) + int (length c) + int (length d) = 0 \<longleftrightarrow> a = [] \<and> b = [] \<and> c = [] \<and> d = []"
  by (cases a; cases b; cases c; cases d) auto

text \<open>C14. \<^verbatim>\<open>sigprocmask01\<close> passes exactly when SIGINT, blocked and sent to the process itself, is not delivered but pending,
  and is delivered once it is unblocked (or, which the test cannot tell apart, while it looks at the
  pending signals), and no other signal arrives.\<close>

theorem sigprocmask01_verdict:
  "passes (sigprocmask01_main K) sigprocmask01_init \<longleftrightarrow>
   sigprocmask01_holds (calls (sigprocmask01_main K) sigprocmask01_init)"
proof (rule verdictI)
  let ?Q = "\<lambda>(fl, s'). announced (fl, s') \<longleftrightarrow> sigprocmask01_holds (trace s')"
  show "runs (sigprocmask01_main K) sigprocmask01_init ?Q"
    unfolding sigprocmask01_main_def runs_seq sigprocmask01_cleanup_def
    apply (rule sigprocmask01_setup_runs)
    subgoal for a
      apply (simp add: run_simps cong: run_congs split del: if_split)
      apply (rule sigprocmask01_call_runs)
      subgoal by simp
      subgoal for b
        apply (simp add: run_simps cong: run_congs split del: if_split)
        apply (rule sigprocmask01_call_runs)
        subgoal by simp
        subgoal for i
          apply (simp add: run_simps cong: run_congs split del: if_split)
          apply (rule sigprocmask01_call_runs)
          subgoal by simp
          subgoal for k
            apply (simp add: run_simps cong: run_congs split del: if_split)
            apply (intro conjI impI)
            subgoal by (simp add: sigprocmask01_holds_def sigprocmask01_init_def)
            subgoal
              apply (rule sigprocmask01_check_runs)
              subgoal by simp
              subgoal by (simp add: sigprocmask01_init_def clear_def)
              subgoal by (simp add: sigprocmask01_init_def)
              subgoal by simp
              subgoal by (simp add: sigprocmask01_init_def)
              subgoal by (simp add: sigprocmask01_init_def)
              subgoal by (simp add: sigprocmask01_init_def none_caught)
              subgoal for fl u by (cases fl; simp add: run_simps)
              done
            done
          subgoal by (simp add: sigprocmask01_holds_def sigprocmask01_init_def)
          done
        subgoal by (simp add: sigprocmask01_holds_def sigprocmask01_init_def)
        done
      subgoal by (simp add: sigprocmask01_holds_def sigprocmask01_init_def)
      done
    subgoal by (simp add: sigprocmask01_holds_def clear_def)
    subgoal by (simp add: sigprocmask01_holds_def)
    done
qed

end
