(* ===== verification/Ppoll_Tests.thy ===== *)
theory Ppoll_Tests
  imports Signal_Tests
begin

text \<open>
  The ppoll test (\<^verbatim>\<open>independent tests/syscalls/ppoll/ppoll01.c\<close>): eight cases of waiting on descriptors.
  The call has four arguments, as the bare system call would, but goes through the C library, whose
  third argument is a timeout and whose fourth is a signal mask.
\<close>

section \<open>ppoll01\<close>

abbreviation (input) "POLLIN \<equiv> (1::int)"
abbreviation (input) "POLLPRI \<equiv> (2::int)"
abbreviation (input) "POLLOUT \<equiv> (4::int)"
abbreviation (input) "POLLNVAL \<equiv> (32::int)"
abbreviation (input) "POLLRDHUP \<equiv> (8192::int)"
abbreviation (input) "UINT_MAX \<equiv> (4294967295::int)"

datatype test_type = NORMAL | MASK_SIGNAL | TIMEOUT | FD_ALREADY_CLOSED | SEND_SIGINT
  | SEND_SIGINT_RACE_TEST | INVALID_NFDS | INVALID_FDS

text \<open>The pointers to descriptor arrays that occur: the two arrays of one element, and the invalid pointer \<open>-1\<close>.\<close>

datatype fds_ptr = Fds_good | Fds_already_closed | Fds_invalid

record ppoll01 = proc +
  pp_fd1 :: int
  pp_sigmask_empty :: "int list"
  pp_sigmask_sigint :: "int list"
  pp_fds_good :: pollfd
  pp_fds_already_closed :: pollfd
  pp_handled :: bool \<comment> \<open>whether \<^verbatim>\<open>signal\<close> installed \<^verbatim>\<open>sighandler\<close>\<close>

definition ppoll01_init :: ppoll01 where
  "ppoll01_init = \<lparr>errno = 0, out = no_output, trace = [], pp_fd1 = -1, pp_sigmask_empty = [], pp_sigmask_sigint = [],
     pp_fds_good = \<lparr>pfd_fd = 0, pfd_events = 0, pfd_revents = 0\<rparr>,
     pp_fds_already_closed = \<lparr>pfd_fd = 0, pfd_events = 0, pfd_revents = 0\<rparr>, pp_handled = False\<rparr>"

record test_case =
  tc_ttype :: test_type
  tc_desc :: string
  tc_ret :: int
  tc_err :: int
  tc_expect_revents :: int
  tc_nfds :: int
  tc_sigmask :: "(ppoll01 \<Rightarrow> int list) option"
  tc_sigmask_cur :: "(ppoll01 \<Rightarrow> int list) option"
  tc_fds :: fds_ptr
  tc_sigint_count :: int
  tc_sigint_delay :: int

definition ppoll01_tcase :: "test_case list" where
  "ppoll01_tcase =
     [\<lparr>tc_ttype = NORMAL, tc_desc = ''NORMAL'', tc_ret = 1, tc_err = 0, tc_expect_revents = POLLIN OR POLLOUT,
        tc_nfds = 1, tc_sigmask = None, tc_sigmask_cur = None, tc_fds = Fds_good,
        tc_sigint_count = 0, tc_sigint_delay = 0\<rparr>,
      \<lparr>tc_ttype = MASK_SIGNAL, tc_desc = ''MASK_SIGNAL'', tc_ret = 0, tc_err = 0, tc_expect_revents = 0,
        tc_nfds = 0, tc_sigmask = Some pp_sigmask_sigint, tc_sigmask_cur = None, tc_fds = Fds_good,
        tc_sigint_count = 4, tc_sigint_delay = 100000\<rparr>,
      \<lparr>tc_ttype = TIMEOUT, tc_desc = ''TIMEOUT'', tc_ret = 0, tc_err = 0, tc_expect_revents = 0,
        tc_nfds = 0, tc_sigmask = None, tc_sigmask_cur = None, tc_fds = Fds_good,
        tc_sigint_count = 0, tc_sigint_delay = 0\<rparr>,
      \<lparr>tc_ttype = FD_ALREADY_CLOSED, tc_desc = ''FD_ALREADY_CLOSED'', tc_ret = 1, tc_err = 0, tc_expect_revents = POLLNVAL,
        tc_nfds = 1, tc_sigmask = None, tc_sigmask_cur = None, tc_fds = Fds_already_closed,
        tc_sigint_count = 0, tc_sigint_delay = 0\<rparr>,
      \<lparr>tc_ttype = SEND_SIGINT, tc_desc = ''SEND_SIGINT'', tc_ret = -1, tc_err = EINTR, tc_expect_revents = 0,
        tc_nfds = 0, tc_sigmask = None, tc_sigmask_cur = None, tc_fds = Fds_good,
        tc_sigint_count = 40, tc_sigint_delay = 100000\<rparr>,
      \<lparr>tc_ttype = SEND_SIGINT_RACE_TEST, tc_desc = ''SEND_SIGINT_RACE_TEST'', tc_ret = -1, tc_err = EINTR, tc_expect_revents = 0,
        tc_nfds = 0, tc_sigmask = Some pp_sigmask_empty, tc_sigmask_cur = Some pp_sigmask_sigint, tc_fds = Fds_good,
        tc_sigint_count = 1, tc_sigint_delay = 0\<rparr>,
      \<lparr>tc_ttype = INVALID_NFDS, tc_desc = ''INVALID_NFDS'', tc_ret = -1, tc_err = EINVAL, tc_expect_revents = 0,
        tc_nfds = UINT_MAX, tc_sigmask = None, tc_sigmask_cur = None, tc_fds = Fds_good,
        tc_sigint_count = 0, tc_sigint_delay = 0\<rparr>,
      \<lparr>tc_ttype = INVALID_FDS, tc_desc = ''INVALID_FDS'', tc_ret = -1, tc_err = EFAULT, tc_expect_revents = 0,
        tc_nfds = 1, tc_sigmask = None, tc_sigmask_cur = None, tc_fds = Fds_invalid,
        tc_sigint_count = 0, tc_sigint_delay = 0\<rparr>]"

definition ppoll01_sighandler :: "int \<Rightarrow> (ppoll01, unit) cprog" where
  "ppoll01_sighandler g = skip"

text \<open>SIGINT goes to the handler; any other signal that an answer lists is fatal, since ignored ones are not listed.\<close>

fun ppoll01_deliver :: "int list \<Rightarrow> (ppoll01, unit) cprog" where
  "ppoll01_deliver [] = skip"
| "ppoll01_deliver (g # gs) =
     seq (bind (gets pp_handled) (\<lambda>h. if h \<and> g = SIGINT then ppoll01_sighandler g else die g)) (ppoll01_deliver gs)"

definition ppoll01_setup :: "kernel \<Rightarrow> (ppoll01, unit) cprog" where
  "ppoll01_setup K = (bind (libc_res K (Signal SIGINT)) (\<lambda>r.
     seq (modify (\<lambda>s. s\<lparr>pp_handled := (rv r \<noteq> -1)\<rparr>)) (
     bind c_sigemptyset (\<lambda>(r1, set1).
     seq (modify (\<lambda>s. s\<lparr>pp_sigmask_empty := set1\<rparr>)) (
     seq (if_then (r1 = -1) (printf_errno ''sigemptyset, error number '' ''\<newline>'')) (
     bind c_sigemptyset (\<lambda>(r2, set2).
     seq (modify (\<lambda>s. s\<lparr>pp_sigmask_sigint := set2\<rparr>)) (
     seq (if_then (r2 = -1) (printf_errno ''sigemptyset, erorr number '' ''\<newline>'')) (
     bind (c_sigaddset set2 SIGINT) (\<lambda>(r3, set3).
     seq (modify (\<lambda>s. s\<lparr>pp_sigmask_sigint := set3\<rparr>)) (
     seq (if_then (r3 = -1) (printf_errno ''sigaddset, error number '' ''\<newline>'')) (
     bind (libc K (Open ''testfile1'' (O_CREAT OR O_RDWR) mode_0600)) (\<lambda>fd1.
     seq (modify (\<lambda>s. s\<lparr>pp_fd1 := fd1\<rparr>)) (
     seq (modify (\<lambda>s. s\<lparr>pp_fds_good := \<lparr>pfd_fd = fd1, pfd_events = POLLIN OR POLLPRI OR POLLOUT OR POLLRDHUP, pfd_revents = 0\<rparr>\<rparr>)) (
     bind (libc K (Open ''testfile2'' (O_CREAT OR O_RDWR) mode_0600)) (\<lambda>fd2.
     seq (modify (\<lambda>s. s\<lparr>pp_fds_already_closed := \<lparr>pfd_fd = fd2, pfd_events = POLLIN OR POLLPRI OR POLLOUT OR POLLRDHUP, pfd_revents = 0\<rparr>\<rparr>)) (
     call (libc K (Close fd2)))))))))))))))))))"

definition ppoll01_cleanup :: "kernel \<Rightarrow> (ppoll01, unit) cprog" where
  "ppoll01_cleanup K = (bind (gets pp_fd1) (\<lambda>fd1.
     if_then (fd1 \<noteq> -1) (call (libc K (Close fd1)))))"

text \<open>A signal set read as a \<^verbatim>\<open>struct timespec\<close>: bit \<open>g - 1\<close> of the first word for each member \<open>g\<close> (all below 63 here)
  is the seconds, the second word, always zero, the nanoseconds.\<close>

definition timespec_of :: "int list \<Rightarrow> int \<times> int" where
  "timespec_of sigs = (sum_list (map (\<lambda>g. 2 ^ nat (g - 1)) sigs), 0)"

definition ppoll01_fds :: "fds_ptr \<Rightarrow> ppoll01 \<Rightarrow> pollfd option" where
  "ppoll01_fds p s = (case p of Fds_good \<Rightarrow> Some (pp_fds_good s) | Fds_already_closed \<Rightarrow> Some (pp_fds_already_closed s)
     | Fds_invalid \<Rightarrow> None)"

text \<open>The kernel stores the events found in the first \<open>nfds\<close> elements; its answer carries that of the only one.\<close>

definition ppoll01_store_revents :: "fds_ptr \<Rightarrow> int \<Rightarrow> int \<Rightarrow> ppoll01 \<Rightarrow> ppoll01" where
  "ppoll01_store_revents p nfds x s = (if nfds = 0 then s else case p of
       Fds_good \<Rightarrow> s\<lparr>pp_fds_good := (pp_fds_good s)\<lparr>pfd_revents := x\<rparr>\<rparr>
     | Fds_already_closed \<Rightarrow> s\<lparr>pp_fds_already_closed := (pp_fds_already_closed s)\<lparr>pfd_revents := x\<rparr>\<rparr>
     | Fds_invalid \<Rightarrow> s)"

text \<open>The fourth argument, \<^verbatim>\<open>_NSIG / 8\<close>, is 8, taken as the address of a mask.\<close>

definition ppoll01_ppoll :: "kernel \<Rightarrow> test_case \<Rightarrow> (ppoll01, int) cprog" where
  "ppoll01_ppoll K tc = (bind (gets (ppoll01_fds (tc_fds tc))) (\<lambda>fds.
     bind (gets (\<lambda>s. map_option (\<lambda>m. timespec_of (m s)) (tc_sigmask tc))) (\<lambda>tmo.
     bind (libc_res K (Ppoll fds (tc_nfds tc) tmo 8)) (\<lambda>r.
     seq (modify (ppoll01_store_revents (tc_fds tc) (tc_nfds tc) (sr_int r))) (
     seq (ppoll01_deliver (sr_sigs r)) (
     ret (rv r)))))))"

definition ppoll01_sigprocmask :: "kernel \<Rightarrow> int list \<Rightarrow> (ppoll01, int) cprog" where
  "ppoll01_sigprocmask K sigs = (bind (libc_res K (Sigprocmask SIG_SETMASK sigs)) (\<lambda>r.
     seq (ppoll01_deliver (sr_sigs r)) (
     ret (rv r))))"

text \<open>\<^verbatim>\<open>%04x\<close> of a short, which is promoted to int.\<close>

definition show_04x :: "int \<Rightarrow> string" where
  "show_04x i = (let d = show_hex (nat (i mod 2 ^ 32)) in replicate (4 - length d) (CHR ''0'') @ d)"

text \<open>The end of \<^verbatim>\<open>do_test\<close>, from the comparison of the events on; \<^verbatim>\<open>tc->fds[0]\<close> is only read for valid pointers.\<close>

definition ppoll01_compare :: "test_case \<Rightarrow> int \<Rightarrow> int \<Rightarrow> (ppoll01, int) cprog" where
  "ppoll01_compare tc sys_ret sys_errno = (bind (gets (\<lambda>s. case ppoll01_fds (tc_fds tc) s of None \<Rightarrow> 0 | Some f \<Rightarrow> pfd_revents f)) (\<lambda>revents.
     if tc_expect_revents tc \<noteq> 0 then
       (if revents = tc_expect_revents tc then (seq (printf (''revents=0x'' @ show_04x (tc_expect_revents tc) @ ''\<newline>'')) (
         ret 1))
       else (seq (printf (''revents=0x'' @ show_04x revents @ '', expected=0x'' @ show_04x (tc_expect_revents tc) @ ''\<newline>'')) (
         ret 0)))
     else
     if tc_ret tc \<ge> 0 \<and> tc_ret tc = sys_ret then
       (seq (printf (''ret: '' @ show_int sys_ret @ ''\<newline>'')) (
       ret 1))
     else
     if tc_ret tc = -1 \<and> sys_ret = -1 \<and> sys_errno = tc_err tc then
       (seq (printf (''ret: '' @ show_int sys_ret @ '', errno: '' @ show_int sys_errno @ ''\<newline>'')) (
       ret 1))
     else
     seq (printf (''ret: '' @ show_int sys_ret @ '', exp: '' @ show_int (tc_ret tc) @ '', ret_errno: '' @ show_int sys_errno
       @ '', exp_errno: '' @ show_int (tc_err tc) @ ''\<newline>'')) (
     ret 0)))"

text \<open>\<^verbatim>\<open>pid\<close> is 0 throughout, so that no child is killed or waited for.\<close>

definition ppoll01_do_test :: "kernel \<Rightarrow> nat \<Rightarrow> (ppoll01, int) cprog" where
  "ppoll01_do_test K i = (let tc = ppoll01_tcase ! i in
     let pid = 0 in
     seq (printf (''[I] case '' @ tc_desc tc @ ''\<newline>'')) (
     bind ((case tc_sigmask_cur tc of None \<Rightarrow> ret 0 | Some m \<Rightarrow> (bind (gets m) (\<lambda>sigs.
       ppoll01_sigprocmask K sigs)))) (\<lambda>r1.
     if r1 = -1 then
       (seq (printf ''sigprocmask\<newline>'') (
       ret 0))
     else
     seq (set_errno 0) (
     bind (ppoll01_ppoll K tc) (\<lambda>sys_ret.
     bind (gets errno) (\<lambda>sys_errno.
     bind ((case tc_sigmask_cur tc of None \<Rightarrow> ret 0 | Some m \<Rightarrow> (bind (gets pp_sigmask_empty) (\<lambda>sigs.
       ppoll01_sigprocmask K sigs)))) (\<lambda>r2.
     if r2 = -1 then
       (seq (printf ''sigprocmask\<newline>'') (
       ret 0))
     else
     seq (if_then (pid > (0::int)) (seq (call (libc K (Kill pid SIGTERM))) (
       call (libc K Wait)))) (
     ppoll01_compare tc sys_ret sys_errno))))))))"

definition ppoll01_main :: "kernel \<Rightarrow> (ppoll01, unit) cprog" where
  "ppoll01_main K = (seq (ppoll01_setup K) (
     bind (mult_cases (ppoll01_do_test K) [0..<8] 1) (\<lambda>ok.
     seq (if_then (ok \<noteq> 0) (printf ''test succeeded\<newline>'')) (
     ppoll01_cleanup K))))"

section \<open>Verdict\<close>

text \<open>The answers to \<^verbatim>\<open>ppoll\<close> and to \<^verbatim>\<open>sigprocmask\<close> in a history, and the signals these calls delivered.\<close>

fun ppolls :: "event list \<Rightarrow> sysres list" where
  "ppolls [] = []"
| "ppolls ((c, r) # h) = (case c of Pr (Ppoll_pr a b t m) \<Rightarrow> r # ppolls h | _ \<Rightarrow> ppolls h)"

fun masks :: "event list \<Rightarrow> sysres list" where
  "masks [] = []"
| "masks ((c, r) # h) = (case c of Pr (Sigprocmask_pr a b) \<Rightarrow> r # masks h | _ \<Rightarrow> masks h)"

lemma ppolls_append [simp]: "ppolls (h @ h') = ppolls h @ ppolls h'"
  by (induction h rule: ppolls.induct) (auto split: syscall.splits proc_call.splits)

lemma masks_append [simp]: "masks (h @ h') = masks h @ masks h'"
  by (induction h rule: masks.induct) (auto split: syscall.splits proc_call.splits)

definition harmless_sigs :: "bool \<Rightarrow> int list \<Rightarrow> bool" where
  "harmless_sigs handled gs \<longleftrightarrow> set gs \<subseteq> (if handled then {SIGINT} else {})"

definition harmless :: "bool \<Rightarrow> event list \<Rightarrow> bool" where
  "harmless handled h \<longleftrightarrow> list_all (\<lambda>r. harmless_sigs handled (sr_sigs r)) (ppolls h @ masks h)"

lemma harmless_append [simp]: "harmless b (h @ h') \<longleftrightarrow> harmless b h \<and> harmless b h'"
  by (auto simp: harmless_def)

definition masked :: "event list \<Rightarrow> bool" where
  "masked h \<longleftrightarrow> list_all (\<lambda>r. rv r \<noteq> -1) (masks h)"

lemma masked_append [simp]: "masked (h @ h') \<longleftrightarrow> masked h \<and> masked h'"
  by (simp add: masked_def)

text \<open>What the answer to a case must be: the expected events, if any are expected, else the expected value or error.\<close>

definition ppoll_good :: "test_case \<Rightarrow> sysres \<Rightarrow> bool" where
  "ppoll_good tc r \<longleftrightarrow>
     (if tc_expect_revents tc \<noteq> 0 then sr_int r = tc_expect_revents tc
      else 0 \<le> tc_ret tc \<and> rv r = tc_ret tc \<or> tc_ret tc = -1 \<and> failed_with r (tc_err tc))"

lemma ppoll01_deliver_runs:
  assumes "harmless_sigs (pp_handled s) gs \<Longrightarrow> P (Ret (), s)"
    and "\<And>g. \<not> harmless_sigs (pp_handled s) gs \<Longrightarrow> P (Killed g, s)"
  shows "runs (ppoll01_deliver gs) s P"
  using assms
proof (induction gs)
  case (Cons g gs)
  then show ?case
    by (cases "pp_handled s \<and> g = SIGINT")
      (auto simp: run_simps ppoll01_sighandler_def harmless_sigs_def split: if_splits)
qed (simp add: run_simps harmless_sigs_def)

lemma ppoll01_sigprocmask_runs:
  assumes "\<And>r. harmless_sigs (pp_handled s) (sr_sigs r) \<Longrightarrow> P (Ret (rv r),
      s\<lparr>trace := trace s @ [(Sigprocmask SIG_SETMASK sigs, r)], errno := new_errno r (errno s)\<rparr>)"
    and "\<And>g r s'. \<not> harmless_sigs (pp_handled s) (sr_sigs r) \<Longrightarrow>
      trace s' = trace s @ [(Sigprocmask SIG_SETMASK sigs, r)] \<Longrightarrow> P (Killed g, s')"
  shows "runs (ppoll01_sigprocmask K sigs) s P"
  unfolding ppoll01_sigprocmask_def
  by (simp add: run_simps cong: run_congs; intro answeredI ppoll01_deliver_runs; simp add: run_simps assms)

definition ppoll_wf :: "test_case \<Rightarrow> bool" where
  "ppoll_wf tc \<longleftrightarrow> CHR ''t'' \<notin> set (tc_desc tc) \<and>
     (tc_expect_revents tc \<noteq> 0 \<longrightarrow> tc_nfds tc \<noteq> 0 \<and> tc_fds tc \<noteq> Fds_invalid)"

lemma ppoll01_tcase_wf: "i < 8 \<Longrightarrow> ppoll_wf (ppoll01_tcase ! i)"
proof -
  have "list_all ppoll_wf ppoll01_tcase" by (simp add: ppoll_wf_def ppoll01_tcase_def)
  moreover assume "i < 8"
  moreover have "length ppoll01_tcase = 8" by (simp add: ppoll01_tcase_def)
  ultimately show ?thesis by (simp add: list_all_length)
qed

text \<open>The state after the call: the fields the rest depends on.\<close>

lemma ppoll01_store_sel [simp]:
  "trace (ppoll01_store_revents p n x s) = trace s" "out (ppoll01_store_revents p n x s) = out s"
  "errno (ppoll01_store_revents p n x s) = errno s" "pp_handled (ppoll01_store_revents p n x s) = pp_handled s"
  by (auto simp: ppoll01_store_revents_def split: fds_ptr.splits)

definition ppoll_revents :: "test_case \<Rightarrow> ppoll01 \<Rightarrow> int" where
  "ppoll_revents tc s = (case ppoll01_fds (tc_fds tc) s of None \<Rightarrow> 0 | Some f \<Rightarrow> pfd_revents f)"

lemma ppoll_revents_store:
  "ppoll_wf tc \<Longrightarrow> tc_expect_revents tc \<noteq> 0 \<Longrightarrow>
   ppoll_revents tc (ppoll01_store_revents (tc_fds tc) (tc_nfds tc) x s) = x"
  by (auto simp: ppoll_wf_def ppoll_revents_def ppoll01_fds_def ppoll01_store_revents_def split: fds_ptr.splits)

lemma ppoll_revents_updates [simp]:
  "ppoll_revents tc (s\<lparr>out := t\<rparr>) = ppoll_revents tc s" "ppoll_revents tc (s\<lparr>trace := h\<rparr>) = ppoll_revents tc s"
  "ppoll_revents tc (s\<lparr>errno := e\<rparr>) = ppoll_revents tc s"
  by (auto simp: ppoll_revents_def ppoll01_fds_def split: fds_ptr.splits)

lemma scan_show_04x [simp]: "scan 0 (show_04x i) = 0"
  by (rule scan_no_t) (simp add: show_04x_def Let_def show_hex_def show_base_no_t)

lemma ppoll01_compare_runs:
  assumes "clear s"
    and "\<And>v s'. clear s' \<Longrightarrow> trace s' = trace s \<Longrightarrow> pp_handled s' = pp_handled s \<Longrightarrow>
      (v \<noteq> 0 \<longleftrightarrow> (if tc_expect_revents tc \<noteq> 0 then ppoll_revents tc s = tc_expect_revents tc
         else 0 \<le> tc_ret tc \<and> tc_ret tc = sys_ret \<or> tc_ret tc = -1 \<and> sys_ret = -1 \<and> sys_errno = tc_err tc)) \<Longrightarrow> P (Ret v, s')"
  shows "runs (ppoll01_compare tc sys_ret sys_errno) s P"
  unfolding ppoll01_compare_def ppoll_revents_def [symmetric]
  by (simp add: run_simps cong: run_congs; intro conjI impI assms(2); use assms(1) in \<open>simp add: clear_def\<close>)

lemma ppoll01_ppoll_runs:
  assumes "ppoll_wf tc"
    and ret: "\<And>r s'. \<exists>h. trace s' = trace s @ h \<and> ppolls h = [r] \<and> masks h = [] \<and> harmless (pp_handled s) h \<and>
      out s' = out s \<and> errno s' = new_errno r (errno s) \<and> pp_handled s' = pp_handled s \<and>
      (tc_expect_revents tc \<noteq> 0 \<longrightarrow> ppoll_revents tc s' = sr_int r) \<Longrightarrow> P (Ret (rv r), s')"
    and killed: "\<And>g s'. \<exists>h. trace s' = trace s @ h \<and> \<not> harmless (pp_handled s) h \<Longrightarrow> P (Killed g, s')"
  shows "runs (ppoll01_ppoll K tc) s P"
  unfolding ppoll01_ppoll_def
  apply (simp add: run_simps cong: run_congs)
  apply (intro answeredI ppoll01_deliver_runs)
  subgoal by (simp add: run_simps, rule ret) (simp add: harmless_def ppoll_revents_store assms(1))
  subgoal by (simp, rule killed) (simp add: harmless_def)
  done

lemma ppoll_good_compared:
  assumes "tc_expect_revents tc \<noteq> 0 \<longrightarrow> x = sr_int r"
  shows "ppoll_good tc r \<longleftrightarrow> (if tc_expect_revents tc \<noteq> 0 then x = tc_expect_revents tc
      else 0 \<le> tc_ret tc \<and> tc_ret tc = rv r \<or> tc_ret tc = -1 \<and> rv r = -1 \<and> new_errno r 0 = tc_err tc)"
  using assms by (auto simp: ppoll_good_def failed_with_def rv_def new_errno_def split: sum.splits)

text \<open>One case: it goes through with its masks set and one \<^verbatim>\<open>ppoll\<close>, and its value says whether the answer was good.\<close>

lemma ppoll01_do_test_runs:
  assumes "i < 8" and "clear s"
    and ret: "\<And>v s'. \<exists>h. trace s' = trace s @ h \<and> clear s' \<and> pp_handled s' = pp_handled s \<and> harmless (pp_handled s) h \<and>
      (v \<noteq> 0 \<longleftrightarrow> masked h \<and> list_all ppoll_good' (ppolls h)) \<and> (masked h \<longrightarrow> length (ppolls h) = 1) \<Longrightarrow> P (Ret v, s')"
    and killed: "\<And>g s'. \<exists>h. trace s' = trace s @ h \<and> \<not> harmless (pp_handled s) h \<Longrightarrow> P (Killed g, s')"
    and good: "ppoll_good' = ppoll_good (ppoll01_tcase ! i)"
  shows "runs (ppoll01_do_test K i) s P"
proof -
  define tc where "tc = ppoll01_tcase ! i"
  have wf: "ppoll_wf tc" using ppoll01_tcase_wf [OF assms(1)] by (simp add: tc_def)
  have desc: "scan 0 (tc_desc tc) = 0" using wf by (simp add: ppoll_wf_def scan_no_t)
  have s: "scan 0 (out s) = 0" using assms(2) by (simp add: clear_def)
  show ?thesis
  proof (cases "tc_sigmask_cur tc")
    case None
    show ?thesis
      unfolding ppoll01_do_test_def tc_def [symmetric] Let_def None option.case
      apply (simp add: run_simps cong: run_congs)
      apply (rule ppoll01_ppoll_runs [OF wf])
      subgoal for r s1
        apply (elim exE conjE)
        apply (simp add: run_simps cong: run_congs)
        apply (rule ppoll01_compare_runs)
        subgoal by (simp add: clear_def s desc)
        subgoal for h v s2
          apply (rule ret)
          apply (rule exI [of _ h])
          apply (simp add: masked_def good tc_def [symmetric] ppoll_good_compared)
          done
        done
      subgoal by (simp, rule killed) simp
      done
  next
    case (Some m)
    show ?thesis
      unfolding ppoll01_do_test_def tc_def [symmetric] Let_def Some option.case
      apply (simp add: run_simps cong: run_congs)
      apply (rule ppoll01_sigprocmask_runs)
      subgoal for q
        apply (simp add: run_simps cong: run_congs)
        apply (intro conjI impI)
        subgoal by (rule ret) (simp add: masked_def harmless_def clear_def s desc)
        subgoal
          apply (rule ppoll01_ppoll_runs [OF wf])
          subgoal for r s1
            apply (elim exE conjE)
            apply (simp add: run_simps cong: run_congs)
            apply (rule ppoll01_sigprocmask_runs)
            subgoal for h q'
              apply (simp add: run_simps cong: run_congs)
              apply (intro conjI impI)
              subgoal by (rule ret) (simp add: masked_def harmless_def clear_def s desc)
              subgoal
                apply (rule ppoll01_compare_runs)
                subgoal by (simp add: clear_def s desc)
                subgoal for v s2
                  by (rule ret) (simp add: masked_def harmless_def good tc_def [symmetric] ppoll_good_compared)
                done
              done
            subgoal for h by (simp, rule killed) (simp add: harmless_def)
            done
          subgoal by (simp, rule killed) (auto simp: harmless_def)
          done
        done
      subgoal by (simp, rule killed) (simp add: harmless_def)
      done
  qed
qed

lemma ppoll01_cases_runs:
  assumes "set is \<subseteq> {..<8}" and "clear s"
    and ret: "\<And>v s'. \<exists>h. trace s' = trace s @ h \<and> clear s' \<and> harmless (pp_handled s) h \<and>
      (v \<noteq> 0 \<longleftrightarrow> ok \<noteq> 0 \<and> masked h \<and> list_all2 ppoll_good (map ((!) ppoll01_tcase) is) (ppolls h)) \<Longrightarrow> P (Ret v, s')"
    and killed: "\<And>g s'. \<exists>h. trace s' = trace s @ h \<and> \<not> harmless (pp_handled s) h \<Longrightarrow> P (Killed g, s')"
  shows "runs (mult_cases (ppoll01_do_test K) is ok) s P"
  using assms
proof (induction "is" arbitrary: s ok)
  case Nil
  then show ?case by (simp add: run_simps harmless_def masked_def)
next
  case (Cons i "is")
  have "i < 8" using Cons.prems(1) by simp
  then show ?case
    unfolding mult_cases.simps runs_bind
  proof (rule ppoll01_do_test_runs [OF _ Cons.prems(2) _ _ refl])
    fix v :: int and s1 :: ppoll01
    assume "\<exists>h. trace s1 = trace s @ h \<and> clear s1 \<and> pp_handled s1 = pp_handled s \<and> harmless (pp_handled s) h \<and>
      (v \<noteq> 0 \<longleftrightarrow> masked h \<and> list_all (ppoll_good (ppoll01_tcase ! i)) (ppolls h)) \<and> (masked h \<longrightarrow> length (ppolls h) = 1)"
    then obtain h1 where s1: "trace s1 = trace s @ h1" "clear s1" "pp_handled s1 = pp_handled s" "harmless (pp_handled s) h1"
      and v: "v \<noteq> 0 \<longleftrightarrow> masked h1 \<and> list_all (ppoll_good (ppoll01_tcase ! i)) (ppolls h1)"
      and one: "masked h1 \<Longrightarrow> \<exists>r. ppolls h1 = [r]"
      by (auto simp: length_Suc_conv)
    show "kont (\<lambda>r. mult_cases (ppoll01_do_test K) is (ok * r)) P (Ret v, s1)"
      unfolding kont.simps
    proof (rule Cons.IH [OF _ s1(2)])
      show "set is \<subseteq> {..<8}" using Cons.prems(1) by simp
    next
      fix w :: int and u :: ppoll01
      assume "\<exists>h. trace u = trace s1 @ h \<and> clear u \<and> harmless (pp_handled s1) h \<and>
        (w \<noteq> 0 \<longleftrightarrow> ok * v \<noteq> 0 \<and> masked h \<and> list_all2 ppoll_good (map ((!) ppoll01_tcase) is) (ppolls h))"
      then obtain h2 where "trace u = trace s1 @ h2" "clear u" "harmless (pp_handled s1) h2"
        and w: "w \<noteq> 0 \<longleftrightarrow> ok * v \<noteq> 0 \<and> masked h2 \<and> list_all2 ppoll_good (map ((!) ppoll01_tcase) is) (ppolls h2)"
        by blast
      moreover have "w \<noteq> 0 \<longleftrightarrow> ok \<noteq> 0 \<and> masked (h1 @ h2) \<and>
          list_all2 ppoll_good (map ((!) ppoll01_tcase) (i # is)) (ppolls (h1 @ h2))"
        using v w one by (cases "masked h1") auto
      ultimately show "P (Ret w, u)"
        using s1 by (intro Cons.prems(3) exI [of _ "h1 @ h2"]) simp
    next
      fix g and u :: ppoll01
      assume "\<exists>h. trace u = trace s1 @ h \<and> \<not> harmless (pp_handled s1) h"
      then obtain h2 where "trace u = trace s1 @ h2" "\<not> harmless (pp_handled s1) h2" by blast
      with s1 show "P (Killed g, u)"
        by (intro Cons.prems(4) exI [of _ "h1 @ h2"]) simp
    qed
  next
    fix g and u :: ppoll01
    assume "\<exists>h. trace u = trace s @ h \<and> \<not> harmless (pp_handled s) h"
    then show "kont (\<lambda>r. mult_cases (ppoll01_do_test K) is (ok * r)) P (Killed g, u)"
      by (simp add: Cons.prems(4))
  qed
qed

lemma ppoll01_setup_runs:
  assumes "\<And>s'. clear s' \<Longrightarrow> trace s' \<noteq> [] \<Longrightarrow> pp_handled s' = (rv (snd (trace s' ! 0)) \<noteq> -1) \<Longrightarrow>
      ppolls (trace s') = [] \<Longrightarrow> masks (trace s') = [] \<Longrightarrow> P (Ret (), s')"
  shows "runs (ppoll01_setup K) ppoll01_init P"
  unfolding ppoll01_setup_def ppoll01_init_def
  by (simp add: run_simps cong: run_congs; intro answeredI assms; simp add: clear_def)

text \<open>C12. \<^verbatim>\<open>ppoll01\<close> passes exactly when no signal kills the process, the two changes of the signal mask are not refused, and
  each of the eight answers of \<^verbatim>\<open>ppoll\<close> is the expected one: the events of the first and fourth case, the
  value 0 of the second and third, and the errors EINTR, EINTR, EINVAL and EFAULT of the others.\<close>

theorem ppoll01_verdict:
  "passes (ppoll01_main K) ppoll01_init \<longleftrightarrow>
   (let h = calls (ppoll01_main K) ppoll01_init in
    harmless (rv (snd (h ! 0)) \<noteq> -1) h \<and> masked h \<and> list_all2 ppoll_good ppoll01_tcase (ppolls h))"
proof (rule verdictI)
  let ?C = "\<lambda>h'. let h = h' in
    harmless (rv (snd (h ! 0)) \<noteq> -1) h \<and> masked h \<and> list_all2 ppoll_good ppoll01_tcase (ppolls h)"
  have table: "map ((!) ppoll01_tcase) [0..<8] = ppoll01_tcase"
  proof -
    have "length ppoll01_tcase = 8" by (simp add: ppoll01_tcase_def)
    then show ?thesis by (metis map_nth)
  qed
  show "runs (ppoll01_main K) ppoll01_init (\<lambda>(fl, s'). announced (fl, s') \<longleftrightarrow> ?C (trace s'))"
    unfolding ppoll01_main_def runs_seq
    apply (rule ppoll01_setup_runs)
    subgoal for s1
      unfolding kont.simps runs_bind
      apply (rule ppoll01_cases_runs)
      subgoal by auto
      subgoal by simp
      subgoal for v s2
        unfolding table
        apply (elim exE conjE)
        subgoal for h
          unfolding ppoll01_cleanup_def merges
          by (simp add: run_simps cong: run_congs; intro conjI impI answeredI;
            simp add: clear_def nth_append harmless_def masked_def Let_def)
        done
      subgoal for g s2 by (auto simp: nth_append)
      done
    done
qed

end
