(* ===== verification/Sched_Tests.thy ===== *)
theory Sched_Tests
  imports Process
begin

text \<open>
  The scheduling and thread tests: \<^verbatim>\<open>independent tests/syscalls/sched_setattr/sched_setattr01.c\<close>,
  \<^verbatim>\<open>sched_getaffinity/sched_getaffinity01.c\<close> and \<^verbatim>\<open>set_tid_address/set_tid_address01.c\<close>.
\<close>

section \<open>sched\_setattr01\<close>

record sched_attr =
  sa_size :: "32 word"
  sched_policy :: "32 word"
  sched_flags :: "64 word"
  sched_nice :: int
  sched_priority :: "32 word"
  sched_runtime :: "64 word"
  sched_deadline :: "64 word"
  sched_period :: "64 word"

abbreviation (input) "SCHED_DEADLINE \<equiv> (6 :: 32 word)"

record sched_setattr01 = proc +
  ss_pid :: int
  ss_unused_pid :: int
  ss_attr :: sched_attr

definition sched_setattr01_attr :: sched_attr where
  "sched_setattr01_attr = \<lparr>sa_size = 48, sched_policy = SCHED_DEADLINE, sched_flags = 0, sched_nice = 0,
     sched_priority = 0, sched_runtime = 10000000, sched_deadline = 30000000, sched_period = 30000000\<rparr>"

definition sched_setattr01_init :: sched_setattr01 where
  "sched_setattr01_init = \<lparr>errno = 0, out = no_output, trace = [], ss_pid = 0, ss_unused_pid = 0, ss_attr = sched_setattr01_attr\<rparr>"

text \<open>Each initialiser is one value short for the five members \<^verbatim>\<open>pid\<close>, \<^verbatim>\<open>flags\<close>, \<^verbatim>\<open>attr\<close>, \<^verbatim>\<open>exp_return\<close> and \<^verbatim>\<open>exp_errno\<close>:
  the value meant for \<^verbatim>\<open>exp_return\<close> is the attribute pointer, and the error number is \<^verbatim>\<open>exp_return\<close>.\<close>

definition sched_setattr01_test_cases :: "sched_setattr01 \<Rightarrow> (int \<times> int \<times> int \<times> int \<times> int) list" where
  "sched_setattr01_test_cases s =
     [(ss_pid s, 0, 0, 0, 0),
      (ss_unused_pid s, 0, -1, ESRCH, 0),
      (ss_pid s, 0, -1, EINVAL, 0),
      (ss_pid s, 1000, -1, EINVAL, 0)]"

text \<open>\<^verbatim>\<open>ret\<close> is an \<^verbatim>\<open>int\<close> printed by \<^verbatim>\<open>%ld\<close>.\<close>

definition sched_setattr01_sched_setattr_verify :: "kernel \<Rightarrow> nat \<Rightarrow> (sched_setattr01, int) cprog" where
  "sched_setattr01_sched_setattr_verify K i = (bind (gets (\<lambda>s. sched_setattr01_test_cases s ! i)) (\<lambda>tc.
     case tc of (pid, flags, attr, exp_return, exp_errno) \<Rightarrow> (bind (libc K (SchedSetattr pid attr flags)) (\<lambda>r.
       if r \<noteq> exp_return then
         (bind (indet K ''%ld'') (\<lambda>shown.
         seq (printf (''sched_setattr('' @ show_int pid @ '',attr,'' @ show_int flags @ '') returned: '' @ show_int shown
         @ '' expected: '' @ show_int exp_return @ ''\<newline>'')) (
         ret 0)))
       else
       bind (gets errno) (\<lambda>e.
       if e = exp_errno then
         (seq (printf ''sched_setattr() works as expected\<newline>'') (
         ret 1))
       else
       seq (printf (''sched_setattr('' @ show_int pid @ '',attr,'' @ show_int flags @ ''): expected: '' @ show_int exp_errno @ ''\<newline>'')) (
       ret 0))))))"

definition sched_setattr01_do_test :: "kernel \<Rightarrow> (sched_setattr01, int) cprog" where
  "sched_setattr01_do_test K = mult_cases (sched_setattr01_sched_setattr_verify K) [0..<4] 0"

definition sched_setattr01_setup :: "(sched_setattr01, unit) cprog" where
  "sched_setattr01_setup = skip"

definition sched_setattr01_main :: "kernel \<Rightarrow> (sched_setattr01, unit) cprog" where
  "sched_setattr01_main K = (seq sched_setattr01_setup (
     bind (sched_setattr01_do_test K) (\<lambda>r.
     if_then (r \<noteq> 0) (printf ''test succeeded\<newline>''))))"

section \<open>sched\_getaffinity01\<close>

record sched_getaffinity01 = proc +
  sg_ncpu :: int
  sg_bad_addr :: addr

definition sched_getaffinity01_init :: sched_getaffinity01 where
  "sched_getaffinity01_init = \<lparr>errno = 0, out = no_output, trace = [], sg_ncpu = 0, sg_bad_addr = NULL\<rparr>"

definition sched_getaffinity01_errno_test :: "kernel \<Rightarrow> int \<Rightarrow> int \<Rightarrow> addr \<Rightarrow> int \<Rightarrow> (sched_getaffinity01, int) cprog" where
  "sched_getaffinity01_errno_test K pid cpusize msk exp_errno = (bind (libc K (SchedGetaffinity pid cpusize (Addr msk))) (\<lambda>r.
     if r \<noteq> -1 then
       (seq (printf (''sched_getaffinity() returned '' @ show_int r @ '', expected -1\<newline>'')) (
       ret 0))
     else
     bind (gets errno) (\<lambda>e.
     if e \<noteq> exp_errno then
       (seq (printf (''sched_getaffinity() should fail with '' @ show_int exp_errno @ ''\<newline>'')) (
       ret 0))
     else
     seq (printf ''sched_getaffinity() failed as expected\<newline>'') (
     ret 1))))"

text \<open>\<^verbatim>\<open>CPU_ALLOC_SIZE\<close>: whole words of 64 bits.\<close>

definition cpu_alloc_size :: "nat \<Rightarrow> nat" where
  "cpu_alloc_size n = (n + 63) div 64 * 8"

text \<open>\<^verbatim>\<open>CPU_ISSET_S\<close> on the bytes of a mask.\<close>

definition cpu_isset :: "string \<Rightarrow> nat \<Rightarrow> bool" where
  "cpu_isset bs i \<longleftrightarrow> i div 8 < length bs \<and> bit (of_char (bs ! (i div 8)) :: nat) (i mod 8)"

text \<open>The loop behind the label \<^verbatim>\<open>realloc\<close>: while the kernel finds the mask too small, it is made four times as large, up to
  262144 processors. \<open>nrcpus\<close> starts at 1024 and is therefore always positive.\<close>

function sched_getaffinity01_realloc :: "kernel \<Rightarrow> nat \<Rightarrow> (sched_getaffinity01, nat \<times> nat \<times> addr) cprog" where
  "sched_getaffinity01_realloc K nrcpus = (let len = cpu_alloc_size nrcpus in
     bind (c_malloc K (int len)) (\<lambda>msk.
     seq (if_then (msk = NULL) (printf_errno ''CPU_ALLOC() failed, error number '' ''\<newline>'')) (
     seq (mem_store K msk (fill len NUL)) (
     bind (libc K (SchedGetaffinity 0 (int len) (Addr msk))) (\<lambda>r.
     if r = -1 then (bind (gets errno) (\<lambda>e.
       if e = EINVAL \<and> 0 < nrcpus \<and> nrcpus < 1024 * 2 ^ 8 then sched_getaffinity01_realloc K (nrcpus * 4)
       else (seq (printf_errno ''fail to get cpu affinity, error number '' ''\<newline>'') (
         c_exit 0))))
     else ret (nrcpus, len, msk))))))"
  by pat_completeness auto

termination sched_getaffinity01_realloc
  by (relation "measure (\<lambda>(K, n). 1024 * 2 ^ 8 - n)") auto

declare sched_getaffinity01_realloc.simps [simp del]

text \<open>The two probes with a bad address and a size of 0 are operands of one product; they run from left to right.\<close>

definition sched_getaffinity01_do_test :: "kernel \<Rightarrow> (sched_getaffinity01, int) cprog" where
  "sched_getaffinity01_do_test K = (bind (sched_getaffinity01_realloc K 1024) (\<lambda>(nrcpus, len, msk).
     bind (mem_load K msk len) (\<lambda>bs.
     let af_cpus = int (length (filter (cpu_isset bs) [0..<nrcpus])) in
     bind (gets sg_ncpu) (\<lambda>ncpu.
     seq (printf (if af_cpus = 0 then ''No cpus enabled in mask\<newline>''
       else if af_cpus > ncpu then ''Enabled cpus = '' @ show_int af_cpus @ '' > system cpus '' @ show_int ncpu @ ''\<newline>''
       else ''cpuset size = '' @ show_int (int len) @ '', enabled cpus '' @ show_int af_cpus @ ''\<newline>'')) (
     bind (gets sg_bad_addr) (\<lambda>bad_addr.
     bind (sched_getaffinity01_errno_test K 0 (int len) bad_addr EFAULT) (\<lambda>ok1.
     bind (sched_getaffinity01_errno_test K 0 0 msk EINVAL) (\<lambda>ok2.
     ret (ok1 * ok2)))))))))"

definition sched_getaffinity01_setup :: "kernel \<Rightarrow> (sched_getaffinity01, unit) cprog" where
  "sched_getaffinity01_setup K = (bind (libc K (Sysconf 83)) (\<lambda>ncpu.
     seq (modify (\<lambda>s. s\<lparr>sg_ncpu := ncpu\<rparr>)) (
     seq (printf (''[I] system has '' @ show_int ncpu @ '' processor(s).\<newline>'')) (
     modify (\<lambda>s. s\<lparr>sg_bad_addr := NULL\<rparr>)))))"

definition sched_getaffinity01_main :: "kernel \<Rightarrow> (sched_getaffinity01, unit) cprog" where
  "sched_getaffinity01_main K = (seq (sched_getaffinity01_setup K) (
     bind (sched_getaffinity01_do_test K) (\<lambda>r.
     if_then (r \<noteq> 0) (printf ''test succeeded\<newline>''))))"

section \<open>set\_tid\_address01\<close>

definition set_tid_address01_main :: "kernel \<Rightarrow> (proc, unit) cprog" where
  "set_tid_address01_main K = (bind (libc K SetTidAddress) (\<lambda>r.
     bind (libc K Getpid) (\<lambda>pid.
     if r = pid then
       printf (''set_tid_address call succeeded:  as expected '' @ show_int r @ ''\<newline>test succeeded\<newline>'')
     else printf_errno ''set_tid_address01 failed - errno = '' ''\<newline>'')))"

section \<open>Verdicts\<close>

text \<open>\<^verbatim>\<open>set_tid_address01\<close> passes exactly when \<^verbatim>\<open>set_tid_address\<close> returns what \<^verbatim>\<open>getpid\<close> then returns.\<close>

theorem set_tid_address01_verdict:
  "passes (set_tid_address01_main K) proc_init \<longleftrightarrow>
   (let h = calls (set_tid_address01_main K) proc_init in
    map fst h = [SetTidAddress, Getpid] \<and> rv (snd (h ! 0)) = rv (snd (h ! 1)))"
proof (rule verdictI)
  show "runs (set_tid_address01_main K) proc_init (\<lambda>(fl, s'). announced (fl, s') \<longleftrightarrow>
   (let h = trace s' in map fst h = [SetTidAddress, Getpid] \<and> rv (snd (h ! 0)) = rv (snd (h ! 1))))"
    unfolding set_tid_address01_main_def proc_init_def
    by (simp add: run_simps Let_def cong: run_congs; intro answeredI conjI impI; simp)
qed

lemma quiet_sched_setattr_verify: "quiet (sched_setattr01_sched_setattr_verify K i)"
  unfolding sched_setattr01_sched_setattr_verify_def by (intro quiet_intros; simp)

interpretation ss: verified_main sched_setattr01_setup "sched_setattr01_do_test K" "\<lambda>r. r \<noteq> 0"
  "''test succeeded\<newline>''" "\<lambda>_. skip" skip "sched_setattr01_main K" for K
  by unfold_locales (auto simp: sched_setattr01_main_def if_then_main(1) sched_setattr01_setup_def sched_setattr01_do_test_def
    intro!: quiet_intros quiet_sched_setattr_verify extends_intros returns_intros)

text \<open>\<^verbatim>\<open>sched_setattr01\<close> passes on no kernel: the product of the results of its cases starts at 0.\<close>

theorem sched_setattr01_never_passes: "\<not> passes (sched_setattr01_main K) sched_setattr01_init"
proof -
  have "clear sched_setattr01_init" by (simp add: clear_def sched_setattr01_init_def)
  from ss.passes_iff [OF this] show ?thesis
    by (auto simp: sched_setattr01_do_test_def dest: mult_cases_zero)
qed

subsection \<open>Growing the affinity mask\<close>

text \<open>The sizes asked for, with the answers.\<close>

fun affinity :: "event list \<Rightarrow> (int \<times> sysres) list" where
  "affinity [] = []"
| "affinity ((c, r) # h) = (case c of Pr (SchedGetaffinity_pr pid n b) \<Rightarrow> (n, r) # affinity h | _ \<Rightarrow> affinity h)"

lemma affinity_append [simp]: "affinity (h @ h') = affinity h @ affinity h'"
  by (induction h rule: affinity.induct) (auto split: syscall.splits proc_call.splits)

definition affinity_sizes :: "int list" where
  "affinity_sizes = [128, 512, 2048, 8192, 32768]"

text \<open>\<open>grown m h\<close>: the sizes from the \<open>m\<close>-th on were asked for, and every answer but the last was EINVAL.\<close>

definition grown :: "nat \<Rightarrow> event list \<Rightarrow> bool" where
  "grown m h \<longleftrightarrow> prefix (map fst (affinity h)) (drop m affinity_sizes) \<and>
     list_all (\<lambda>(n, r). failed_with r EINVAL) (butlast (affinity h))"

lemma cpu_alloc_size_grown: "m \<le> 4 \<Longrightarrow> int (cpu_alloc_size (1024 * 4 ^ m)) = affinity_sizes ! m"
proof -
  assume "m \<le> 4"
  then have "m \<in> {0, 1, 2, 3, 4}" by auto
  then show ?thesis by (auto simp: cpu_alloc_size_def affinity_sizes_def)
qed

lemma drop_sizes: "m \<le> 4 \<Longrightarrow> drop m affinity_sizes = affinity_sizes ! m # drop (Suc m) affinity_sizes"
  by (rule Cons_nth_drop_Suc [symmetric]) (simp add: affinity_sizes_def)

lemma grown_none: "affinity h = [] \<Longrightarrow> grown m h"
  by (simp add: grown_def)

lemma grown_last: "m \<le> 4 \<Longrightarrow> affinity h = [(affinity_sizes ! m, r)] \<Longrightarrow> grown m h"
  by (simp add: grown_def drop_sizes)

lemma grown_more:
  "m \<le> 4 \<Longrightarrow> affinity h = [(affinity_sizes ! m, r)] \<Longrightarrow> failed_with r EINVAL \<Longrightarrow> grown (Suc m) h' \<Longrightarrow> grown m (h @ h')"
  by (cases "affinity h'") (auto simp: grown_def drop_sizes)

text \<open>One attempt with a mask for \<open>n\<close> processors.\<close>

lemma attempt_runs:
  assumes "clear s"
    and ok: "\<And>r p s'. clear s' \<Longrightarrow> sg_bad_addr s' = sg_bad_addr s \<Longrightarrow>
      \<exists>h. trace s' = trace s @ h \<and> affinity h = [(int (cpu_alloc_size n), r)] \<Longrightarrow> P (Ret (n, cpu_alloc_size n, p), s')"
    and more: "\<And>r s'. clear s' \<Longrightarrow> sg_bad_addr s' = sg_bad_addr s \<Longrightarrow> failed_with r EINVAL \<Longrightarrow> n < 1024 * 2 ^ 8 \<Longrightarrow>
      \<exists>h. trace s' = trace s @ h \<and> affinity h = [(int (cpu_alloc_size n), r)] \<Longrightarrow>
      runs (sched_getaffinity01_realloc K (n * 4)) s' P"
    and exit: "\<And>r s'. clear s' \<Longrightarrow>
      \<exists>h. trace s' = trace s @ h \<and> affinity h = [(int (cpu_alloc_size n), r)] \<Longrightarrow> P (Exit 0, s')"
    and killed: "\<And>g s'. \<exists>h. trace s' = trace s @ h \<and> affinity h = [] \<Longrightarrow> P (Killed g, s')"
  shows "runs (sched_getaffinity01_realloc K n) s P"
proof -
  have s: "scan 0 (out s) = 0" using assms(1) by (simp add: clear_def)
  have inv: "failed_with r e" if "rv r = -1" and "new_errno r x = e" for r x e
    using that by (auto simp: failed_with_def rv_def new_errno_def split: sum.splits)
  show ?thesis
    unfolding sched_getaffinity01_realloc.simps [of K n] Let_def merges
    apply (simp add: run_simps cong: run_congs split del: if_split)
    apply (intro answeredI conjI impI allI)
    subgoal by (rule killed) simp
    subgoal by (rule more) (auto simp: clear_def s inv)
    subgoal by (rule exit) (auto simp: clear_def s)
    subgoal by (rule ok) (auto simp: clear_def s)
    done
qed

lemma realloc_runs:
  assumes "m \<le> 4" and "clear s"
    and "\<And>n p s'. \<exists>h. trace s' = trace s @ h \<and> clear s' \<and> sg_bad_addr s' = sg_bad_addr s \<and> grown m h \<and>
      affinity h \<noteq> [] \<and> fst (last (affinity h)) = int (cpu_alloc_size n) \<Longrightarrow> P (Ret (n, cpu_alloc_size n, p), s')"
    and "\<And>s'. \<exists>h. trace s' = trace s @ h \<and> clear s' \<and> grown m h \<Longrightarrow> P (Exit 0, s')"
    and "\<And>g s'. \<exists>h. trace s' = trace s @ h \<and> grown m h \<Longrightarrow> P (Killed g, s')"
  shows "runs (sched_getaffinity01_realloc K (1024 * 4 ^ m)) s P"
  using assms
proof (induction "4 - m" arbitrary: m s rule: less_induct)
  case less
  let ?n = "1024 * 4 ^ m :: nat"
  have size: "int (cpu_alloc_size ?n) = affinity_sizes ! m" using less.prems(1) by (rule cpu_alloc_size_grown)
  show ?case
  proof (rule attempt_runs [OF less.prems(2)], unfold size)
    fix r p and s' :: sched_getaffinity01
    assume "clear s'" "sg_bad_addr s' = sg_bad_addr s" "\<exists>h. trace s' = trace s @ h \<and> affinity h = [(affinity_sizes ! m, r)]"
    then obtain h where h: "trace s' = trace s @ h" "affinity h = [(affinity_sizes ! m, r)]" "clear s'" "sg_bad_addr s' = sg_bad_addr s"
      by blast
    moreover from this(2) less.prems(1) have "grown m h" by (rule grown_last [rotated])
    ultimately show "P (Ret (?n, cpu_alloc_size ?n, p), s')"
      by (intro less.prems(3) exI [of _ h]) (simp add: size)
  next
    fix r and s' :: sched_getaffinity01
    assume "clear s'" "sg_bad_addr s' = sg_bad_addr s" "failed_with r EINVAL" "?n < 1024 * 2 ^ 8"
      "\<exists>h. trace s' = trace s @ h \<and> affinity h = [(affinity_sizes ! m, r)]"
    then obtain h where h: "trace s' = trace s @ h" "affinity h = [(affinity_sizes ! m, r)]" "clear s'"
      "sg_bad_addr s' = sg_bad_addr s" "failed_with r EINVAL" by blast
    have "m < 4" using \<open>?n < 1024 * 2 ^ 8\<close> less.prems(1) by (cases "m = 4") auto
    have more: "grown m (h @ h')" if "grown (Suc m) h'" for h'
      using less.prems(1) h(2,5) that by (rule grown_more)
    have "runs (sched_getaffinity01_realloc K (1024 * 4 ^ Suc m)) s' P"
    proof (rule less.hyps)
      show "4 - Suc m < 4 - m" "Suc m \<le> 4" using \<open>m < 4\<close> by simp_all
      show "clear s'" by fact
    next
      fix n p and u :: sched_getaffinity01
      assume "\<exists>h'. trace u = trace s' @ h' \<and> clear u \<and> sg_bad_addr u = sg_bad_addr s' \<and> grown (Suc m) h' \<and>
        affinity h' \<noteq> [] \<and> fst (last (affinity h')) = int (cpu_alloc_size n)"
      then obtain h' where "trace u = trace s' @ h'" "clear u" "sg_bad_addr u = sg_bad_addr s'" "grown (Suc m) h'"
        "affinity h' \<noteq> []" "fst (last (affinity h')) = int (cpu_alloc_size n)" by blast
      then show "P (Ret (n, cpu_alloc_size n, p), u)"
        using h more by (intro less.prems(3) exI [of _ "h @ h'"]) simp
    next
      fix u :: sched_getaffinity01
      assume "\<exists>h'. trace u = trace s' @ h' \<and> clear u \<and> grown (Suc m) h'"
      then obtain h' where "trace u = trace s' @ h'" "clear u" "grown (Suc m) h'" by blast
      then show "P (Exit 0, u)"
        using h more by (intro less.prems(4) exI [of _ "h @ h'"]) simp
    next
      fix g and u :: sched_getaffinity01
      assume "\<exists>h'. trace u = trace s' @ h' \<and> grown (Suc m) h'"
      then obtain h' where "trace u = trace s' @ h'" "grown (Suc m) h'" by blast
      then show "P (Killed g, u)"
        using h more by (intro less.prems(5) exI [of _ "h @ h'"]) simp
    qed
    then show "runs (sched_getaffinity01_realloc K (?n * 4)) s' P" by (simp add: mult.commute)
  next
    fix r and s' :: sched_getaffinity01
    assume "clear s'" "\<exists>h. trace s' = trace s @ h \<and> affinity h = [(affinity_sizes ! m, r)]"
    then show "P (Exit 0, s')"
      using less.prems(1) by (intro less.prems(4)) (auto intro: grown_last)
  next
    fix g and s' :: sched_getaffinity01
    assume "\<exists>h. trace s' = trace s @ h \<and> affinity h = []"
    then show "P (Killed g, s')"
      by (intro less.prems(5)) (auto intro: grown_none)
  qed
qed

text \<open>A history in which the growing ended with a mask, and the two probes followed.\<close>

definition probed :: "event list \<Rightarrow> sysres \<Rightarrow> sysres \<Rightarrow> bool" where
  "probed h r1 r2 \<longleftrightarrow> (\<exists>h0. grown 0 h0 \<and> affinity h0 \<noteq> [] \<and> affinity h = affinity h0 @ [(fst (last (affinity h0)), r1), (0, r2)])"

lemma probedI:
  "grown 0 h0 \<Longrightarrow> affinity h0 \<noteq> [] \<Longrightarrow> fst (last (affinity h0)) = n \<Longrightarrow>
   affinity h = affinity h0 @ [(n, r1), (0, r2)] \<Longrightarrow> probed h r1 r2"
  by (auto simp: probed_def)

lemma errno_test_runs:
  assumes "clear s"
    and "\<And>r s'. clear s' \<Longrightarrow> sg_bad_addr s' = sg_bad_addr s \<Longrightarrow> trace s' = trace s @ [(SchedGetaffinity pid sz (Addr p), r)] \<Longrightarrow>
      P (Ret (if failed_with r e then 1 else 0), s')"
  shows "runs (sched_getaffinity01_errno_test K pid sz p e) s P"
proof -
  have ok: "P (Ret v, s')" if "clear s'" "sg_bad_addr s' = sg_bad_addr s" "trace s' = trace s @ [(SchedGetaffinity pid sz (Addr p), r)]"
    "v = (if failed_with r e then 1 else 0)" for v r s'
    using assms(2) [of s' r] that by simp
  have inv: "failed_with r e \<longleftrightarrow> rv r = -1 \<and> new_errno r x = e" for r x
    by (auto simp: failed_with_def rv_def new_errno_def split: sum.splits)
  show ?thesis
    unfolding sched_getaffinity01_errno_test_def
    by (simp add: run_simps cong: run_congs; intro answeredI conjI impI ok;
      use assms(1) in \<open>simp add: clear_def inv [of _ "errno s"]\<close>) simp_all
qed

lemma sched_getaffinity01_do_test_runs:
  assumes "clear s" and "affinity (trace s) = []"
    and ret: "\<And>v r1 r2 s'. clear s' \<Longrightarrow> probed (trace s') r1 r2 \<Longrightarrow>
      (v \<noteq> 0 \<longleftrightarrow> failed_with r1 EFAULT \<and> failed_with r2 EINVAL) \<Longrightarrow> P (Ret v, s')"
    and exit: "\<And>s'. clear s' \<Longrightarrow> grown 0 (trace s') \<Longrightarrow> P (Exit 0, s')"
    and killed: "\<And>g s'. grown 0 (trace s') \<Longrightarrow> P (Killed g, s')"
  shows "runs (sched_getaffinity01_do_test K) s P"
proof -
  have whole: "grown 0 (trace s @ h) \<longleftrightarrow> grown 0 h" for h
    by (simp add: grown_def assms(2))
  show ?thesis
    unfolding sched_getaffinity01_do_test_def runs_bind
    apply (rule realloc_runs [of 0 s _ K, unfolded power_0 mult_1_right])
    subgoal by simp
    subgoal by (rule assms(1))
    subgoal for n p s1
      apply (elim exE conjE)
      apply (simp add: run_simps cong: run_congs split del: if_split)
      apply (intro answeredI conjI allI impI)
      subgoal by (rule killed) (simp add: grown_def assms(2))
      subgoal
        apply (rule errno_test_runs)
        subgoal by (auto simp: clear_def)
        subgoal for r1 s2
          apply (simp add: run_simps cong: run_congs split del: if_split)
          apply (rule errno_test_runs)
          subgoal by simp
          subgoal for r2 s3
            unfolding kont.simps runs_ret
            by (rule ret [of _ r1 r2], simp, erule probedI, assumption, assumption) (auto simp: assms(2))
          done
        done
      done
    subgoal using exit whole by auto
    subgoal using killed whole by auto
    done
qed

lemma grown_sizes: "grown 0 h \<Longrightarrow> (n, r) \<in> set (affinity h) \<Longrightarrow> n \<in> {128, 512, 2048, 8192, 32768}"
proof -
  assume "grown 0 h" and nr: "(n, r) \<in> set (affinity h)"
  then have "set (map fst (affinity h)) \<subseteq> set affinity_sizes"
    using set_mono_prefix [of "map fst (affinity h)" affinity_sizes] by (simp add: grown_def)
  with nr show ?thesis by (force simp: affinity_sizes_def)
qed

lemma grown_not_probed: "grown 0 h \<Longrightarrow> \<not> probed h r1 r2"
  using grown_sizes [of h 0 r2] by (auto simp: probed_def)

lemma probed_unique: "probed h r1 r2 \<Longrightarrow> probed h q1 q2 \<longleftrightarrow> q1 = r1 \<and> q2 = r2"
  by (auto simp: probed_def)

lemma grown_length: "grown 0 h \<Longrightarrow> length (affinity h) \<le> 5"
  using prefix_length_le [of "map fst (affinity h)" affinity_sizes] by (simp add: grown_def affinity_sizes_def)

lemma probed_length: "probed h r1 r2 \<Longrightarrow> length (affinity h) \<le> 7"
  using grown_length by (fastforce simp: probed_def)

lemma sched_getaffinity01_runs:
  "runs (sched_getaffinity01_main K) sched_getaffinity01_init (\<lambda>(fl, s').
     (announced (fl, s') \<longleftrightarrow> (\<exists>r1 r2. probed (trace s') r1 r2 \<and> failed_with r1 EFAULT \<and> failed_with r2 EINVAL)) \<and>
     (grown 0 (trace s') \<or> (\<exists>r1 r2. probed (trace s') r1 r2)))"
  unfolding sched_getaffinity01_main_def sched_getaffinity01_setup_def sched_getaffinity01_init_def
  apply (simp add: run_simps cong: run_congs)
  apply (rule answeredI)
  apply (rule sched_getaffinity01_do_test_runs)
  subgoal by (simp add: clear_def)
  subgoal by simp
  subgoal for r v r1 r2 u by (auto simp: run_simps clear_def probed_unique)
  subgoal for r u by (auto simp: clear_def grown_not_probed)
  subgoal for r g u by (auto simp: grown_not_probed)
  done

text \<open>\<^verbatim>\<open>sched_getaffinity01\<close> passes exactly when a mask was accepted and the probes with a null address and with size 0
  then failed with EFAULT and EINVAL; the processors found in the mask do not matter.\<close>

theorem sched_getaffinity01_verdict:
  "passes (sched_getaffinity01_main K) sched_getaffinity01_init \<longleftrightarrow>
   (\<exists>r1 r2. probed (calls (sched_getaffinity01_main K) sched_getaffinity01_init) r1 r2 \<and>
      failed_with r1 EFAULT \<and> failed_with r2 EINVAL)"
  using sched_getaffinity01_runs [of K]
  by (auto simp: runs_def calls_def passes_announced split: prod.splits)

text \<open>C16. However the kernel answers, \<^verbatim>\<open>sched_getaffinity01\<close> ends after at most seven affinity queries, of which at most five, for
  masks of 128, 512, 2048, 8192 and 32768 bytes in this order, look for the size of the mask, each
  after EINVAL to the one before.\<close>

theorem sched_getaffinity01_bounded:
  "(let h = calls (sched_getaffinity01_main K) sched_getaffinity01_init in
    length (affinity h) \<le> 7 \<and> (grown 0 h \<or> (\<exists>r1 r2. probed h r1 r2)))"
proof -
  let ?h = "calls (sched_getaffinity01_main K) sched_getaffinity01_init"
  have "grown 0 ?h \<or> (\<exists>r1 r2. probed ?h r1 r2)"
    using sched_getaffinity01_runs [of K] by (auto simp: runs_def calls_def split: prod.splits)
  moreover from this have "length (affinity ?h) \<le> 7"
    using grown_length probed_length by fastforce
  ultimately show ?thesis by (simp only: Let_def simp_thms)
qed

end
