(* ===== verification/Family.thy ===== *)
theory Family
  imports Process
begin

text \<open>
  Programs that fork. Such a program has one outcome for each process it leaves: a \<open>family\<close> is the list
  of the outcomes of the processes forked on the way and the outcome of the process that was started.
  A forked process goes on with the same program text, from a copy of the state, and has its own
  history: the one of its parent so far, and the mark \<open>Forked\<close>. The kernel answers each process from its
  own history; what one process learns of another (a wait status, a byte in a file) is part of an answer.
\<close>

section \<open>Families of processes\<close>

type_synonym ('s, 'a) family = "'s \<Rightarrow> ('a flow \<times> 's) list \<times> ('a flow \<times> 's)"

definition alone :: "('s, 'a) cprog \<Rightarrow> ('s, 'a) family" where
  "alone m = (\<lambda>s. ([], m s))"

definition everyone :: "'b list \<times> 'b \<Rightarrow> 'b list" where
  "everyone p = fst p @ [snd p]"

text \<open>Each process that has not ended goes on by itself.\<close>

fun go_on :: "('a \<Rightarrow> ('s, 'b) family) \<Rightarrow> 'a flow \<times> 's \<Rightarrow> ('b flow \<times> 's) list \<times> ('b flow \<times> 's)" where
  "go_on f (Ret a, s) = f a s"
| "go_on f (Exit c, s) = ([], (Exit c, s))"
| "go_on f (Killed g, s) = ([], (Killed g, s))"

definition fbind :: "('s, 'a) family \<Rightarrow> ('a \<Rightarrow> ('s, 'b) family) \<Rightarrow> ('s, 'b) family" where
  "fbind m f = (\<lambda>s. (concat (map (\<lambda>c. everyone (go_on f c)) (fst (m s))) @ fst (go_on f (snd (m s))), snd (go_on f (snd (m s)))))"

definition fseq :: "('s, 'a) family \<Rightarrow> ('s, 'b) family \<Rightarrow> ('s, 'b) family" where
  "fseq m n = fbind m (\<lambda>_. n)"

definition fcall :: "('s, 'a) family \<Rightarrow> ('s, unit) family" where
  "fcall m = fbind m (\<lambda>_. alone skip)"

definition fif_then :: "bool \<Rightarrow> ('s, unit) family \<Rightarrow> ('s, unit) family" where
  "fif_then b m = (if b then m else alone skip)"

text \<open>\<^verbatim>\<open>fork()\<close>: 0 in the child, and in the parent its identity, which is never 0: the answer \<open>v\<close> stands for
  the identity \<open>v + 1\<close>.\<close>

definition c_fork :: "kernel \<Rightarrow> ('m proc_scheme, int) family" where
  "c_fork K = (\<lambda>s. let r = K (trace s) Fork in
     case sr_ret r of
       Inl e \<Rightarrow> ([], (Ret (-1), s\<lparr>trace := trace s @ [(Fork, r)], errno := e\<rparr>))
     | Inr v \<Rightarrow> ([(Ret 0, s\<lparr>trace := trace s @ [(Forked, sys_ok 0)]\<rparr>)],
                (Ret (int v + 1), s\<lparr>trace := trace s @ [(Fork, r)]\<rparr>)))"

text \<open>A wait status: the low byte holds the signal that ended the process, the next one its exit code.
  \<^verbatim>\<open>waitpid\<close> stores it unless it fails; no caller here asks for options that let it return 0.\<close>

definition WIFEXITED :: "int \<Rightarrow> bool" where
  "WIFEXITED status \<longleftrightarrow> status mod 128 = 0"

definition WEXITSTATUS :: "int \<Rightarrow> int" where
  "WEXITSTATUS status = status div 256 mod 256"

definition WTERMSIG :: "int \<Rightarrow> int" where
  "WTERMSIG status = status mod 128"

definition WIFSIGNALED :: "int \<Rightarrow> bool" where
  "WIFSIGNALED status \<longleftrightarrow> 0 < status mod 128 \<and> status mod 128 < 127"

definition exited_0 :: "int \<Rightarrow> bool" where
  "exited_0 status \<longleftrightarrow> WIFEXITED status \<and> WEXITSTATUS status = 0"

definition status_seen :: "sysres \<Rightarrow> int \<Rightarrow> int" where
  "status_seen r old = (case sr_ret r of Inl e \<Rightarrow> old | Inr v \<Rightarrow> sr_int r)"

definition c_waitpid :: "kernel \<Rightarrow> int \<Rightarrow> int \<Rightarrow> int \<Rightarrow> ('m proc_scheme, int \<times> int) cprog" where
  "c_waitpid K pid options old = bind (libc_res K (Waitpid pid options)) (\<lambda>r. ret (rv r, status_seen r old))"

definition c_wait :: "kernel \<Rightarrow> int \<Rightarrow> ('m proc_scheme, int \<times> int) cprog" where
  "c_wait K old = bind (libc_res K Wait) (\<lambda>r. ret (rv r, status_seen r old))"

text \<open>A successful \<^verbatim>\<open>execve\<close> does not return: the buffered output of the caller is lost, and the log is what the
  new image prints, which is part of the answer.\<close>

definition c_exec :: "kernel \<Rightarrow> syscall \<Rightarrow> ('m proc_scheme, int) cprog" where
  "c_exec K c = bind (libc_res K c) (\<lambda>r. case sr_ret r of
       Inl e \<Rightarrow> ret (-1)
     | Inr v \<Rightarrow> seq (modify (\<lambda>s. s\<lparr>out := sr_bytes r\<rparr>)) (c_exit 0))"

section \<open>Verdicts\<close>

text \<open>All processes write to the same file, each its whole buffer when it ends. A verdict is asked for when all have
  ended; the logs are then joined in some order, which does not matter as long as no log ends in the
  middle of the text looked for.\<close>

definition family_passes :: "('m proc_scheme, 'a) family \<Rightarrow> 'm proc_scheme \<Rightarrow> bool" where
  "family_passes m s = list_ex (\<lambda>x. announces (log_of x)) (everyone (m s))"

text \<open>The calls of the process that was started.\<close>

definition family_calls :: "('m proc_scheme, 'a) family \<Rightarrow> 'm proc_scheme \<Rightarrow> event list" where
  "family_calls m s = trace (snd (snd (m s)))"

text \<open>What \<^verbatim>\<open>brain.py\<close> sees if it reads the file when only the started process has ended.\<close>

definition first_passes :: "('m proc_scheme, 'a) family \<Rightarrow> 'm proc_scheme \<Rightarrow> bool" where
  "first_passes m s = announces (log_of (snd (m s)))"

definition whole :: "string \<Rightarrow> bool" where
  "whole t \<longleftrightarrow> scan 0 t = 0 \<or> scan 0 t = 14"

lemma scan_concat: "list_all whole ts \<Longrightarrow> scan 0 (concat ts) = (if list_ex (\<lambda>t. scan 0 t = 14) ts then 14 else 0)"
  by (induction ts) (auto simp: whole_def)

lemma logs_joined:
  assumes "list_all whole ts" and "mset ts' = mset ts"
  shows "announces (concat ts') \<longleftrightarrow> list_ex announces ts"
proof -
  have "set ts' = set ts" using assms(2) by (rule mset_eq_setD)
  then have "list_all whole ts'" "list_ex announces ts' \<longleftrightarrow> list_ex announces ts"
    using assms(1) by (simp_all add: list_all_iff list_ex_iff)
  then show ?thesis by (simp add: announces_scan [abs_def] scan_concat)
qed

section \<open>Symbolic execution\<close>

text \<open>\<open>fruns m s P Q\<close>: the forked processes end in \<open>P\<close> and the started one in \<open>Q\<close>.\<close>

definition fruns :: "('s, 'a) family \<Rightarrow> 's \<Rightarrow> ('a flow \<times> 's \<Rightarrow> bool) \<Rightarrow> ('a flow \<times> 's \<Rightarrow> bool) \<Rightarrow> bool" where
  "fruns m s P Q \<longleftrightarrow> list_all P (fst (m s)) \<and> Q (snd (m s))"

fun fkont :: "('a \<Rightarrow> ('s, 'b) family) \<Rightarrow> ('b flow \<times> 's \<Rightarrow> bool) \<Rightarrow> ('b flow \<times> 's \<Rightarrow> bool) \<Rightarrow> 'a flow \<times> 's \<Rightarrow> bool" where
  "fkont f P Q (Ret a, s) = fruns (f a) s P Q"
| "fkont f P Q (Exit c, s) = Q (Exit c, s)"
| "fkont f P Q (Killed g, s) = Q (Killed g, s)"

lemma fkont_go_on: "fkont f P Q x \<longleftrightarrow> list_all P (fst (go_on f x)) \<and> Q (snd (go_on f x))"
  by (cases "(f, P, Q, x)" rule: fkont.cases) (auto simp: fruns_def)

lemma fruns_alone [run_simps]: "fruns (alone m) s P Q = runs m s Q"
  by (simp add: fruns_def alone_def runs_def)

lemma fruns_bind [run_simps]: "fruns (fbind m f) s P Q = fruns m s (fkont f P P) (fkont f P Q)"
  by (auto simp: fruns_def fbind_def fkont_go_on [abs_def] everyone_def list_all_iff)

lemma fruns_seq [run_simps]: "fruns (fseq m n) s P Q = fruns m s (fkont (\<lambda>_. n) P P) (fkont (\<lambda>_. n) P Q)"
  by (simp add: fseq_def fruns_bind)

lemma fruns_call [run_simps]: "fruns (fcall m) s P Q = fruns m s (fkont (\<lambda>_. alone skip) P P) (fkont (\<lambda>_. alone skip) P Q)"
  by (simp add: fcall_def fruns_bind)

lemma fruns_if [run_simps]:
  "fruns (if b then m else n) s P Q = ((b \<longrightarrow> fruns m s P Q) \<and> (\<not> b \<longrightarrow> fruns n s P Q))"
  by simp

lemma fruns_if_then [run_simps]:
  "fruns (fif_then b m) s P Q = ((b \<longrightarrow> fruns m s P Q) \<and> (\<not> b \<longrightarrow> Q (Ret (), s)))"
  by (simp add: fif_then_def fruns_alone runs_skip)

lemma fruns_let [run_simps]: "fruns (Let e f) s P Q = fruns (f e) s P Q"
  by simp

lemma fruns_pair [run_simps]: "fruns (case (a, b) of (x, y) \<Rightarrow> f x y) s P Q = fruns (f a b) s P Q"
  by simp

lemma fruns_fork [run_simps]:
  "fruns (c_fork K) s P Q = answered K (trace s) Fork (\<lambda>r.
     (\<forall>e. sr_ret r = Inl e \<longrightarrow> Q (Ret (-1), s\<lparr>trace := trace s @ [(Fork, r)], errno := e\<rparr>)) \<and>
     (\<forall>v. sr_ret r = Inr v \<longrightarrow> P (Ret 0, s\<lparr>trace := trace s @ [(Forked, sys_ok 0)]\<rparr>) \<and>
        Q (Ret (int v + 1), s\<lparr>trace := trace s @ [(Fork, r)]\<rparr>)))"
  by (auto simp: fruns_def c_fork_def answered_def Let_def split: sum.splits)

lemma runs_waitpid [run_simps]:
  "runs (c_waitpid K pid opts old) s P = answered K (trace s) (Waitpid pid opts) (\<lambda>r.
     P (Ret (rv r, status_seen r old), s\<lparr>trace := trace s @ [(Waitpid pid opts, r)], errno := new_errno r (errno s)\<rparr>))"
  by (simp add: c_waitpid_def runs_bind runs_libc_res runs_ret)

lemma runs_wait [run_simps]:
  "runs (c_wait K old) s P = answered K (trace s) Wait (\<lambda>r.
     P (Ret (rv r, status_seen r old), s\<lparr>trace := trace s @ [(Wait, r)], errno := new_errno r (errno s)\<rparr>))"
  by (simp add: c_wait_def runs_bind runs_libc_res runs_ret)

lemma runs_exec [run_simps]:
  "runs (c_exec K c) s P = answered K (trace s) c (\<lambda>r.
     (\<forall>e. sr_ret r = Inl e \<longrightarrow> P (Ret (-1), s\<lparr>trace := trace s @ [(c, r)], errno := e\<rparr>)) \<and>
     (\<forall>v. sr_ret r = Inr v \<longrightarrow> P (Exit 0, s\<lparr>trace := trace s @ [(c, r)], out := sr_bytes r\<rparr>)))"
  by (auto simp: c_exec_def runs_def flow_defs answered_def Let_def split: sum.splits)

lemma runs_sum [run_simps]:
  "runs (case x of Inl a \<Rightarrow> f a | Inr b \<Rightarrow> g b) s P = ((\<forall>a. x = Inl a \<longrightarrow> runs (f a) s P) \<and> (\<forall>b. x = Inr b \<longrightarrow> runs (g b) s P))"
  by (cases x) simp_all

lemma fruns_cong: "s = s' \<Longrightarrow> fruns m s P Q = fruns m s' P Q"
  by simp

lemma fkont_cong: "x = y \<Longrightarrow> fkont f P Q x = fkont f P Q y"
  by simp

lemmas fork_congs = run_congs fruns_cong fkont_cong

text \<open>\<open>leads m s Q\<close>: the started process ends in \<open>Q\<close>, whatever its children do.\<close>

definition leads :: "('s, 'a) family \<Rightarrow> 's \<Rightarrow> ('a flow \<times> 's \<Rightarrow> bool) \<Rightarrow> bool" where
  "leads m s Q \<longleftrightarrow> Q (snd (m s))"

fun lkont :: "('a \<Rightarrow> ('s, 'b) family) \<Rightarrow> ('b flow \<times> 's \<Rightarrow> bool) \<Rightarrow> 'a flow \<times> 's \<Rightarrow> bool" where
  "lkont f Q (Ret a, s) = leads (f a) s Q"
| "lkont f Q (Exit c, s) = Q (Exit c, s)"
| "lkont f Q (Killed g, s) = Q (Killed g, s)"

lemma leads_alone [run_simps]: "leads (alone m) s Q = runs m s Q"
  by (simp add: leads_def alone_def runs_def)

lemma leads_bind [run_simps]: "leads (fbind m f) s Q = leads m s (lkont f Q)"
  unfolding leads_def fbind_def by (cases "(f, snd (m s))" rule: go_on.cases) (simp_all add: leads_def)

lemma leads_seq [run_simps]: "leads (fseq m n) s Q = leads m s (lkont (\<lambda>_. n) Q)"
  by (simp add: fseq_def leads_bind)

lemma leads_call [run_simps]: "leads (fcall m) s Q = leads m s (lkont (\<lambda>_. alone skip) Q)"
  by (simp add: fcall_def leads_bind)

lemma leads_if [run_simps]:
  "leads (if b then m else n) s Q = ((b \<longrightarrow> leads m s Q) \<and> (\<not> b \<longrightarrow> leads n s Q))"
  by simp

lemma leads_if_then [run_simps]: "leads (fif_then b m) s Q = ((b \<longrightarrow> leads m s Q) \<and> (\<not> b \<longrightarrow> Q (Ret (), s)))"
  by (simp add: fif_then_def leads_alone runs_skip)

lemma leads_let [run_simps]: "leads (Let e f) s Q = leads (f e) s Q"
  by simp

lemma leads_pair [run_simps]: "leads (case (a, b) of (x, y) \<Rightarrow> f x y) s Q = leads (f a b) s Q"
  by simp

lemma leads_fork [run_simps]:
  "leads (c_fork K) s Q = answered K (trace s) Fork (\<lambda>r.
     (\<forall>e. sr_ret r = Inl e \<longrightarrow> Q (Ret (-1), s\<lparr>trace := trace s @ [(Fork, r)], errno := e\<rparr>)) \<and>
     (\<forall>v. sr_ret r = Inr v \<longrightarrow> Q (Ret (int v + 1), s\<lparr>trace := trace s @ [(Fork, r)]\<rparr>)))"
  by (auto simp: leads_def c_fork_def answered_def Let_def split: sum.splits)

lemma leads_cong: "s = s' \<Longrightarrow> leads m s Q = leads m s' Q"
  by simp

lemma lkont_cong: "x = y \<Longrightarrow> lkont f Q x = lkont f Q y"
  by simp

lemmas lead_congs = run_congs leads_cong lkont_cong

lemma fruns_mono:
  "fruns m s P Q \<Longrightarrow> (\<And>x. P x \<Longrightarrow> P' x) \<Longrightarrow> (\<And>x. Q x \<Longrightarrow> Q' x) \<Longrightarrow> fruns m s P' Q'"
  by (auto simp: fruns_def list_all_iff)

lemma announces_log: "announces (log_of x) = announced x"
  by (cases x rule: log_of.cases) (simp_all add: announces_scan announces_def)

text \<open>A verdict that is the started process's alone.\<close>

lemma family_verdictI:
  assumes "fruns m s (\<lambda>x. \<not> announced x) (\<lambda>(fl, s'). announced (fl, s') \<longleftrightarrow> C (trace s'))"
  shows "family_passes m s \<longleftrightarrow> C (family_calls m s)"
  using assms
  by (auto simp: fruns_def family_passes_def family_calls_def everyone_def announces_log list_all_iff list_ex_iff split: prod.splits)

lemma first_verdictI:
  assumes "leads m s (\<lambda>(fl, s'). announced (fl, s') \<longleftrightarrow> C (trace s'))"
  shows "first_passes m s \<longleftrightarrow> C (family_calls m s)"
  using assms by (auto simp: leads_def first_passes_def family_calls_def announces_log split: prod.splits)

lemma first_passesI: "leads m s announced \<Longrightarrow> first_passes m s"
  by (simp add: leads_def first_passes_def announces_log)

text \<open>A verdict that is left to the forked processes; their histories.\<close>

definition child_calls :: "('m proc_scheme, 'a) family \<Rightarrow> 'm proc_scheme \<Rightarrow> event list list" where
  "child_calls m s = map (\<lambda>x. trace (snd x)) (fst (m s))"

lemma family_childI:
  assumes "fruns m s (\<lambda>(fl, s'). announced (fl, s') \<longleftrightarrow> C (trace s')) (\<lambda>x. \<not> announced x)"
  shows "family_passes m s \<longleftrightarrow> list_ex C (child_calls m s)" and "\<not> first_passes m s"
proof -
  have own: "\<not> announced (snd (m s))" using assms by (simp add: fruns_def)
  then show "\<not> first_passes m s" by (simp add: first_passes_def announces_log)
  have "announced x \<longleftrightarrow> C (trace (snd x))" if "x \<in> set (fst (m s))" for x
    using assms that by (cases x) (auto simp: fruns_def list_all_iff)
  then have "list_ex announced (fst (m s)) \<longleftrightarrow> list_ex (\<lambda>x. C (trace (snd x))) (fst (m s))"
    by (auto simp: list_ex_iff)
  with own show "family_passes m s \<longleftrightarrow> list_ex C (child_calls m s)"
    by (simp add: family_passes_def child_calls_def everyone_def announces_log list_ex_iff)
qed

text \<open>A verdict every process may announce.\<close>

definition all_calls :: "('m proc_scheme, 'a) family \<Rightarrow> 'm proc_scheme \<Rightarrow> event list list" where
  "all_calls m s = map (\<lambda>x. trace (snd x)) (everyone (m s))"

lemma family_allI:
  assumes "fruns m s (\<lambda>(fl, s'). announced (fl, s') \<longleftrightarrow> C (trace s')) (\<lambda>(fl, s'). announced (fl, s') \<longleftrightarrow> C (trace s'))"
  shows "family_passes m s \<longleftrightarrow> list_ex C (all_calls m s)"
proof -
  have "announced x \<longleftrightarrow> C (trace (snd x))" if "x \<in> set (everyone (m s))" for x
    using assms that by (cases x) (auto simp: fruns_def list_all_iff everyone_def)
  then show ?thesis by (auto simp: family_passes_def all_calls_def announces_log list_ex_iff)
qed

text \<open>No process announces.\<close>

lemma never_passesI:
  assumes "fruns m s (\<lambda>x. \<not> announced x) (\<lambda>x. \<not> announced x)"
  shows "\<not> family_passes m s"
  using assms by (auto simp: fruns_def family_passes_def everyone_def announces_log list_all_iff list_ex_iff)

lemma first_family: "first_passes m s \<Longrightarrow> family_passes m s"
  by (simp add: first_passes_def family_passes_def everyone_def)

end
