(* ===== verification/Fork_Tests.thy ===== *)
theory Fork_Tests
  imports Family Execve_Tests
begin

text \<open>
  Tests that fork: \<^verbatim>\<open>execve01\<close>, \<^verbatim>\<open>execve02\<close>, \<^verbatim>\<open>execve04\<close>, \<^verbatim>\<open>execve05\<close> and \<^verbatim>\<open>execve06\<close>
  (\<^verbatim>\<open>independent tests/syscalls/execve/\<close>), \<^verbatim>\<open>mprotect/mprotect03.c\<close>, \<^verbatim>\<open>fcntl/fcntl07.c\<close> and \<^verbatim>\<open>fcntl/fcntl12.c\<close>.
\<close>

abbreviation (input) "ETXTBSY \<equiv> (26::int)"
abbreviation (input) "EMFILE \<equiv> (24::int)"
abbreviation (input) "FD_CLOEXEC \<equiv> (1::int)"

section \<open>execve01\<close>

text \<open>Nothing waits for the forked process, here and in the other tests of this directory. An execution names the image, its
  arguments and its environment (none: the inherited one); an array that is never written is a string of undetermined bytes.\<close>

definition unset_string :: "kernel \<Rightarrow> string \<Rightarrow> nat \<Rightarrow> ('m proc_scheme, string) cprog" where
  "unset_string K x n = bind (indet_bytes K x n) (\<lambda>bs. ret (takeWhile (\<lambda>c. c \<noteq> NUL) bs))"

definition execve01_verify_execve :: "kernel \<Rightarrow> (proc, unit) family" where
  "execve01_verify_execve K = (fbind (c_fork K) (\<lambda>pid.
     fif_then (pid = 0) (alone (bind (unset_string K ''ipc_env_var'' 1024) (\<lambda>ipc_env_var.
       seq (call (c_exec K (ExecveWith ''./execve01_child'' [''execve01_child'', ''canary'']
         (Some [''LTP_TEST_ENV_VAR=test'', ipc_env_var])))) (
       printf_errno ''Failed to execute execl01_child, error number '' ''\<newline>''))))))"

definition execve01_main :: "kernel \<Rightarrow> (proc, unit) family" where
  "execve01_main K = execve01_verify_execve K"

section \<open>execve02\<close>

record execve02 = proc +
  e02_nobody_uid :: int

definition execve02_init :: execve02 where
  "execve02_init = \<lparr>errno = 0, out = no_output, trace = [], e02_nobody_uid = 0\<rparr>"

definition execve02_do_child :: "kernel \<Rightarrow> (execve02, unit) cprog" where
  "execve02_do_child K = (bind (gets e02_nobody_uid) (\<lambda>uid.
     seq (call (libc K (Seteuid uid))) (
     bind (c_exec K (ExecveWith ''execve_child'' [''canary''] None)) (\<lambda>r.
     seq (if_then (r = 0) (printf ''execve() passed unexpectedly\<newline>'')) (
     bind (gets errno) (\<lambda>e.
     if e \<noteq> EACCES then
       printf_errno ''execve() failed unexpectedly, error number '' ''\<newline>''
     else
     seq (printf ''execve() failed expectedly\<newline>test succeeded\<newline>'') (
     c_exit 0)))))))"

definition execve02_verify_execve :: "kernel \<Rightarrow> (execve02, unit) family" where
  "execve02_verify_execve K = (fbind (c_fork K) (\<lambda>pid.
     fif_then (pid = 0) (alone (execve02_do_child K))))"

text \<open>\<^verbatim>\<open>pwd->pw_uid\<close> reads through the null pointer when there is no such user.\<close>

definition execve02_setup :: "kernel \<Rightarrow> (execve02, unit) cprog" where
  "execve02_setup K = (seq (call (libc K (Chmod ''execve_child'' mode_0700))) (
     bind (libc_res K (Getpwnam ''nobody'')) (\<lambda>pwd.
     seq (if_then (rv pwd = -1) (die SIGSEGV)) (
     modify (\<lambda>s. s\<lparr>e02_nobody_uid := fst (sr_fds pwd)\<rparr>)))))"

definition execve02_main :: "kernel \<Rightarrow> (execve02, unit) family" where
  "execve02_main K = (fseq (alone (execve02_setup K)) (
     execve02_verify_execve K))"

section \<open>execve04\<close>

definition execve04_do_child :: "kernel \<Rightarrow> (proc, unit) cprog" where
  "execve04_do_child K = (bind (libc K (Open ''execve_child'' O_WRONLY 0)) (\<lambda>fd.
     seq (call (libc K (Close fd))) (
     c_exit 0)))"

definition execve04_verify_execve :: "kernel \<Rightarrow> (proc, int) family" where
  "execve04_verify_execve K = (fbind (c_fork K) (\<lambda>pid.
     fseq (fif_then (pid = 0) (alone (execve04_do_child K))) (
     alone (seq (call (c_exec K (ExecveWith ''execve_child'' [''execve_child''] None))) (
       bind (gets errno) (\<lambda>e.
       if e \<noteq> ETXTBSY then
         (seq (printf ''execve succeeded, expected failure\<newline>'') (
         ret 0))
       else
       seq (printf ''execve failed as expected'') (
       ret 1)))))))"

definition execve04_main :: "kernel \<Rightarrow> (proc, unit) family" where
  "execve04_main K = (fbind (execve04_verify_execve K) (\<lambda>r.
     alone (if_then (r \<noteq> 0) (printf ''test succeeded\<newline>''))))"

section \<open>execve05\<close>

definition execve05_do_child :: "kernel \<Rightarrow> (proc, unit) cprog" where
  "execve05_do_child K = (seq (call (c_exec K (ExecveWith ''execve_child'' [''execve_child'', ''canary''] None))) (
     printf_errno ''execve() returned unexpected errno: '' ''\<newline>''))"

text \<open>A child whose \<^verbatim>\<open>execve\<close> failed goes on with the loop, and forks too. \<^verbatim>\<open>opt_nchild\<close> is null, so \<^verbatim>\<open>nchild\<close> stays 8.\<close>

fun execve05_loop :: "kernel \<Rightarrow> nat \<Rightarrow> int \<Rightarrow> (proc, int) family" where
  "execve05_loop K 0 ok = alone (ret ok)"
| "execve05_loop K (Suc n) ok = (fbind (c_fork K) (\<lambda>pid.
     if pid = 0 then
       (fseq (alone (execve05_do_child K)) (
       execve05_loop K n 0))
     else
     execve05_loop K n ok))"

definition execve05_verify_execve :: "kernel \<Rightarrow> (proc, unit) family" where
  "execve05_verify_execve K = (fbind (execve05_loop K 8 1) (\<lambda>ok.
     alone (if_then (ok \<noteq> 0) (seq (printf ''test succeeded\<newline>'') (
       c_exit 0)))))"

definition execve05_main :: "kernel \<Rightarrow> (proc, unit) family" where
  "execve05_main K = execve05_verify_execve K"

section \<open>execve06\<close>

text \<open>The path is one of them.\<close>

definition execve06_verify_execve :: "kernel \<Rightarrow> (proc, int) family" where
  "execve06_verify_execve K = (fbind (c_fork K) (\<lambda>pid.
     if pid = 0 then
       alone (bind (unset_string K ''path'' 512) (\<lambda>path.
       bind (unset_string K ''ipc_env_var'' 1024) (\<lambda>ipc_env_var.
       seq (call (c_exec K (ExecveWith path [] (Some [ipc_env_var])))) (
       seq (printf ''Failed to execute execl01_child\<newline>'') (
       ret 0)))))
     else
     alone (ret 1)))"

definition execve06_main :: "kernel \<Rightarrow> (proc, unit) family" where
  "execve06_main K = (fbind (execve06_verify_execve K) (\<lambda>r.
     alone (if_then (r \<noteq> 0) (printf ''test succeeded\<newline>''))))"

section \<open>mprotect03\<close>

record mprotect03 = proc +
  p03_status :: int
  p03_file1 :: string

definition mprotect03_init :: mprotect03 where
  "mprotect03_init = \<lparr>errno = 0, out = no_output, trace = [], p03_status = 0, p03_file1 = []\<rparr>"

definition mprotect03_setup :: "kernel \<Rightarrow> (mprotect03, unit) cprog" where
  "mprotect03_setup K = (bind (libc K Getpid) (\<lambda>pid.
     modify (\<lambda>s. s\<lparr>p03_file1 := ''mprotect03.tmp.'' @ show_int pid\<rparr>)))"

definition mprotect03_child :: "kernel \<Rightarrow> addr \<Rightarrow> (mprotect03, unit) cprog" where
  "mprotect03_child K addr = (seq (mem_store K addr ''abcdefghijklmnopqrstuvwxyz'') (
     seq (printf ''[I] memcpy() did not generate SIGSEGV\<newline>'') (
     c_exit 1)))"

text \<open>No test installs its handler, here and in \<^verbatim>\<open>mprotect02\<close>.\<close>

definition mprotect03_sighandler :: "int \<Rightarrow> (mprotect03, unit) cprog" where
  "mprotect03_sighandler sig = (if sig = SIGSEGV then
       (seq (printf ''[I] received signal: SIGSEGV\<newline>'') (
       c_exit 0))
     else
     printf (''Unexpected signal '' @ show_int sig @ '' received.\<newline>''))"

definition mprotect03_protected :: "kernel \<Rightarrow> addr \<Rightarrow> (mprotect03, int) family" where
  "mprotect03_protected K addr = (fbind (c_fork K) (\<lambda>pid.
     if pid = -1 then
       alone (seq (printf ''fork failed\<newline>'') (
       c_exit 0))
     else
     fseq (fif_then (pid = 0) (alone (mprotect03_child K addr))) (
     alone (bind (gets p03_status) (\<lambda>old.
       bind (c_waitpid K pid 0 old) (\<lambda>(r, status).
       seq (modify (\<lambda>s. s\<lparr>p03_status := status\<rparr>)) (
       if WEXITSTATUS status \<noteq> 0 then
         (seq (printf ''child returned unexpected status\<newline>'') (
         ret 0))
       else
       seq (printf ''SIGSEGV generated as expected\<newline>'') (
       ret 1))))))))"

definition mprotect03_main :: "kernel \<Rightarrow> (mprotect03, unit) family" where
  "mprotect03_main K = (fseq (alone (mprotect03_setup K)) (
     fbind (alone (gets p03_file1)) (\<lambda>fname.
     fbind (alone (libc K (Open fname (O_RDWR OR O_CREAT) mode_0777))) (\<lambda>fd.
     fseq (alone (if_then (fd < 0) (seq (printf ''open failed\<newline>'') (
       c_exit 0)))) (
     fseq (alone (call (libc K (Write fd (Bytes ''abcdefghijklmnopqrstuvwxyz'') 26)))) (
     fbind (alone (libc_ptr K (Mmap NULL 26 (PROT_READ OR PROT_WRITE) MAP_SHARED fd 0))) (\<lambda>addr.
     fseq (alone (if_then (addr = MAP_FAILED) (seq (printf ''mmap failed\<newline>'') (
       c_exit 0)))) (
     fbind (alone (libc K (Mprotect addr 26 PROT_READ))) (\<lambda>r.
     fbind ((if r \<noteq> -1 then mprotect03_protected K addr
       else alone (seq (printf_errno ''mprotect failed unexpectedly, errno: '' ''\<newline>'') (
       ret 0)))) (\<lambda>ok.
     alone (seq (call (libc K (Munmap addr 26))) (
       seq (call (libc K (Close fd))) (
       seq (call (libc K (Unlink fname))) (
       if_then (ok \<noteq> 0) (printf ''test succeeded\<newline>'')))))))))))))))"

section \<open>fcntl07\<close>

record fcntl07 = proc +
  f07_file_fd :: int
  f07_pipe_fds :: "int \<times> int"
  f07_fifo_fd :: int

definition fcntl07_init :: fcntl07 where
  "fcntl07_init = \<lparr>errno = 0, out = no_output, trace = [], f07_file_fd = 0, f07_pipe_fds = (0, 0), f07_fifo_fd = 0\<rparr>"

text \<open>The descriptors are read through pointers when a case is run.\<close>

definition fcntl07_tcases :: "((fcntl07 \<Rightarrow> int) \<times> string) list" where
  "fcntl07_tcases =
     [(f07_file_fd, ''regular file''), (\<lambda>s. fst (f07_pipe_fds s), ''pipe (write end)''),
      (\<lambda>s. snd (f07_pipe_fds s), ''pipe (read end)''), (f07_fifo_fd, ''fifo'')]"

text \<open>The verdict of a case from the wait status; the message about the failed execution goes to the standard error.\<close>

definition fcntl07_reaped :: "string \<Rightarrow> int \<Rightarrow> (fcntl07, int) cprog" where
  "fcntl07_reaped msg status =
     (if \<not> WIFEXITED status then (seq (printf (''waitpid return was 0'' @ show_oct (nat status) @ ''\<newline>'')) (
     ret 0))
      else if WEXITSTATUS status = 2 then (seq (printf ''exec failed\<newline>'') (
     ret 0))
      else if WEXITSTATUS status = 0 then (seq (printf (msg @ '' CLOEXEC fd was closed after exec()\<newline>'')) (
     ret 1))
      else (seq (printf (msg @ '' child exited non-zero, '' @ show_int (WEXITSTATUS status) @ ''\<newline>'')) (
     ret 0)))"

definition fcntl07_verify_cloexec :: "kernel \<Rightarrow> (fcntl07 \<Rightarrow> int) \<times> string \<Rightarrow> (fcntl07, int) family" where
  "fcntl07_verify_cloexec K tc = (fbind (alone (gets (fst tc))) (\<lambda>fd.
     fbind (alone (libc K (Fcntl fd F_SETFD FD_CLOEXEC))) (\<lambda>r.
     if r = -1 then
       alone (seq (printf_errno (''fcntl('' @ snd tc @ ''['' @ show_int fd @ ''], F_SETFD, FD_CLOEXEC) failed, error number '') ''\<newline>'') (
       ret 0))
     else
     fbind (c_fork K) (\<lambda>pid.
     if pid = -1 then
       alone (seq (printf ''fork() failed\<newline>'') (
       ret 0))
     else
     if pid = 0 then
       alone (seq (call (c_exec K (Execvp ''fcntl07'' [''fcntl07'', ''-T'', show_int fd]))) (
       c_exit 2))
     else
     alone (bind (libc_res K (Waitpid pid 0)) (\<lambda>w.
       bind ((case sr_ret w of Inl e \<Rightarrow> indet K ''status'' | Inr v \<Rightarrow> ret (sr_int w))) (\<lambda>status.
       fcntl07_reaped (snd tc) status)))))))"

definition fcntl07_setup :: "kernel \<Rightarrow> (fcntl07, unit) cprog" where
  "fcntl07_setup K = (bind (libc K (Open ''test_file'' (O_CREAT OR O_RDWR) mode_0666)) (\<lambda>fd.
     seq (modify (\<lambda>s. s\<lparr>f07_file_fd := fd\<rparr>)) (
     bind (gets f07_pipe_fds) (\<lambda>old.
     bind (c_pipe K old) (\<lambda>fds.
     seq (modify (\<lambda>s. s\<lparr>f07_pipe_fds := fds\<rparr>)) (
     seq (call (libc K (Mkfifo ''fifo'' mode_0666))) (
     bind (libc K (Open ''fifo'' O_RDWR mode_0666)) (\<lambda>fd'.
     modify (\<lambda>s. s\<lparr>f07_fifo_fd := fd'\<rparr>)))))))))"

definition fcntl07_close :: "kernel \<Rightarrow> int \<Rightarrow> (fcntl07, unit) cprog \<Rightarrow> (fcntl07, unit) cprog" where
  "fcntl07_close K fd report = if_then (fd > 0) (bind (libc K (Close fd)) (\<lambda>r.
     if_then (r \<noteq> 0) report))"

definition fcntl07_cleanup :: "kernel \<Rightarrow> (fcntl07, unit) cprog" where
  "fcntl07_cleanup K = (bind (gets f07_file_fd) (\<lambda>fd1.
     seq (fcntl07_close K fd1 (printf ''close(file_fd) failed\<newline>'')) (
     bind (gets f07_pipe_fds) (\<lambda>fds.
     seq (fcntl07_close K (fst fds) (printf_errno ''close(pipe_fds[0]) failed, error number '' ''\<newline>'')) (
     seq (fcntl07_close K (snd fds) (printf_errno ''close(pipe_fds[1]) failed, error number '' ''\<newline>'')) (
     bind (gets f07_fifo_fd) (\<lambda>fd2.
     fcntl07_close K fd2 (printf_errno ''close(fifo_fd) failed, error number '' ''\<newline>''))))))))"

fun fcntl07_cases :: "kernel \<Rightarrow> ((fcntl07 \<Rightarrow> int) \<times> string) list \<Rightarrow> int \<Rightarrow> (fcntl07, int) family" where
  "fcntl07_cases K [] ok = alone (ret ok)"
| "fcntl07_cases K (tc # tcs) ok = (fbind (fcntl07_verify_cloexec K tc) (\<lambda>r.
     fcntl07_cases K tcs (ok * r)))"

definition fcntl07_main :: "kernel \<Rightarrow> (fcntl07, unit) family" where
  "fcntl07_main K = (fseq (alone (fcntl07_setup K)) (
     fbind (fcntl07_cases K fcntl07_tcases 1) (\<lambda>ok.
     alone (seq (if_then (ok \<noteq> 0) (printf ''test succeeded\<newline>'')) (
       fcntl07_cleanup K)))))"

text \<open>The function for the option \<^verbatim>\<open>-T\<close> is never called: \<^verbatim>\<open>main\<close> ignores its arguments.\<close>

definition fcntl07_test_open :: "kernel \<Rightarrow> string \<Rightarrow> (fcntl07, int) cprog" where
  "fcntl07_test_open K arg = (let fd = atoi arg in
     bind (libc K (Fcntl fd F_GETFD 0)) (\<lambda>rc.
     bind (gets errno) (\<lambda>e.
     if rc = -1 \<and> e = EBADF then
       ret 0
     else
     ret 1)))"

section \<open>fcntl12\<close>

record fcntl12 = proc +
  f12_fd :: int

definition fcntl12_init :: fcntl12 where
  "fcntl12_init = \<lparr>errno = 0, out = no_output, trace = [], f12_fd = -1\<rparr>"

text \<open>\<^verbatim>\<open>max_files\<close> is never set, so the loop over the files has no round.\<close>

definition fcntl12_verify_fcntl :: "kernel \<Rightarrow> (fcntl12, int) family" where
  "fcntl12_verify_fcntl K = (fbind (c_fork K) (\<lambda>pid.
     if pid = 0 then
       alone (bind (libc K (Fcntl 1 F_DUPFD 1)) (\<lambda>r.
       bind (gets errno) (\<lambda>e.
       if r = -1 \<and> e = EMFILE then
         ret 1
       else
       ret 0)))
     else
     alone (ret 0)))"

definition fcntl12_cleanup :: "kernel \<Rightarrow> (fcntl12, unit) cprog" where
  "fcntl12_cleanup K = (bind (gets f12_fd) (\<lambda>fd.
     seq (if_then (fd > -1) (call (libc K (Close fd)))) (
     call (libc K (Unlink ''testfile'')))))"

definition fcntl12_main :: "kernel \<Rightarrow> (fcntl12, unit) family" where
  "fcntl12_main K = (fbind (fcntl12_verify_fcntl K) (\<lambda>r.
     alone (seq (if_then (r \<noteq> 0) (printf ''test passed\<newline>'')) (
       fcntl12_cleanup K))))"

section \<open>Verdicts\<close>

text \<open>\<^verbatim>\<open>fcntl12\<close> passes on no kernel: its verdict is spelled \<^verbatim>\<open>test passed\<close>.\<close>

theorem fcntl12_never_passes: "\<not> family_passes (fcntl12_main K) fcntl12_init"
  by (rule never_passesI, unfold fcntl12_main_def fcntl12_verify_fcntl_def fcntl12_cleanup_def fcntl12_init_def merges)
    (simp add: run_simps cong: fork_congs split del: if_split; intro answeredI conjI impI allI; simp)

lemma execve05_loop_runs:
  "(\<And>s'. out s' = out s \<Longrightarrow> Q (Ret ok, s')) \<Longrightarrow> leads (execve05_loop K n ok) s Q"
proof (induction n arbitrary: s)
  case (Suc n)
  show ?case unfolding execve05_loop.simps
    apply (simp add: run_simps cong: lead_congs)
    apply (intro answeredI conjI impI allI)
     apply (rule Suc.IH, rule Suc.prems, simp)+
    done
qed (simp add: run_simps)

text \<open>C8. \<^verbatim>\<open>execve05\<close> and \<^verbatim>\<open>execve06\<close> pass on every kernel, also where \<^verbatim>\<open>fork\<close> or \<^verbatim>\<open>execve\<close> always fail: the process that is started announces
  success without looking at its children.\<close>

theorem execve_always_pass:
  "first_passes (execve05_main K) proc_init \<and> first_passes (execve06_main K) proc_init"
proof
  show "first_passes (execve05_main K) proc_init"
    unfolding execve05_main_def execve05_verify_execve_def
    by (rule first_passesI, simp add: run_simps cong: lead_congs)
      (rule execve05_loop_runs, simp add: run_simps proc_init_def cong: lead_congs)
  show "first_passes (execve06_main K) proc_init"
    unfolding execve06_main_def execve06_verify_execve_def merges
    by (rule first_passesI, simp add: run_simps proc_init_def cong: lead_congs)
      (intro answeredI conjI impI allI; simp)
qed

lemma execve02_runs:
  "fruns (execve02_main K) execve02_init (\<lambda>(fl, s'). announced (fl, s') \<longleftrightarrow>
      (case sr_ret (snd (last (trace s'))) of Inl e \<Rightarrow> e = EACCES | Inr v \<Rightarrow> announces (sr_bytes (snd (last (trace s'))))))
    (\<lambda>x. \<not> announced x)"
  unfolding execve02_main_def execve02_setup_def execve02_verify_execve_def execve02_do_child_def execve02_init_def merges
  by (simp add: run_simps cong: fork_congs split del: if_split; intro answeredI conjI impI allI;
    simp add: announces_scan)

text \<open>In \<^verbatim>\<open>execve02\<close> only the forked process can announce success, and nobody waits for it: the output of the process that is
  started never announces success. The forked one does exactly when its last call, the execution, fails with
  EACCES, or succeeds and the new image announces it.\<close>

theorem execve02_verdict:
  "\<not> first_passes (execve02_main K) execve02_init \<and>
   (family_passes (execve02_main K) execve02_init \<longleftrightarrow>
     list_ex (\<lambda>h. case sr_ret (snd (last h)) of Inl e \<Rightarrow> e = EACCES | Inr v \<Rightarrow> announces (sr_bytes (snd (last h))))
       (child_calls (execve02_main K) execve02_init))"
  using family_childI [OF execve02_runs] by simp

lemma execve04_runs:
  "fruns (execve04_main K) proc_init (\<lambda>x. \<not> announced x) (\<lambda>(fl, s'). announced (fl, s') \<longleftrightarrow>
    (case sr_ret (snd (last (trace s'))) of Inl e \<Rightarrow> e = ETXTBSY | Inr v \<Rightarrow> announces (sr_bytes (snd (last (trace s'))))))"
  unfolding execve04_main_def execve04_verify_execve_def execve04_do_child_def proc_init_def merges
  by (simp add: run_simps cong: fork_congs split del: if_split; intro answeredI conjI impI allI;
    simp add: announces_scan)

text \<open>\<^verbatim>\<open>execve04\<close> passes exactly when its execution fails with ETXTBSY, whether or not the child ever held the file open, or
  succeeds and the new image announces success.\<close>

theorem execve04_verdict:
  "family_passes (execve04_main K) proc_init \<longleftrightarrow>
   (let r = snd (last (family_calls (execve04_main K) proc_init)) in
    case sr_ret r of Inl e \<Rightarrow> e = ETXTBSY | Inr v \<Rightarrow> announces (sr_bytes r))"
  using family_verdictI [OF execve04_runs] by (simp add: Let_def)

text \<open>A kernel that executes the two helper programs: what a new image prints is what its program prints.\<close>

definition runs_images :: "kernel \<Rightarrow> bool" where
  "runs_images K \<longleftrightarrow>
    (\<forall>h argv env r. r = K h (ExecveWith ''./execve01_child'' argv (Some env)) \<longrightarrow> (\<exists>v. sr_ret r = Inr v) \<longrightarrow>
      sr_bytes r = log_of (execve01_child_main argv env proc_init)) \<and>
    (\<forall>h argv env r. r = K h (ExecveWith ''execve_child'' argv env) \<longrightarrow> (\<exists>v. sr_ret r = Inr v) \<longrightarrow>
      sr_bytes r = log_of (execve_child_main argv proc_init))"

lemma image_quiet:
  assumes "runs_images K"
  shows "K h (ExecveWith ''execve_child'' [''canary''] None) = r \<Longrightarrow> sr_ret r = Inr v \<Longrightarrow> scan 0 (sr_bytes r) = 0"
    and "K h (ExecveWith ''execve_child'' [''execve_child''] None) = r \<Longrightarrow> sr_ret r = Inr v \<Longrightarrow> scan 0 (sr_bytes r) = 0"
    and "K h (ExecveWith ''./execve01_child'' [''execve01_child'', ''canary''] (Some [''LTP_TEST_ENV_VAR=test'', x])) = r \<Longrightarrow>
      \<not> prefix ''LTP_TEST_ENV_VAR\<newline>='' x \<Longrightarrow> sr_ret r = Inr v \<Longrightarrow> scan 0 (sr_bytes r) = 0"
  using assms unfolding runs_images_def
  by (auto simp: execve_child_main_def execve01_child_main_def c_getenv_def printf_def modify_def proc_init_def)

lemma execve01_images:
  assumes "runs_images K" and "\<forall>h. \<not> prefix ''LTP_TEST_ENV_VAR\<newline>='' (takeWhile (\<lambda>c. c \<noteq> NUL) (fit 1024 (sr_bytes (K h (Indet ''ipc_env_var'')))))"
  shows "\<not> family_passes (execve01_main K) proc_init"
  unfolding execve01_main_def execve01_verify_execve_def unset_string_def proc_init_def merges
  apply (rule never_passesI)
  apply (simp add: run_simps cong: fork_congs split del: if_split)
  apply (intro answeredI' conjI impI allI)
  apply (auto simp: assms image_quiet [OF assms(1)])
  done

lemma execve02_images:
  assumes "runs_images K"
  shows "fruns (execve02_main K) execve02_init (\<lambda>(fl, s'). announced (fl, s') \<longleftrightarrow> failed_with (snd (last (trace s'))) EACCES) (\<lambda>x. \<not> announced x)"
  unfolding execve02_main_def execve02_setup_def execve02_verify_execve_def execve02_do_child_def execve02_init_def merges
  by (simp add: run_simps cong: fork_congs split del: if_split; intro answeredI' conjI impI allI;
    auto simp: failed_with_def image_quiet [OF assms])

lemma execve04_images:
  assumes "runs_images K"
  shows "fruns (execve04_main K) proc_init (\<lambda>x. \<not> announced x) (\<lambda>(fl, s'). announced (fl, s') \<longleftrightarrow> failed_with (snd (last (trace s'))) ETXTBSY)"
  unfolding execve04_main_def execve04_verify_execve_def execve04_do_child_def proc_init_def merges
  by (simp add: run_simps cong: fork_congs split del: if_split; intro answeredI' conjI impI allI;
    auto simp: failed_with_def image_quiet [OF assms])

text \<open>C34. With the helper programs of the repository as the images: \<^verbatim>\<open>execve01\<close> does not pass, because its child looks for a name that ends
  in a newline, unless the array that \<^verbatim>\<open>execve01\<close> does not write spells such an entry; \<^verbatim>\<open>execve02\<close> and \<^verbatim>\<open>execve04\<close> pass exactly when
  the execution is refused with the error they expect.\<close>

theorem execve_images:
  assumes "runs_images K" and "\<forall>h. \<not> prefix ''LTP_TEST_ENV_VAR\<newline>='' (takeWhile (\<lambda>c. c \<noteq> NUL) (fit 1024 (sr_bytes (K h (Indet ''ipc_env_var'')))))"
  shows "\<not> family_passes (execve01_main K) proc_init \<and>
    (family_passes (execve02_main K) execve02_init \<longleftrightarrow> list_ex (\<lambda>h. failed_with (snd (last h)) EACCES) (child_calls (execve02_main K) execve02_init)) \<and>
    (family_passes (execve04_main K) proc_init \<longleftrightarrow> failed_with (snd (last (family_calls (execve04_main K) proc_init))) ETXTBSY)"
  using execve01_images [OF assms] family_childI(1) [OF execve02_images [OF assms(1)]] family_verdictI [OF execve04_images [OF assms(1)]]
  by simp

text \<open>A kernel that forks, executes the first helper and refuses the second one.\<close>

definition image_kernel :: kernel where
  "image_kernel h c = (case c of
     ExecveWith p argv env \<Rightarrow> (if p = ''./execve01_child''
       then (sys_ok 0)\<lparr>sr_bytes := log_of (execve01_child_main argv (case env of None \<Rightarrow> [] | Some e \<Rightarrow> e) proc_init)\<rparr>
       else sys_err EACCES)
   | _ \<Rightarrow> sys_ok 0)"

theorem execve_images_witness:
  "\<not> family_passes (execve01_main image_kernel) proc_init \<and>
    (family_passes (execve02_main image_kernel) execve02_init \<longleftrightarrow>
      list_ex (\<lambda>h. failed_with (snd (last h)) EACCES) (child_calls (execve02_main image_kernel) execve02_init)) \<and>
    (family_passes (execve04_main image_kernel) proc_init \<longleftrightarrow>
      failed_with (snd (last (family_calls (execve04_main image_kernel) proc_init))) ETXTBSY)"
  by (rule execve_images) (auto simp: runs_images_def image_kernel_def fit_def)

text \<open>\<^verbatim>\<open>mprotect03\<close> passes exactly when its file can be opened and mapped and the protection changed, the fork succeeds, and the status it
  then holds has exit code 0: a child killed by any signal will do, and so will a failed \<^verbatim>\<open>waitpid\<close>.\<close>

theorem mprotect03_verdict:
  "family_passes (mprotect03_main K) mprotect03_init \<longleftrightarrow>
   (let h = family_calls (mprotect03_main K) mprotect03_init in
    0 \<le> rv (snd (h ! 1)) \<and> ptr_of (snd (h ! 3)) \<noteq> MAP_FAILED \<and> 0 \<le> rv (snd (h ! 4)) \<and> 0 \<le> rv (snd (h ! 5)) \<and>
    WEXITSTATUS (status_seen (snd (h ! 6)) 0) = 0)"
proof (rule family_verdictI)
  show "fruns (mprotect03_main K) mprotect03_init (\<lambda>x. \<not> announced x) (\<lambda>(fl, s'). announced (fl, s') \<longleftrightarrow>
    (let h = trace s' in
     0 \<le> rv (snd (h ! 1)) \<and> ptr_of (snd (h ! 3)) \<noteq> MAP_FAILED \<and> 0 \<le> rv (snd (h ! 4)) \<and> 0 \<le> rv (snd (h ! 5)) \<and>
     WEXITSTATUS (status_seen (snd (h ! 6)) 0) = 0))"
    unfolding mprotect03_main_def mprotect03_setup_def mprotect03_protected_def mprotect03_child_def mprotect03_init_def merges
    by (simp add: run_simps cong: fork_congs split del: if_split; intro answeredI conjI impI allI;
      simp add: rv_not_m1)
qed

text \<open>The statuses \<^verbatim>\<open>fcntl07\<close> acts on: the ones \<^verbatim>\<open>waitpid\<close> stored, or what the variable held when it failed.\<close>

fun statuses :: "event list \<Rightarrow> int list" where
  "statuses [] = []"
| "statuses ((c, r) # h) = (case c of
       Waitpid pid opts \<Rightarrow> (case sr_ret r of Inl e \<Rightarrow> statuses h | Inr v \<Rightarrow> sr_int r # statuses h)
     | Indet x \<Rightarrow> sr_int r # statuses h
     | _ \<Rightarrow> statuses h)"

lemma statuses_append [simp]: "statuses (h @ h') = statuses h @ statuses h'"
  by (induction h rule: statuses.induct) (auto split: syscall.splits proc_call.splits sum.splits)

lemma fcntl07_reaped_runs:
  assumes "clear s" and "scan 0 msg = 0"
    and "\<And>r s'. clear s' \<Longrightarrow> trace s' = trace s \<Longrightarrow> (r \<noteq> 0 \<longleftrightarrow> exited_0 status) \<Longrightarrow> P (Ret r, s')"
  shows "runs (fcntl07_reaped msg status) s P"
  using assms(1,2) unfolding fcntl07_reaped_def
  by (auto simp: run_simps exited_0_def clear_def intro!: assms(3))

lemma fcntl07_case_leads:
  assumes "clear s" and "scan 0 (snd tc) = 0"
    and "\<And>r ws s'. clear s' \<Longrightarrow> statuses (trace s') = statuses (trace s) @ ws \<Longrightarrow> length ws \<le> 1 \<Longrightarrow>
      (r \<noteq> 0 \<longleftrightarrow> length ws = 1 \<and> list_all exited_0 ws) \<Longrightarrow> Q (Ret r, s')"
  shows "leads (fcntl07_verify_cloexec K tc) s Q"
proof -
  have none: "clear s' \<Longrightarrow> statuses (trace s') = statuses (trace s) \<Longrightarrow> Q (Ret 0, s')" for s'
    by (rule assms(3) [of s' "[]"]) simp_all
  have reaped: "runs (fcntl07_reaped (snd tc) w) s' Q"
    if "clear s'" "statuses (trace s') = statuses (trace s) @ [w]" for w s'
    using that assms(2) by (auto intro!: fcntl07_reaped_runs assms(3) [of _ "[w]"])
  show ?thesis
    using assms(1,2) unfolding fcntl07_verify_cloexec_def
    apply (simp add: run_simps Let_def cong: lead_congs)
    apply (intro answeredI conjI impI allI)
       apply (rule none; simp add: clear_def)
      apply (rule none; simp add: clear_def)
     apply (rule reaped; simp add: clear_def)
    apply (rule reaped; auto simp: clear_def)
    done
qed

lemma fcntl07_cases_leads:
  assumes "clear s" and "list_all (\<lambda>tc. scan 0 (snd tc) = 0) tcs"
    and "\<And>ok' ws s'. clear s' \<Longrightarrow> statuses (trace s') = statuses (trace s) @ ws \<Longrightarrow> length ws \<le> length tcs \<Longrightarrow>
      (ok' \<noteq> 0 \<longleftrightarrow> ok \<noteq> 0 \<and> length ws = length tcs \<and> list_all exited_0 ws) \<Longrightarrow> Q (Ret ok', s')"
  shows "leads (fcntl07_cases K tcs ok) s Q"
  using assms
proof (induction tcs arbitrary: s ok)
  case Nil
  from Nil.prems(1) Nil.prems(3) [of s "[]" ok] show ?case by (simp add: run_simps)
next
  case (Cons tc tcs)
  show ?case
    unfolding fcntl07_cases.simps leads_bind
  proof (rule fcntl07_case_leads)
    fix r :: int and ws and s' :: fcntl07
    assume s': "clear s'" "statuses (trace s') = statuses (trace s) @ ws" "length ws \<le> 1"
      and r: "r \<noteq> 0 \<longleftrightarrow> length ws = 1 \<and> list_all exited_0 ws"
    have "leads (fcntl07_cases K tcs (ok * r)) s' Q"
    proof (rule Cons.IH)
      fix ok' :: int and ws' and s'' :: fcntl07
      assume "clear s''" "statuses (trace s'') = statuses (trace s') @ ws'" "length ws' \<le> length tcs"
        and "ok' \<noteq> 0 \<longleftrightarrow> ok * r \<noteq> 0 \<and> length ws' = length tcs \<and> list_all exited_0 ws'"
      with s' r show "Q (Ret ok', s'')" by (intro Cons.prems(3) [of s'' "ws @ ws'" ok']) auto
    qed (use s' Cons.prems in simp_all)
    then show "lkont (\<lambda>r. fcntl07_cases K tcs (ok * r)) Q (Ret r, s')" by simp
  qed (use Cons.prems in simp_all)
qed

text \<open>The end of \<^verbatim>\<open>main\<close>: what is closed does not matter any more.\<close>

definition settled :: "'m proc_scheme \<Rightarrow> bool" where
  "settled s \<longleftrightarrow> whole (out s)"

lemma fcntl07_close_runs:
  assumes "settled s" and "scan 0 t = 0"
    and "\<And>s'. settled s' \<Longrightarrow> scan 0 (out s') = scan 0 (out s) \<Longrightarrow> statuses (trace s') = statuses (trace s) \<Longrightarrow> P (Ret (), s')"
  shows "runs (fcntl07_close K fd (printf t)) s P"
    and "scan 0 u = 0 \<Longrightarrow> runs (fcntl07_close K fd (printf_errno t u)) s P"
  using assms(1,2) unfolding fcntl07_close_def
  by (auto simp: run_simps settled_def whole_def intro!: answeredI assms(3))

lemma fcntl07_cleanup_runs:
  assumes "settled s"
    and "\<And>s'. scan 0 (out s') = scan 0 (out s) \<Longrightarrow> statuses (trace s') = statuses (trace s) \<Longrightarrow> P (Ret (), s')"
  shows "runs (fcntl07_cleanup K) s P"
  using assms(1) unfolding fcntl07_cleanup_def
  by (auto simp: run_simps intro!: fcntl07_close_runs assms(2))

text \<open>C11. The process \<^verbatim>\<open>fcntl07\<close> starts announces success exactly when it holds four statuses, one for each kind of descriptor, and each says an
  exit with code 0. A case that cannot set the flag or fork has no status, and where \<^verbatim>\<open>waitpid\<close> failed the status is an uninitialised
  value. What the children print is another matter.\<close>

theorem fcntl07_verdict:
  "first_passes (fcntl07_main K) fcntl07_init \<longleftrightarrow>
   (let ws = statuses (family_calls (fcntl07_main K) fcntl07_init) in
    length ws = 4 \<and> list_all exited_0 ws)"
proof (rule first_verdictI)
  have tcs: "list_all (\<lambda>tc. scan 0 (snd tc) = 0) fcntl07_tcases" "length fcntl07_tcases = 4"
    by (simp_all add: fcntl07_tcases_def)
  show "leads (fcntl07_main K) fcntl07_init (\<lambda>(fl, s'). announced (fl, s') \<longleftrightarrow>
      (let ws = statuses (trace s') in length ws = 4 \<and> list_all exited_0 ws))"
    unfolding fcntl07_main_def fcntl07_setup_def fcntl07_init_def merges
    apply (simp add: run_simps cong: lead_congs)
    apply (intro answeredI)
    apply (rule fcntl07_cases_leads)
      apply (simp add: clear_def)
     apply (rule tcs(1))
    apply (simp add: run_simps clear_def tcs cong: lead_congs split del: if_split)
    apply (rule fcntl07_cleanup_runs)
     apply (simp_all add: settled_def whole_def)
    done
qed

end
