(* ===== verification/Prctl_Fork_Tests.thy ===== *)
theory Prctl_Fork_Tests
  imports Family Prctl_Tests
begin

text \<open>
  The prctl tests (\<^verbatim>\<open>independent tests/syscalls/prctl/\<close>) that fork: the subreaper (\<^verbatim>\<open>prctl03\<close>), secure computing
  (\<^verbatim>\<open>prctl04\<close>), the timer slack (\<^verbatim>\<open>prctl08\<close>) and the time stamp counter (\<^verbatim>\<open>prctl10\<close>).
\<close>

section \<open>Constants\<close>

abbreviation (input) "PR_GET_TSC \<equiv> (25::int)"
abbreviation (input) "PR_SET_TSC \<equiv> (26::int)"
abbreviation (input) "PR_SET_TIMERSLACK \<equiv> (29::int)"
abbreviation (input) "PR_GET_TIMERSLACK \<equiv> (30::int)"
abbreviation (input) "PR_SET_CHILD_SUBREAPER \<equiv> (36::int)"
abbreviation (input) "PR_GET_CHILD_SUBREAPER \<equiv> (37::int)"
abbreviation (input) "PR_TSC_ENABLE \<equiv> (1::int)"
abbreviation (input) "PR_TSC_SIGSEGV \<equiv> (2::int)"
abbreviation (input) "SECCOMP_MODE_STRICT \<equiv> (1::int)"
abbreviation (input) "SECCOMP_MODE_FILTER \<equiv> (2::int)"
abbreviation (input) "SIGKILL \<equiv> (9::int)"
abbreviation (input) "SIGCHLD \<equiv> (17::int)"
abbreviation (input) "SIGSYS \<equiv> (31::int)"

section \<open>prctl03\<close>

record prctl03 = proc +
  p03_recv :: int

definition prctl03_init :: prctl03 where
  "prctl03_init = \<lparr>errno = 0, out = no_output, trace = [], p03_recv = 0\<rparr>"

text \<open>A call, and the runs of the handler for the signals delivered before it returned. Signals that arrive elsewhere are
  counted with the next such call.\<close>

definition prctl03_sighandler :: "sysres \<Rightarrow> (prctl03, unit) cprog" where
  "prctl03_sighandler r = modify (\<lambda>s. s\<lparr>p03_recv := p03_recv s + int (length (filter (\<lambda>g. g = SIGCHLD) (sr_sigs r)))\<rparr>)"

definition prctl03_call :: "kernel \<Rightarrow> syscall \<Rightarrow> (prctl03, sysres) cprog" where
  "prctl03_call K c = (bind (libc_res K c) (\<lambda>r.
     seq (prctl03_sighandler r) (
     ret r)))"

definition prctl03_check_get_subreaper :: "kernel \<Rightarrow> int \<Rightarrow> (prctl03, unit) cprog" where
  "prctl03_check_get_subreaper K exp_val = (bind (prctl03_call K (Prctl PR_GET_CHILD_SUBREAPER [PObj ''get_val''])) (\<lambda>r.
     if rv r = -1 then
       printf_errno ''prctl(PR_GET_CHILD_SUBREAPER) failed, error number '' ''\<newline>''
     else
     if sr_int r = exp_val then
       printf (''prctl(PR_GET_CHILD_SUBREAPER) got expected '' @ show_int (sr_int r) @ ''\<newline>'')
     else
     printf (''prctl(PR_GET_CHILD_SUBREAPER) got '' @ show_int (sr_int r) @ '', expected '' @ show_int exp_val @ ''\<newline>'')))"

definition prctl03_orphan :: "kernel \<Rightarrow> int \<Rightarrow> (prctl03, int) cprog" where
  "prctl03_orphan K ppid = (bind (libc K Getppid) (\<lambda>p.
     if p \<noteq> ppid then
       (seq (printf ''PPID of orphaned process was not reparented\<newline>'') (
       ret 0))
     else
     seq (printf ''PPID of orphaned process was reparented\<newline>'') (
     ret 1)))"

text \<open>The end of \<^verbatim>\<open>verify_prctl\<close>, which returns no value.\<close>

definition prctl03_rest :: "kernel \<Rightarrow> (prctl03, int) cprog" where
  "prctl03_rest K = (bind (prctl03_call K Wait) (\<lambda>w.
     seq ((if rv w > 0 then printf (''wait() got orphaned process, pid '' @ show_int (rv w) @ '', status '' @ show_int (sr_int w) @ ''\<newline>'')
      else printf_errno ''wait() failed to get orphaned process, error number '' ''\<newline>'')) (
     bind (gets p03_recv) (\<lambda>n.
     seq ((if n = 2 then printf ''received SIGCHLD from orphaned process\<newline>''
      else printf ''didn't receive SIGCHLD from orphaned process\<newline>'')) (
     seq (prctl03_check_get_subreaper K 1) (
     indet K ''verify_prctl()''))))))"

definition prctl03_verify_prctl :: "kernel \<Rightarrow> (prctl03, int) family" where
  "prctl03_verify_prctl K = (fbind (alone (libc K Getpid)) (\<lambda>ppid.
     fseq (alone (modify (\<lambda>s. s\<lparr>p03_recv := 0\<rparr>))) (
     fbind (alone (prctl03_call K (Prctl PR_SET_CHILD_SUBREAPER [PNum 1]))) (\<lambda>r.
     if rv r = -1 then
       alone (bind (gets errno) (\<lambda>e.
       seq ((if e = EINVAL then printf ''prctl() doesn't support PR_SET_CHILD_SUBREAPER\<newline>''
        else printf_errno ''prctl(PR_SET_CHILD_SUBREAPER) failed, error number '' ''\<newline>'')) (
       ret 0)))
     else
     fseq (alone (printf ''prctl(PR_SET_CHILD_SUBREAPER) succeeded\<newline>'')) (
     fbind (c_fork K) (\<lambda>pid.
     if pid = 0 then
       (fbind (c_fork K) (\<lambda>cpid.
       if cpid = 0 then
         alone (prctl03_orphan K ppid)
       else
       fseq (alone (prctl03_check_get_subreaper K 0)) (
       alone (prctl03_rest K))))
     else
     alone (prctl03_rest K)))))))"

definition prctl03_setup :: "kernel \<Rightarrow> (prctl03, unit) cprog" where
  "prctl03_setup K = call (libc K (Signal SIGCHLD))"

definition prctl03_main :: "kernel \<Rightarrow> (prctl03, unit) family" where
  "prctl03_main K = (fseq (alone (prctl03_setup K)) (
     fbind (prctl03_verify_prctl K) (\<lambda>r.
     alone (if_then (r = 1) (printf ''test succeeded\<newline>'')))))"

section \<open>prctl04\<close>

text \<open>\<open>p04_confined\<close> says whether the process has given up system calls: then the kernel may kill it at any of them. What a
  process has printed is still written out when it ends, since writing is permitted in both modes.\<close>

record prctl04 = proc +
  p04_mode_filter_not_supported :: int
  p04_confined :: bool

definition prctl04_init :: prctl04 where
  "prctl04_init = \<lparr>errno = 0, out = no_output, trace = [], p04_mode_filter_not_supported = 0, p04_confined = False\<rparr>"

record prctl04_case =
  p04_strict :: bool
  p04_pass_flag :: int
  p04_val :: int
  p04_exp_signal :: int
  p04_message :: string

definition prctl04_tcases :: "prctl04_case list" where
  "prctl04_tcases =
     [\<lparr>p04_strict = True, p04_pass_flag = 1, p04_val = 1, p04_exp_signal = SIGKILL,
        p04_message = ''SECCOMP_MODE_STRICT doesn't permit GET_SECCOMP call''\<rparr>,
      \<lparr>p04_strict = True, p04_pass_flag = 0, p04_val = 2, p04_exp_signal = SIGKILL,
        p04_message = ''SECCOMP_MODE_STRICT doesn't permit read(2) write(2) and _exit(2)''\<rparr>,
      \<lparr>p04_strict = True, p04_pass_flag = 1, p04_val = 3, p04_exp_signal = SIGKILL,
        p04_message = ''SECCOMP_MODE_STRICT doesn't permit close(2)''\<rparr>,
      \<lparr>p04_strict = False, p04_pass_flag = 1, p04_val = 1, p04_exp_signal = SIGSYS,
        p04_message = ''SECCOMP_MODE_FILTER doestn't permit GET_SECCOMP call''\<rparr>,
      \<lparr>p04_strict = False, p04_pass_flag = 0, p04_val = 2, p04_exp_signal = SIGSYS,
        p04_message = ''SECCOMP_MODE_FILTER doesn't permit close(2)''\<rparr>,
      \<lparr>p04_strict = False, p04_pass_flag = 2, p04_val = 3, p04_exp_signal = SIGSYS,
        p04_message = ''SECCOMP_MODE_FILTER doesn't permit exit()''\<rparr>,
      \<lparr>p04_strict = False, p04_pass_flag = 0, p04_val = 4, p04_exp_signal = SIGSYS,
        p04_message = ''SECCOMP_MODE_FILTER doesn't permit exit()''\<rparr>]"

definition prctl04_permitted :: "kernel \<Rightarrow> (prctl04, unit) cprog" where
  "prctl04_permitted K = (bind (gets p04_confined) (\<lambda>c.
     if_then c (undefined_call K ''seccomp'')))"

definition prctl04_call :: "kernel \<Rightarrow> syscall \<Rightarrow> (prctl04, sysres) cprog" where
  "prctl04_call K c = (seq (prctl04_permitted K) (
     libc_res K c))"

definition prctl04_fork :: "kernel \<Rightarrow> (prctl04, int) family" where
  "prctl04_fork K = (fseq (alone (prctl04_permitted K)) (
     c_fork K))"

text \<open>The status variable is not initialised.\<close>

definition prctl04_wait :: "kernel \<Rightarrow> int \<Rightarrow> string \<Rightarrow> (prctl04, int) cprog" where
  "prctl04_wait K pid x = (bind (prctl04_call K (Waitpid pid 0)) (\<lambda>w.
     (case sr_ret w of Inl e \<Rightarrow> indet K x | Inr v \<Rightarrow> ret (sr_int w))))"

definition prctl04_check_filter_mode_inherit :: "kernel \<Rightarrow> (prctl04, unit) family" where
  "prctl04_check_filter_mode_inherit K = (fbind (prctl04_fork K) (\<lambda>childpid.
     fseq (fif_then (childpid = 0) (alone (seq (printf ''SECCOMP_MODE_FILTER permits fork(2)\<newline>'') (
       c_exit 0)))) (
     alone (bind (prctl04_wait K childpid ''childstatus'') (\<lambda>childstatus.
       (if WIFSIGNALED childstatus \<and> WTERMSIG childstatus = SIGSYS
        then printf ''SECCOMP_MODE_FILTER has been inherited by child\<newline>''
        else printf ''SECCOMP_MODE_FILTER isn't been inherited by child\<newline>''))))))"

definition prctl04_check_strict_mode :: "kernel \<Rightarrow> int \<Rightarrow> (prctl04, unit) cprog" where
  "prctl04_check_strict_mode K val = (bind (prctl04_call K (Open ''filename'' (O_RDWR OR O_CREAT) mode_0666)) (\<lambda>f.
     let fd = rv f in
     bind (prctl04_call K (Prctl PR_SET_SECCOMP [PNum SECCOMP_MODE_STRICT])) (\<lambda>r.
     if rv r = -1 then
       printf_errno ''prctl(PR_SET_SECCOMP) sets SECCOMP_MODE_STRICT failed, error number '' ''\<newline>''
     else
     seq (modify (\<lambda>s. s\<lparr>p04_confined := True\<rparr>)) (
     if val = 1 then
       (seq (printf ''prctl(PR_SET_SECCOMP) sets SECCOMP_MODE_STRICT succeed\<newline>'') (
       seq (call (prctl04_call K (Prctl PR_GET_SECCOMP []))) (
       printf ''prctl(PR_GET_SECCOMP) succeed unexpectedly\<newline>'')))
     else
     if val = 2 then
       (seq (call (prctl04_call K (Write fd (Bytes ''a'') 1))) (
       seq (call (prctl04_call K (Read fd 1))) (
       printf ''SECCOMP_MODE_STRICT permits read(2) write(2) and _exit(2)\<newline>'')))
     else
     if_then (val = 3) (seq (call (prctl04_call K (Close fd))) (
       printf ''SECCOMP_MODE_STRICT permits close(2) unexpectdly\<newline>''))))))"

definition prctl04_check_filter_mode :: "kernel \<Rightarrow> int \<Rightarrow> (prctl04, unit) family" where
  "prctl04_check_filter_mode K val = (fbind (alone (gets p04_mode_filter_not_supported)) (\<lambda>ns.
     if ns = 1 then
       alone (printf ''kernel doesn't support SECCOMP_MODE_FILTER\<newline>'')
     else
     fbind (alone (prctl04_call K (Open ''filename'' (O_RDWR OR O_CREAT) mode_0666))) (\<lambda>f.
     fbind (alone (prctl04_call K (Prctl PR_SET_SECCOMP [PNum SECCOMP_MODE_FILTER, PObj ''strict'']))) (\<lambda>r.
     if rv r = -1 then
       alone (printf_errno ''prctl(PR_SET_SECCOMP) sets SECCOMP_MODE_FILTER failed, error number '' ''\<newline>'')
     else
     fseq (alone (modify (\<lambda>s. s\<lparr>p04_confined := True\<rparr>))) (
     if val = 1 then
       alone (seq (printf ''prctl(PR_SET_SECCOMP) sets SECCOMP_MODE_FILTER succeed\<newline>'') (
       seq (call (prctl04_call K (Prctl PR_GET_SECCOMP []))) (
       printf ''prctl(PR_GET_SECCOMP) succeed unexpectedly\<newline>'')))
     else
     if val = 2 then
       alone (seq (call (prctl04_call K (Close (rv f)))) (
       printf ''SECCOMP_MODE_FILTER permits close(2)\<newline>''))
     else
     if val = 3 then
       alone (c_exit 0)
     else
     fif_then (val = 4) (prctl04_check_filter_mode_inherit K))))))"

text \<open>What a parent makes of the status of its child; where it falls off its end, any value is returned.\<close>

definition prctl04_judge :: "kernel \<Rightarrow> prctl04_case \<Rightarrow> int \<Rightarrow> (prctl04, int) cprog" where
  "prctl04_judge K tc status = (bind (gets p04_mode_filter_not_supported) (\<lambda>ns.
     if WIFSIGNALED status \<and> WTERMSIG status = p04_exp_signal tc then
       (seq (printf (p04_message tc @ ''\<newline>'')) (
       ret (if p04_pass_flag tc \<noteq> 0 then 1 else 0)))
     else
     if p04_pass_flag tc = 2 \<and> ns = 0 then
       (seq (printf ''SECCOMP_MODE_FILTER permits exit() unexpectedly\<newline>'') (
       ret 0))
     else
     indet K ''verify_prctl()''))"

text \<open>A child whose check returns falls off the end too, and goes on with the next case.\<close>

definition prctl04_verify_prctl :: "kernel \<Rightarrow> prctl04_case \<Rightarrow> (prctl04, int) family" where
  "prctl04_verify_prctl K tc = (fbind (prctl04_fork K) (\<lambda>pid.
     if pid = 0 then
       (fseq ((if p04_strict tc then alone (prctl04_check_strict_mode K (p04_val tc)) else prctl04_check_filter_mode K (p04_val tc))) (
       alone (indet K ''verify_prctl()'')))
     else
     alone (bind (prctl04_wait K pid ''status'') (\<lambda>status.
       prctl04_judge K tc status))))"

definition prctl04_setup :: "kernel \<Rightarrow> (prctl04, unit) cprog" where
  "prctl04_setup K = (bind (libc K (Prctl PR_GET_SECCOMP [])) (\<lambda>r.
     if r = 0 then
       (seq (printf ''[I] kernel supports PR_GET/SET_SECCOMP\<newline>'') (
       bind (libc K (Prctl PR_SET_SECCOMP [PNum SECCOMP_MODE_FILTER, PNum 0])) (\<lambda>r'.
       bind (gets errno) (\<lambda>e.
       if r' = -1 \<and> e = EINVAL then
         (modify (\<lambda>s. s\<lparr>p04_mode_filter_not_supported := 1\<rparr>))
       else
       printf ''[I] kernel supports SECCOMP_MODE_FILTER\<newline>''))))
     else
     bind (gets errno) (\<lambda>e.
     seq (if_then (e = EINVAL) (printf ''kernel doesn't support PR_GET/SET_SECCOMP\<newline>'')) (
     printf_errno ''current environment doesn't permit PR_GET/SET_SECCOMP, error number '' ''\<newline>''))))"

fun prctl04_cases :: "kernel \<Rightarrow> prctl04_case list \<Rightarrow> int \<Rightarrow> (prctl04, int) family" where
  "prctl04_cases K [] ok = alone (ret ok)"
| "prctl04_cases K (tc # tcs) ok = (fbind (prctl04_verify_prctl K tc) (\<lambda>r.
     prctl04_cases K tcs (if r = 0 then 0 else ok)))"

definition prctl04_main :: "kernel \<Rightarrow> (prctl04, unit) family" where
  "prctl04_main K = (fseq (alone (prctl04_setup K)) (
     fbind (prctl04_cases K prctl04_tcases 1) (\<lambda>ok.
     alone (if_then (ok \<noteq> 0) (printf ''test succeeded\<newline>'')))))"

section \<open>prctl08\<close>

record prctl08 = proc +
  p08_origin_value :: int
  p08_proc_flag :: int

definition prctl08_init :: prctl08 where
  "prctl08_init = \<lparr>errno = 0, out = no_output, trace = [], p08_origin_value = 0, p08_proc_flag = 1\<rparr>"

datatype slack_check = Check_reset | Check_get | Check_inherit

record prctl08_case =
  p08_func_check :: slack_check
  p08_setvalue :: int
  p08_expvalue :: int
  p08_message :: string

definition prctl08_tcases :: "prctl08_case list" where
  "prctl08_tcases =
     [\<lparr>p08_func_check = Check_reset, p08_setvalue = 0, p08_expvalue = 50000, p08_message = ''Reset''\<rparr>,
      \<lparr>p08_func_check = Check_get, p08_setvalue = 1, p08_expvalue = 1, p08_message = ''Min''\<rparr>,
      \<lparr>p08_func_check = Check_get, p08_setvalue = 70000, p08_expvalue = 70000, p08_message = ''Middle''\<rparr>,
      \<lparr>p08_func_check = Check_get, p08_setvalue = 2147483647, p08_expvalue = 2147483647, p08_message = ''Max''\<rparr>,
      \<lparr>p08_func_check = Check_inherit, p08_setvalue = 70000, p08_expvalue = 70000, p08_message = ''Child process''\<rparr>]"

text \<open>An \<^verbatim>\<open>int\<close> printed with \<^verbatim>\<open>%lu\<close>: the lower half of the register.\<close>

definition show_lu :: "int \<Rightarrow> string" where
  "show_lu r = show_int (r mod 2 ^ 32)"

definition prctl08_check_get_timerslack :: "kernel \<Rightarrow> string \<Rightarrow> int \<Rightarrow> (prctl08, unit) cprog" where
  "prctl08_check_get_timerslack K message value = (bind (libc K (Prctl PR_GET_TIMERSLACK [])) (\<lambda>r.
     (if r mod 2 ^ 64 = value then printf (message @ '' prctl(PR_GET_TIMERSLACK) got '' @ show_int value @ '' expectedly\<newline>'')
      else printf (message @ '' prctl(PR_GET_TIMERSLACK) expected '' @ show_int value @ '' got '' @ show_lu r @ ''\<newline>''))))"

definition prctl08_check_reset_timerslack :: "kernel \<Rightarrow> string \<Rightarrow> (prctl08, unit) cprog" where
  "prctl08_check_reset_timerslack K message = (bind (gets p08_origin_value) (\<lambda>v.
     prctl08_check_get_timerslack K message v))"

text \<open>The child goes on like its parent.\<close>

definition prctl08_check_inherit_timerslack :: "kernel \<Rightarrow> string \<Rightarrow> int \<Rightarrow> (prctl08, unit) family" where
  "prctl08_check_inherit_timerslack K message value = (fbind (c_fork K) (\<lambda>pid.
     fif_then (pid = 0) (alone (bind (libc K (Prctl PR_GET_TIMERSLACK [])) (\<lambda>c.
       seq (call (libc K (Prctl PR_SET_TIMERSLACK [PNum 0]))) (
       bind (libc K (Prctl PR_GET_TIMERSLACK [])) (\<lambda>d.
       (if c mod 2 ^ 64 = value \<and> d mod 2 ^ 64 = value
        then printf (message @ '' two timer slack values are made the same as the current value('' @ show_int value @ '') of the creating thread.'')
        else printf (message @ '' current_value is '' @ show_int (c mod 2 ^ 64) @ '', default value is '' @ show_int (d mod 2 ^ 64)
          @ '', the parent current value is '' @ show_int value)))))))))"

definition prctl08_verify_prctl :: "kernel \<Rightarrow> prctl08_case \<Rightarrow> (prctl08, int) family" where
  "prctl08_verify_prctl K tc = (fbind (alone (libc K (Prctl PR_SET_TIMERSLACK [PNum (p08_setvalue tc)]))) (\<lambda>r.
     if r = -1 then
       alone (seq (printf_errno (''prctl(PR_SET_TIMERSLACK, '' @ show_int (p08_setvalue tc) @ '') failed, error number '') ''\<newline>'') (
       ret 0))
     else
     fseq (alone (printf (''prctl(PR_SET_TIMERSLACK, '' @ show_int (p08_setvalue tc) @ '') succeed\<newline>''))) (
     fseq ((case p08_func_check tc of
        Check_reset \<Rightarrow> alone (prctl08_check_reset_timerslack K (p08_message tc))
      | Check_get \<Rightarrow> alone (prctl08_check_get_timerslack K (p08_message tc) (p08_expvalue tc))
      | Check_inherit \<Rightarrow> prctl08_check_inherit_timerslack K (p08_message tc) (p08_expvalue tc))) (
     alone (ret 1)))))"

definition prctl08_setup :: "kernel \<Rightarrow> (prctl08, unit) cprog" where
  "prctl08_setup K = (bind (libc K (Access ''/proc/self/timerslack_ns'' 0)) (\<lambda>a.
     seq (if_then (a = -1) (seq (printf ''proc doesn't support timerslack_ns interface\<newline>'') (
       modify (\<lambda>s. s\<lparr>p08_proc_flag := 0\<rparr>)))) (
     bind (libc K (Prctl PR_GET_TIMERSLACK [])) (\<lambda>r.
     printf (''[I] current timerslack value is '' @ show_lu r @ ''\<newline>'')))))"

fun prctl08_cases :: "kernel \<Rightarrow> prctl08_case list \<Rightarrow> int \<Rightarrow> (prctl08, int) family" where
  "prctl08_cases K [] ok = alone (ret ok)"
| "prctl08_cases K (tc # tcs) ok = (fbind (prctl08_verify_prctl K tc) (\<lambda>r.
     prctl08_cases K tcs (if r = 0 then 0 else ok)))"

definition prctl08_main :: "kernel \<Rightarrow> (prctl08, unit) family" where
  "prctl08_main K = (fseq (alone (prctl08_setup K)) (
     fbind (prctl08_cases K prctl08_tcases 1) (\<lambda>ok.
     alone (if_then (ok \<noteq> 0) (printf ''test succeeded\<newline>'')))))"

section \<open>prctl10\<close>

definition prctl10_names :: "string list" where
  "prctl10_names = [''[not set]'', ''PR_TSC_ENABLE'', ''PR_TSC_SIGSEGV'']"

definition prctl10_tcases :: "(string \<times> int) list" where
  "prctl10_tcases = [(''PR_TSC_ENABLE'', PR_TSC_ENABLE), (''PR_TSC_SIGSEGV'', PR_TSC_SIGSEGV)]"

text \<open>The instruction may raise a signal.\<close>

definition prctl10_rdtsc :: "kernel \<Rightarrow> (proc, nat) cprog" where
  "prctl10_rdtsc K = (bind (invoke K Rdtsc) (\<lambda>r.
     (case sr_ret r of Inl g \<Rightarrow> die g | Inr v \<Rightarrow> ret (v mod 2 ^ 64))))"

text \<open>A 64-bit value printed with \<^verbatim>\<open>%lld\<close>.\<close>

definition show_lld :: "nat \<Rightarrow> string" where
  "show_lld v = show_int (if v < 2 ^ 63 then int v else int v - 2 ^ 64)"

definition prctl10_expected_status :: "int \<Rightarrow> int \<Rightarrow> int" where
  "prctl10_expected_status status exp_status =
     (if exp_status = 0 \<and> WIFEXITED status then 0
      else if exp_status \<noteq> 0 \<and> WIFSIGNALED status \<and> WTERMSIG status = exp_status then 0
      else 1)"

definition prctl10_child :: "kernel \<Rightarrow> string \<times> int \<Rightarrow> (proc, int) cprog" where
  "prctl10_child K tc = (seq (call (libc K (Prctl PR_SET_TSC [PNum (snd tc)]))) (
     bind (libc_res K (Prctl PR_GET_TSC [PObj ''tsc_val''])) (\<lambda>g.
     let tsc_val = status_seen g 0 in
     if tsc_val \<noteq> snd tc then
       (seq (if_then (\<not> (0 \<le> tsc_val \<and> tsc_val < 3)) (undefined_call K ''tsc_read_stat_names'')) (
       seq (printf (''current state is '' @ (if 0 \<le> tsc_val \<and> tsc_val < 3 then prctl10_names ! nat tsc_val else [])
         @ ''('' @ show_int tsc_val @ ''), expect '' @ fst tc @ ''('' @ show_int (snd tc) @ '')'')) (
       ret 0)))
     else
     seq (printf (''current state is '' @ fst tc @ ''('' @ show_int (snd tc) @ '')\<newline>'')) (
     bind (prctl10_rdtsc K) (\<lambda>time1.
     bind (prctl10_rdtsc K) (\<lambda>time2.
     seq ((if time2 > time1 then printf (''rdtsc works correctly, '' @ show_lld time1 @ '' ->'' @ show_lld time2 @ ''\<newline>'')
      else printf (''rdtsc works incorrectly, '' @ show_lld time1 @ '' ->'' @ show_lld time2 @ ''\<newline>''))) (
     ret 0)))))))"

text \<open>A child returns 0 into the loop of \<^verbatim>\<open>main\<close> and goes on with the next case.\<close>

definition prctl10_verify_prctl :: "kernel \<Rightarrow> string \<times> int \<Rightarrow> (proc, int) family" where
  "prctl10_verify_prctl K tc = (fbind (c_fork K) (\<lambda>pid.
     if pid = 0 then
       alone (prctl10_child K tc)
     else
     alone (bind (libc_res K (Waitpid pid 0)) (\<lambda>w.
       bind ((case sr_ret w of Inl e \<Rightarrow> indet K ''status'' | Inr v \<Rightarrow> ret (sr_int w))) (\<lambda>status.
       if prctl10_expected_status status (if snd tc = PR_TSC_SIGSEGV then SIGSEGV else 0) \<noteq> 0 then
         (seq (printf (''Test '' @ fst tc @ '' failed\<newline>'')) (
         ret 0))
       else
       seq (printf (''Test '' @ fst tc @ '' succeeded\<newline>'')) (
       ret 1))))))"

fun prctl10_cases :: "kernel \<Rightarrow> (string \<times> int) list \<Rightarrow> int \<Rightarrow> (proc, int) family" where
  "prctl10_cases K [] ok = alone (ret ok)"
| "prctl10_cases K (tc # tcs) ok = (fbind (prctl10_verify_prctl K tc) (\<lambda>r.
     prctl10_cases K tcs (ok * r)))"

definition prctl10_main :: "kernel \<Rightarrow> (proc, unit) family" where
  "prctl10_main K = (fbind (prctl10_cases K prctl10_tcases 1) (\<lambda>ok.
     alone (if_then (ok \<noteq> 0) (printf ''test succeeded\<newline>''))))"

section \<open>Verdicts\<close>

lemma scan_show_l [simp]: "scan 0 (show_lu r) = 0" "scan 0 (show_lld v) = 0"
  by (simp_all add: show_lu_def show_lld_def)

text \<open>The number of timer slacks the kernel accepted.\<close>

definition granted :: "event list \<Rightarrow> nat" where
  "granted h = length (filter (\<lambda>(c, r). (\<exists>v. c = Prctl PR_SET_TIMERSLACK [PNum v]) \<and> 0 \<le> rv r) h)"

lemma granted_append [simp]: "granted (h @ h') = granted h + granted h'"
  by (simp add: granted_def)

lemma prctl08_check_runs:
  assumes "clear s" and "scan 0 m \<in> {0, 1}" and "\<And>s'. clear s' \<Longrightarrow> granted (trace s') = granted (trace s) \<Longrightarrow> P (Ret (), s')"
  shows "runs (prctl08_check_get_timerslack K m v) s P"
  using assms(1,2) unfolding prctl08_check_get_timerslack_def
  by (auto simp: run_simps clear_def granted_def intro!: answeredI assms(3))

lemma prctl08_case_leads:
  assumes "clear s" and "scan 0 (p08_message tc) \<in> {0, 1}"
    and "\<And>r s'. clear s' \<Longrightarrow> granted (trace s') = granted (trace s) + of_bool (r \<noteq> 0) \<Longrightarrow> Q (Ret r, s')"
  shows "leads (prctl08_verify_prctl K tc) s Q"
  using assms(1,2) unfolding prctl08_verify_prctl_def
  apply (cases "p08_func_check tc")
  apply (auto simp: run_simps prctl08_check_reset_timerslack_def prctl08_check_inherit_timerslack_def clear_def granted_def rv_not_m1
    intro!: answeredI assms(3) prctl08_check_runs)
  done

lemma prctl08_cases_leads:
  assumes "clear s" and "list_all (\<lambda>tc. scan 0 (p08_message tc) \<in> {0, 1}) tcs"
    and "\<And>ok' n s'. clear s' \<Longrightarrow> granted (trace s') = granted (trace s) + n \<Longrightarrow> n \<le> length tcs \<Longrightarrow>
      (ok' \<noteq> 0 \<longleftrightarrow> ok \<noteq> 0 \<and> n = length tcs) \<Longrightarrow> Q (Ret ok', s')"
  shows "leads (prctl08_cases K tcs ok) s Q"
  using assms
proof (induction tcs arbitrary: s ok)
  case Nil
  from Nil.prems(1) Nil.prems(3) [of s 0 ok] show ?case by (simp add: run_simps)
next
  case (Cons tc tcs)
  show ?case
    unfolding prctl08_cases.simps leads_bind
  proof (rule prctl08_case_leads)
    fix r :: int and s' :: prctl08
    assume s': "clear s'" "granted (trace s') = granted (trace s) + of_bool (r \<noteq> 0)"
    have "leads (prctl08_cases K tcs (if r = 0 then 0 else ok)) s' Q"
    proof (rule Cons.IH)
      fix ok' :: int and n and s'' :: prctl08
      assume "clear s''" "granted (trace s'') = granted (trace s') + n" "n \<le> length tcs"
        and "ok' \<noteq> 0 \<longleftrightarrow> (if r = 0 then 0 else ok) \<noteq> 0 \<and> n = length tcs"
      with s' show "Q (Ret ok', s'')"
        by (intro Cons.prems(3) [of s'' "n + of_bool (r \<noteq> 0)" ok']) (auto split: if_splits)
    qed (use s' Cons.prems in simp_all)
    then show "lkont (\<lambda>r. prctl08_cases K tcs (if r = 0 then 0 else ok)) Q (Ret r, s')" by simp
  qed (use Cons.prems in simp_all)
qed

text \<open>The process \<^verbatim>\<open>prctl08\<close> starts announces success exactly when none of its five settings is refused; the values read back, and the
  child's, are only printed.\<close>

theorem prctl08_verdict:
  "first_passes (prctl08_main K) prctl08_init \<longleftrightarrow> granted (family_calls (prctl08_main K) prctl08_init) = 5"
proof (rule first_verdictI)
  have tcs: "list_all (\<lambda>tc. scan 0 (p08_message tc) \<in> {0, 1}) prctl08_tcases" "length prctl08_tcases = 5"
    by (simp_all add: prctl08_tcases_def)
  show "leads (prctl08_main K) prctl08_init (\<lambda>(fl, s'). announced (fl, s') \<longleftrightarrow> granted (trace s') = 5)"
    unfolding prctl08_main_def prctl08_setup_def prctl08_init_def merges
    apply (simp add: run_simps cong: lead_congs split del: if_split)
    apply (intro answeredI conjI impI; rule prctl08_cases_leads)
    apply (simp_all add: clear_def tcs)
    apply (auto simp: run_simps clear_def granted_def prctl08_tcases_def)
    done
qed

text \<open>The statuses \<^verbatim>\<open>prctl10\<close> acts on.\<close>

fun tsc_statuses :: "event list \<Rightarrow> int list" where
  "tsc_statuses [] = []"
| "tsc_statuses ((c, r) # h) = (case c of
       Waitpid pid opts \<Rightarrow> (case sr_ret r of Inl e \<Rightarrow> tsc_statuses h | Inr v \<Rightarrow> sr_int r # tsc_statuses h)
     | Indet x \<Rightarrow> (if x = ''status'' then sr_int r # tsc_statuses h else tsc_statuses h)
     | _ \<Rightarrow> tsc_statuses h)"

lemma tsc_statuses_append [simp]: "tsc_statuses (h @ h') = tsc_statuses h @ tsc_statuses h'"
  by (induction h rule: tsc_statuses.induct) (auto split: syscall.splits proc_call.splits sum.splits)

definition tsc_good :: "string \<times> int \<Rightarrow> int \<Rightarrow> bool" where
  "tsc_good tc w \<longleftrightarrow> (if snd tc = PR_TSC_SIGSEGV then WIFSIGNALED w \<and> WTERMSIG w = SIGSEGV else WIFEXITED w)"

lemma tsc_good_expected:
  "prctl10_expected_status w (if snd tc = PR_TSC_SIGSEGV then SIGSEGV else 0) = 0 \<longleftrightarrow> tsc_good tc w"
  by (auto simp: prctl10_expected_status_def tsc_good_def)

lemma scan_prctl10_names: "0 \<le> i \<and> i < 3 \<Longrightarrow> scan 0 (prctl10_names ! nat i) = 0"
proof -
  assume "0 \<le> i \<and> i < 3"
  then have "i = 0 \<or> i = 1 \<or> i = 2" by auto
  then show ?thesis by (auto simp: prctl10_names_def)
qed

lemma prctl10_child_runs:
  assumes "clear s" and "scan 0 (fst tc) = 0"
    and "\<And>s'. clear s' \<Longrightarrow> P (Ret 0, s')" and "\<And>g s'. P (Killed g, s')"
  shows "runs (prctl10_child K tc) s P"
  using assms(1,2) unfolding prctl10_child_def prctl10_rdtsc_def Let_def merges
  apply (simp add: run_simps cong: run_congs split del: if_split)
  apply (intro answeredI conjI impI allI assms(4))
  apply (rule assms(3); simp add: clear_def scan_prctl10_names)+
  done

lemma prctl10_case_runs:
  assumes "clear s" and "scan 0 (fst tc) = 0"
    and "\<And>s'. clear s' \<Longrightarrow> P (Ret 0, s')" and "\<And>g s'. P (Killed g, s')"
    and "\<And>r w s'. clear s' \<Longrightarrow> tsc_statuses (trace s') = tsc_statuses (trace s) @ [w] \<Longrightarrow> (r \<noteq> 0 \<longleftrightarrow> tsc_good tc w) \<Longrightarrow>
      Q (Ret r, s')"
  shows "fruns (prctl10_verify_prctl K tc) s P Q"
  using assms(1,2) unfolding prctl10_verify_prctl_def Let_def tsc_good_expected merges
  apply (simp add: run_simps cong: fork_congs split del: if_split)
  apply (intro answeredI conjI impI allI)
  apply (rule assms(5); auto simp: clear_def)
  apply (rule assms(5); auto simp: clear_def)
  apply (rule prctl10_child_runs; simp add: clear_def assms(3,4))
  apply (rule assms(5); auto simp: clear_def)
  apply (rule assms(5); auto simp: clear_def)
  done

lemma prctl10_cases_runs:
  assumes "clear s" and "list_all (\<lambda>tc. scan 0 (fst tc) = 0) tcs"
    and "\<And>s'. clear s' \<Longrightarrow> P (Ret 0, s')" and "\<And>g s'. P (Killed g, s')"
    and "\<And>ok' ws s'. clear s' \<Longrightarrow> tsc_statuses (trace s') = tsc_statuses (trace s) @ ws \<Longrightarrow>
      (ok' \<noteq> 0 \<longleftrightarrow> ok \<noteq> 0 \<and> list_all2 tsc_good tcs ws) \<Longrightarrow> Q (Ret ok', s')"
  shows "fruns (prctl10_cases K tcs ok) s P Q"
  using assms
proof (induction tcs arbitrary: s ok Q)
  case Nil
  from Nil.prems(1) Nil.prems(5) [of s "[]" ok] show ?case by (simp add: run_simps)
next
  case (Cons tc tcs)
  show ?case
    unfolding prctl10_cases.simps fruns_bind
  proof (rule prctl10_case_runs)
    fix s' :: proc
    assume "clear s'"
    then have "fruns (prctl10_cases K tcs (ok * 0)) s' P P"
      using Cons.prems by (intro Cons.IH) auto
    then show "fkont (\<lambda>r. prctl10_cases K tcs (ok * r)) P P (Ret 0, s')" by simp
  next
    fix r w :: int and s' :: proc
    assume s': "clear s'" "tsc_statuses (trace s') = tsc_statuses (trace s) @ [w]" and r: "r \<noteq> 0 \<longleftrightarrow> tsc_good tc w"
    have "fruns (prctl10_cases K tcs (ok * r)) s' P Q"
    proof (rule Cons.IH)
      fix ok' :: int and ws and s'' :: proc
      assume "clear s''" "tsc_statuses (trace s'') = tsc_statuses (trace s') @ ws"
        and "ok' \<noteq> 0 \<longleftrightarrow> ok * r \<noteq> 0 \<and> list_all2 tsc_good tcs ws"
      with s' r show "Q (Ret ok', s'')" by (intro Cons.prems(5) [of s'' "w # ws" ok']) auto
    qed (use s' Cons.prems in simp_all)
    then show "fkont (\<lambda>r. prctl10_cases K tcs (ok * r)) P Q (Ret r, s')" by simp
  qed (use Cons.prems in simp_all)
qed

text \<open>\<^verbatim>\<open>prctl10\<close> passes exactly when the statuses of its two children are an exit and a death by SIGSEGV. The children go on with
  the loop themselves, and fork, but cannot announce success.\<close>

theorem prctl10_verdict:
  "family_passes (prctl10_main K) proc_init \<longleftrightarrow>
   list_all2 tsc_good prctl10_tcases (tsc_statuses (family_calls (prctl10_main K) proc_init))"
proof (rule family_verdictI)
  show "fruns (prctl10_main K) proc_init (\<lambda>x. \<not> announced x) (\<lambda>(fl, s'). announced (fl, s') \<longleftrightarrow>
    list_all2 tsc_good prctl10_tcases (tsc_statuses (trace s')))"
    unfolding prctl10_main_def fruns_bind
    by (rule prctl10_cases_runs)
      (auto simp: proc_init_def clear_def prctl10_tcases_def run_simps)
qed

text \<open>How a process of \<^verbatim>\<open>prctl03\<close> can come to return 1: the orphan finds the process that was started as its parent, or another one
  falls off the end of the function with this value.\<close>

definition prctl03_good :: "event list \<Rightarrow> bool" where
  "prctl03_good h = (case last h of (Getppid, r) \<Rightarrow> rv r = rv (snd (h ! 1)) | (Indet x, r) \<Rightarrow> sr_int r = 1 | _ \<Rightarrow> False)"

lemma prctl03_check_runs:
  assumes "clear s" and "\<And>s'. clear s' \<Longrightarrow> prefix (trace s) (trace s') \<Longrightarrow> P (Ret (), s')"
  shows "runs (prctl03_check_get_subreaper K v) s P"
  using assms(1) unfolding prctl03_check_get_subreaper_def prctl03_call_def prctl03_sighandler_def
  by (auto simp: run_simps clear_def intro!: answeredI assms(2))

lemma prctl03_rest_runs:
  assumes "clear s" and "\<And>r h s'. clear s' \<Longrightarrow> prefix (trace s) h \<Longrightarrow> trace s' = h @ [(Indet ''verify_prctl()'', r)] \<Longrightarrow> P (Ret (sr_int r), s')"
  shows "runs (prctl03_rest K) s P"
  using assms(1) unfolding prctl03_rest_def prctl03_call_def prctl03_sighandler_def merges
  apply (simp add: run_simps clear_def cong: run_congs split del: if_split)
  apply (intro answeredI prctl03_check_runs)
   apply (simp add: clear_def)
  apply (simp add: run_simps)
  apply (intro answeredI)
  apply (rule assms(2))
    apply (simp add: clear_def)
   apply (auto simp: prefix_def)
  done

text \<open>C38. \<^verbatim>\<open>prctl03\<close> passes exactly when one of its three processes returns 1: the orphan whose parent is the process that was
  started, or one that returns no value and happens to leave 1.\<close>

theorem prctl03_verdict:
  "family_passes (prctl03_main K) prctl03_init \<longleftrightarrow> list_ex prctl03_good (all_calls (prctl03_main K) prctl03_init)"
proof (rule family_allI)
  let ?P = "\<lambda>(fl, s'). announced (fl, s') \<longleftrightarrow> prctl03_good (trace s')"
  have rest: "runs (prctl03_rest K) s (fkont (\<lambda>r. alone (printf (if r = 1 then ''test succeeded\<newline>'' else []))) ?P ?P)"
    if "scan 0 (out s) = 0" for s
    using that by (intro prctl03_rest_runs) (simp_all add: run_simps clear_def prctl03_good_def)
  show "fruns (prctl03_main K) prctl03_init (\<lambda>(fl, s'). announced (fl, s') \<longleftrightarrow> prctl03_good (trace s'))
    (\<lambda>(fl, s'). announced (fl, s') \<longleftrightarrow> prctl03_good (trace s'))"
    unfolding prctl03_main_def prctl03_setup_def prctl03_verify_prctl_def prctl03_orphan_def
      prctl03_call_def prctl03_sighandler_def prctl03_init_def merges
    apply (simp add: run_simps cong: fork_congs split del: if_split)
    apply (intro answeredI conjI impI allI prctl03_check_runs rest)
    apply (simp_all add: run_simps clear_def rest)
    apply (simp_all add: prctl03_good_def)
    done
qed

text \<open>What the parent in \<^verbatim>\<open>prctl04\<close> sees of each case: the status of the child, and the value of the function where it returns none.\<close>

fun p04_seen :: "event list \<Rightarrow> (int + int) list" where
  "p04_seen [] = []"
| "p04_seen ((c, r) # h) = (case c of
       Waitpid pid opts \<Rightarrow> (case sr_ret r of Inl e \<Rightarrow> p04_seen h | Inr v \<Rightarrow> Inl (sr_int r) # p04_seen h)
     | Indet x \<Rightarrow> (if x = ''status'' then Inl (sr_int r) else Inr (sr_int r)) # p04_seen h
     | _ \<Rightarrow> p04_seen h)"

lemma p04_seen_append [simp]: "p04_seen (h @ h') = p04_seen h @ p04_seen h'"
  by (induction h rule: p04_seen.induct) (auto split: syscall.splits proc_call.splits sum.splits)

fun p04_ok :: "bool \<Rightarrow> prctl04_case list \<Rightarrow> (int + int) list \<Rightarrow> bool" where
  "p04_ok ns [] ws \<longleftrightarrow> ws = []"
| "p04_ok ns (tc # tcs) (Inl w # ws) \<longleftrightarrow>
     (if WIFSIGNALED w \<and> WTERMSIG w = p04_exp_signal tc then p04_pass_flag tc \<noteq> 0 \<and> p04_ok ns tcs ws
      else if p04_pass_flag tc = 2 \<and> \<not> ns then False
      else (case ws of Inr v # ws' \<Rightarrow> v \<noteq> 0 \<and> p04_ok ns tcs ws' | _ \<Rightarrow> False))"
| "p04_ok ns (tc # tcs) ws \<longleftrightarrow> False"

definition p04_open :: "bool \<Rightarrow> prctl04 \<Rightarrow> bool" where
  "p04_open ns s \<longleftrightarrow> clear s \<and> \<not> p04_confined s \<and> p04_mode_filter_not_supported s = of_bool ns"

text \<open>What the history gained, and how.\<close>

definition seen_since :: "prctl04 \<Rightarrow> prctl04 \<Rightarrow> (int + int) list \<Rightarrow> bool" where
  "seen_since s s' ws \<longleftrightarrow> (\<exists>h. trace s' = trace s @ h \<and> p04_seen h = ws)"

lemma seen_since_trans: "seen_since s s' ws \<Longrightarrow> seen_since s' s'' ws' \<Longrightarrow> seen_since s s'' (ws @ ws')"
  by (fastforce simp: seen_since_def)

lemma prctl04_unconfined:
  "\<not> p04_confined s \<Longrightarrow> runs (prctl04_permitted K) s P1 = P1 (Ret (), s)"
  "\<not> p04_confined s \<Longrightarrow> runs (prctl04_call K c) s P = runs (libc_res K c) s P"
  "\<not> p04_confined s \<Longrightarrow> leads (prctl04_fork K) s Q = leads (c_fork K) s Q"
  by (simp_all add: prctl04_permitted_def prctl04_call_def prctl04_fork_def run_simps)

lemma prctl04_wait_runs:
  assumes "p04_open ns s"
    and "\<And>w s'. p04_open ns s' \<Longrightarrow> seen_since s s' [Inl w] \<Longrightarrow> P (Ret w, s')"
  shows "runs (prctl04_wait K pid ''status'') s P"
proof -
  have "\<not> p04_confined s" using assms(1) by (simp add: p04_open_def)
  then show ?thesis
    using assms(1) unfolding prctl04_wait_def
    by (auto simp: run_simps prctl04_unconfined p04_open_def clear_def seen_since_def intro!: answeredI assms(2))
qed

lemma prctl04_judge_runs:
  assumes "p04_open ns s" and "scan 0 (p04_message tc) = 0"
    and "\<And>r ws s'. p04_open ns s' \<Longrightarrow> seen_since s s' ws \<Longrightarrow>
      (\<forall>tcs ws'. p04_ok ns (tc # tcs) (Inl w # ws @ ws') \<longleftrightarrow> r \<noteq> 0 \<and> p04_ok ns tcs ws') \<Longrightarrow> P (Ret r, s')"
  shows "runs (prctl04_judge K tc w) s P"
proof -
  have s: "clear s" "\<not> p04_confined s" "p04_mode_filter_not_supported s = of_bool ns"
    using assms(1) by (simp_all add: p04_open_def)
  show ?thesis
  proof (cases "WIFSIGNALED w \<and> WTERMSIG w = p04_exp_signal tc")
    case True
    then show ?thesis
      using s assms(2) unfolding prctl04_judge_def
      by (auto simp: run_simps p04_open_def clear_def seen_since_def intro!: assms(3) [of _ "[]"])
  next
    case False
    show ?thesis
    proof (cases "p04_pass_flag tc = 2 \<and> \<not> ns")
      case True
      then show ?thesis
        using s False unfolding prctl04_judge_def
        by (auto simp: run_simps p04_open_def clear_def seen_since_def intro!: assms(3) [of _ "[]"])
    next
      case other: False
      have "P (Ret (sr_int r), s\<lparr>trace := trace s @ [(Indet ''verify_prctl()'', r)]\<rparr>)" for r
        using s False other
        by (intro assms(3) [of _ "[Inr (sr_int r)]"]) (auto simp: p04_open_def clear_def seen_since_def)
      then show ?thesis
        using s False other unfolding prctl04_judge_def
        by (auto simp: run_simps intro!: answeredI)
    qed
  qed
qed

lemma prctl04_case_leads:
  assumes "p04_open ns s" and "scan 0 (p04_message tc) = 0"
    and "\<And>r ws s'. p04_open ns s' \<Longrightarrow> seen_since s s' ws \<Longrightarrow>
      (\<forall>tcs ws'. p04_ok ns (tc # tcs) (ws @ ws') \<longleftrightarrow> r \<noteq> 0 \<and> p04_ok ns tcs ws') \<Longrightarrow> Q (Ret r, s')"
  shows "leads (prctl04_verify_prctl K tc) s Q"
proof -
  have parent: "runs (prctl04_wait K pid ''status'') s' (kont (prctl04_judge K tc) Q)"
    if s': "p04_open ns s'" "seen_since s s' []" for pid s'
  proof (rule prctl04_wait_runs [OF s'(1)])
    fix w s''
    assume w: "p04_open ns s''" "seen_since s' s'' [Inl w]"
    have "runs (prctl04_judge K tc w) s'' Q"
      using w s' by (intro prctl04_judge_runs [OF w(1) assms(2)] assms(3)) (auto dest: seen_since_trans)
    then show "kont (prctl04_judge K tc) Q (Ret w, s'')" by simp
  qed
  have "\<not> p04_confined s" using assms(1) by (simp add: p04_open_def)
  then show ?thesis
    using assms(1) unfolding prctl04_verify_prctl_def
    by (auto simp: run_simps prctl04_unconfined p04_open_def clear_def seen_since_def intro!: answeredI parent)
qed

lemma prctl04_cases_leads:
  assumes "p04_open ns s" and "list_all (\<lambda>tc. scan 0 (p04_message tc) = 0) tcs"
    and "\<And>ok' ws s'. clear s' \<Longrightarrow> seen_since s s' ws \<Longrightarrow>
      (ok' \<noteq> 0 \<longleftrightarrow> ok \<noteq> 0 \<and> p04_ok ns tcs ws) \<Longrightarrow> Q (Ret ok', s')"
  shows "leads (prctl04_cases K tcs ok) s Q"
  using assms
proof (induction tcs arbitrary: s ok)
  case Nil
  from Nil.prems(1) Nil.prems(3) [of s "[]" ok] show ?case by (simp add: run_simps p04_open_def seen_since_def)
next
  case (Cons tc tcs)
  show ?case
    unfolding prctl04_cases.simps leads_bind
  proof (rule prctl04_case_leads)
    fix r :: int and ws and s' :: prctl04
    assume s': "p04_open ns s'" "seen_since s s' ws"
      and r: "\<forall>tcs ws'. p04_ok ns (tc # tcs) (ws @ ws') \<longleftrightarrow> r \<noteq> 0 \<and> p04_ok ns tcs ws'"
    have "leads (prctl04_cases K tcs (if r = 0 then 0 else ok)) s' Q"
    proof (rule Cons.IH)
      fix ok' :: int and ws' and s'' :: prctl04
      assume "clear s''" "seen_since s' s'' ws'"
        and "ok' \<noteq> 0 \<longleftrightarrow> (if r = 0 then 0 else ok) \<noteq> 0 \<and> p04_ok ns tcs ws'"
      with s' r show "Q (Ret ok', s'')" by (intro Cons.prems(3) [of s'' "ws @ ws'" ok']) (auto intro: seen_since_trans)
    qed (use s' Cons.prems in simp_all)
    then show "lkont (\<lambda>r. prctl04_cases K tcs (if r = 0 then 0 else ok)) Q (Ret r, s')" by simp
  qed (use Cons.prems in simp_all)
qed

text \<open>Whether the preparation finds filters unsupported.\<close>

definition p04_unsupported :: "event list \<Rightarrow> bool" where
  "p04_unsupported h \<longleftrightarrow> rv (snd (h ! 0)) = 0 \<and> failed_with (snd (h ! 1)) EINVAL"

text \<open>C39. The process \<^verbatim>\<open>prctl04\<close> starts announces success exactly when each of the seven statuses it finds is the expected signal in a case
  that allows it, or is not, and the function that then returns no value happens to leave another one
  than 0; this is not open to the case of \<^verbatim>\<open>pass_flag\<close> 2 where filter mode is supported. Children that go on with the loop may print the line
  as well. Where strict mode works it does not: the second child forks after its permitted calls, and
  is killed like the first.\<close>

theorem prctl04_verdict:
  "let h = family_calls (prctl04_main K) prctl04_init; ws = p04_seen h in
   (first_passes (prctl04_main K) prctl04_init \<longleftrightarrow> p04_ok (p04_unsupported h) prctl04_tcases ws) \<and>
   \<not> (first_passes (prctl04_main K) prctl04_init \<and> take 2 ws = [Inl SIGKILL, Inl SIGKILL])"
proof -
  have tcs: "list_all (\<lambda>tc. scan 0 (p04_message tc) = 0) prctl04_tcases" by (simp add: prctl04_tcases_def)
  have loop: "leads (prctl04_cases K prctl04_tcases 1) s (lkont (\<lambda>ok. alone (printf (if ok \<noteq> 0 then ''test succeeded\<newline>'' else [])))
      (\<lambda>(fl, s'). announced (fl, s') \<longleftrightarrow> p04_ok (p04_unsupported (trace s')) prctl04_tcases (p04_seen (trace s'))))"
    if "p04_open ns s" "p04_seen (trace s) = []" "\<And>h. p04_unsupported (trace s @ h) = ns" for ns s
    using that tcs by (intro prctl04_cases_leads) (auto simp: run_simps clear_def seen_since_def)
  have "leads (prctl04_main K) prctl04_init (\<lambda>(fl, s'). announced (fl, s') \<longleftrightarrow>
      p04_ok (p04_unsupported (trace s')) prctl04_tcases (p04_seen (trace s')))"
    unfolding prctl04_main_def prctl04_setup_def prctl04_init_def merges
    apply (simp add: run_simps cong: lead_congs split del: if_split)
    apply (intro answeredI conjI impI)
      apply (rule loop [of True]; auto simp: p04_open_def clear_def p04_unsupported_def rv_negative failed_with_def)
     apply (rule loop [of False]; auto simp: p04_open_def clear_def p04_unsupported_def failed_with_def)
    apply (rule loop [of False]; simp add: p04_open_def clear_def p04_unsupported_def)
    done
  then have iff: "first_passes (prctl04_main K) prctl04_init \<longleftrightarrow> (let h = family_calls (prctl04_main K) prctl04_init in
      p04_ok (p04_unsupported h) prctl04_tcases (p04_seen h))"
    by (simp add: first_verdictI Let_def)
  have "\<not> p04_ok ns prctl04_tcases ws" if "take 2 ws = [Inl SIGKILL, Inl SIGKILL]" for ns ws
  proof -
    from that obtain ws' where "ws = Inl SIGKILL # Inl SIGKILL # ws'"
      by (cases ws; cases "tl ws") auto
    then show ?thesis by (simp add: prctl04_tcases_def WIFSIGNALED_def WTERMSIG_def)
  qed
  with iff show ?thesis by (auto simp: Let_def)
qed

end
