(* ===== verification/Memory_Fork_Tests.thy ===== *)
theory Memory_Fork_Tests
  imports Family
begin

text \<open>
  The memory tests that fork and have a loop that may not end: \<^verbatim>\<open>mprotect/mprotect02.c\<close> writes until enough
  is written, and \<^verbatim>\<open>mmap/mmap10.c\<close> waits until no child is left. These loops have fuel; \<open>None\<close> is a
  process still in its loop.
\<close>

section \<open>mprotect02\<close>

record mprotect02 = proc +
  p02_fd :: int
  p02_status :: int
  p02_file1 :: string
  p02_addr :: addr

definition mprotect02_init :: mprotect02 where
  "mprotect02_init = \<lparr>errno = 0, out = no_output, trace = [], p02_fd = 0, p02_status = 0, p02_file1 = [], p02_addr = MAP_FAILED\<rparr>"

definition mprotect02_buf :: string where
  "mprotect02_buf = ''abcdefghijklmnopqrstuvwxyz''"

definition mprotect02_setup :: "kernel \<Rightarrow> (mprotect02, unit) cprog" where
  "mprotect02_setup K = (bind (libc K Getpid) (\<lambda>pid.
     modify (\<lambda>s. s\<lparr>p02_file1 := ''mprotect02.tmp.'' @ show_int pid\<rparr>)))"

text \<open>\<^verbatim>\<open>cleanup\<close> closes the global \<^verbatim>\<open>fd\<close>, which \<^verbatim>\<open>main\<close> hides by a local one and which stays 0.\<close>

definition mprotect02_cleanup :: "kernel \<Rightarrow> (mprotect02, unit) cprog" where
  "mprotect02_cleanup K = (bind (gets p02_addr) (\<lambda>addr.
     if_then (addr \<noteq> MAP_FAILED) (seq (call (libc K (Munmap addr 27))) (
       bind (gets p02_fd) (\<lambda>fd.
       call (libc K (Close fd)))))))"

text \<open>\<^verbatim>\<open>_exit\<close> does not write out what is buffered. The handler is not installed.\<close>

definition mprotect02_sighandler :: "int \<Rightarrow> (mprotect02, unit) cprog" where
  "mprotect02_sighandler sig = (seq (modify (\<lambda>s. s\<lparr>out := no_output\<rparr>)) (
     c_exit (if sig = SIGSEGV then 0 else sig)))"

text \<open>\<^verbatim>\<open>num_bytes\<close> is unsigned, and a failed write adds one to it.\<close>

fun mprotect02_fill :: "kernel \<Rightarrow> nat \<Rightarrow> int \<Rightarrow> 64 word \<Rightarrow> (mprotect02, unit option) cprog" where
  "mprotect02_fill K 0 fd num_bytes = ret None"
| "mprotect02_fill K (Suc n) fd num_bytes =
     (let bytes_to_write = (if 26 < num_bytes then 26 else unat num_bytes) in
      bind (libc K (Write fd (Bytes (take bytes_to_write mprotect02_buf)) bytes_to_write)) (\<lambda>r.
      let num_bytes' = num_bytes - word_of_int r in
      if 0 < num_bytes' then mprotect02_fill K n fd num_bytes' else ret (Some ())))"

definition mprotect02_first_child :: "kernel \<Rightarrow> addr \<Rightarrow> (mprotect02, int) cprog" where
  "mprotect02_first_child K addr = (seq (mem_store K addr mprotect02_buf) (
     c_exit 255))"

text \<open>The first half of \<^verbatim>\<open>main\<close> after the mapping, with the new value of \<^verbatim>\<open>ok\<close>. The case 255 falls through to the case 0.\<close>

definition mprotect02_first :: "kernel \<Rightarrow> addr \<Rightarrow> (mprotect02, int) family" where
  "mprotect02_first K addr = (fbind (c_fork K) (\<lambda>pid.
     if pid = -1 then
       alone (seq (printf_errno ''fork #1 failed, error number '' ''\<newline>'') (
       seq (mprotect02_cleanup K) (
       c_exit 0)))
     else
     if pid = 0 then
       alone (mprotect02_first_child K addr)
     else
     alone (bind (gets p02_status) (\<lambda>old.
       bind (c_waitpid K pid 0 old) (\<lambda>(r, status).
       seq (modify (\<lambda>s. s\<lparr>p02_status := status\<rparr>)) (
       if \<not> WIFEXITED status then
         (seq (printf (''child exited abnormally with status: '' @ show_int status @ ''\<newline>'')) (
         seq (mprotect02_cleanup K) (
         c_exit 0)))
       else
       if status = 255 then
         (seq (printf ''memcpy did not generate SIGSEGV\<newline>'') (
         seq (mprotect02_cleanup K) (
         seq (printf ''got SIGSEGV as expected\<newline>'') (
         ret 0))))
       else
       if status = 0 then
         (seq (printf ''got SIGSEGV as expected\<newline>'') (
         ret 1))
       else
       seq (printf (''got unexpected signal: '' @ show_int status @ ''\<newline>'')) (
       seq (mprotect02_cleanup K) (
       ret 0))))))))"

definition mprotect02_second_child :: "kernel \<Rightarrow> addr \<Rightarrow> (mprotect02, int) cprog" where
  "mprotect02_second_child K addr = (seq (mem_store K addr mprotect02_buf) (
     c_exit 0))"

text \<open>The second half. When the second fork fails, the process waits all the same, for any child.\<close>

definition mprotect02_second :: "kernel \<Rightarrow> addr \<Rightarrow> int \<Rightarrow> (mprotect02, int) family" where
  "mprotect02_second K addr ok = (fbind (alone (libc K (Mprotect addr 27 PROT_WRITE))) (\<lambda>r.
     if r = -1 then
       alone (seq (printf_errno ''mprotect failed, error number '' ''\<newline>'') (
       ret 0))
     else
     fbind (c_fork K) (\<lambda>pid.
     if pid = 0 then
       alone (mprotect02_second_child K addr)
     else
     alone (seq (if_then (pid = -1) (seq (printf ''fork #2 failed\<newline>'') (
         mprotect02_cleanup K))) (
       bind (gets p02_status) (\<lambda>old.
       bind (c_waitpid K pid 0 old) (\<lambda>(w, status).
       seq (modify (\<lambda>s. s\<lparr>p02_status := status\<rparr>)) (
       if WIFEXITED status \<and> WEXITSTATUS status = 0 then
         (seq (printf ''didn't get SIGSEGV\<newline>'') (
         ret (if pid = -1 then 0 else ok)))
       else
       seq (printf ''child exited abnormally\<newline>'') (
       ret 0)))))))))"

definition mprotect02_main :: "kernel \<Rightarrow> nat \<Rightarrow> (mprotect02, unit option) family" where
  "mprotect02_main K n = (fseq (alone (mprotect02_setup K)) (
     fbind (alone (gets p02_file1)) (\<lambda>file1.
     fbind (alone (libc K (Open file1 (O_RDWR OR O_CREAT) mode_0777))) (\<lambda>fd.
     fbind (alone (libc K Getpagesize)) (\<lambda>size.
     fbind (alone (mprotect02_fill K n fd (word_of_int size))) (\<lambda>filled.
     if filled = None then
       alone (ret None)
     else
     fbind (alone (libc_ptr K (Mmap NULL 27 PROT_READ MAP_SHARED fd 0))) (\<lambda>addr.
     fseq (alone (modify (\<lambda>s. s\<lparr>p02_addr := addr\<rparr>))) (
     fbind (mprotect02_first K addr) (\<lambda>ok1.
     fbind (mprotect02_second K addr ok1) (\<lambda>ok2.
     alone (seq (call (libc K (Munmap addr 27))) (
       seq (modify (\<lambda>s. s\<lparr>p02_addr := MAP_FAILED\<rparr>)) (
       seq (call (libc K (Close fd))) (
       seq (call (libc K (Unlink file1))) (
       seq (mprotect02_cleanup K) (
       seq (if_then (ok2 \<noteq> 0) (printf ''test succeeded\<newline>'')) (
       ret (Some ()))))))))))))))))))"

section \<open>mmap10\<close>

record mmap10 = proc +
  m10_fd :: int
  m10_ps :: int
  m10_x :: addr

definition mmap10_init :: mmap10 where
  "mmap10_init = \<lparr>errno = 0, out = no_output, trace = [], m10_fd = 0, m10_ps = 0, m10_x = 0\<rparr>"

abbreviation (input) "SIZE10 \<equiv> (5242880::int)"

definition mmap10_setup :: "kernel \<Rightarrow> (mmap10, unit) cprog" where
  "mmap10_setup K = (bind (libc K (Sysconf 30)) (\<lambda>r.
     seq (modify (\<lambda>s. s\<lparr>m10_ps := r\<rparr>)) (
     if_then (r = -1) (seq (printf ''sysconf(_SC_PAGESIZE)\<newline>'') (
       c_exit EXIT_FAILURE)))))"

definition mmap10_map :: "kernel \<Rightarrow> int \<Rightarrow> (mmap10, addr) cprog" where
  "mmap10_map K a = (bind (gets m10_ps) (\<lambda>ps.
     if a = 1 then
       libc_ptr K (Mmap NULL (SIZE10 + SIZE10 - ps) (PROT_READ OR PROT_WRITE) (MAP_PRIVATE OR MAP_ANONYMOUS) (-1) 0)
     else
     bind (libc K (Open ''/dev/zero'' O_RDWR mode_0666)) (\<lambda>fd.
     seq (modify (\<lambda>s. s\<lparr>m10_fd := fd\<rparr>)) (
     seq (if_then (fd < 0) (printf_errno ''open failed, error number '' ''\<newline>'')) (
     libc_ptr K (Mmap NULL (SIZE10 + SIZE10 - ps) (PROT_READ OR PROT_WRITE) MAP_PRIVATE fd 0))))))"

text \<open>\<^verbatim>\<open>munmap(x + SIZE + ps, SIZE - ps - ps)\<close>, in the children.\<close>

definition mmap10_unmap_part :: "kernel \<Rightarrow> (mmap10, int) cprog" where
  "mmap10_unmap_part K = (bind (gets m10_x) (\<lambda>x.
     bind (gets m10_ps) (\<lambda>ps.
     libc K (Munmap (x + word_of_int (SIZE10 + ps)) (SIZE10 - ps - ps)))))"

text \<open>The loop over \<^verbatim>\<open>waitpid(-1, &n, WUNTRACED | WCONTINUED)\<close>.\<close>

fun mmap10_reap :: "kernel \<Rightarrow> nat \<Rightarrow> (mmap10, int option) cprog" where
  "mmap10_reap K 0 = ret None"
| "mmap10_reap K (Suc n) = (bind (libc_res K (Waitpid (-1) 10)) (\<lambda>w.
     if rv w > 0 then
       (if WEXITSTATUS (sr_int w) \<noteq> 0 then
         (seq (printf (''child exit status is '' @ show_int (WEXITSTATUS (sr_int w)))) (
         ret (Some 0)))
       else
       mmap10_reap K n)
     else
     ret (Some 1)))"

text \<open>The third fork: a failure falls through to the code of the child, and ends the process.\<close>

definition mmap10_third :: "kernel \<Rightarrow> (mmap10, unit) family" where
  "mmap10_third K = (fbind (c_fork K) (\<lambda>pid.
     fseq (alone (if_then (pid = -1) (printf_errno ''fork failed, error number '' ''\<newline>''))) (
     fif_then (pid = -1 \<or> pid = 0) (alone (bind (mmap10_unmap_part K) (\<lambda>r.
       seq (if_then (r = -1) (printf_errno ''subsequent munmap #2, error number '' ''\<newline>'')) (
       c_exit 0)))))))"

definition mmap10_mmapzero :: "kernel \<Rightarrow> nat \<Rightarrow> int \<Rightarrow> (mmap10, int option) family" where
  "mmap10_mmapzero K n a = (fbind (alone (mmap10_map K a)) (\<lambda>x.
     fseq (alone (modify (\<lambda>s. s\<lparr>m10_x := x\<rparr>))) (
     if x = MAP_FAILED then
       alone (seq (printf_errno ''mmap failed, error number '' ''\<newline>'') (
       ret (Some 0)))
     else
     fseq (alone (mem_store K (x + word_of_int SIZE10) [NUL])) (
     fbind (c_fork K) (\<lambda>pid1.
     if pid1 = -1 then
       alone (seq (printf_errno ''fork failed, error number '' ''\<newline>'') (
       ret (Some 0)))
     else
     if pid1 = 0 then
       alone (bind (mmap10_unmap_part K) (\<lambda>r.
       if r = -1 then
         (seq (printf_errno ''munmap failed, erorr number '' ''\<newline>'') (
         ret (Some 0)))
       else
       c_exit 0))
     else
     fbind (c_fork K) (\<lambda>pid2.
     if pid2 = -1 then
       alone (seq (printf_errno ''fork failed, error number '' ''\<newline>'') (
       ret (Some 0)))
     else
     if pid2 = 0 then
       alone (bind (mmap10_unmap_part K) (\<lambda>r.
       seq (if_then (r = -1) (printf_errno ''subsequent munmap #1, error number '' ''\<newline>'')) (
       c_exit 0)))
     else
     fseq (mmap10_third K) (
     alone (bind (gets m10_ps) (\<lambda>ps.
       bind (libc K (Munmap x (SIZE10 + SIZE10 - ps))) (\<lambda>r.
       if r = -1 then
         (seq (printf_errno ''munmap all failed, erorr number '' ''\<newline>'') (
         ret (Some 0)))
       else
       mmap10_reap K n))))))))))"

text \<open>A process that is still waiting after its fuel makes no further calls here.\<close>

definition mmap10_main :: "kernel \<Rightarrow> nat \<Rightarrow> (mmap10, unit option) family" where
  "mmap10_main K n = (fseq (alone (mmap10_setup K)) (
     fseq (alone (printf ''Starting tests\<newline>'')) (
     fbind (mmap10_mmapzero K n 1) (\<lambda>r1.
     if r1 = None then
       alone (ret None)
     else
     if r1 \<noteq> Some 1 then
       alone (ret (Some ()))
     else
     fbind (mmap10_mmapzero K n 2) (\<lambda>r2.
     if r2 = None then
       alone (ret None)
     else
     alone (seq (if_then (r2 = Some 1) (printf ''test succeeded\<newline>'')) (
       ret (Some ()))))))))"

section \<open>Verdicts\<close>

text \<open>The history from the first mapping on.\<close>

fun from_map :: "event list \<Rightarrow> event list" where
  "from_map [] = []"
| "from_map ((c, r) # h) = (case c of Mmap a b d e f g \<Rightarrow> (c, r) # h | _ \<Rightarrow> from_map h)"

lemma from_map_append [simp]: "from_map h = [] \<Longrightarrow> from_map (h @ h') = from_map h'"
  by (induction h rule: from_map.induct) (auto split: syscall.splits mem_call.splits)

lemma mprotect02_fill_runs:
  assumes "clear s" and "from_map (trace s) = []" and "p02_status s = 0"
    and "\<And>r s'. clear s' \<Longrightarrow> from_map (trace s') = [] \<Longrightarrow> p02_status s' = 0 \<Longrightarrow> P (Ret r, s')"
  shows "runs (mprotect02_fill K n fd m) s P"
  using assms(1,2,3)
proof (induction n arbitrary: s m)
  case 0
  then show ?case by (simp add: run_simps assms(4))
next
  case (Suc n)
  then show ?case
    by (auto simp: run_simps clear_def intro!: answeredI Suc.IH assms(4))
qed

lemma mprotect02_cleanup_runs:
  assumes "clear s" and "\<And>s' h. clear s' \<Longrightarrow> trace s' = trace s @ h \<Longrightarrow> P (Ret (), s')"
  shows "runs (mprotect02_cleanup K) s P"
  using assms(1) unfolding mprotect02_cleanup_def
  by (auto simp: run_simps clear_def intro!: answeredI assms(2))

lemma mprotect02_unmapped: "p02_addr s = - 1 \<Longrightarrow> runs (mprotect02_cleanup K) s P = P (Ret (), s)"
  by (simp add: mprotect02_cleanup_def run_simps)

lemma mprotect02_first_leads:
  assumes "clear s" and "p02_status s = 0"
    and good: "\<And>c r w s'. clear s' \<Longrightarrow> p02_status s' = 0 \<Longrightarrow> trace s' = trace s @ [(Fork, r), (c, w)] \<Longrightarrow> 0 \<le> rv r \<Longrightarrow>
      status_seen w 0 = 0 \<Longrightarrow> Q (Ret 1, s')"
    and bad: "\<And>fl r h s'. clear s' \<Longrightarrow> trace s' = trace s @ (Fork, r) # h \<Longrightarrow>
      (\<forall>h'. \<not> (0 \<le> rv r \<and> status_seen (snd ((h @ h') ! 0)) 0 = 0)) \<Longrightarrow> fl = Exit 0 \<or> fl = Ret 0 \<Longrightarrow> Q (fl, s')"
  shows "leads (mprotect02_first K a) s Q"
  using assms(1,2) unfolding mprotect02_first_def
  apply (simp add: run_simps cong: lead_congs)
  apply (intro answeredI conjI impI allI mprotect02_cleanup_runs)
  apply (simp_all add: run_simps clear_def)
  apply (rule bad, (force simp: clear_def)+)
  apply (rule bad, (force simp: clear_def WIFEXITED_def)+)
  apply (rule good, (force simp: clear_def)+)
  apply (rule bad, (force simp: clear_def)+)
  done

lemma mprotect02_second_leads:
  assumes "clear s"
    and "\<And>r h s'. clear s' \<Longrightarrow> trace s' = trace s @ h \<Longrightarrow>
      (\<forall>h'. r \<noteq> 0 \<longleftrightarrow> ok \<noteq> 0 \<and> 0 \<le> rv (snd ((h @ h') ! 0)) \<and> 0 \<le> rv (snd ((h @ h') ! 1)) \<and>
        exited_0 (status_seen (snd ((h @ h') ! 2)) (p02_status s))) \<Longrightarrow>
      Q (Ret r, s')"
  shows "leads (mprotect02_second K a ok) s Q"
  using assms(1) unfolding mprotect02_second_def
  apply (simp add: run_simps cong: lead_congs)
  apply (intro answeredI conjI impI allI mprotect02_cleanup_runs)
  apply (simp_all add: run_simps clear_def)
  apply (rule assms(2), (force simp: clear_def)+)
  apply (intro answeredI conjI impI allI)
  apply (rule assms(2), (force simp: clear_def)+)
  apply (rule assms(2), (force simp: clear_def)+)
  apply (rule assms(2), (force simp: clear_def exited_0_def rv_not_m1)+)
  apply (rule assms(2), (force simp: clear_def exited_0_def rv_not_m1)+)
  done

text \<open>C35. \<^verbatim>\<open>mprotect02\<close> passes only if the status of its first child is 0, or \<^verbatim>\<open>waitpid\<close> fails; but that child ends with 255
  or is killed.\<close>

theorem mprotect02_verdict:
  "(first_passes (mprotect02_main K n) mprotect02_init \<longleftrightarrow>
    (let h = from_map (family_calls (mprotect02_main K n) mprotect02_init) in
     h \<noteq> [] \<and> 0 \<le> rv (snd (h ! 1)) \<and> status_seen (snd (h ! 2)) 0 = 0 \<and> 0 \<le> rv (snd (h ! 3)) \<and> 0 \<le> rv (snd (h ! 4)) \<and>
     exited_0 (status_seen (snd (h ! 5)) 0))) \<and>
   (case fst (mprotect02_first_child K a s) of Exit c \<Rightarrow> c = 255 | Killed g \<Rightarrow> True | Ret r \<Rightarrow> False)"
proof
  show "first_passes (mprotect02_main K n) mprotect02_init \<longleftrightarrow>
    (let h = from_map (family_calls (mprotect02_main K n) mprotect02_init) in
     h \<noteq> [] \<and> 0 \<le> rv (snd (h ! 1)) \<and> status_seen (snd (h ! 2)) 0 = 0 \<and> 0 \<le> rv (snd (h ! 3)) \<and> 0 \<le> rv (snd (h ! 4)) \<and>
     exited_0 (status_seen (snd (h ! 5)) 0))"
  proof (rule first_verdictI)
    show "leads (mprotect02_main K n) mprotect02_init (\<lambda>(fl, s'). announced (fl, s') \<longleftrightarrow> (let h = from_map (trace s') in
     h \<noteq> [] \<and> 0 \<le> rv (snd (h ! 1)) \<and> status_seen (snd (h ! 2)) 0 = 0 \<and> 0 \<le> rv (snd (h ! 3)) \<and> 0 \<le> rv (snd (h ! 4)) \<and>
     exited_0 (status_seen (snd (h ! 5)) 0)))"
      unfolding mprotect02_main_def mprotect02_setup_def mprotect02_init_def merges
      apply (simp add: run_simps cong: lead_congs)
      apply (intro answeredI)
      apply (rule mprotect02_fill_runs)
      apply (simp_all add: clear_def)
      apply (simp add: run_simps cong: lead_congs split del: if_split)
      apply (intro conjI impI allI answeredI)
      apply (rule mprotect02_first_leads)
         apply (simp_all add: clear_def run_simps)
       apply (rule mprotect02_second_leads)
        apply (simp_all add: clear_def run_simps mprotect02_unmapped cong: lead_congs split del: if_split)
       apply (intro answeredI)
       apply simp
      apply (elim disjE; simp add: run_simps cong: lead_congs split del: if_split)
       apply (metis append_Nil2)
      apply (rule mprotect02_second_leads)
        apply (simp_all add: clear_def run_simps mprotect02_unmapped cong: lead_congs split del: if_split)
      apply (intro answeredI)
      apply auto
      done
  qed
  have "runs (mprotect02_first_child K a) s (\<lambda>(fl, s'). case fl of Exit c \<Rightarrow> c = 255 | Killed g \<Rightarrow> True | Ret r \<Rightarrow> False)"
    unfolding mprotect02_first_child_def by (auto simp: run_simps intro!: answeredI)
  then show "case fst (mprotect02_first_child K a s) of Exit c \<Rightarrow> c = 255 | Killed g \<Rightarrow> True | Ret r \<Rightarrow> False"
    by (simp add: runs_def case_prod_beta)
qed

lemma libc_step: "libc K c s = (Ret (rv (K (trace s) c)), snd (libc K c s))"
  by (auto simp: libc_def libc_res_def flow_defs Let_def split: sum.splits)

lemma mprotect02_fill_step:
  assumes "\<And>h. rv (K h (Write fd (Bytes (take (if 26 < m then 26 else unat m) mprotect02_buf)) (if 26 < m then 26 else unat m))) = r"
  shows "\<exists>s'. mprotect02_fill K (Suc n) fd m s =
    (if 0 < m - word_of_int r then mprotect02_fill K n fd (m - word_of_int r) s' else (Ret (Some ()), s'))"
  unfolding mprotect02_fill.simps Let_def bind_def by (subst libc_step) (auto simp: assms ret_def)

lemma mprotect02_fill_written:
  assumes "\<forall>h b k. rv (K h (Write fd b k)) = int k"
  shows "0 < m \<Longrightarrow> unat m \<le> 26 * n \<Longrightarrow> fst (mprotect02_fill K n fd m s) = Ret (Some ())"
proof (induction n arbitrary: m s)
  case 0
  then show ?case by (simp add: word_less_nat_alt)
next
  case (Suc n)
  obtain s' where s': "mprotect02_fill K (Suc n) fd m s =
    (let m' = m - word_of_int (int (if 26 < m then 26 else unat m)) in
     if 0 < m' then mprotect02_fill K n fd m' s' else (Ret (Some ()), s'))"
    unfolding Let_def using mprotect02_fill_step assms by blast
  show ?case
  proof (cases "26 < m")
    case True
    then have "unat (m - 26) = unat m - 26" by (simp add: unat_sub word_less_nat_alt word_le_nat_alt)
    with True Suc.prems have "0 < m - 26" "unat (m - 26) \<le> 26 * n" by (simp_all add: word_less_nat_alt)
    with True show ?thesis by (simp add: s' Let_def Suc.IH del: mprotect02_fill.simps)
  qed (simp add: s' Let_def del: mprotect02_fill.simps)
qed

text \<open>A failed write makes the count grow.\<close>

lemma mprotect02_fill_stuck:
  assumes "\<forall>h b k. rv (K h (Write fd b k)) = - 1"
  shows "0 < m \<Longrightarrow> unat m + n < 2 ^ 64 \<Longrightarrow> fst (mprotect02_fill K n fd m s) = Ret None"
proof (induction n arbitrary: m s)
  case 0
  then show ?case by (simp add: ret_def)
next
  case (Suc n)
  obtain s' where s': "mprotect02_fill K (Suc n) fd m s =
    (let m' = m - word_of_int (- 1) in if 0 < m' then mprotect02_fill K n fd m' s' else (Ret (Some ()), s'))"
    unfolding Let_def using mprotect02_fill_step assms by blast
  have "unat (m + 1) = unat m + 1"
    using Suc.prems by (simp add: unat_word_ariths)
  then have "0 < m + 1" and "unat (m + 1) + n < 2 ^ 64"
    using Suc.prems by (simp_all add: word_less_nat_alt)
  then show ?case by (simp add: s' Let_def Suc.IH del: mprotect02_fill.simps)
qed

text \<open>C36. When every write returns its count, the loop that fills a page of \<^verbatim>\<open>m\<close> bytes ends within \<^verbatim>\<open>m / 26\<close> rounds, rounded up; when
  every write fails, each adds one to the count, and the loop does not end before that wraps round to 0.\<close>

theorem mprotect02_fill_rounds:
  assumes "0 < m"
  shows "((\<forall>h b k. rv (K h (Write fd b k)) = int k) \<longrightarrow> unat m \<le> 26 * n \<longrightarrow> fst (mprotect02_fill K n fd m s) = Ret (Some ())) \<and>
    ((\<forall>h b k. rv (K h (Write fd b k)) = - 1) \<longrightarrow> unat m + n < 2 ^ 64 \<longrightarrow> fst (mprotect02_fill K n fd m s) = Ret None)"
  using assms mprotect02_fill_written mprotect02_fill_stuck by blast

theorem mprotect02_fill_rounds_witness:
  "fst (mprotect02_fill (\<lambda>h c. case c of Write fd b k \<Rightarrow> sys_ok k | _ \<Rightarrow> sys_ok 0) 158 3 4096 mprotect02_init) = Ret (Some ()) \<and>
   fst (mprotect02_fill (\<lambda>h c. sys_err 28) 1000000 3 4096 mprotect02_init) = Ret None"
proof
  show "fst (mprotect02_fill (\<lambda>h c. case c of Write fd b k \<Rightarrow> sys_ok k | _ \<Rightarrow> sys_ok 0) 158 3 4096 mprotect02_init) = Ret (Some ())"
    using mprotect02_fill_rounds [of 4096 "\<lambda>h c. case c of Write fd b k \<Rightarrow> sys_ok k | _ \<Rightarrow> sys_ok 0" 3 158 mprotect02_init] by (simp del: mprotect02_fill.simps)
  show "fst (mprotect02_fill (\<lambda>h c. sys_err 28) 1000000 3 4096 mprotect02_init) = Ret None"
    using mprotect02_fill_rounds [of 4096 "\<lambda>h c. sys_err 28" 3 1000000 mprotect02_init] by (simp del: mprotect02_fill.simps)
qed

text \<open>The forks of a history.\<close>

fun forked :: "event list \<Rightarrow> nat" where
  "forked [] = 0"
| "forked ((c, r) # h) = (if c = Fork \<and> 0 \<le> rv r then 1 else 0) + forked h"

fun reaped :: "event list \<Rightarrow> nat" where
  "reaped [] = 0"
| "reaped ((c, r) # h) = (if c = Waitpid (-1) 10 \<and> 0 < rv r then 1 else 0) + reaped h"

lemma forked_append [simp]: "forked (h @ h') = forked h + forked h'"
  by (induction h rule: forked.induct) auto

lemma reaped_append [simp]: "reaped (h @ h') = reaped h + reaped h'"
  by (induction h rule: reaped.induct) auto

definition none_left :: "event list \<Rightarrow> bool" where
  "none_left h \<longleftrightarrow> h \<noteq> [] \<and> fst (last h) = Waitpid (-1) 10 \<and> rv (snd (last h)) \<le> 0"

lemma mmap10_reap_runs:
  assumes "clear s" and "\<not> none_left (trace s)"
    and "\<And>r s'. clear s' \<Longrightarrow> forked (trace s') = forked (trace s) \<Longrightarrow> (r = Some 1 \<longleftrightarrow> none_left (trace s')) \<Longrightarrow> P (Ret r, s')"
  shows "runs (mmap10_reap K n) s P"
  using assms
proof (induction n arbitrary: s)
  case 0
  then show ?case by (auto simp: run_simps)
next
  case (Suc n)
  show ?case
    unfolding mmap10_reap.simps
    using Suc.prems(1)
    apply (simp add: run_simps cong: run_congs)
    apply (intro answeredI conjI impI)
      apply (rule Suc.prems(3); simp add: clear_def none_left_def)
     apply (rule Suc.IH; simp add: clear_def none_left_def Suc.prems(3))
    apply (rule Suc.prems(3); simp add: clear_def none_left_def)
    done
qed

lemma mmap10_map_runs:
  assumes "clear s" and "\<And>x s'. clear s' \<Longrightarrow> forked (trace s') = forked (trace s) \<Longrightarrow> P (Ret x, s')"
  shows "runs (mmap10_map K a) s P"
  using assms(1) unfolding mmap10_map_def
  by (auto simp: run_simps clear_def intro!: answeredI assms(2))

lemma mmap10_round_runs:
  assumes "clear s"
    and child: "\<And>fl s'. clear s' \<Longrightarrow> fl \<noteq> Ret (Some 1) \<Longrightarrow> P (fl, s')"
    and own: "\<And>fl s'. clear s' \<Longrightarrow> forked (trace s') \<le> forked (trace s) + 3 \<Longrightarrow>
      (fl = Ret (Some 1) \<longleftrightarrow> forked (trace s') = forked (trace s) + 3 \<and> none_left (trace s')) \<Longrightarrow> Q (fl, s')"
  shows "fruns (mmap10_mmapzero K n a) s P Q"
  unfolding mmap10_mmapzero_def mmap10_third_def mmap10_unmap_part_def fruns_bind fruns_alone
  apply (rule mmap10_map_runs [OF assms(1)])
  apply (simp add: run_simps cong: fork_congs split del: if_split)
  apply (intro answeredI conjI impI allI child mmap10_reap_runs)
  apply (simp_all add: clear_def none_left_def)
  apply (rule own; auto simp: clear_def none_left_def)+
  done

text \<open>C9. \<^verbatim>\<open>mmap10\<close> passes exactly when all six forks succeed and its last call finds no child left to wait for.\<close>

theorem mmap10_verdict:
  "family_passes (mmap10_main K n) mmap10_init \<longleftrightarrow>
   (let h = family_calls (mmap10_main K n) mmap10_init in forked h = 6 \<and> none_left h)"
proof (rule family_verdictI)
  let ?C = "\<lambda>h. forked h = 6 \<and> none_left h"
  let ?Q = "\<lambda>(fl, s'). announced (fl, s') \<longleftrightarrow> ?C (trace s')"
  let ?second = "\<lambda>r2. if r2 = None then alone (ret None)
    else alone (seq (printf (if r2 = Some 1 then ''test succeeded\<newline>'' else [])) (ret (Some ())))"
  let ?rest = "\<lambda>r1. if r1 = None then alone (ret None)
    else if r1 \<noteq> Some 1 then alone (ret (Some ()))
    else fbind (mmap10_mmapzero K n 2) ?second"
  have child: "fkont ?rest (\<lambda>x. \<not> announced x) (\<lambda>x. \<not> announced x) (fl, s')"
    if "clear s'" "fl \<noteq> Ret (Some 1)" for fl s'
    using that by (cases fl) (auto simp: run_simps clear_def)
  have own: "fkont ?rest (\<lambda>x. \<not> announced x) ?Q (fl, s')"
    if s': "clear s'" "forked (trace s') \<le> 3" and fl: "fl = Ret (Some 1) \<longleftrightarrow> forked (trace s') = 3 \<and> none_left (trace s')" for fl s'
  proof (cases "fl = Ret (Some 1)")
    case True
    have "fruns (mmap10_mmapzero K n 2) s' (fkont ?second (\<lambda>x. \<not> announced x) (\<lambda>x. \<not> announced x)) (fkont ?second (\<lambda>x. \<not> announced x) ?Q)"
    proof (rule mmap10_round_runs [OF s'(1)])
      fix fl2 s2
      assume "clear s2" "fl2 \<noteq> Ret (Some 1)"
      then show "fkont ?second (\<lambda>x. \<not> announced x) (\<lambda>x. \<not> announced x) (fl2, s2)"
        by (cases fl2) (auto simp: run_simps clear_def)
    next
      fix fl2 s2
      assume "clear s2" "fl2 = Ret (Some 1) \<longleftrightarrow> forked (trace s2) = forked (trace s') + 3 \<and> none_left (trace s2)"
      with True fl show "fkont ?second (\<lambda>x. \<not> announced x) ?Q (fl2, s2)"
        by (cases fl2) (auto simp: run_simps clear_def)
    qed
    with True show ?thesis by (simp add: run_simps)
  next
    case False
    with s' fl show ?thesis by (cases fl) (auto simp: run_simps clear_def)
  qed
  show "fruns (mmap10_main K n) mmap10_init (\<lambda>x. \<not> announced x) (\<lambda>(fl, s'). announced (fl, s') \<longleftrightarrow>
      (let h = trace s' in forked h = 6 \<and> none_left h))"
    unfolding mmap10_main_def mmap10_setup_def mmap10_init_def merges Let_def
    apply (simp add: run_simps cong: fork_congs split del: if_split)
    apply (intro answeredI conjI impI allI)
    apply (rule mmap10_round_runs)
      apply (simp add: clear_def)
     apply (rule child; simp)
    apply (rule own; simp)
    done
qed

text \<open>A kernel that lets \<^verbatim>\<open>waitpid\<close> return each forked process at most once.\<close>

definition reaps_once :: "kernel \<Rightarrow> bool" where
  "reaps_once K \<longleftrightarrow> (\<forall>h. forked h \<le> reaped h \<longrightarrow> rv (K h (Waitpid (-1) 10)) \<le> 0)"

definition sound :: "event list \<Rightarrow> nat \<Rightarrow> bool" where
  "sound h k \<longleftrightarrow> reaped h \<le> forked h \<and> forked h \<le> k"

lemma mmap10_reap_ends:
  assumes "reaps_once K" and "sound (trace s) k" and "k < reaped (trace s) + n"
    and "\<And>r s'. r \<noteq> None \<Longrightarrow> sound (trace s') k \<Longrightarrow> P (Ret r, s')"
  shows "runs (mmap10_reap K n) s P"
  using assms(2,3)
proof (induction n arbitrary: s)
  case 0
  then show ?case by (simp add: sound_def)
next
  case (Suc n)
  have "forked (trace s) \<le> reaped (trace s) \<longrightarrow> rv (K (trace s) (Waitpid (- 1) 10)) \<le> 0"
    using assms(1) by (simp add: reaps_once_def)
  then have "sound (trace s @ [(Waitpid (- 1) 10, r)]) k" if "r = K (trace s) (Waitpid (- 1) 10)" for r
    using that Suc.prems(1) by (auto simp: sound_def)
  then show ?case
    using Suc.prems unfolding mmap10_reap.simps
    by (auto simp: run_simps intro!: answeredI' Suc.IH assms(4))
qed

lemma mmap10_map_ends:
  assumes "sound (trace s) k" and "\<And>x s'. sound (trace s') k \<Longrightarrow> P (Ret x, s')"
  shows "runs (mmap10_map K a) s P"
  using assms(1) unfolding mmap10_map_def
  by (auto simp: run_simps sound_def intro!: answeredI assms(2))

lemma mmap10_round_ends:
  assumes "reaps_once K" and "sound (trace s) k" and "k + 3 < n"
    and "\<And>fl s'. fl \<noteq> Ret None \<Longrightarrow> sound (trace s') (k + 3) \<Longrightarrow> Q (fl, s')"
  shows "leads (mmap10_mmapzero K n a) s Q"
  unfolding mmap10_mmapzero_def mmap10_third_def mmap10_unmap_part_def leads_bind leads_alone
  apply (rule mmap10_map_ends [OF assms(2)])
  apply (simp add: run_simps cong: lead_congs split del: if_split)
  apply (intro answeredI conjI impI allI mmap10_reap_ends [OF assms(1)])
  apply (rule assms(4) | (insert assms(3); auto simp: sound_def))+
  done

text \<open>C37. With seven rounds for its loop \<^verbatim>\<open>mmap10\<close> is never left waiting by a kernel that reports each of its children at most once.\<close>

theorem mmap10_ends:
  assumes "reaps_once K" and "7 \<le> n"
  shows "fst (snd (mmap10_main K n mmap10_init)) \<noteq> Ret None"
proof -
  let ?Q = "\<lambda>(fl, s'). fl \<noteq> Ret None"
  let ?second = "\<lambda>r2. if r2 = None then alone (ret None)
    else alone (seq (printf (if r2 = Some 1 then ''test succeeded\<newline>'' else [])) (ret (Some ())))"
  let ?rest = "\<lambda>r1. if r1 = None then alone (ret None)
    else if r1 \<noteq> Some 1 then alone (ret (Some ()))
    else fbind (mmap10_mmapzero K n 2) ?second"
  have second: "lkont ?second ?Q (fl, s')" if "fl \<noteq> Ret None" for fl s'
    using that by (cases fl) (auto simp: run_simps)
  have rest: "lkont ?rest ?Q (fl, s')" if "fl \<noteq> Ret None" "sound (trace s') 3" for fl s'
  proof (cases "fl = Ret (Some 1)")
    case True
    have "leads (mmap10_mmapzero K n 2) s' (lkont ?second ?Q)"
      using assms that by (intro mmap10_round_ends [of K s' 3]) (auto intro: second)
    with True show ?thesis by (simp add: run_simps)
  next
    case False
    with that show ?thesis by (cases fl) (auto simp: run_simps)
  qed
  have "leads (mmap10_main K n) mmap10_init ?Q"
    unfolding mmap10_main_def mmap10_setup_def mmap10_init_def merges
    apply (simp add: run_simps cong: lead_congs split del: if_split)
    apply (intro answeredI conjI impI allI)
    apply (rule mmap10_round_ends [of K _ 0])
       apply (insert assms, simp_all add: sound_def)
    apply (rule rest; simp add: sound_def)
    done
  then show ?thesis by (simp add: leads_def case_prod_beta)
qed

theorem mmap10_ends_witness:
  "fst (snd (mmap10_main (\<lambda>h c. if c = Waitpid (-1) 10 \<and> forked h \<le> reaped h then sys_err 10 else sys_ok 1) 7 mmap10_init)) \<noteq> Ret None"
  by (rule mmap10_ends) (simp_all add: reaps_once_def)

end
