(* ===== verification/Prctl06_Tests.thy ===== *)
theory Prctl06_Tests
  imports Family Prctl_Tests
begin

text \<open>
  \<^verbatim>\<open>prctl/prctl06.c\<close> with \<^verbatim>\<open>prctl06.h\<close>, and the program \<^verbatim>\<open>prctl06_execve.c\<close> that it copies and would execute. The loops that copy
  have fuel; \<open>None\<close> is a process still in one of them.
\<close>

abbreviation (input) "O_EXCL \<equiv> (128::int)"
abbreviation (input) "SUID_MODE \<equiv> (3145::int)"
abbreviation (input) "PROC_STATUS \<equiv> ''/proc/self/status''"
abbreviation (input) "TESTBIN \<equiv> ''prctl06_execve''"
abbreviation (input) "TEST_REL_BIN_DIR \<equiv> ''mntpoint/''"
abbreviation (input) "BIN_PATH \<equiv> ''mntpoint/prctl06_execve''"

section \<open>The header\<close>

text \<open>The last parameter of \<^verbatim>\<open>check_no_new_privs\<close> is not used.\<close>

definition get_no_new_privs :: syscall where
  "get_no_new_privs = Prctl PR_GET_NO_NEW_PRIVS [PNum 0, PNum 0, PNum 0, PNum 0]"

definition check_no_new_privs :: "kernel \<Rightarrow> int \<Rightarrow> string \<Rightarrow> ('m proc_scheme, unit) cprog" where
  "check_no_new_privs K val name = (bind (libc K get_no_new_privs) (\<lambda>r.
     if r = val then
       printf (name @ '' prctl(PR_GET_NO_NEW_PRIVS) expected '' @ show_int val @ '' got '' @ show_int val @ ''\<newline>'')
     else
     printf (name @ '' prctl(PR_GET_NO_NEW_PRIVS) expected '' @ show_int val @ '' got '' @ show_int r @ ''\<newline>'')))"

section \<open>prctl06\<close>

record prctl06 = proc +
  p06_nobody_uid :: int
  p06_nobody_gid :: int
  p06_proc_flag :: int
  p06_proc_sup :: string

definition prctl06_init :: prctl06 where
  "prctl06_init = \<lparr>errno = 0, out = no_output, trace = [], p06_nobody_uid = 0, p06_nobody_gid = 0, p06_proc_flag = 1, p06_proc_sup = ''Yes''\<rparr>"

text \<open>The inner loop of \<^verbatim>\<open>cp\<close>: whether all \<^verbatim>\<open>nread\<close> bytes were written, or an error ended it.\<close>

fun p06_write :: "kernel \<Rightarrow> nat \<Rightarrow> int \<Rightarrow> string \<Rightarrow> int \<Rightarrow> (prctl06, bool option) cprog" where
  "p06_write K 0 fd_to out_ptr nread = ret None"
| "p06_write K (Suc n) fd_to out_ptr nread = (bind (libc K (Write fd_to (Bytes (take (nat nread) out_ptr)) (nat nread))) (\<lambda>nwritten.
     bind (gets errno) (\<lambda>e.
     if nwritten < 0 \<and> e \<noteq> EINTR then
       ret (Some False)
     else
     let nread' = (if nwritten \<ge> 0 then nread - nwritten else nread) in
     let out_ptr' = (if nwritten \<ge> 0 then drop (nat nwritten) out_ptr else out_ptr) in
     if nread' > 0 then
       p06_write K n fd_to out_ptr' nread'
     else
     ret (Some True))))"

text \<open>The outer loop: whether it ended at the end of the file.\<close>

fun p06_copy :: "kernel \<Rightarrow> nat \<Rightarrow> int \<Rightarrow> int \<Rightarrow> string \<Rightarrow> (prctl06, bool option) cprog" where
  "p06_copy K 0 fd_from fd_to buf = ret None"
| "p06_copy K (Suc n) fd_from fd_to buf = (bind (c_read K fd_from buf 4096) (\<lambda>(nread, buf').
     if nread > 0 then
       (bind (p06_write K (Suc n) fd_to buf' nread) (\<lambda>w.
       if w \<noteq> Some True then
         ret w
       else
       p06_copy K n fd_from fd_to buf'))
     else
     ret (Some (nread = 0))))"

definition p06_out_error :: "kernel \<Rightarrow> int \<Rightarrow> int \<Rightarrow> (prctl06, int option) cprog" where
  "p06_out_error K fd_from fd_to = (bind (gets errno) (\<lambda>saved_errno.
     seq (call (libc K (Close fd_from))) (
     seq (if_then (fd_to \<ge> 0) (call (libc K (Close fd_to)))) (
     seq (set_errno saved_errno) (
     ret (Some (-1)))))))"

definition cp :: "kernel \<Rightarrow> nat \<Rightarrow> string \<Rightarrow> string \<Rightarrow> (prctl06, int option) cprog" where
  "cp K n to src = (bind (libc K (Open src O_RDONLY 0)) (\<lambda>fd_from.
     if fd_from < 0 then
       ret (Some (-1))
     else
     bind (libc K (Open to (O_WRONLY OR O_CREAT OR O_EXCL) mode_0666)) (\<lambda>fd_to.
     if fd_to < 0 then
       p06_out_error K fd_from fd_to
     else
     bind (indet_bytes K ''buf'' 4096) (\<lambda>buf.
     bind (p06_copy K n fd_from fd_to buf) (\<lambda>w.
     if w = None then
       ret None
     else
     if w = Some False then
       p06_out_error K fd_from fd_to
     else
     bind (libc K (Close fd_to)) (\<lambda>c.
     if c < 0 then
       p06_out_error K fd_from (-1)
     else
     seq (call (libc K (Close fd_from))) (
     ret (Some 0))))))))"

text \<open>\<^verbatim>\<open>verify_prctl\<close>, which starts the test proper, is not called. It returns no value in the process that forked.\<close>

definition prctl06_do_prctl :: "kernel \<Rightarrow> (prctl06, unit) family" where
  "prctl06_do_prctl K = (fbind (alone (gets p06_proc_sup)) (\<lambda>proc_sup.
     fbind (alone (indet_bytes K ''ipc_env_var'' 1024)) (\<lambda>env.
     let envp = Some [takeWhile (\<lambda>c. c \<noteq> NUL) env] in
     fseq (alone (check_no_new_privs K 0 ''parent'')) (
     fbind (alone (libc K (Prctl PR_SET_NO_NEW_PRIVS [PNum 1, PNum 0, PNum 0, PNum 0]))) (\<lambda>r.
     if r = -1 then
       alone (printf_errno ''prctl(PR_SET_NO_NEW_PRIVS) failed, error number '' ''\<newline>'')
     else
     fseq (alone (seq (printf ''prctl(PR_SET_NO_NEW_PRIVS) succeeded\<newline>'') (
       bind (gets p06_nobody_gid) (\<lambda>gid.
       seq (call (libc K (Setgid gid))) (
       bind (gets p06_nobody_uid) (\<lambda>uid.
       call (libc K (Setuid uid)))))))) (
     fbind (c_fork K) (\<lambda>childpid.
     alone (if childpid = 0 then (seq (check_no_new_privs K 1 ''After fork, child process'') (
       seq (call (c_exec K (ExecveWith BIN_PATH [BIN_PATH, ''After execve, child process'', proc_sup] envp))) (
       printf_errno ''child process failed to execute prctl_execve, error number '' ''\<newline>'')))
     else (seq (check_no_new_privs K 1 ''parent process'') (
       seq (call (c_exec K (ExecveWith BIN_PATH [BIN_PATH, ''After execve, parent process'', proc_sup] envp))) (
       printf_errno ''parent process failed to execute prctl_execve, error number '' ''\<newline>'')))))))))))"

definition prctl06_verify_prctl :: "kernel \<Rightarrow> (prctl06, unit) family" where
  "prctl06_verify_prctl K = (fbind (c_fork K) (\<lambda>pid.
     fif_then (pid = 0) (fseq (prctl06_do_prctl K) (
       alone (c_exit 0)))))"

text \<open>\<^verbatim>\<open>pw\<close> is null when there is no such user. \<^verbatim>\<open>fscanf\<close> is given the name of a file instead of a stream. Without fuel for the copy the
  process makes no further calls.\<close>

definition prctl06_setup :: "kernel \<Rightarrow> nat \<Rightarrow> (prctl06, unit) cprog" where
  "prctl06_setup K n = (bind (libc_res K (Getpwnam ''nobody'')) (\<lambda>pw.
     seq (if_then (rv pw = -1) (die SIGSEGV)) (
     seq (modify (\<lambda>s. s\<lparr>p06_nobody_uid := fst (sr_fds pw)\<rparr>)) (
     seq (modify (\<lambda>s. s\<lparr>p06_nobody_gid := snd (sr_fds pw)\<rparr>)) (
     bind (cp K n TESTBIN TEST_REL_BIN_DIR) (\<lambda>copied.
     if copied = None then skip else (seq (call (libc K (Chown BIN_PATH 0 0))) (
       seq (call (libc K (Chmod BIN_PATH SUID_MODE))) (
       seq (undefined_call K ''fscanf'') (
       bind (indet K ''fscanf()'') (\<lambda>f.
       seq (if_then (f \<noteq> 0) (seq (printf (PROC_STATUS @ '' doesn't support NoNewPrivs field\<newline>'')) (
         seq (modify (\<lambda>s. s\<lparr>p06_proc_flag := 0\<rparr>)) (
         modify (\<lambda>s. s\<lparr>p06_proc_sup := ''No''\<rparr>))))) (
       bind (libc K get_no_new_privs) (\<lambda>r.
       if r = 0 then
         printf ''[I] kernel supports PR_GET/SET_NO_NEW_PRIVS\<newline>''
       else
       bind (gets errno) (\<lambda>e.
       seq (if_then (e = EINVAL) (printf ''kernel doesn't support PR_GET/SET_NO_NEW_PRIVS\<newline>'')) (
       seq (printf ''current environment doesn't permit PR_GET/SET_NO_NEW_PRIVS\<newline>'') (
       c_exit 0))))))))))))))))"

definition prctl06_main :: "kernel \<Rightarrow> nat \<Rightarrow> (prctl06, unit) cprog" where
  "prctl06_main K n = prctl06_setup K n"

section \<open>The executed program\<close>

text \<open>An argument beyond the last one is a null pointer, which \<^verbatim>\<open>printf\<close> shows as \<^verbatim>\<open>(null)\<close> and \<^verbatim>\<open>strcmp\<close> may not be given. What the third
  one says decides nothing.\<close>

definition prctl06_execve_named :: "kernel \<Rightarrow> int \<Rightarrow> string \<Rightarrow> (proc, unit) cprog" where
  "prctl06_execve_named K argc name = (bind (libc_res K (Getpwnam ''nobody'')) (\<lambda>pw.
     seq (if_then (argc \<noteq> 3) (printf (''argc is '' @ show_int argc @ '', expected 3\<newline>''))) (
     seq (if_then (argc < 3) (undefined_call K ''strcmp(argv[2])'')) (
     seq (check_no_new_privs K 1 name) (
     bind (libc K Getegid) (\<lambda>egid.
     seq (if_then (egid = 0) (printf (name @ '' getegid() returns 0 unexpectedly, it gains root privileges\<newline>''))) (
     seq (if_then (rv pw = -1) (die SIGSEGV)) (
     seq (if_then (egid = snd (sr_fds pw)) (printf (name @ '' getegid() returns nobody, it doesn't gain root privileges\<newline>''))) (
     bind (libc K Geteuid) (\<lambda>euid.
     seq (if_then (euid = 0) (printf (name @ '' geteuid() returns 0 unexpectedly, it gains root privileges\<newline>''))) (
     seq (if_then (euid = fst (sr_fds pw)) (printf (name @ '' geteuid() returns nobody, it doesn't gain root privileges\<newline>''))) (
     if_then (argc = 3 \<and> egid \<noteq> 0 \<and> euid \<noteq> 0) (printf ''test succeeded\<newline>'')))))))))))))"

definition prctl06_execve_main :: "kernel \<Rightarrow> string list \<Rightarrow> (proc, unit) cprog" where
  "prctl06_execve_main K argv =
     prctl06_execve_named K (int (length argv)) (if 1 < length argv then argv ! 1 else ''(null)'')"

section \<open>The copy\<close>

text \<open>The bytes the writes of a history accepted, and the ones its reads delivered.\<close>

fun accepted :: "event list \<Rightarrow> string" where
  "accepted [] = []"
| "accepted ((c, r) # h) = (case c of Write fd b m \<Rightarrow> (case b of Bytes bs \<Rightarrow> take (nat (rv r)) bs | _ \<Rightarrow> []) | _ \<Rightarrow> []) @ accepted h"

fun delivered :: "event list \<Rightarrow> string" where
  "delivered [] = []"
| "delivered ((c, r) # h) = (case c of Read fd m \<Rightarrow> (if 0 < rv r then sr_bytes r else []) | _ \<Rightarrow> []) @ delivered h"

lemma accepted_append [simp]: "accepted (h @ h') = accepted h @ accepted h'"
  by (induction h rule: accepted.induct) auto

lemma delivered_append [simp]: "delivered (h @ h') = delivered h @ delivered h'"
  by (induction h rule: delivered.induct) auto

text \<open>A kernel that reads and writes no more than it is asked to; one that makes progress, and whose file has at most \<open>k\<close> bytes.\<close>

definition honest_io :: "kernel \<Rightarrow> bool" where
  "honest_io K \<longleftrightarrow> (\<forall>h fd m. rv (K h (Read fd m)) \<le> int m \<and> (0 < rv (K h (Read fd m)) \<longrightarrow> rv (K h (Read fd m)) = int (length (sr_bytes (K h (Read fd m)))))) \<and>
    (\<forall>h fd b m. rv (K h (Write fd b m)) \<le> int m)"

definition progresses :: "kernel \<Rightarrow> nat \<Rightarrow> bool" where
  "progresses K k \<longleftrightarrow> (\<forall>h fd m. 0 < rv (K h (Read fd m)) \<longrightarrow> int (length (delivered h)) + rv (K h (Read fd m)) \<le> int k) \<and>
    (\<forall>h fd b m. 0 < m \<longrightarrow> rv (K h (Write fd b m)) \<noteq> 0 \<and> \<not> failed_with (K h (Write fd b m)) EINTR)"

lemma p06_write_runs:
  assumes K: "honest_io K"
    and "0 < nread" "nat nread \<le> length out_ptr"
    and "\<And>r s'. (r = Some True \<longrightarrow> accepted (trace s') = accepted (trace s) @ take (nat nread) out_ptr) \<Longrightarrow>
      delivered (trace s') = delivered (trace s) \<Longrightarrow> (progresses K k \<longrightarrow> nread \<le> int n \<longrightarrow> r \<noteq> None) \<Longrightarrow> P (Ret r, s')"
  shows "runs (p06_write K n fd out_ptr nread) s P"
  using assms(2-)
proof (induction n arbitrary: s out_ptr nread)
  case 0
  then show ?case by (simp add: run_simps)
next
  case (Suc n)
  let ?c = "Write fd (Bytes (take (nat nread) out_ptr)) (nat nread)"
  have w: "rv (K h ?c) \<le> nread" for h
    using K Suc.prems(1) unfolding honest_io_def by (metis int_nat_eq less_imp_le)
  have prog: "progresses K k \<Longrightarrow> rv (K h ?c) \<noteq> 0 \<and> \<not> failed_with (K h ?c) EINTR" for h
    using Suc.prems(1) by (simp add: progresses_def)
  show ?case
    unfolding p06_write.simps Let_def
    apply (simp add: run_simps cong: run_congs split del: if_split)
    apply (intro answeredI' conjI impI)
    subgoal by (rule Suc.prems(3)) auto
    subgoal premises prems for r
    proof (cases "0 \<le> rv r")
      case True
      have "take (nat (rv r)) out_ptr @ take (nat (nread - rv r)) (drop (nat (rv r)) out_ptr) = take (nat nread) out_ptr"
        using True w [of "trace s"] prems(1) by (simp add: take_add [symmetric] nat_diff_distrib)
      moreover have "progresses K k \<Longrightarrow> 0 < rv r"
        using prog [of "trace s"] prems(1) True by auto
      ultimately have "runs (p06_write K n fd (drop (nat (rv r)) out_ptr) (nread - rv r))
          (s\<lparr>trace := trace s @ [(?c, r)], errno := new_errno r (errno s)\<rparr>) P"
        using True prems(3) w [of "trace s"] prems(1) Suc.prems(1,2)
        by (intro Suc.IH Suc.prems(3)) (auto simp: nat_diff_distrib min_def)
      with True show ?thesis by simp
    next
      case False
      then obtain e where "sr_ret r = Inl e" by (auto simp: rv_def split: sum.splits)
      with prems(1,2) False prog [of "trace s"] have "\<not> progresses K k" "rv r = - 1"
        by (auto simp: failed_with_def)
      then have "runs (p06_write K n fd out_ptr nread)
          (s\<lparr>trace := trace s @ [(?c, r)], errno := new_errno r (errno s)\<rparr>) P"
        using Suc.prems(1,2) by (intro Suc.IH Suc.prems(3)) simp_all
      with False show ?thesis by simp
    qed
    subgoal premises prems for r
    proof -
      have "rv r = nread"
        using prems(1,3) w [of "trace s"] Suc.prems(1) by (auto split: if_splits)
      then show ?thesis by (intro Suc.prems(3)) auto
    qed
    done
qed

lemma p06_copy_runs:
  assumes K: "honest_io K"
    and "accepted (trace s) = delivered (trace s)" "length buf = 4096" "progresses K k \<longrightarrow> length (delivered (trace s)) \<le> k"
    and "\<And>r s'. (r = Some True \<longrightarrow> accepted (trace s') = delivered (trace s')) \<Longrightarrow>
      (progresses K k \<longrightarrow> k < n + length (delivered (trace s)) \<longrightarrow> r \<noteq> None) \<Longrightarrow> P (Ret r, s')"
  shows "runs (p06_copy K n fd_from fd_to buf) s P"
  using assms(2-)
proof (induction n arbitrary: s buf)
  case 0
  show ?case unfolding p06_copy.simps runs_ret by (rule 0(4)) (use 0(3) in auto)
next
  case (Suc n)
  show ?case
    unfolding p06_copy.simps
    apply (simp add: run_simps cong: run_congs split del: if_split)
    apply (intro answeredI' conjI impI)
    subgoal premises prems for r
    proof (rule p06_write_runs [OF K, where k = k])
      have r: "rv r \<le> 4096" "rv r = int (length (sr_bytes r))"
        using K prems unfolding honest_io_def by (metis of_nat_numeral, blast)
      then show "0 < rv r" "nat (rv r) \<le> length (overlay (fit_to 4096 (sr_bytes r)) buf)"
        using prems(2) Suc.prems(2) by simp_all
      let ?buf = "overlay (fit_to 4096 (sr_bytes r)) buf"
      have bytes: "take (nat (rv r)) ?buf = sr_bytes r"
        using r Suc.prems(2) by (simp add: overlay_def fit_to_def)
      have more: "progresses K k \<longrightarrow> length (delivered (trace s)) + length (sr_bytes r) \<le> k"
        using prems r unfolding progresses_def by (metis of_nat_add of_nat_le_iff)
      fix w :: "bool option" and s' :: prctl06
      let ?s = "s\<lparr>trace := trace s @ [(Read fd_from 4096, r)], errno := new_errno r (errno s)\<rparr>"
      assume a: "w = Some True \<longrightarrow> accepted (trace s') = accepted (trace ?s) @ take (nat (rv r)) ?buf"
        and d: "delivered (trace s') = delivered (trace ?s)" and e: "progresses K k \<longrightarrow> rv r \<le> int (Suc n) \<longrightarrow> w \<noteq> None"
      show "kont (\<lambda>w. if w \<noteq> Some True then ret w else p06_copy K n fd_from fd_to ?buf) P (Ret w, s')"
      proof (cases "w = Some True")
        case True
        obtain l where "length (sr_bytes r) = Suc l"
          using r prems(2) by (cases "length (sr_bytes r)") simp_all
        then have "runs (p06_copy K n fd_from fd_to ?buf) s' P"
          using a d more bytes Suc.prems(1,2,3) r True by (intro Suc.IH Suc.prems(4)) auto
        with True show ?thesis by simp
      next
        case False
        with d e more prems(2) r show ?thesis by (simp add: run_simps) (intro Suc.prems(4); auto)
      qed
    qed
    subgoal by (rule Suc.prems(4)) (use Suc.prems(1) in auto)
    done
qed

lemma prctl06_cp_runs:
  assumes "honest_io K" and "accepted (trace s) = delivered (trace s)" "delivered (trace s) = []"
    and "\<And>r s'. (r = Some 0 \<longrightarrow> accepted (trace s') = delivered (trace s')) \<Longrightarrow> (progresses K k \<longrightarrow> k < n \<longrightarrow> r \<noteq> None) \<Longrightarrow> P (Ret r, s')"
  shows "runs (cp K n to src) s P"
proof -
  have err: "runs (p06_out_error K a b) s' P" for a b s'
    unfolding p06_out_error_def by (auto simp: run_simps intro!: answeredI assms(4))
  show ?thesis
    using assms(2,3) unfolding cp_def
    apply (simp add: run_simps cong: run_congs split del: if_split)
    apply (intro answeredI conjI impI err)
    subgoal by (rule assms(4)) simp_all
    subgoal
      apply (rule p06_copy_runs [OF assms(1), where k = k])
      apply simp_all
      apply (simp add: run_simps cong: run_congs split del: if_split)
      apply (intro answeredI conjI impI err)
      apply (rule assms(4); auto)+
      done
    done
qed

text \<open>C10. The function \<^verbatim>\<open>cp\<close> of \<^verbatim>\<open>prctl06.c\<close>, with short writes and interrupted ones: when it reports success, what the writes accepted is
  what the reads delivered; and it returns, when reads and writes make progress and the file is shorter than the fuel.\<close>

theorem prctl06_cp_copies:
  assumes "honest_io K"
  shows "case cp K n to src prctl06_init of (fl, s') \<Rightarrow>
    (fl = Ret (Some 0) \<longrightarrow> accepted (trace s') = delivered (trace s')) \<and> (progresses K k \<and> k < n \<longrightarrow> fl \<noteq> Ret None)"
proof -
  have "runs (cp K n to src) prctl06_init (\<lambda>(fl, s').
    (fl = Ret (Some 0) \<longrightarrow> accepted (trace s') = delivered (trace s')) \<and> (progresses K k \<and> k < n \<longrightarrow> fl \<noteq> Ret None))"
    by (rule prctl06_cp_runs [OF assms, where k = k]) (simp_all add: prctl06_init_def)
  then show ?thesis by (simp add: runs_def)
qed

text \<open>A kernel with one file of three bytes, which takes one byte at a time.\<close>

definition slow_kernel :: kernel where
  "slow_kernel h c = (case c of
     Read fd m \<Rightarrow> (if length (delivered h) < 3 \<and> 3 \<le> m then (sys_ok 3)\<lparr>sr_bytes := ''abc''\<rparr> else sys_ok 0)
   | Write fd b m \<Rightarrow> sys_ok (if m = 0 then 0 else 1)
   | _ \<Rightarrow> sys_ok 3)"

theorem prctl06_cp_copies_witness:
  "honest_io slow_kernel \<and> progresses slow_kernel 5 \<and>
   (case cp slow_kernel 6 TESTBIN TEST_REL_BIN_DIR prctl06_init of (fl, s') \<Rightarrow>
    (fl = Ret (Some 0) \<longrightarrow> accepted (trace s') = delivered (trace s')) \<and> fl \<noteq> Ret None)"
proof -
  have K: "honest_io slow_kernel" "progresses slow_kernel 5"
    by (auto simp: honest_io_def progresses_def slow_kernel_def failed_with_def)
  then show ?thesis
    using prctl06_cp_copies [OF K(1), where n = 6 and to = TESTBIN and src = TEST_REL_BIN_DIR and k = 5] by simp
qed

section \<open>Verdicts\<close>

lemma quiet_check_no_new_privs: "scan 0 name = 0 \<Longrightarrow> quiet (check_no_new_privs K val name)"
  unfolding check_no_new_privs_def by (intro quiet_intros; simp)

lemma quiet_p06_write: "quiet (p06_write K n fd out_ptr nread)"
  by (induction n arbitrary: out_ptr nread) (auto simp: Let_def intro!: quiet_intros)

lemma quiet_p06_copy: "quiet (p06_copy K n fd_from fd_to buf)"
  by (induction n arbitrary: buf) (auto simp: Let_def intro!: quiet_intros quiet_p06_write)

lemma quiet_cp: "quiet (cp K n to src)"
  unfolding cp_def p06_out_error_def by (intro quiet_intros quiet_p06_copy)

text \<open>\<^verbatim>\<open>prctl06\<close> passes on no kernel: its \<^verbatim>\<open>main\<close> only prepares the test.\<close>

theorem prctl06_never_passes: "\<not> passes (prctl06_main K n) prctl06_init"
proof (rule quiet_not_passes)
  show "quiet (prctl06_main K n)"
    unfolding prctl06_main_def prctl06_setup_def by (intro quiet_intros quiet_cp; simp)
qed (simp add: prctl06_init_def clear_def)

lemma prctl06_execve_runs:
  assumes name: "scan 0 name = 0"
  shows "runs (prctl06_execve_named K 3 name) proc_init (\<lambda>(fl, s'). announced (fl, s') \<longleftrightarrow> (let h = trace s' in
    0 \<le> rv (snd (h ! 0)) \<and> rv (snd (h ! 2)) \<noteq> 0 \<and> rv (snd (h ! 3)) \<noteq> 0))"
proof -
  have m: "scan 0 (name @ '' prctl(PR_GET_NO_NEW_PRIVS) expected '' @ show_int 1 @ '' got '' @ show_int v @ ''\<newline>'') = 0"
    "scan 0 (name @ '' getegid() returns 0 unexpectedly, it gains root privileges\<newline>'') = 0"
    "scan 0 (name @ '' getegid() returns nobody, it doesn't gain root privileges\<newline>'') = 0"
    "scan 0 (name @ '' geteuid() returns 0 unexpectedly, it gains root privileges\<newline>'') = 0"
    "scan 0 (name @ '' geteuid() returns nobody, it doesn't gain root privileges\<newline>'') = 0"
    "scan 0 ''test succeeded\<newline>'' = 14" for v
    using name by simp_all
  show ?thesis
    unfolding prctl06_execve_named_def check_no_new_privs_def get_no_new_privs_def proc_init_def merges
    apply (simp add: run_simps Let_def cong: run_congs split del: if_split)
    apply (intro answeredI conjI impI allI)
    apply (simp only: m if_cancel scan_Nil cong: if_cong)
    apply (simp add: rv_not_m1)
    done
qed

text \<open>The program that \<^verbatim>\<open>prctl06\<close> would execute passes exactly when the user exists and neither effective identity is
  root's; the flag \<^verbatim>\<open>PR_GET_NO_NEW_PRIVS\<close> reports is only printed.\<close>

theorem prctl06_execve_verdict:
  "passes (prctl06_execve_main K [p, ''After execve, child process'', y]) proc_init \<longleftrightarrow>
   (let h = calls (prctl06_execve_main K [p, ''After execve, child process'', y]) proc_init in
    0 \<le> rv (snd (h ! 0)) \<and> rv (snd (h ! 2)) \<noteq> 0 \<and> rv (snd (h ! 3)) \<noteq> 0)"
proof (rule verdictI)
  have "prctl06_execve_main K [p, ''After execve, child process'', y] = prctl06_execve_named K 3 ''After execve, child process''"
    by (simp add: prctl06_execve_main_def)
  then show "runs (prctl06_execve_main K [p, ''After execve, child process'', y]) proc_init (\<lambda>(fl, s'). announced (fl, s') \<longleftrightarrow> (let h = trace s' in
    0 \<le> rv (snd (h ! 0)) \<and> rv (snd (h ! 2)) \<noteq> 0 \<and> rv (snd (h ! 3)) \<noteq> 0))"
    using prctl06_execve_runs [of "''After execve, child process''" K] by simp
qed

end
