(* ===== verification/Openat02_Tests.thy ===== *)
theory Openat02_Tests
  imports Family
begin

text \<open>
  \<^verbatim>\<open>openat/openat02.c\<close>, one function for each flag, and \<^verbatim>\<open>openat02_child.c\<close>, the program that one of them would
  execute. There is no fork left in the test: it branches on an identity that is never set, and waits.
\<close>

abbreviation (input) "O_CLOEXEC \<equiv> (524288::int)"
abbreviation (input) "O_LARGEFILE \<equiv> (0::int)"
abbreviation (input) "O_NOATIME \<equiv> (262144::int)"
abbreviation (input) "O_NOFOLLOW \<equiv> (131072::int)"
abbreviation (input) "ELOOP \<equiv> (40::int)"

section \<open>openat02\<close>

text \<open>\<^verbatim>\<open>fprintf\<close> is given the name of the file instead of a stream, twice.\<close>

definition openat02_setup :: "kernel \<Rightarrow> (proc, unit) cprog" where
  "openat02_setup K = (seq (undefined_call K ''fprintf'') (
     call (libc K (Symlink ''test_file'' ''sfile''))))"

definition testfunc_append :: "kernel \<Rightarrow> (proc, int) cprog" where
  "testfunc_append K = (seq (undefined_call K ''fprintf'') (
     bind (libc K (Openat AT_FDCWD ''test_file'' (O_APPEND OR O_RDWR) mode_0777)) (\<lambda>r.
     if r = -1 then
       (seq (printf ''openat failed\<newline>'') (
       ret 0))
     else
     seq (call (libc K (Write r (Bytes ''abcdefg'') 7))) (
     bind (libc K (Lseek r 0 SEEK_CUR)) (\<lambda>file_offset.
     if file_offset > 7 then
       (seq (printf ''test O_APPEND for openat success\<newline>'') (
       ret 1))
     else
     seq (printf ''test O_APPEND for openat failed\<newline>'') (
     seq (call (libc K (Close r))) (
     ret 0)))))))"

text \<open>The switch is on the exit code as an 8-bit integer.\<close>

definition testfunc_cloexec :: "kernel \<Rightarrow> (proc, int) cprog" where
  "testfunc_cloexec K = (bind (libc K (Openat AT_FDCWD ''test_file'' (O_CLOEXEC OR O_RDWR) mode_0777)) (\<lambda>r.
     if r = -1 then
       (seq (printf_errno ''openat failed, error number '' ''\<newline>'') (
       ret 0))
     else
     bind (indet K ''pid'') (\<lambda>pid.
     seq (if_then (pid = 0) (bind (c_exec K (Execvp ''openat02_child'' [''openat02_child'', show_int r])) (\<lambda>x.
       if_then (x \<noteq> 0) (c_exit 2)))) (
     seq (call (libc K (Close r))) (
     bind (libc_res K Wait) (\<lambda>w.
     bind ((case sr_ret w of Inl e \<Rightarrow> indet K ''status'' | Inr v \<Rightarrow> ret (sr_int w))) (\<lambda>status.
     if \<not> WIFEXITED status then
       (seq (printf_errno ''openat2_exec exits with unexpected error, got '' ''\<newline>'') (
       ret 0))
     else
     if WEXITSTATUS status = 0 then
       (seq (printf ''test O_CLOEXEC for openat success\<newline>'') (
       ret 1))
     else
     if WEXITSTATUS status = 1 then
       (seq (printf ''test O_CLOEXEC for openat failed\<newline>'') (
       ret 0))
     else
     seq (printf ''execlp() failed\<newline>'') (
     ret 0))))))))"

text \<open>The offset is \<^verbatim>\<open>4.1*1024*1024*1024\<close>, cut to an integer.\<close>

definition testfunc_largefile :: "kernel \<Rightarrow> (proc, int) cprog" where
  "testfunc_largefile K = (bind (libc K (Open ''large_file'' (O_LARGEFILE OR O_RDWR OR O_CREAT) mode_0777)) (\<lambda>fd.
     bind (libc K (Lseek fd 4402341478 SEEK_SET)) (\<lambda>offset.
     if offset = -1 then
       (seq (printf_errno ''lseek64 failed, error number '' ''\<newline>'') (
       ret 0))
     else
     seq (call (libc K (Write fd (Bytes ''abcdefg'') 7))) (
     seq (call (libc K (Close fd))) (
     bind (libc K (Openat AT_FDCWD ''large_file'' (O_LARGEFILE OR O_RDONLY) mode_0777)) (\<lambda>r.
     if r = -1 then
       (seq (printf ''test O_LARGEFILE for openat failed\<newline>'') (
       ret 0))
     else
     seq (printf ''test O_LARGEFILE for openat success\<newline>'') (
     seq (call (libc K (Close r))) (
     ret 1))))))))"

definition testfunc_noatime :: "kernel \<Rightarrow> (proc, int) cprog" where
  "testfunc_noatime K = (bind (indet_stat K ''file_stat'') (\<lambda>old.
     bind (indet_stat K ''file_newstat'') (\<lambda>old'.
     bind (c_stat K (Stat ''test_file'') old) (\<lambda>(s, file_stat).
     seq (call (libc K (Sleep 1))) (
     bind (libc K (Openat AT_FDCWD ''test_file'' (O_NOATIME OR O_RDONLY) mode_0777)) (\<lambda>r.
     if r = -1 then
       (seq (printf_errno ''openat failed, error number '' ''\<newline>'') (
       ret 0))
     else
     seq (call (libc K (Read r 1))) (
     seq (call (libc K (Close r))) (
     bind (c_stat K (Stat ''test_file'') old') (\<lambda>(s', file_newstat).
     if st_atime file_stat = st_atime file_newstat then
       (seq (printf ''test O_NOATIME for openat success\<newline>'') (
       ret 1))
     else
     seq (printf ''test O_NOATIME for openat failed\<newline>'') (
     ret 0))))))))))"

definition testfunc_nofollow :: "kernel \<Rightarrow> (proc, int) cprog" where
  "testfunc_nofollow K = (bind (libc K (Openat AT_FDCWD ''sfile'' (O_NOFOLLOW OR O_RDONLY) mode_0777)) (\<lambda>r.
     bind (gets errno) (\<lambda>e.
     if r = -1 \<and> e = ELOOP then
       (seq (printf ''test O_NOFOLLOW for openat success\<newline>'') (
       ret 1))
     else
     seq (printf ''test O_NOFOLLOW for openat failed\<newline>'') (
     seq (call (libc K (Close r))) (
     ret 0)))))"

definition testfunc_trunc :: "kernel \<Rightarrow> (proc, int) cprog" where
  "testfunc_trunc K = (bind (indet_stat K ''file_stat'') (\<lambda>old.
     bind (libc K (Openat AT_FDCWD ''test_file'' (O_TRUNC OR O_RDWR) mode_0777)) (\<lambda>r.
     if r = -1 then
       (seq (printf_errno ''openat failed, error number '' ''\<newline>'') (
       ret 0))
     else
     bind (c_stat K (Fstat r) old) (\<lambda>(s, file_stat).
     seq (printf (if st_size file_stat = 0 then ''test O_TRUNC for openat success\<newline>'' else ''test O_TRUNC for openat failed\<newline>'')) (
     seq (call (libc K (Close r))) (
     ret (if st_size file_stat = 0 then 1 else 0)))))))"

definition openat02_testfunc :: "kernel \<Rightarrow> (proc, int) cprog list" where
  "openat02_testfunc K = [testfunc_append K, testfunc_cloexec K, testfunc_largefile K, testfunc_noatime K, testfunc_nofollow K, testfunc_trunc K]"

fun openat02_run :: "(proc, int) cprog list \<Rightarrow> int \<Rightarrow> (proc, int) cprog" where
  "openat02_run [] ok = ret ok"
| "openat02_run (f # fs) ok = (bind f (\<lambda>r.
     openat02_run fs (ok * r)))"

definition openat02_main :: "kernel \<Rightarrow> (proc, unit) cprog" where
  "openat02_main K = (seq (openat02_setup K) (
     bind (openat02_run (openat02_testfunc K) 1) (\<lambda>ok.
     if_then (ok \<noteq> 0) (printf ''test succeeded\<newline>''))))"

section \<open>openat02_child\<close>

text \<open>The result of \<^verbatim>\<open>main\<close> is the exit code; the message goes to the standard error.\<close>

definition openat02_child_main :: "kernel \<Rightarrow> string list \<Rightarrow> (proc, int) cprog" where
  "openat02_child_main K argv = (if length argv \<noteq> 2 then
       c_exit 1
     else
     bind (libc K (Write (atoi (argv ! 1)) (Bytes ''abc'') 3)) (\<lambda>r.
     ret (of_bool (r \<noteq> -1))))"

section \<open>Verdicts\<close>

text \<open>C40. \<^verbatim>\<open>openat02_child\<close>, given the text \<^verbatim>\<open>openat02\<close> makes of a descriptor, reads the same descriptor back: it makes one call, a write
  to it, and its exit code is 1 when the write is accepted and 0 when it is refused.\<close>

theorem openat02_child_writes:
  "openat02_child_main K [name, show_int fd] s =
    (let r = K (trace s) (Write fd (Bytes ''abc'') 3) in
     (Ret (if 0 \<le> rv r then 1 else 0), s\<lparr>trace := trace s @ [(Write fd (Bytes ''abc'') 3, r)], errno := new_errno r (errno s)\<rparr>))"
proof -
  have "runs (openat02_child_main K [name, show_int fd]) s (\<lambda>x. x =
    (let r = K (trace s) (Write fd (Bytes ''abc'') 3) in
     (Ret (if 0 \<le> rv r then 1 else 0), s\<lparr>trace := trace s @ [(Write fd (Bytes ''abc'') 3, r)], errno := new_errno r (errno s)\<rparr>)))"
    unfolding openat02_child_main_def
    by (auto simp: run_simps atoi_show_int Let_def rv_not_m1 intro!: answeredI')
  then show ?thesis by (simp add: runs_def)
qed

text \<open>In the CLOEXEC case of \<^verbatim>\<open>openat02\<close> nothing is forked: if it returns, its value tells whether the file was opened and the status in the last
  answer, which is of \<^verbatim>\<open>wait\<close> or of the unset variable when \<^verbatim>\<open>wait\<close> fails, is an exit with code 0.\<close>

theorem openat02_cloexec:
  "case testfunc_cloexec K s of (fl, s') \<Rightarrow>
    (let h = drop (length (trace s)) (trace s') in
     (case fl of Ret r \<Rightarrow> r \<noteq> 0 \<longleftrightarrow> 0 \<le> rv (snd (h ! 0)) \<and> exited_0 (sr_int (snd (last h))) | _ \<Rightarrow> sr_int (snd (h ! 1)) = 0) \<and>
     list_all (\<lambda>(c, r). c \<noteq> Fork) h)"
proof -
  have "runs (testfunc_cloexec K) s (\<lambda>(fl, s'). let h = drop (length (trace s)) (trace s') in
     (case fl of Ret r \<Rightarrow> r \<noteq> 0 \<longleftrightarrow> 0 \<le> rv (snd (h ! 0)) \<and> exited_0 (sr_int (snd (last h))) | _ \<Rightarrow> sr_int (snd (h ! 1)) = 0) \<and>
     list_all (\<lambda>(c, r). c \<noteq> Fork) h)"
    unfolding testfunc_cloexec_def
    by (auto simp: run_simps Let_def rv_not_m1 exited_0_def intro!: answeredI)
  then show ?thesis by (simp add: runs_def)
qed

end
