(* ===== verification/Thread_Tests.thy ===== *)
theory Thread_Tests
  imports Family "HOL-Library.Signed_Division"
begin

text \<open>
  The mmap tests that start threads: \<^verbatim>\<open>mmap/mmap11.c\<close>, whose threads run beside \<^verbatim>\<open>main\<close> until the process ends, and
  \<^verbatim>\<open>mmap/mmap18.c\<close>, whose children start one thread each and wait for it. The threads of a process share its state and
  its history; \<open>errno\<close> belongs to each thread. What the scheduler does is a parameter.
\<close>

section \<open>Threads\<close>

text \<open>The pthread functions return an error number and leave \<^verbatim>\<open>errno\<close> alone.\<close>

definition pthread_rv :: "sysres \<Rightarrow> int" where
  "pthread_rv r = (case sr_ret r of Inl e \<Rightarrow> e | Inr v \<Rightarrow> 0)"

definition pthread :: "kernel \<Rightarrow> syscall \<Rightarrow> ('m proc_scheme, int) cprog" where
  "pthread K c = bind (invoke K c) (\<lambda>r. ret (pthread_rv r))"

text \<open>A part of another thread.\<close>

definition in_thread :: "('m proc_scheme, 'a) cprog \<Rightarrow> ('m proc_scheme, 'a) cprog" where
  "in_thread m = bind (gets errno) (\<lambda>e. bind m (\<lambda>x. seq (set_errno e) (ret x)))"

lemma runs_pthread [run_simps]:
  "runs (pthread K c) s P = answered K (trace s) c (\<lambda>r. P (Ret (pthread_rv r), s\<lparr>trace := trace s @ [(c, r)]\<rparr>))"
  by (simp add: pthread_def run_simps)

lemma runs_in_thread:
  "runs (in_thread m) s P = runs m s (kont (\<lambda>x. seq (set_errno (errno s)) (ret x)) P)"
  by (simp add: in_thread_def run_simps)

section \<open>mmap11\<close>

text \<open>How far \<^verbatim>\<open>wait_thread\<close> is; \<^verbatim>\<open>wait_thread2\<close> returns at once.\<close>

datatype mmap11_at = Unborn | Allocating | Filling addr | Sleeping | Finished

record mmap11 = proc +
  m11_at :: mmap11_at

definition mmap11_init :: mmap11 where
  "mmap11_init = \<lparr>errno = 0, out = no_output, trace = [], m11_at = Unborn\<rparr>"

abbreviation (input) "MAL_SIZE \<equiv> (102400::int)"

text \<open>The next action of \<^verbatim>\<open>wait_thread\<close>, and \<open>n\<close> of them.\<close>

fun mmap11_wait_thread :: "kernel \<Rightarrow> mmap11_at \<Rightarrow> (mmap11, mmap11_at) cprog" where
  "mmap11_wait_thread K Unborn = ret Unborn"
| "mmap11_wait_thread K Allocating = (bind (c_malloc K MAL_SIZE) (\<lambda>a.
     ret (if a \<noteq> NULL then Filling a else Sleeping)))"
| "mmap11_wait_thread K (Filling a) = (seq (mem_store K a (fill (nat MAL_SIZE) (CHR 0x01))) (
     ret Sleeping))"
| "mmap11_wait_thread K Sleeping = (seq (call (libc K (Sleep 1))) (
     ret Finished))"
| "mmap11_wait_thread K Finished = ret Finished"

fun mmap11_others :: "kernel \<Rightarrow> nat \<Rightarrow> (mmap11, unit) cprog" where
  "mmap11_others K 0 = skip"
| "mmap11_others K (Suc n) = (bind (gets m11_at) (\<lambda>now.
     bind (in_thread (mmap11_wait_thread K now)) (\<lambda>next.
     seq (modify (\<lambda>s. s\<lparr>m11_at := next\<rparr>)) (
     mmap11_others K n))))"

text \<open>\<^verbatim>\<open>check\<close> between the calls of which the thread makes \<open>sched i\<close> actions. The handle of the second thread is stored at \<^verbatim>\<open>thread[lc]\<close>, and
  \<^verbatim>\<open>lc\<close> was never set; where this is not 0, the store may have damaged what \<^verbatim>\<open>free\<close> relies on. The thread that was not joined ends with the process. \<^verbatim>\<open>setup\<close> and \<^verbatim>\<open>cleanup\<close> are empty.\<close>

definition mmap11_check :: "kernel \<Rightarrow> (nat \<Rightarrow> nat) \<Rightarrow> (mmap11, unit) cprog" where
  "mmap11_check K sched = (bind (pthread K PthreadAttrInit) (\<lambda>ret1.
     if ret1 \<noteq> 0 then
       (seq (printf_errno ''pthread_attr_init, error number '' ''\<newline>'') (
       c_exit EXIT_FAILURE))
     else
     bind (pthread K (PthreadAttrSetdetachstate 1)) (\<lambda>ret2.
     if ret2 \<noteq> 0 then
       (seq (printf_errno ''pthread_attr_setdetachstate, error number '' ''\<newline>'') (
       c_exit EXIT_FAILURE))
     else
     bind (c_malloc K 8) (\<lambda>thread.
     if thread = NULL then
       (seq (printf_errno ''malloc failed, error number '' ''\<newline>'') (
       c_exit EXIT_FAILURE))
     else
     bind (pthread K (PthreadCreate ''wait_thread'' NULL)) (\<lambda>ret3.
     if ret3 \<noteq> 0 then
       (seq (printf_errno ''pthread_create failed, error number '' ''\<newline>'') (
       c_exit EXIT_FAILURE))
     else
     seq (modify (\<lambda>s. s\<lparr>m11_at := Allocating\<rparr>)) (
     seq (mmap11_others K (sched 0)) (
     bind (indet K ''lc'') (\<lambda>lc.
     seq (mmap11_others K (sched 1)) (
     bind (invoke K (PthreadCreate ''wait_thread2'' NULL)) (\<lambda>r.
     if pthread_rv r \<noteq> 0 then
       (seq (printf_errno ''pthread_create failed, error number '' []) (
       c_exit EXIT_FAILURE))
     else
     seq (mmap11_others K (sched 2)) (
     seq (mem_store K (thread + 8 * word_of_int lc) (fit 8 (sr_bytes r))) (
     seq (mmap11_others K (sched 3)) (
     seq (printf ''test succeeded\<newline>'') (
     seq (if_then (lc \<noteq> 0) (undefined_call K ''free(thread)'')) (
     mmap11_others K (sched 4))))))))))))))))"

definition mmap11_main :: "kernel \<Rightarrow> (nat \<Rightarrow> nat) \<Rightarrow> (mmap11, unit) cprog" where
  "mmap11_main K sched = mmap11_check K sched"

section \<open>mmap18\<close>

text \<open>The globals, with the static variable of \<^verbatim>\<open>check_stackgrow_up\<close>.\<close>

record mmap18 = proc +
  m18_page_size :: int
  m18_addr :: addr

definition mmap18_init :: mmap18 where
  "mmap18_init = \<lparr>errno = 0, out = no_output, trace = [], m18_page_size = 0, m18_addr = NULL\<rparr>"

abbreviation (input) "SIGFPE \<equiv> (8::int)"
abbreviation (input) "PTHREAD_STACK_MIN \<equiv> (16384::int)"

text \<open>The address of a local variable is not null, so that the function calls itself once at most: \<open>again\<close> is its call
  with \<^verbatim>\<open>addr\<close> set.\<close>

definition mmap18_stackgrow_again :: "kernel \<Rightarrow> (mmap18, bool) cprog" where
  "mmap18_stackgrow_again K = (bind (indet K ''&local_var'') (\<lambda>local_var.
     bind (gets m18_addr) (\<lambda>addr.
     ret (addr < word_of_int local_var))))"

definition mmap18_check_stackgrow_up :: "kernel \<Rightarrow> (mmap18, bool) cprog" where
  "mmap18_check_stackgrow_up K = (bind (gets m18_addr) (\<lambda>addr.
     if addr = NULL then
       (bind (indet K ''&local_var'') (\<lambda>local_var.
       seq (modify (\<lambda>s. s\<lparr>m18_addr := word_of_int local_var\<rparr>)) (
       mmap18_stackgrow_again K)))
     else
     mmap18_stackgrow_again K))"

definition mmap18_setup :: "kernel \<Rightarrow> (mmap18, unit) cprog" where
  "mmap18_setup K = (bind (mmap18_check_stackgrow_up K) (\<lambda>up.
     seq (if_then up (seq (printf ''Test can't be performed with stack grows up architecture\<newline>'') (
       c_exit 0))) (
     bind (libc K Getpagesize) (\<lambda>r.
     modify (\<lambda>s. s\<lparr>m18_page_size := r\<rparr>)))))"

text \<open>\<^verbatim>\<open>size_t\<close> divided by the \<^verbatim>\<open>long\<close> \<^verbatim>\<open>page_size\<close>: an unsigned division, which traps for 0.\<close>

definition mmap18_pages :: "int \<Rightarrow> int \<Rightarrow> int" where
  "mmap18_pages bytes page_size = uint (word_of_int bytes div word_of_int page_size :: 64 word)"

definition mmap18_allocate_stack :: "kernel \<Rightarrow> int \<Rightarrow> int \<Rightarrow> (mmap18, addr) cprog" where
  "mmap18_allocate_stack K stack_size mapped_size = (bind (gets m18_page_size) (\<lambda>page_size.
     let reserved_size = 256 * page_size + stack_size in
     bind (libc_ptr K (Mmap NULL reserved_size (PROT_READ OR PROT_WRITE) (MAP_PRIVATE OR MAP_ANONYMOUS) (-1) 0)) (\<lambda>start.
     seq (call (libc K (Munmap start reserved_size))) (
     seq (call (libc_ptr K (Mmap (start + word_of_int (reserved_size - mapped_size)) mapped_size (PROT_READ OR PROT_WRITE)
       (MAP_FIXED OR MAP_PRIVATE OR MAP_ANONYMOUS OR MAP_GROWSDOWN) (-1) 0))) (
     let stack_top = start + word_of_int reserved_size in
     let stack_bottom = start + word_of_int (reserved_size - stack_size) in
     seq (printf (''[I] start = '' @ show_ptr start @ '', stack_top = '' @ show_ptr stack_top @ '', stack bottom = '' @ show_ptr stack_bottom @ ''\<newline>'')) (
     seq (if_then (page_size = 0) (die SIGFPE)) (
     seq (printf (''[I] mapped pages '' @ show_zu (mmap18_pages mapped_size page_size) @ '', stack pages '' @
       show_zu (mmap18_pages stack_size page_size) @ ''\<newline>'')) (
     ret stack_bottom))))))))"

text \<open>The parameter is kept in the frame of each call, and storing it there faults when the stack is used up. The
  addresses are compared as signed numbers. \<open>None\<close> is a thread still going down.\<close>

definition le_bytes :: "addr \<Rightarrow> string" where
  "le_bytes a = map (\<lambda>i. char_of (unat (drop_bit (8 * i) a))) [0..<8]"

fun mmap18_check_depth_recursive :: "kernel \<Rightarrow> nat \<Rightarrow> addr \<Rightarrow> (mmap18, unit option) cprog" where
  "mmap18_check_depth_recursive K 0 limit = ret None"
| "mmap18_check_depth_recursive K (Suc n) limit = (bind (indet K ''&limit'') (\<lambda>x.
     let frame = word_of_int x in
     seq (mem_store K frame (le_bytes limit)) (
     if sint frame < sint limit then
       (seq (printf (''[I] &limit = '' @ show_ptr frame @ '', limit = '' @ show_ptr limit @ ''\<newline>'')) (
       ret (Some ())))
     else
     mmap18_check_depth_recursive K n limit)))"

text \<open>The attributes are those of a new thread: the stack is not among them. The creator only waits for its thread; when
  there is none, it waits for an uninitialised one.\<close>

definition mmap18_grow_stack :: "kernel \<Rightarrow> nat \<Rightarrow> addr \<Rightarrow> (mmap18, unit option) cprog" where
  "mmap18_grow_stack K n stack = (bind (gets m18_page_size) (\<lambda>page_size.
     let limit = stack + word_of_int page_size in
     bind (pthread K PthreadAttrInit) (\<lambda>r.
     seq (if_then (r \<noteq> 0) (printf ''pthread_attr_init failed during setup\<newline>'')) (
     bind (pthread K (PthreadCreate ''check_depth_recursive'' limit)) (\<lambda>c.
     if c \<noteq> 0 then
       (seq (undefined_call K ''pthread_join(test_thread)'') (
       c_exit 0))
     else
     bind (in_thread (mmap18_check_depth_recursive K n limit)) (\<lambda>d.
     if d = None then
       ret None
     else
     seq (call (pthread K PthreadJoin)) (
     c_exit 0)))))))"

definition mmap18_grow_stack_success :: "kernel \<Rightarrow> nat \<Rightarrow> int \<Rightarrow> int \<Rightarrow> (mmap18, unit option) family" where
  "mmap18_grow_stack_success K n stack_size mapped_size = (fbind (c_fork K) (\<lambda>child_pid.
     if child_pid = 0 then
       alone (bind (mmap18_allocate_stack K stack_size mapped_size) (\<lambda>stack.
       mmap18_grow_stack K n stack))
     else
     alone (bind (indet K ''wstatus'') (\<lambda>old.
       bind (c_wait K old) (\<lambda>(r, wstatus).
       seq (if WIFEXITED wstatus \<and> WEXITSTATUS wstatus = 0 then printf ''Stack grows in unmapped region\<newline>test succeeded\<newline>''
         else printf (''Child: '' @ show_int wstatus @ ''\<newline>'')) (
       ret (Some ())))))))"

definition mmap18_grow_stack_fail :: "kernel \<Rightarrow> nat \<Rightarrow> int \<Rightarrow> int \<Rightarrow> (mmap18, unit option) family" where
  "mmap18_grow_stack_fail K n stack_size mapped_size = (fbind (c_fork K) (\<lambda>child_pid.
     if child_pid = 0 then
       alone (bind (mmap18_allocate_stack K stack_size mapped_size) (\<lambda>stack.
       bind (gets m18_page_size) (\<lambda>page_size.
       seq (call (libc_ptr K (Mmap stack page_size (PROT_READ OR PROT_WRITE) (MAP_FIXED OR MAP_PRIVATE OR MAP_ANONYMOUS) (-1) 0))) (
       seq (printf (''[I] mapped page at '' @ show_ptr stack @ ''\<newline>'')) (
       mmap18_grow_stack K n stack)))))
     else
     alone (bind (indet K ''wstatus'') (\<lambda>old.
       bind (c_wait K old) (\<lambda>(r, wstatus).
       seq (if WIFSIGNALED wstatus \<and> WTERMSIG wstatus = SIGSEGV
         then printf (''Child killed by '' @ show_int SIGSEGV @ '' as expected\<newline>test succeeded\<newline>'')
         else printf (''Child: '' @ show_int wstatus @ ''\<newline>'')) (
       ret (Some ())))))))"

definition mmap18_pthread_stack :: "int \<Rightarrow> int" where
  "mmap18_pthread_stack page_size = (page_size sdiv PTHREAD_STACK_MIN) + 1"

definition mmap18_run_test :: "kernel \<Rightarrow> nat \<Rightarrow> (mmap18, unit option) family" where
  "mmap18_run_test K n = (fbind (alone (gets m18_page_size)) (\<lambda>page_size.
     let pthread_stack = mmap18_pthread_stack page_size in
     let stack_size = 8 * pthread_stack in
     fbind (mmap18_grow_stack_success K n stack_size pthread_stack) (\<lambda>a.
     if a = None then
       alone (ret None)
     else
     fbind (mmap18_grow_stack_success K n stack_size (stack_size div 2)) (\<lambda>b.
     if b = None then
       alone (ret None)
     else
     fbind (mmap18_grow_stack_fail K n stack_size pthread_stack) (\<lambda>c.
     if c = None then
       alone (ret None)
     else
     mmap18_grow_stack_fail K n stack_size (stack_size div 2))))))"

definition mmap18_main :: "kernel \<Rightarrow> nat \<Rightarrow> (mmap18, unit option) family" where
  "mmap18_main K n = (fseq (alone (mmap18_setup K)) (
     mmap18_run_test K n))"

section \<open>Verdicts\<close>

text \<open>Whether no store of the process has faulted and \<^verbatim>\<open>free\<close> has not aborted, and whether the second thread was created.\<close>

definition no_fault :: "event list \<Rightarrow> bool" where
  "no_fault h = list_all (\<lambda>(c, r). case c of Me (MemStore_me a bs) \<Rightarrow> \<not> isl (sr_ret r)
     | Pr (Indet_pr x) \<Rightarrow> x = ''free(thread)'' \<longrightarrow> \<not> isl (sr_ret r) | _ \<Rightarrow> True) h"

definition second_created :: "event list \<Rightarrow> bool" where
  "second_created h = list_ex (\<lambda>(c, r). c = PthreadCreate ''wait_thread2'' NULL \<and> pthread_rv r = 0) h"

lemma no_fault_simps [simp]:
  "no_fault []" "no_fault (h @ h') \<longleftrightarrow> no_fault h \<and> no_fault h'"
  "no_fault [(Me (MemStore_me a bs), r)] \<longleftrightarrow> \<not> isl (sr_ret r)"
  "no_fault [(Pr p, r)] \<longleftrightarrow> p \<noteq> Indet_pr ''free(thread)'' \<or> \<not> isl (sr_ret r)" "no_fault [(Me (Malloc_me m), r)]"
  by (auto simp: no_fault_def split: proc_call.splits)

lemma second_created_simps [simp]:
  "\<not> second_created []" "second_created (h @ h') \<longleftrightarrow> second_created h \<or> second_created h'"
  "\<not> second_created [(Me m, r)]" "second_created [(Pr p, r)] \<longleftrightarrow> p = Pthread_create_pr ''wait_thread2'' NULL \<and> pthread_rv r = 0"
  by (simp_all add: second_created_def)

lemma no_fault_Cons [simp]: "NO_MATCH [] h \<Longrightarrow> no_fault (e # h) \<longleftrightarrow> no_fault [e] \<and> no_fault h"
  by (simp add: no_fault_def)

lemma second_created_Cons [simp]: "NO_MATCH [] h \<Longrightarrow> second_created (e # h) \<longleftrightarrow> second_created [e] \<or> second_created h"
  by (simp add: second_created_def)

text \<open>The actions of the first thread leave output and \<^verbatim>\<open>errno\<close> of the others alone, and end the process only by a fault.\<close>

definition beside :: "mmap11 \<Rightarrow> mmap11 \<Rightarrow> bool" where
  "beside s s' \<longleftrightarrow> out s' = out s \<and> errno s' = errno s \<and>
     (\<exists>h. trace s' = trace s @ h \<and> no_fault h \<and> \<not> second_created h)"

lemma beside_refl: "beside s s"
  by (simp add: beside_def)

lemma beside_trans:
  assumes "beside s s'" and "beside s' s''"
  shows "beside s s''"
proof -
  obtain h h' where "trace s' = trace s @ h" "trace s'' = trace s' @ h'"
    and "no_fault (h @ h')" "\<not> second_created (h @ h')"
    using assms by (auto simp: beside_def)
  then show ?thesis
    using assms unfolding beside_def by (metis append_assoc)
qed

lemma mmap11_action_runs:
  assumes "\<And>s' a. beside s s' \<Longrightarrow> P (Ret a, s')"
    and "\<And>g s' h. trace s' = trace s @ h \<Longrightarrow> \<not> no_fault h \<Longrightarrow> P (Killed g, s')"
  shows "runs (in_thread (mmap11_wait_thread K now)) s P"
  using assms(2)
  by (cases now) (auto simp: runs_in_thread run_simps intro!: answeredI assms(1) simp: beside_def)

lemma mmap11_others_runs:
  assumes "\<And>s'. beside s s' \<Longrightarrow> P (Ret (), s')"
    and "\<And>g s' h. trace s' = trace s @ h \<Longrightarrow> \<not> no_fault h \<Longrightarrow> P (Killed g, s')"
  shows "runs (mmap11_others K n) s P"
  using assms
proof (induction n arbitrary: s)
  case 0
  then show ?case by (simp add: run_simps beside_refl)
next
  case (Suc n)
  show ?case
    unfolding mmap11_others.simps
    apply (simp add: run_simps cong: run_congs)
    apply (rule mmap11_action_runs)
     apply (simp add: run_simps cong: run_congs)
     apply (rule Suc.IH)
      apply (rule Suc.prems(1))
      apply (erule beside_trans)
      apply (simp add: beside_def)
     apply (unfold beside_def)
     apply (elim exE conjE)
     apply (rule Suc.prems(2))
      apply (simp only: append_assoc)
      apply simp
     apply simp
    apply simp
    apply (erule (1) Suc.prems(2))
    done
qed

lemma besideD: "beside s s' \<Longrightarrow> out s' = out s \<and> errno s' = errno s \<and> (no_fault (trace s') \<longleftrightarrow> no_fault (trace s)) \<and>
    (second_created (trace s') \<longleftrightarrow> second_created (trace s))"
  by (auto simp: beside_def)

text \<open>C5. Whatever the scheduler does, \<^verbatim>\<open>mmap11\<close> passes exactly when the second thread was created, no store faulted and \<^verbatim>\<open>free\<close> did not abort: neither
  the first thread's, which may or may not have been made when \<^verbatim>\<open>main\<close> returns, nor the one of the handle at \<^verbatim>\<open>thread[lc]\<close>, which \<^verbatim>\<open>free\<close> survived.\<close>

theorem mmap11_verdict:
  "passes (mmap11_main K sched) mmap11_init \<longleftrightarrow>
   (let h = calls (mmap11_main K sched) mmap11_init in no_fault h \<and> second_created h)"
proof (rule verdictI)
  show "runs (mmap11_main K sched) mmap11_init (\<lambda>(fl, s'). announced (fl, s') \<longleftrightarrow>
    (let h = trace s' in no_fault h \<and> second_created h))"
    unfolding mmap11_main_def mmap11_check_def mmap11_init_def merges
    apply (simp add: run_simps Let_def cong: run_congs split del: if_split)
    apply (intro answeredI conjI impI allI; (simp; fail)?)
    apply (rule mmap11_others_runs)
     apply (drule besideD, simp add: run_simps Let_def cong: run_congs split del: if_split)
     apply (intro answeredI)
     apply (rule mmap11_others_runs)
      apply (drule besideD, simp add: run_simps Let_def cong: run_congs split del: if_split)
      apply (intro answeredI conjI impI allI; (simp; fail)?)
      apply (rule mmap11_others_runs)
       apply (drule besideD, simp add: run_simps Let_def cong: run_congs split del: if_split)
       apply (intro answeredI conjI impI allI; (simp add: isl_def; fail)?)
       apply (rule mmap11_others_runs)
        apply (drule besideD, simp add: run_simps Let_def cong: run_congs split del: if_split)
        apply (intro answeredI conjI impI allI; (auto; fail)?)
         apply (rule mmap11_others_runs; (drule besideD)?; auto)
        apply (rule mmap11_others_runs; (drule besideD)?; auto)
       apply simp_all
    done
qed

text \<open>C7. The verdict of \<^verbatim>\<open>mmap18\<close> is announced by its first process, when one of the four statuses it finds is the expected one: an exit
  with 0 of the first two children, a death by \<^verbatim>\<open>SIGSEGV\<close> of the last two. A status is uninitialised where \<^verbatim>\<open>wait\<close> fails, as after a \<^verbatim>\<open>fork\<close> that
  failed.\<close>

theorem mmap18_verdict:
  "first_passes (mmap18_main K n) mmap18_init \<longleftrightarrow>
   (let h = family_calls (mmap18_main K n) mmap18_init;
        st = (\<lambda>i. status_seen (snd (h ! (5 + 3 * i))) (sr_int (snd (h ! (4 + 3 * i))))) in
    length h = 15 \<and> (exited_0 (st 0) \<or> exited_0 (st 1) \<or>
      WIFSIGNALED (st 2) \<and> WTERMSIG (st 2) = SIGSEGV \<or> WIFSIGNALED (st 3) \<and> WTERMSIG (st 3) = SIGSEGV))"
proof (rule first_verdictI)
  show "leads (mmap18_main K n) mmap18_init (\<lambda>(fl, s'). announced (fl, s') \<longleftrightarrow>
   (let h = trace s'; st = (\<lambda>i. status_seen (snd (h ! (5 + 3 * i))) (sr_int (snd (h ! (4 + 3 * i))))) in
    length h = 15 \<and> (exited_0 (st 0) \<or> exited_0 (st 1) \<or>
      WIFSIGNALED (st 2) \<and> WTERMSIG (st 2) = SIGSEGV \<or> WIFSIGNALED (st 3) \<and> WTERMSIG (st 3) = SIGSEGV)))"
    unfolding mmap18_main_def mmap18_setup_def mmap18_check_stackgrow_up_def mmap18_stackgrow_again_def mmap18_run_test_def
      mmap18_grow_stack_success_def mmap18_grow_stack_fail_def mmap18_init_def merges
    apply (simp add: run_simps Let_def cong: lead_congs split del: if_split)
    apply (intro answeredI conjI impI allI)
    apply (simp_all add: exited_0_def)
    done
qed

lemma not_aligned:
  assumes "4096 dvd unat (a :: addr)"
  shows "\<not> 4096 dvd unat (a + 1048583)" and "\<not> 4096 dvd unat (a + 1048580)"
proof -
  have "unat (a + word_of_nat k) mod 4096 = k mod 4096" for k
  proof -
    have "unat (a + word_of_nat k) = (unat a + k) mod 2 ^ 64"
      by (simp add: unat_word_ariths(1) unat_of_nat mod_add_right_eq)
    then have "unat (a + word_of_nat k) mod 4096 = (unat a + k) mod 4096"
      by (simp add: mod_mod_cancel)
    with assms show ?thesis by (metis dvd_def mod_mult_self3 mult.commute)
  qed
  from this [of 1048583] this [of 1048580] show "\<not> 4096 dvd unat (a + 1048583)" "\<not> 4096 dvd unat (a + 1048580)"
    by (auto simp: dvd_eq_mod_eq_0)
qed

text \<open>C32. With pages of 4096 bytes the sizes of \<^verbatim>\<open>mmap18\<close> are 8 bytes for the stack and 1 or 4 for its mapped part, and the part
  is asked for, at a fixed place, where no page begins.\<close>

theorem mmap18_misaligned:
  assumes "m18_page_size s = 4096"
    and "4096 dvd unat (ptr_of (K (trace s) (Mmap NULL 1048584 (PROT_READ OR PROT_WRITE) (MAP_PRIVATE OR MAP_ANONYMOUS) (-1) 0)))"
    and "m \<in> {mmap18_pthread_stack 4096, 8 * mmap18_pthread_stack 4096 div 2}"
  shows "m \<in> {1, 4} \<and> (\<exists>a. fst (trace (snd (mmap18_allocate_stack K (8 * mmap18_pthread_stack 4096) m s)) ! (length (trace s) + 2)) =
      Mmap a m (PROT_READ OR PROT_WRITE) (MAP_FIXED OR MAP_PRIVATE OR MAP_ANONYMOUS OR MAP_GROWSDOWN) (-1) 0 \<and> \<not> 4096 dvd unat a)"
proof -
  let ?a = "ptr_of (K (trace s) (Mmap NULL 1048584 (PROT_READ OR PROT_WRITE) (MAP_PRIVATE OR MAP_ANONYMOUS) (-1) 0))"
  have one: "mmap18_pthread_stack 4096 = 1" by (simp add: mmap18_pthread_stack_def signed_divide_int_def)
  with assms(3) have m: "m \<in> {1, 4}" by simp
  then have "\<not> 4096 dvd unat (?a + word_of_int (1048584 - m))"
    using not_aligned [OF assms(2)] by auto
  moreover have "runs (mmap18_allocate_stack K 8 m) s (\<lambda>(fl, s'). fst (trace s' ! (length (trace s) + 2)) =
      Mmap (?a + word_of_int (1048584 - m)) m (PROT_READ OR PROT_WRITE) (MAP_FIXED OR MAP_PRIVATE OR MAP_ANONYMOUS OR MAP_GROWSDOWN) (-1) 0)"
    unfolding mmap18_allocate_stack_def using assms(1)
    by (simp add: run_simps Let_def nth_append cong: run_congs) (simp add: answered_def nth_append)
  ultimately show ?thesis
    using m one by (auto simp: runs_def split: prod.splits)
qed

text \<open>The frames of the thread so far.\<close>

definition frames :: "event list \<Rightarrow> nat" where
  "frames h = length (filter (\<lambda>(c, r). c = Indet ''&limit'') h)"

lemma frames_simps [simp]: "frames (h @ h') = frames h + frames h'" "frames [] = 0"
  "frames [(Indet ''&limit'', r)] = 1" "frames [(Me m, r)] = 0"
  by (simp_all add: frames_def)

lemma frames_Cons [simp]: "NO_MATCH [] h \<Longrightarrow> frames (e # h) = frames [e] + frames h"
  by (simp add: frames_def)

lemma mmap18_depth_runs:
  assumes frame: "\<forall>h. sint (word_of_int (sr_int (K h (Indet ''&limit''))) :: addr) \<le> max (top_frame - int (frames h)) (sint limit - 1)"
  shows "0 < n \<Longrightarrow> top_frame - int (frames (trace s)) < sint limit + (int n - 1) \<Longrightarrow>
    runs (mmap18_check_depth_recursive K n limit) s (\<lambda>(fl, s'). fl \<noteq> Ret None)"
proof (induction n arbitrary: s)
  case (Suc n)
  show ?case
    unfolding mmap18_check_depth_recursive.simps
    apply (simp add: run_simps Let_def cong: run_congs split del: if_split)
    apply (rule answeredI')
    apply (rule answeredI)
    apply (intro conjI impI allI)
    apply (rule Suc.IH)
    using frame [rule_format, of "trace s"] Suc.prems apply auto
    done
qed simp

text \<open>C31. When the frames of the recursion lie lower and lower until one is below the limit, the thread of \<^verbatim>\<open>mmap18\<close> ends, or is killed,
  after at most as many calls as there are bytes between the first frame and the limit, and two more.\<close>

theorem mmap18_depth_ends:
  assumes "\<forall>h. sint (word_of_int (sr_int (K h (Indet ''&limit''))) :: addr) \<le> max (top_frame - int (frames h)) (sint limit - 1)"
    and "top_frame - sint limit + 1 < int n" and "0 < n" and "frames (trace s) = 0"
  shows "fst (mmap18_check_depth_recursive K n limit s) \<noteq> Ret None"
  using mmap18_depth_runs [of K top_frame limit n s, OF assms(1)] assms(2-4) by (auto simp: runs_def split: prod.splits)

text \<open>A kernel that puts the frames at 1000, 999 and so on, down to 980.\<close>

definition frames_kernel :: kernel where
  "frames_kernel h c = (sys_ok 4096)\<lparr>sr_int := max 980 (1000 - int (frames h))\<rparr>"

lemma frames_kernel_small: "sint (word_of_int (sr_int (frames_kernel h c)) :: addr) = max 980 (1000 - int (frames h))"
  unfolding frames_kernel_def by (simp add: signed_take_bit_int_eq_self sint_sbintrunc' del: word_of_int_numeral)

theorem mmap18_depth_ends_witness:
  "fst (mmap18_check_depth_recursive frames_kernel 13 990 mmap18_init) \<noteq> Ret None"
  by (rule mmap18_depth_ends [where top_frame = 1000]) (auto simp: frames_kernel_small mmap18_init_def)

theorem mmap18_misaligned_witness:
  "\<exists>a. fst (trace (snd (mmap18_allocate_stack frames_kernel 8 4 (mmap18_init\<lparr>m18_page_size := 4096\<rparr>))) ! Suc (Suc 0)) =
      Mmap a 4 3 306 (-1) 0 \<and> \<not> 4096 dvd unat a"
  using mmap18_misaligned [of "mmap18_init\<lparr>m18_page_size := 4096\<rparr>" frames_kernel 4]
  by (simp add: mmap18_init_def frames_kernel_def ptr_of_def sys_ok_def mmap18_pthread_stack_def signed_divide_int_def)

end
