(* ===== verification/Posix.thy ===== *)
theory Posix
  imports Process "HOL-Library.AList"
begin

text \<open>
  The documented behaviour of the calls on descriptors and plain files, as far as the tests rely on it: an
  abstract file system that a history of calls determines, and what an answer has to be in its states. A
  kernel that answers like this is \<open>posix\<close>. It never runs out of descriptors, space or memory. Nothing is
  said of calls outside the fragment, and nothing more after one that may change files or descriptors.
\<close>

section \<open>The abstract state\<close>

text \<open>A descriptor refers to an open file, with a flag of its own (close on execution); several descriptors may refer to the
  same one. An open file has its offset and flags and refers to the contents of a file, if it is a plain one.
  Names refer to contents.\<close>

record open_file =
  of_data :: "nat option"
  of_off :: nat
  of_flags :: int

record fstate =
  fs_fds :: "(int \<times> nat \<times> int) list"
  fs_open :: "open_file list"
  fs_names :: "(string \<times> nat) list"
  fs_data :: "string list"

text \<open>The flags that \<^verbatim>\<open>F_GETFL\<close> reports: the access mode, \<^verbatim>\<open>O_APPEND\<close> and \<^verbatim>\<open>O_NONBLOCK\<close>. A process starts with three descriptors, which
  are not plain files, in an empty directory.\<close>

abbreviation (input) "O_STATUS \<equiv> (3072::int)"

definition fs_init :: fstate where
  "fs_init = \<lparr>fs_fds = [(0, 0, 0), (1, 1, 0), (2, 1, 0)],
     fs_open = [\<lparr>of_data = None, of_off = 0, of_flags = 0\<rparr>, \<lparr>of_data = None, of_off = 0, of_flags = O_WRONLY\<rparr>],
     fs_names = [], fs_data = []\<rparr>"

text \<open>The lowest descriptor not in use, from \<open>m\<close> on.\<close>

definition lowest :: "int \<Rightarrow> (int \<times> 'b) list \<Rightarrow> int" where
  "lowest m t = hd (filter (\<lambda>n. n \<notin> fst ` set t) (map (\<lambda>i. m + int i) [0..<Suc (length t)]))"

definition fs_file :: "fstate \<Rightarrow> int \<Rightarrow> nat option" where
  "fs_file s fd = map_option fst (map_of (fs_fds s) fd)"

text \<open>A name in the working directory, \<^verbatim>\<open>./\<close> taken off.\<close>

definition plain :: "string \<Rightarrow> string option" where
  "plain p = (let q = (if take 2 p = ''./'' then drop 2 p else p) in
     if q = [] \<or> q = ''.'' \<or> q = ''..'' \<or> CHR ''/'' \<in> set q \<or> 255 < length q then None else Some q)"

section \<open>Answers\<close>

text \<open>What a call has to return: a value, an error, bytes and their number, a pair of descriptors, a value with given status
  flags, a value up to a bound, anything.\<close>

datatype expect = A_val nat | A_err int | A_bytes string | A_pair "int \<times> int" | A_flags int | A_upto nat | A_any

fun meets :: "expect \<Rightarrow> sysres \<Rightarrow> bool" where
  "meets (A_val v) r \<longleftrightarrow> sr_ret r = Inr v"
| "meets (A_err e) r \<longleftrightarrow> sr_ret r = Inl e"
| "meets (A_bytes bs) r \<longleftrightarrow> sr_ret r = Inr (length bs) \<and> sr_bytes r = bs"
| "meets (A_pair p) r \<longleftrightarrow> sr_ret r = Inr 0 \<and> sr_fds r = p"
| "meets (A_flags f) r \<longleftrightarrow> (case sr_ret r of Inl e \<Rightarrow> False | Inr v \<Rightarrow> int v AND 3075 = f AND 3075)"
| "meets (A_upto n) r \<longleftrightarrow> (case sr_ret r of Inl e \<Rightarrow> False | Inr v \<Rightarrow> v \<le> n)"
| "meets A_any r \<longleftrightarrow> True"

type_synonym fs_step = "(expect \<times> fstate) option"

section \<open>The calls\<close>

definition fs_install :: "int \<Rightarrow> open_file \<Rightarrow> fstate \<Rightarrow> fs_step" where
  "fs_install m f s = (let fd = lowest m (fs_fds s) in
     Some (A_val (nat fd), s\<lparr>fs_fds := (fd, length (fs_open s), 0) # fs_fds s, fs_open := fs_open s @ [f]\<rparr>))"

text \<open>Opening, with the flags for creation and truncation and those of the status; permissions are granted.\<close>

definition fs_openat :: "string \<Rightarrow> int \<Rightarrow> fstate \<Rightarrow> fs_step" where
  "fs_openat p fl s = (case plain p of
     None \<Rightarrow> None
   | Some q \<Rightarrow>
       if fl AND 3651 \<noteq> fl \<or> fl AND O_ACCMODE = 3 then None
       else (let f = \<lparr>of_data = Some (length (fs_data s)), of_off = 0, of_flags = fl AND 3075\<rparr> in
         case map_of (fs_names s) q of
           None \<Rightarrow>
             if fl AND O_CREAT = 0 then Some (A_err ENOENT, s)
             else fs_install 0 f (s\<lparr>fs_names := (q, length (fs_data s)) # fs_names s, fs_data := fs_data s @ [[]]\<rparr>)
         | Some d \<Rightarrow> fs_install 0 (f\<lparr>of_data := Some d\<rparr>)
             (if fl AND O_TRUNC = 0 then s else s\<lparr>fs_data := (fs_data s)[d := []]\<rparr>)))"

text \<open>The next two take the open file of the descriptor, by its number and with its contents.\<close>

definition fs_read :: "nat \<Rightarrow> nat \<Rightarrow> nat \<Rightarrow> fstate \<Rightarrow> fs_step" where
  "fs_read k d n s = (let f = fs_open s ! k; bs = take n (drop (of_off f) (fs_data s ! d)) in
     if of_flags f AND O_ACCMODE = O_WRONLY then Some (A_err EBADF, s)
     else Some (A_bytes bs, s\<lparr>fs_open := (fs_open s)[k := f\<lparr>of_off := of_off f + length bs\<rparr>]\<rparr>))"

definition fs_write :: "nat \<Rightarrow> nat \<Rightarrow> string \<Rightarrow> fstate \<Rightarrow> fs_step" where
  "fs_write k d bs s = (let f = fs_open s ! k; old = fs_data s ! d;
       off = (if of_flags f AND O_APPEND = 0 then of_off f else length old) in
     if of_flags f AND O_ACCMODE = O_RDONLY then Some (A_err EBADF, s)
     else Some (A_val (length bs), s\<lparr>
       fs_open := (fs_open s)[k := f\<lparr>of_off := off + length bs\<rparr>],
       fs_data := (fs_data s)[d := take off (old @ replicate off NUL) @ bs @ drop (off + length bs) old]\<rparr>))"

definition fs_lseek :: "nat \<Rightarrow> nat \<Rightarrow> int \<Rightarrow> int \<Rightarrow> fstate \<Rightarrow> fs_step" where
  "fs_lseek k d off whence s = (let f = fs_open s ! k;
       base = (if whence = SEEK_SET then 0 else if whence = SEEK_CUR then int (of_off f) else int (length (fs_data s ! d))) in
     if whence \<notin> {0, 1, 2} \<or> base + off < 0 then Some (A_err EINVAL, s)
     else Some (A_val (nat (base + off)), s\<lparr>fs_open := (fs_open s)[k := f\<lparr>of_off := nat (base + off)\<rparr>]\<rparr>))"

text \<open>Descriptors below 1024 may be asked for.\<close>

definition fs_fcntl :: "int \<Rightarrow> nat \<Rightarrow> int \<Rightarrow> int \<Rightarrow> fstate \<Rightarrow> fs_step" where
  "fs_fcntl fd k cmd arg s =
     (if cmd = F_DUPFD then
        if arg < 0 then Some (A_err EINVAL, s)
        else if arg < 1024 then (let fd' = lowest arg (fs_fds s) in Some (A_val (nat fd'), s\<lparr>fs_fds := (fd', k, 0) # fs_fds s\<rparr>))
        else None
      else if cmd = F_GETFD then
        Some (A_val (nat (case map_of (fs_fds s) fd of None \<Rightarrow> 0 | Some (_, c) \<Rightarrow> c)), s)
      else if cmd = F_SETFD then
        Some (A_val 0, s\<lparr>fs_fds := AList.update fd (k, arg AND 1) (fs_fds s)\<rparr>)
      else if cmd = F_GETFL then Some (A_flags (of_flags (fs_open s ! k)), s)
      else if cmd = F_SETFL then
        Some (A_val 0, s\<lparr>fs_open := (fs_open s)[k := (fs_open s ! k)\<lparr>of_flags := (of_flags (fs_open s ! k) AND O_ACCMODE) OR (arg AND O_STATUS)\<rparr>]\<rparr>)
      else None)"

text \<open>Record locks: a process never conflicts with its own.\<close>

definition fs_lock :: "nat \<Rightarrow> int \<Rightarrow> flock \<Rightarrow> fstate \<Rightarrow> fs_step" where
  "fs_lock k cmd fl s = (let mode = of_flags (fs_open s ! k) AND O_ACCMODE in
     if l_type fl \<notin> {F_RDLCK, F_WRLCK, F_UNLCK} \<or> l_whence fl \<notin> {0, 1, 2} \<or> l_start fl < 0 \<or> l_len fl < 0 \<or> cmd \<notin> {F_GETLK, F_SETLK, F_SETLKW} then None
     else if cmd \<noteq> F_GETLK \<and> (l_type fl = F_RDLCK \<and> mode = O_WRONLY \<or> l_type fl = F_WRLCK \<and> mode = O_RDONLY) then Some (A_err EBADF, s)
     else Some (A_val 0, s))"

text \<open>A call on an open file of which the contents are known.\<close>

definition on_file :: "int \<Rightarrow> (nat \<Rightarrow> nat \<Rightarrow> fstate \<Rightarrow> fs_step) \<Rightarrow> fstate \<Rightarrow> fs_step" where
  "on_file fd g s = (case fs_file s fd of
     None \<Rightarrow> Some (A_err EBADF, s)
   | Some k \<Rightarrow> (case of_data (fs_open s ! k) of None \<Rightarrow> None | Some d \<Rightarrow> g k d s))"

text \<open>A descriptor that is not of a plain file.\<close>

definition fs_special :: "int \<Rightarrow> open_file" where
  "fs_special fl = \<lparr>of_data = None, of_off = 0, of_flags = fl\<rparr>"

definition fs_pipe :: "fstate \<Rightarrow> fs_step" where
  "fs_pipe s = (case fs_install 0 (fs_special O_RDONLY) s of
     Some (A_val a, s1) \<Rightarrow> (case fs_install 0 (fs_special O_WRONLY) s1 of
        Some (A_val b, s2) \<Rightarrow> Some (A_pair (int a, int b), s2) | _ \<Rightarrow> None)
   | _ \<Rightarrow> None)"

fun fs_io :: "io_call \<Rightarrow> fstate \<Rightarrow> fs_step" where
  "fs_io (Open_io p fl m) s = fs_openat p fl s"
| "fs_io (Creat_io p m) s = fs_openat p (O_WRONLY OR O_CREAT OR O_TRUNC) s"
| "fs_io (Close_io fd) s =
     (if fs_file s fd = None then Some (A_err EBADF, s)
      else Some (A_val 0, s\<lparr>fs_fds := filter (\<lambda>x. fst x \<noteq> fd) (fs_fds s)\<rparr>))"
| "fs_io (Read_io fd n) s = on_file fd (\<lambda>k d. fs_read k d n) s"
| "fs_io (Write_io fd b n) s = on_file fd (\<lambda>k d. case b of
       Bytes bs \<Rightarrow> if n \<le> length bs then fs_write k d (take n bs) else (\<lambda>_. None)
     | _ \<Rightarrow> if n = 0 then fs_write k d [] else (\<lambda>_. None)) s"
| "fs_io (Lseek_io fd off whence) s = on_file fd (\<lambda>k d. fs_lseek k d off whence) s"
| "fs_io (Fcntl_io fd cmd arg) s = (case fs_file s fd of None \<Rightarrow> Some (A_err EBADF, s) | Some k \<Rightarrow> fs_fcntl fd k cmd arg s)"
| "fs_io (FcntlLk_io fd cmd fl) s = on_file fd (\<lambda>k d. fs_lock k cmd fl) s"
| "fs_io (Socket_io fam ty pr) s = (if fam = 2 \<and> ty = 1 \<and> pr = 0 then fs_install 0 (fs_special O_RDWR) s else None)"
| "fs_io Pipe_io s = fs_pipe s"
| "fs_io _ s = None"

fun fs_path :: "path_call \<Rightarrow> fstate \<Rightarrow> fs_step" where
  "fs_path (Unlink_pa p) s = (case plain p of
     None \<Rightarrow> None
   | Some q \<Rightarrow> if map_of (fs_names s) q = None then Some (A_err ENOENT, s)
       else Some (A_val 0, s\<lparr>fs_names := filter (\<lambda>x. fst x \<noteq> q) (fs_names s)\<rparr>))"
| "fs_path (Umask_pa m) s = Some (A_upto 511, s)"
| "fs_path _ s = None"

fun fs_proc :: "proc_call \<Rightarrow> fstate \<Rightarrow> fs_step" where
  "fs_proc Getpid_pr s = Some (A_upto 4194304, s)"
| "fs_proc (Indet_pr x) s = Some (A_any, s)"
| "fs_proc _ s = None"

fun fs_step :: "syscall \<Rightarrow> fstate \<Rightarrow> fs_step" where
  "fs_step (Io c) s = fs_io c s"
| "fs_step (Pa c) s = fs_path c s"
| "fs_step (Pr c) s = fs_proc c s"
| "fs_step (Me c) s = None"

section \<open>Conforming kernels\<close>

text \<open>The state after a history, as long as it is known.\<close>

definition fs_after :: "event \<Rightarrow> fstate option \<Rightarrow> fstate option" where
  "fs_after e s = Option.bind s (\<lambda>s. map_option snd (fs_step (fst e) s))"

definition fs_state :: "event list \<Rightarrow> fstate option" where
  "fs_state h = fold fs_after h (Some fs_init)"

definition posix :: "kernel \<Rightarrow> bool" where
  "posix K \<longleftrightarrow> (\<forall>h c. case Option.bind (fs_state h) (fs_step c) of None \<Rightarrow> True | Some (x, s) \<Rightarrow> meets x (K h c))"

lemma fs_state_Nil: "fs_state [] = Some fs_init"
  by (simp add: fs_state_def)

lemma fs_state_snoc: "fs_state (h @ [e]) = fs_after e (fs_state h)"
  by (simp add: fs_state_def)

text \<open>One call of a conforming kernel.\<close>

lemma answered_posix:
  assumes "posix K" and "fs_state h = Some s" and "fs_step c s = Some (x, s')"
    and "\<And>r. meets x r \<Longrightarrow> fs_state (h @ [(c, r)]) = Some s' \<Longrightarrow> Q r"
  shows "answered K h c Q"
proof -
  from assms(1) have "case Option.bind (fs_state h) (fs_step c) of None \<Rightarrow> True | Some (x, s) \<Rightarrow> meets x (K h c)"
    unfolding posix_def by blast
  with assms(2,3) have "meets x (K h c)" by simp
  moreover have "fs_state (h @ [(c, K h c)]) = Some s'"
    using assms(2,3) by (simp add: fs_state_snoc fs_after_def)
  ultimately show ?thesis by (simp add: answered_def assms(4))
qed

text \<open>A kernel that conforms: it computes its answers from the history.\<close>

fun reply :: "expect \<Rightarrow> sysres" where
  "reply (A_val v) = sys_ok v"
| "reply (A_err e) = sys_err e"
| "reply (A_bytes bs) = (sys_ok (length bs))\<lparr>sr_bytes := bs\<rparr>"
| "reply (A_pair p) = (sys_ok 0)\<lparr>sr_fds := p\<rparr>"
| "reply (A_flags f) = sys_ok (nat (f AND 3075))"
| "reply (A_upto n) = sys_ok 0"
| "reply A_any = sys_ok 0"

definition posix_kernel :: kernel where
  "posix_kernel h c = (case Option.bind (fs_state h) (fs_step c) of None \<Rightarrow> sys_ok 0 | Some (x, s) \<Rightarrow> reply x)"

lemma reply_meets: "meets x (reply x)"
proof (cases x)
  case (A_flags f)
  have "0 \<le> f AND 3075" by simp
  then show ?thesis using A_flags by (simp add: and.assoc)
qed simp_all

lemma posix_kernel: "posix posix_kernel"
  unfolding posix_def
proof (intro allI)
  fix h c
  show "case Option.bind (fs_state h) (fs_step c) of None \<Rightarrow> True | Some (x, s) \<Rightarrow> meets x (posix_kernel h c)"
    by (auto simp: posix_kernel_def reply_meets split: option.splits)
qed

section \<open>The abstract state is well formed\<close>

definition of_ok :: "nat \<Rightarrow> open_file \<Rightarrow> bool" where
  "of_ok n f \<longleftrightarrow> set_option (of_data f) \<subseteq> {..<n}"

definition fs_ok :: "fstate \<Rightarrow> bool" where
  "fs_ok s \<longleftrightarrow> distinct (map fst (fs_fds s)) \<and> list_all (\<lambda>(fd, k, c). 0 \<le> fd \<and> k < length (fs_open s) \<and> 0 \<le> c) (fs_fds s) \<and>
    list_all (of_ok (length (fs_data s))) (fs_open s) \<and> list_all (\<lambda>(q, d). d < length (fs_data s)) (fs_names s)"

lemma lowest_free:
  "m \<le> lowest m t \<and> lowest m t \<notin> fst ` set t \<and> (\<forall>n. m \<le> n \<and> n < lowest m t \<longrightarrow> n \<in> fst ` set t)"
proof -
  let ?ns = "map (\<lambda>i. m + int i) [0..<Suc (length t)]"
  let ?free = "\<lambda>n. n \<notin> fst ` set t"
  have "\<not> set ?ns \<subseteq> fst ` set t"
  proof
    assume "set ?ns \<subseteq> fst ` set t"
    then have "card (set ?ns) \<le> card (fst ` set t)" by (intro card_mono) auto
    also have "card (fst ` set t) \<le> length t" using card_length [of "map fst t"] by simp
    finally have "card (set ?ns) \<le> length t" .
    moreover have "card (set ?ns) = Suc (length t)"
      by (simp add: card_image inj_on_def del: upt_Suc)
    ultimately show False by simp
  qed
  then obtain n0 where n0: "n0 \<in> set ?ns" "?free n0" by blast
  then obtain k where k: "filter ?free ?ns = lowest m t # k"
    unfolding lowest_def by (cases "filter ?free ?ns") (auto simp: filter_empty_conv simp del: upt_Suc)
  from k obtain us vs where uv: "?ns = us @ lowest m t # vs" "\<forall>u\<in>set us. \<not> ?free u" "?free (lowest m t)"
    by (auto simp: filter_eq_Cons_iff simp del: upt_Suc)
  have pos: "lowest m t = m + int (length us)"
  proof -
    have "?ns ! length us = lowest m t" using uv(1) by (metis nth_append_length)
    moreover have "length us < length ?ns" using uv(1) by (metis length_append length_Cons less_add_Suc1 add_Suc_right)
    ultimately show ?thesis by (simp del: upt_Suc)
  qed
  have "n \<in> fst ` set t" if "m \<le> n" "n < lowest m t" for n
  proof -
    have n: "nat (n - m) < length us" using that pos by linarith
    then have "us ! nat (n - m) = ?ns ! nat (n - m)" using uv(1) by (metis nth_append)
    also have "length us < length ?ns" using uv(1) by (metis length_append length_Cons less_add_Suc1 add_Suc_right)
    then have "?ns ! nat (n - m) = n" using n that by (simp del: upt_Suc)
    finally have "n \<in> set us" using n by (metis nth_mem)
    then show ?thesis using uv(2) by simp
  qed
  then show ?thesis using uv(3) pos by auto
qed

lemma fs_install_ok: "fs_ok s \<Longrightarrow> fs_install m f s = Some (x, s') \<Longrightarrow> 0 \<le> m \<Longrightarrow> of_ok (length (fs_data s)) f \<Longrightarrow> fs_ok s'"
  using lowest_free [of m "fs_fds s"] unfolding fs_install_def fs_ok_def Let_def
  by (fastforce simp: list_all_iff)

text \<open>What a step changes in an open file or in contents keeps the state well formed.\<close>

lemma fs_ok_open: "fs_ok s \<Longrightarrow> of_data f = of_data (fs_open s ! k) \<Longrightarrow> fs_ok (s\<lparr>fs_open := (fs_open s)[k := f]\<rparr>)"
  unfolding fs_ok_def by (cases "k < length (fs_open s)") (auto simp: list_all_length nth_list_update of_ok_def)

lemma fs_ok_data: "fs_ok s \<Longrightarrow> fs_ok (s\<lparr>fs_data := (fs_data s)[d := bs]\<rparr>)"
  unfolding fs_ok_def by simp

lemma fs_ok_both: "fs_ok s \<Longrightarrow> of_data f = of_data (fs_open s ! k) \<Longrightarrow>
    fs_ok (s\<lparr>fs_open := (fs_open s)[k := f], fs_data := (fs_data s)[d := bs]\<rparr>)"
  using fs_ok_data [OF fs_ok_open] by fastforce

lemma fs_ok_fd: "fs_ok s \<Longrightarrow> fs_file s fd = Some k \<Longrightarrow> 0 \<le> m \<Longrightarrow> fs_ok (s\<lparr>fs_fds := (lowest m (fs_fds s), k, 0) # fs_fds s\<rparr>)"
  using lowest_free [of m "fs_fds s"] unfolding fs_ok_def
  by (fastforce simp: list_all_iff fs_file_def dest: map_of_SomeD)

lemma set_alist_update: "set (AList.update a b xs) \<subseteq> insert (a, b) (set xs)"
  by (induction xs) auto

lemma fs_ok_update:
  assumes "fs_ok s" and "fs_file s fd = Some k" and "0 \<le> c"
  shows "fs_ok (s\<lparr>fs_fds := AList.update fd (k, c) (fs_fds s)\<rparr>)"
proof -
  obtain c0 where "(fd, k, c0) \<in> set (fs_fds s)"
    using assms(2) by (auto simp: fs_file_def dest: map_of_SomeD)
  with assms(1) have k: "0 \<le> fd" "k < length (fs_open s)" by (auto simp: fs_ok_def list_all_iff)
  with assms show ?thesis
    using set_alist_update [of fd "(k, c)" "fs_fds s"]
    unfolding fs_ok_def by (fastforce simp: list_all_iff distinct_update)
qed

lemma fs_ok_filter: "fs_ok s \<Longrightarrow> fs_ok (s\<lparr>fs_fds := filter P (fs_fds s)\<rparr>)" "fs_ok s \<Longrightarrow> fs_ok (s\<lparr>fs_names := filter Q (fs_names s)\<rparr>)"
  by (auto simp: fs_ok_def list_all_iff distinct_map_filter)

lemma on_file_ok:
  assumes "fs_ok s" and "on_file fd g s = Some (x, s')" and "\<And>k d. g k d s = Some (x, s') \<Longrightarrow> fs_ok s'"
  shows "fs_ok s'"
  using assms by (auto simp: on_file_def split: option.splits)

lemma fs_read_ok: "fs_ok s \<Longrightarrow> fs_read k d n s = Some (x, s') \<Longrightarrow> fs_ok s'"
  by (auto simp: fs_read_def Let_def intro!: fs_ok_open split: if_splits)

lemma fs_write_ok: "fs_ok s \<Longrightarrow> fs_write k d bs s = Some (x, s') \<Longrightarrow> fs_ok s'"
  by (auto simp: fs_write_def Let_def intro!: fs_ok_both split: if_splits)

lemma fs_lseek_ok: "fs_ok s \<Longrightarrow> fs_lseek k d off whence s = Some (x, s') \<Longrightarrow> fs_ok s'"
  by (auto simp: fs_lseek_def Let_def intro!: fs_ok_open split: if_splits)

lemma fs_lock_ok: "fs_ok s \<Longrightarrow> fs_lock k cmd fl s = Some (x, s') \<Longrightarrow> fs_ok s'"
  by (auto simp: fs_lock_def Let_def split: if_splits)

lemma fs_fcntl_ok: "fs_ok s \<Longrightarrow> fs_file s fd = Some k \<Longrightarrow> fs_fcntl fd k cmd arg s = Some (x, s') \<Longrightarrow> fs_ok s'"
  by (auto simp: fs_fcntl_def Let_def intro!: fs_ok_open fs_ok_fd fs_ok_update split: if_splits)

text \<open>A new file, and one that is there.\<close>

lemma fs_ok_new: "fs_ok s \<Longrightarrow> fs_ok (s\<lparr>fs_names := (q, length (fs_data s)) # fs_names s, fs_data := fs_data s @ [[]]\<rparr>)"
  unfolding fs_ok_def by (auto simp: list_all_iff of_ok_def)

lemma fs_openat_ok:
  assumes s: "fs_ok s" and step: "fs_openat p fl s = Some (x, s')"
  shows "fs_ok s'"
proof -
  obtain q where q: "plain p = Some q" and ok: "\<not> (fl AND 3651 \<noteq> fl \<or> fl AND O_ACCMODE = 3)"
    using step by (auto simp: fs_openat_def split: option.splits if_splits)
  show ?thesis
  proof (cases "map_of (fs_names s) q")
    case None
    then have "fs_openat p fl s = (if fl AND O_CREAT = 0 then Some (A_err ENOENT, s)
        else fs_install 0 \<lparr>of_data = Some (length (fs_data s)), of_off = 0, of_flags = fl AND 3075\<rparr>
          (s\<lparr>fs_names := (q, length (fs_data s)) # fs_names s, fs_data := fs_data s @ [[]]\<rparr>))"
      unfolding fs_openat_def q Let_def using ok by simp
    with step have "s' = s \<or> fs_install 0 \<lparr>of_data = Some (length (fs_data s)), of_off = 0, of_flags = fl AND 3075\<rparr>
          (s\<lparr>fs_names := (q, length (fs_data s)) # fs_names s, fs_data := fs_data s @ [[]]\<rparr>) = Some (x, s')"
      by (auto split: if_splits)
    then show ?thesis
      using s fs_install_ok [OF fs_ok_new [OF s, of q], of 0 _ x s'] by (fastforce simp: of_ok_def)
  next
    case (Some d)
    then have d: "d < length (fs_data s)"
      using s by (auto simp: fs_ok_def list_all_iff dest!: map_of_SomeD)
    let ?s = "if fl AND O_TRUNC = 0 then s else s\<lparr>fs_data := (fs_data s)[d := []]\<rparr>"
    have "fs_openat p fl s = fs_install 0 \<lparr>of_data = Some d, of_off = 0, of_flags = fl AND 3075\<rparr> ?s"
      unfolding fs_openat_def q Let_def using ok Some by simp
    moreover have "fs_ok ?s" "length (fs_data ?s) = length (fs_data s)" using s by (simp_all add: fs_ok_data)
    ultimately show ?thesis
      using step d fs_install_ok [of ?s 0 _ x s'] by (simp only: of_ok_def) simp
  qed
qed

lemma fs_pipe_ok:
  assumes s: "fs_ok s" and step: "fs_pipe s = Some (x, s')"
  shows "fs_ok s'"
proof -
  obtain a s1 where 1: "fs_install 0 (fs_special O_RDONLY) s = Some (A_val a, s1)"
    by (simp add: fs_install_def Let_def)
  obtain b s2 where 2: "fs_install 0 (fs_special O_WRONLY) s1 = Some (A_val b, s2)"
    by (simp add: fs_install_def Let_def)
  have "fs_ok s1" using fs_install_ok [OF s 1] by (simp add: of_ok_def fs_special_def)
  then have "fs_ok s2" using fs_install_ok [OF _ 2] by (simp add: of_ok_def fs_special_def)
  with step 1 2 show ?thesis by (simp add: fs_pipe_def)
qed

lemma fs_io_ok:
  assumes s: "fs_ok s" and step: "fs_io c s = Some (x, s')"
  shows "fs_ok s'"
proof (cases c)
  case (Write_io fd b n)
  from s step [unfolded Write_io fs_io.simps] show ?thesis
    by (rule on_file_ok) (auto intro: fs_write_ok [OF s] split: ubuf.splits if_splits)
next
  case (Read_io fd n)
  from s step [unfolded Read_io fs_io.simps] show ?thesis
    by (rule on_file_ok) (rule fs_read_ok [OF s])
next
  case (Lseek_io fd off whence)
  from s step [unfolded Lseek_io fs_io.simps] show ?thesis
    by (rule on_file_ok) (rule fs_lseek_ok [OF s])
next
  case (FcntlLk_io fd cmd fl)
  from s step [unfolded FcntlLk_io fs_io.simps] show ?thesis
    by (rule on_file_ok) (rule fs_lock_ok [OF s])
next
  case (Fcntl_io fd cmd arg)
  with step show ?thesis
    using s by (cases "fs_file s fd") (auto intro: fs_fcntl_ok)
next
  case (Socket_io fam ty pr)
  with step have "fs_install 0 (fs_special O_RDWR) s = Some (x, s')"
    by (auto split: if_splits)
  from fs_install_ok [OF s this] show ?thesis by (simp add: of_ok_def fs_special_def)
qed (use s step in \<open>auto simp: fs_ok_filter split: if_splits intro: fs_openat_ok fs_pipe_ok\<close>)

text \<open>Every step keeps the state well formed; so it is after every history.\<close>

theorem fs_step_ok: "fs_ok s \<Longrightarrow> fs_step c s = Some (x, s') \<Longrightarrow> fs_ok s'"
proof (cases c)
  case (Pa pc)
  then show "fs_ok s \<Longrightarrow> fs_step c s = Some (x, s') \<Longrightarrow> fs_ok s'"
    by (cases pc) (auto simp: fs_ok_filter split: option.splits if_splits)
next
  case (Pr pc)
  then show "fs_ok s \<Longrightarrow> fs_step c s = Some (x, s') \<Longrightarrow> fs_ok s'"
    by (cases pc) auto
qed (auto intro: fs_io_ok)

theorem fs_state_ok: "fs_state h = Some s \<Longrightarrow> fs_ok s"
proof (induction h arbitrary: s rule: rev_induct)
  case Nil
  then show ?case by (auto simp: fs_state_Nil fs_ok_def fs_init_def of_ok_def)
next
  case (snoc e h)
  then show ?case
    by (auto simp: fs_state_snoc fs_after_def bind_eq_Some_conv intro: fs_step_ok)
qed

end
