(* ===== verification/Posix_Tests.thy ===== *)
theory Posix_Tests
  imports Posix Close_Tests Write_Tests Read_Tests Fcntl_Tests
begin

text \<open>
  Tests of files and descriptors on conforming kernels (\<open>posix\<close>): they pass. A test that says \<open>test failed\<close> has
  then found an answer that is not as documented.
\<close>

section \<open>One call after the other\<close>

lemmas fs_simps = fs_openat_def fs_install_def lowest_def fs_file_def plain_def fs_read_def fs_write_def fs_lseek_def
  fs_fcntl_def fs_lock_def on_file_def fs_special_def fs_pipe_def fs_init_def Let_def

text \<open>What a read leaves in a buffer that is long enough.\<close>

lemma take_read: "length bs \<le> n \<Longrightarrow> length bs \<le> length old \<Longrightarrow> take (length bs) (overlay (fit_to n bs) old) = bs"
  by (simp add: overlay_def fit_to_def)

text \<open>A decimal number is short and has no slash, so that it can be part of a name.\<close>

lemma show_base_no_slash: "CHR ''/'' \<notin> set (show_base 10 n)"
  using show_base_digits [of n] by (auto simp: list_all_iff is_digit_def)

lemma show_pid:
  assumes "v \<le> 4194304"
  shows "length (show_int (int v)) \<le> 7" "CHR ''/'' \<notin> set (show_int (int v))"
  using assms show_base_short [of 7 v] by (simp_all add: show_int_def show_base_no_slash)

section \<open>close, read\<close>

lemma posix_close02:
  assumes K: "posix K"
  shows "runs (close02_main K) proc_init announced"
  unfolding close02_main_def close02_run_def proc_init_def merges
  apply (insert fs_state_Nil)
  apply (simp add: run_simps Let_def cong: run_congs split del: if_split)
  apply (erule answered_posix [OF K], simp add: fs_simps, simp)+
  done

lemma posix_close01:
  assumes K: "posix K"
  shows "runs (close01_main K) proc_init announced"
  unfolding close01_defs merges
  apply (insert fs_state_Nil)
  apply (simp add: run_simps Let_def cong: run_congs split del: if_split)
  apply (erule answered_posix [OF K], simp add: fs_simps, simp add: fds_seen_def)+
  done

lemma read04_same: "take 26 (overlay (fit_to BUFSIZ palfa) (fit BUFSIZ bs)) = palfa"
proof -
  have n: "length palfa = 26" by simp
  have "length palfa \<le> length (fit BUFSIZ bs)" unfolding n by simp
  from take_read [of palfa BUFSIZ, OF _ this] show ?thesis unfolding n by simp
qed

lemma posix_read04:
  assumes K: "posix K"
  shows "runs (read04_main K) proc_init announced"
  unfolding read04_main_def read04_setup_def read04_verify_read_def proc_init_def merges
  apply (insert fs_state_Nil)
  apply (simp add: run_simps Let_def cong: run_congs split del: if_split)
  apply (erule answered_posix [OF K], simp add: fs_simps, simp add: read04_same)+
  done

section \<open>write\<close>

text \<open>The state in the loop of \<^verbatim>\<open>write01\<close>: the file is open as descriptor 3.\<close>

definition write01_at :: "nat \<Rightarrow> string \<Rightarrow> fstate \<Rightarrow> bool" where
  "write01_at off bs s \<longleftrightarrow> fs_file s 3 = Some 2 \<and> length (fs_open s) = 3 \<and> length (fs_data s) = 1 \<and>
     fs_open s ! 2 = \<lparr>of_data = Some 0, of_off = off, of_flags = O_RDWR\<rparr> \<and> fs_data s ! 0 = bs \<and> off = length bs"

lemma posix_write01_loop:
  assumes K: "posix K" and "clear s" and "fs_state (trace s) = Some t" and "write01_at off bs t"
    and "\<And>s' t'. clear s' \<Longrightarrow> w01_fd s' = w01_fd s \<Longrightarrow> fs_state (trace s') = Some t' \<Longrightarrow>
      fs_file t' 3 = Some 2 \<Longrightarrow> P (Ret 1, s')"
  shows "runs (write01_loop K 3 n 0) s P"
  using assms(2-5)
proof (induction n arbitrary: s t off bs)
  case 0
  then show ?case by (auto simp: run_simps clear_def write01_at_def)
next
  case (Suc n)
  let ?w = "fill (Suc n) (CHR ''w'')"
  obtain x t' where step: "fs_step (Write 3 (Bytes ?w) (Suc n)) t = Some (A_val (Suc n), t')"
    and at': "write01_at (off + Suc n) (bs @ ?w) t'"
    using Suc.prems(3) by (auto simp: write01_at_def on_file_def fs_write_def Let_def fill_def fs_file_def)
  show ?case
    unfolding write01_loop.simps
    apply (simp add: run_simps Let_def cong: run_congs split del: if_split)
    apply (rule answered_posix [OF K Suc.prems(2) step])
    apply simp
    apply (rule Suc.IH [where t = t'])
    using Suc.prems(1,4) at' apply (auto simp: clear_def)
    done
qed

lemma posix_write01:
  assumes K: "posix K"
  shows "runs (write01_main K) write01_init announced"
  unfolding write01_main_def write01_setup_def write01_verify_write_def write01_cleanup_def write01_init_def merges
  apply (insert fs_state_Nil)
  apply (simp add: run_simps Let_def cong: run_congs split del: if_split)
  apply (erule answered_posix [OF K], simp add: fs_simps, simp)
  apply (erule answered_posix [OF K], simp add: fs_simps, simp)
  apply (rule posix_write01_loop [OF K, where off = 0 and bs = "[]"])
     apply (simp add: clear_def)
    apply simp
   apply (simp add: write01_at_def fs_file_def)
  apply (simp add: run_simps clear_def cong: run_congs)
  apply (erule answered_posix [OF K], simp, simp)
  done

lemma posix_write02:
  assumes K: "posix K"
  shows "runs (write02_main K) write02_init announced"
  unfolding write02_main_def write02_setup_def write02_verify_write_def write02_cleanup_def write02_init_def merges
  apply (insert fs_state_Nil)
  apply (simp add: run_simps Let_def cong: run_congs split del: if_split)
  apply (erule answered_posix [OF K], simp add: fs_simps, simp)+
  done

section \<open>fcntl\<close>

text \<open>Duplicating a descriptor.\<close>

lemma fs_dup:
  assumes "fs_file t fd = Some k" and "0 \<le> m" and "m < 1024"
  obtains fd' t' where "fs_step (Fcntl fd F_DUPFD m) t = Some (A_val (nat fd'), t')"
    and "m \<le> fd'" and "fd' \<noteq> fd" and "fs_file t' fd' = Some k" and "fs_file t' fd = Some k"
proof -
  let ?fd = "lowest m (fs_fds t)"
  have "fd \<in> fst ` set (fs_fds t)"
    using assms(1) by (force simp: fs_file_def dest: map_of_SomeD)
  then have "m \<le> ?fd" "?fd \<noteq> fd"
    using lowest_free [of m "fs_fds t"] by metis+
  with assms show ?thesis
    by (intro that [where fd' = ?fd and t' = "t\<lparr>fs_fds := (?fd, k, 0) # fs_fds t\<rparr>"])
      (auto simp: fs_fcntl_def fs_file_def Let_def)
qed

lemma map_of_without: "map_of (filter (\<lambda>x. fst x \<noteq> a) xs) b = (if b = a then None else map_of xs b)"
  by (induction xs) auto

lemma fs_close:
  assumes "fs_file t fd = Some k"
  obtains t' where "fs_step (Close fd) t = Some (A_val 0, t')" and "fs_file t' fd = None"
    and "\<And>fd'. fd' \<noteq> fd \<Longrightarrow> fs_file t' fd' = fs_file t fd'"
proof (rule that)
  show "fs_step (Close fd) t = Some (A_val 0, t\<lparr>fs_fds := filter (\<lambda>x. fst x \<noteq> fd) (fs_fds t)\<rparr>)"
    using assms by simp
qed (auto simp: fs_file_def map_of_without)

text \<open>The state between the cases of \<^verbatim>\<open>fcntl02\<close>.\<close>

definition fcntl02_at :: "nat \<Rightarrow> fcntl02 \<Rightarrow> bool" where
  "fcntl02_at k s \<longleftrightarrow> clear s \<and> scan 0 (f02_fname s) = 0 \<and> f02_fd s = 3 \<and>
     (\<exists>t. fs_state (trace s) = Some t \<and> fs_file t 3 = Some k)"

lemma posix_fcntl02_case:
  assumes K: "posix K" and s: "fcntl02_at k s" and i: "i < 6"
    and P: "\<And>s'. fcntl02_at k s' \<Longrightarrow> P (Ret 1, s')"
  shows "runs (fcntl02_verify_fcntl K i) s P"
proof -
  obtain t where c: "scan 0 (out s) = 0" "scan 0 (f02_fname s) = 0" "f02_fd s = 3"
    and t: "fs_state (trace s) = Some t" "fs_file t 3 = Some k"
    using s unfolding fcntl02_at_def clear_def by blast
  have m: "0 \<le> fcntl02_min_fds ! i" "fcntl02_min_fds ! i < 1024"
    using i by (auto simp: fcntl02_min_fds_def less_Suc_eq numeral_eq_Suc)
  obtain fd t1 where dup: "fs_step (Fcntl 3 F_DUPFD (fcntl02_min_fds ! i)) t = Some (A_val (nat fd), t1)"
    and fd: "fcntl02_min_fds ! i \<le> fd" "fd \<noteq> 3" "fs_file t1 fd = Some k" "fs_file t1 3 = Some k"
    using fs_dup [OF t(2) m] by blast
  obtain t2 where cl: "fs_step (Close fd) t1 = Some (A_val 0, t2)" and t2: "fs_file t2 3 = Some k"
    using fs_close [OF fd(3)] fd(2,4) by metis
  show ?thesis
    unfolding fcntl02_verify_fcntl_def
    apply (simp add: run_simps Let_def c(3) cong: run_congs split del: if_split)
    apply (rule answered_posix [OF K t(1) dup])
    using fd(1) m(1) c apply (simp)
    apply (erule answered_posix [OF K])
     apply (rule cl)
    using c t2 apply (simp add: fcntl02_at_def clear_def P)
    done
qed

lemma posix_fcntl02_cases:
  assumes K: "posix K" and "fcntl02_at k s" and "list_all (\<lambda>i. i < 6) is"
    and "\<And>s'. fcntl02_at k s' \<Longrightarrow> P (Ret 1, s')"
  shows "runs (mult_cases (fcntl02_verify_fcntl K) is 1) s P"
  using assms(2-4)
proof (induction "is" arbitrary: s)
  case Nil
  then show ?case by (simp add: run_simps)
next
  case (Cons i "is")
  show ?case
    unfolding mult_cases.simps runs_bind
    by (rule posix_fcntl02_case [OF K Cons.prems(1)]) (use Cons in auto)
qed

lemma posix_fcntl02:
  assumes K: "posix K"
  shows "runs (fcntl02_main K) fcntl02_init announced"
  unfolding fcntl02_main_def fcntl02_setup_def fcntl02_cleanup_def fcntl02_init_def merges
  apply (insert fs_state_Nil)
  apply (simp add: run_simps Let_def cong: run_congs split del: if_split)
  apply (erule answered_posix [OF K], simp add: fs_simps, simp split: sum.splits)
  apply (frule show_pid(1), frule show_pid(2))
  apply (erule answered_posix [OF K], simp add: fs_simps, simp)
  apply (rule posix_fcntl02_cases [OF K, where k = 2])
    apply (simp add: fcntl02_at_def clear_def fs_file_def)
   apply (simp add: upt_rec)
  apply (simp add: fcntl02_at_def run_simps clear_def cong: run_congs)
  apply (elim conjE exE)
  apply (erule answered_posix [OF K], simp, simp)
  done

lemma posix_fcntl03:
  assumes K: "posix K"
  shows "runs (fcntl03_main K) fcntl03_init announced"
  unfolding fcntl03_main_def fcntl03_setup_def fcntl03_cleanup_def fcntl03_verify_fcntl_def fcntl03_init_def merges
  apply (insert fs_state_Nil)
  apply (simp add: run_simps Let_def cong: run_congs split del: if_split)
  apply (erule answered_posix [OF K], simp add: fs_simps, simp split: sum.splits)
  apply (frule show_pid(1), frule show_pid(2))
  apply (erule answered_posix [OF K], simp add: fs_simps, simp)+
  done

lemma posix_fcntl05:
  assumes K: "posix K"
  shows "runs (fcntl05_main K) fcntl05_init announced"
  unfolding fcntl05_main_def fcntl05_setup_def fcntl05_cleanup_def fcntl05_verify_fcntl_def fcntl05_init_def merges
  apply (insert fs_state_Nil)
  apply (simp add: run_simps Let_def cong: run_congs split del: if_split)
  apply (erule answered_posix [OF K], simp add: fs_simps, simp split: sum.splits)
  apply (erule answered_posix [OF K], simp add: fs_simps, simp)+
  done

lemma posix_fcntl08:
  assumes K: "posix K"
  shows "runs (fcntl08_main K) fcntl08_init announced"
  unfolding fcntl08_main_def fcntl08_setup_def fcntl08_cleanup_def fcntl08_init_def merges
  apply (insert fs_state_Nil)
  apply (simp add: run_simps Let_def cong: run_congs split del: if_split)
  apply (erule answered_posix [OF K], simp add: fs_simps, simp)+
  done

text \<open>The access mode among the flags.\<close>

lemma accmode_rdwr: "v AND 3075 = 2 \<Longrightarrow> v AND 3 = (2::int)"
proof -
  assume "v AND 3075 = 2"
  then have "(v AND 3075) AND 3 = 2 AND (3::int)" by simp
  then show ?thesis by (simp add: and.assoc)
qed

lemma posix_fcntl04:
  assumes K: "posix K"
  shows "runs (fcntl04_main K) fcntl04_init announced"
  unfolding fcntl04_main_def fcntl04_setup_def fcntl04_cleanup_def fcntl04_verify_fcntl_def fcntl04_init_def merges
  apply (insert fs_state_Nil)
  apply (simp add: run_simps Let_def cong: run_congs split del: if_split)
  apply (erule answered_posix [OF K], simp add: fs_simps, simp split: sum.splits)
  apply (frule show_pid(1), frule show_pid(2))
  apply (erule answered_posix [OF K], simp add: fs_simps, simp)
  apply (erule answered_posix [OF K], simp add: fs_simps, simp split: sum.splits add: accmode_rdwr)
  apply (erule answered_posix [OF K], simp add: fs_simps, simp)
  done

section \<open>No false alarm\<close>

text \<open>C2. On a kernel that answers as documented, \<^verbatim>\<open>close01\<close>, \<^verbatim>\<open>close02\<close>, \<^verbatim>\<open>read04\<close>, \<^verbatim>\<open>write01\<close> (with all of its
  8192 writes) and \<^verbatim>\<open>write02\<close> pass.\<close>

theorem posix_files_pass:
  assumes "posix K"
  shows "passes (close01_main K) proc_init \<and> passes (close02_main K) proc_init \<and> passes (read04_main K) proc_init \<and>
    passes (write01_main K) write01_init \<and> passes (write02_main K) write02_init"
  using posix_close01 posix_close02 posix_read04 posix_write01 posix_write02 assms by (simp add: passes_runs)

theorem posix_files_pass_witness:
  "posix posix_kernel \<and> passes (write01_main posix_kernel) write01_init"
  using posix_files_pass [OF posix_kernel] posix_kernel by simp

text \<open>C6. On a kernel that answers as documented, \<^verbatim>\<open>fcntl02\<close>, \<^verbatim>\<open>fcntl03\<close>, \<^verbatim>\<open>fcntl04\<close>, \<^verbatim>\<open>fcntl05\<close> and \<^verbatim>\<open>fcntl08\<close>
  pass: a duplicate is the lowest free descriptor from the bound on, whatever is open.\<close>

theorem posix_fcntl_pass:
  assumes "posix K"
  shows "passes (fcntl02_main K) fcntl02_init \<and> passes (fcntl03_main K) fcntl03_init \<and> passes (fcntl04_main K) fcntl04_init \<and>
    passes (fcntl05_main K) fcntl05_init \<and> passes (fcntl08_main K) fcntl08_init"
  using posix_fcntl02 posix_fcntl03 posix_fcntl04 posix_fcntl05 posix_fcntl08 assms by (simp add: passes_runs)

theorem posix_fcntl_pass_witness:
  "posix posix_kernel \<and> passes (fcntl02_main posix_kernel) fcntl02_init"
  using posix_fcntl_pass [OF posix_kernel] posix_kernel by simp

end
