(* ===== verification/Posix_Fcntl01.thy ===== *)
theory Posix_Fcntl01
  imports Posix_Tests
begin

text \<open>
  \<^verbatim>\<open>fcntl01\<close> on a conforming kernel. The program opens eight files, closes four of them, duplicates a descriptor three
  times, and sets flags; the proof follows a view of the abstract state: the descriptors, the flags of one open
  file, and the names.
\<close>

section \<open>The names\<close>






section \<open>The view\<close>










section \<open>Opening the files\<close>






section \<open>Removing them\<close>



section \<open>Duplicates and flags\<close>







section \<open>No false alarm\<close>





end
