(* ===== verification/Harness.thy ===== *)
theory Harness
  imports Process
begin

text \<open>
  The automation scripts around the tests: \<^verbatim>\<open>independent tests/dockerfile_data/brain.py\<close>, which compiles,
  runs and counts the tests inside the container, and the part of \<^verbatim>\<open>independent tests/runtest\<close> that reads
  the counts back. The compiler, the loader and the file system are parameters: what they do to one
  test file is a \<open>test_run\<close>.
\<close>

section \<open>Strings of Python\<close>

abbreviation (input) "newline \<equiv> CHR ''\<newline>''"
abbreviation (input) "blank \<equiv> CHR '' ''"

text \<open>\<^verbatim>\<open>str(n)\<close>, \<^verbatim>\<open>s.split(c)\<close> with a separator of one character, and \<^verbatim>\<open>int(s)\<close> on texts of digits; any other text is an
  error here.\<close>

definition py_str :: "nat \<Rightarrow> string" where
  "py_str n = show_base 10 n"

fun split_char :: "char \<Rightarrow> string \<Rightarrow> string list" where
  "split_char c [] = [[]]"
| "split_char c (x # xs) = (if x = c then [] # split_char c xs
     else (case split_char c xs of [] \<Rightarrow> [[x]] | y # ys \<Rightarrow> (x # y) # ys))"

definition py_int :: "string \<Rightarrow> nat option" where
  "py_int s = (if s \<noteq> [] \<and> list_all (\<lambda>c. c \<in> set ''0123456789'') s then Some (read_dec s) else None)"

text \<open>\<^verbatim>\<open>s.split(sep)\<close> with a longer separator: \<open>cut\<close> finds its first occurrence.\<close>

fun cut :: "string \<Rightarrow> string \<Rightarrow> (string \<times> string) option" where
  "cut sep [] = None"
| "cut sep (x # xs) = (if prefix sep (x # xs) then Some ([], drop (length sep) (x # xs))
     else (case cut sep xs of None \<Rightarrow> None | Some (a, b) \<Rightarrow> Some (x # a, b)))"

lemma cut_shorter: "cut sep s = Some (a, b) \<Longrightarrow> sep \<noteq> [] \<Longrightarrow> length b < length s"
proof (induction s arbitrary: a)
  case (Cons x s)
  then show ?case by (cases sep) (auto split: if_splits option.splits)
qed simp

function split_text :: "string \<Rightarrow> string \<Rightarrow> string list" where
  "split_text sep s = (if sep = [] then [s] else
     case cut sep s of None \<Rightarrow> [s] | Some (a, b) \<Rightarrow> a # split_text sep b)"
  by pat_completeness auto

termination split_text
  by (relation "measure (\<lambda>(sep, s). length s)") (auto dest: cut_shorter)

declare split_text.simps [simp del]

text \<open>A loop that collects one value per round and ends the script in the first round that raises.\<close>

fun all_some :: "'a option list \<Rightarrow> 'a list option" where
  "all_some [] = Some []"
| "all_some (x # xs) = (case x of None \<Rightarrow> None | Some a \<Rightarrow> map_option ((#) a) (all_some xs))"

section \<open>Running one test\<close>

text \<open>What happens to one file: the text left by the compiler, whether a binary is there, and the log of the run;
  \<open>None\<close> where the script's reading of a file raises.\<close>

record test_run =
  tr_comp :: "string option"
  tr_built :: bool
  tr_log :: "string option"

text \<open>\<^verbatim>\<open>runTest\<close>: 1 passed, 0 failed, \<open>-1\<close> after an exception, and the accumulated logs. The flag \<^verbatim>\<open>log\<close> is set whenever
  the comparison is reached.\<close>

definition runTest :: "string \<Rightarrow> test_run \<Rightarrow> string \<Rightarrow> int \<times> string" where
  "runTest name e logs = (case tr_comp e of
       None \<Rightarrow> (-1, logs)
     | Some made \<Rightarrow>
         let logs1 = logs @ name @ [newline] @ made @ [newline] in
         if \<not> tr_built e then (0, logs1)
         else (case tr_log e of
             None \<Rightarrow> (-1, logs1)
           | Some cont \<Rightarrow> if announces cont then (1, logs1)
               else (0, logs1 @ [newline] @ cont @ ''DIVIDER'')))"

section \<open>Counting\<close>

record tally =
  pass_list :: "nat list"
  fail_list :: "nat list"
  brok_list :: "nat list"
  logs :: string

definition brain_init :: tally where
  "brain_init = \<lparr>pass_list = replicate 361 0, fail_list = replicate 361 0, brok_list = replicate 361 0, logs = []\<rparr>"

text \<open>\<^verbatim>\<open>xs[i] += k\<close>: an index out of range ends the script.\<close>

definition bump :: "nat \<Rightarrow> nat \<Rightarrow> nat list \<Rightarrow> nat list option" where
  "bump i k xs = (if i < length xs then Some (xs[i := xs ! i + k]) else None)"

definition is_header :: "string \<Rightarrow> bool" where
  "is_header name = sublist ''.h'' name"

definition brain_file :: "nat \<Rightarrow> string \<times> test_run \<Rightarrow> tally \<Rightarrow> tally option" where
  "brain_file i f t = (if is_header (fst f) then Some t
     else (case runTest (fst f) (snd f) (logs t) of (res, l) \<Rightarrow>
       if res = 0 then map_option (\<lambda>xs. t\<lparr>fail_list := xs, logs := l\<rparr>) (bump i 1 (fail_list t))
       else if res = 1 then map_option (\<lambda>xs. t\<lparr>pass_list := xs, logs := l\<rparr>) (bump i 1 (pass_list t))
       else map_option (\<lambda>xs. t\<lparr>brok_list := xs, logs := l\<rparr>) (bump i 1 (brok_list t))))"

fun brain_files :: "nat \<Rightarrow> (string \<times> test_run) list \<Rightarrow> tally \<Rightarrow> tally option" where
  "brain_files i [] t = Some t"
| "brain_files i (f # fs) t = Option.bind (brain_file i f t) (brain_files i fs)"

text \<open>A directory with several files and no \<^verbatim>\<open>incl.h\<close> is unfinished: everything in it counts as broken.\<close>

definition unfinished :: "(string \<times> test_run) list \<Rightarrow> bool" where
  "unfinished d \<longleftrightarrow> length d \<noteq> 1 \<and> ''incl.h'' \<notin> set (map fst d)"

definition brain_dir :: "nat \<Rightarrow> (string \<times> test_run) list \<Rightarrow> tally \<Rightarrow> tally option" where
  "brain_dir i d t = (if unfinished d then map_option (\<lambda>xs. t\<lparr>brok_list := xs\<rparr>) (bump i (length d) (brok_list t))
     else brain_files i d t)"

fun brain_dirs :: "nat \<Rightarrow> (string \<times> test_run) list list \<Rightarrow> tally \<Rightarrow> tally option" where
  "brain_dirs i [] t = Some t"
| "brain_dirs i (d # ds) t = Option.bind (brain_dir i d t) (brain_dirs (Suc i) ds)"

text \<open>The counting loop, over every directory.\<close>

definition brain :: "(string \<times> test_run) list list \<Rightarrow> tally option" where
  "brain dirs = brain_dirs 0 dirs brain_init"

text \<open>The output loops: entry \<open>i\<close> of each list for every directory \<open>i\<close>, where an index out of range ends the script before
  anything is written. Then the separator and the logs.\<close>

definition out_line :: "nat \<Rightarrow> nat list \<Rightarrow> string option" where
  "out_line n xs = map_option concat
     (all_some (map (\<lambda>i. if i < length xs then Some (py_str (xs ! i) @ [blank]) else None) [0..<n]))"

definition brain_out :: "nat \<Rightarrow> tally \<Rightarrow> string option" where
  "brain_out n t = (case (out_line n (pass_list t), out_line n (fail_list t), out_line n (brok_list t)) of
       (Some p, Some f, Some b) \<Rightarrow> Some (p @ [newline] @ f @ [newline] @ b @ ''DIVIDER'' @ logs t)
     | _ \<Rightarrow> None)"

text \<open>The whole script: the text it writes, or \<open>None\<close> where it ends with an exception.\<close>

definition brain_py :: "(string \<times> test_run) list list \<Rightarrow> string option" where
  "brain_py dirs = Option.bind (brain dirs) (brain_out (length dirs))"

section \<open>Reading the counts back\<close>

text \<open>The first three lines of \<^verbatim>\<open>content[0]\<close>; an unreadable number, or a missing line, ends the script.\<close>

definition parse_line :: "string \<Rightarrow> nat list option" where
  "parse_line l = all_some (map py_int (filter (\<lambda>w. w \<noteq> []) (split_char blank l)))"

definition runtest_counts :: "string \<Rightarrow> (nat list \<times> nat list \<times> nat list) option" where
  "runtest_counts text = (case split_char newline (hd (split_text ''DIVIDER'' text)) of
       l0 # l1 # l2 # ls \<Rightarrow> (case (parse_line l0, parse_line l1, parse_line l2) of
           (Some p, Some f, Some b) \<Rightarrow> Some (p, f, b) | _ \<Rightarrow> None)
     | _ \<Rightarrow> None)"

text \<open>The log files: every section after a separator, named by its first line. Sections without further text are skipped, and
  a later file replaces an earlier one of its name.\<close>

definition log_section :: "string \<Rightarrow> (string \<times> string) option" where
  "log_section c = (if c = [] then None else
     (let logcont = split_char newline c; logcontent = concat (map (\<lambda>l. l @ [newline]) (tl logcont))
      in if logcontent = [] then None else Some (''./logs/'' @ hd logcont @ ''.log'', logcontent)))"

fun log_files :: "string list \<Rightarrow> (string \<rightharpoonup> string) \<Rightarrow> string \<rightharpoonup> string" where
  "log_files [] files = files"
| "log_files (c # cs) files = log_files cs (case log_section c of None \<Rightarrow> files | Some (path, l) \<Rightarrow> files(path \<mapsto> l))"

definition runtest_logs :: "string \<Rightarrow> string \<rightharpoonup> string" where
  "runtest_logs text = log_files (tl (split_text ''DIVIDER'' text)) Map.empty"

section \<open>Round trip of the counts\<close>

lemma split_char_sep: "c \<notin> set a \<Longrightarrow> split_char c (a @ c # b) = a # split_char c b"
  by (induction a) auto

lemma split_char_none: "c \<notin> set a \<Longrightarrow> split_char c a = [a]"
  by (induction a) auto

lemma cut_sep: "CHR ''D'' \<notin> set a \<Longrightarrow> cut ''DIVIDER'' (a @ ''DIVIDER'' @ b) = Some (a, b)"
  by (induction a) auto

lemma digit_decimal: "d < 10 \<Longrightarrow> digit d \<in> set ''0123456789''"
proof -
  assume "d < 10"
  then have "d \<in> {0, 1, 2, 3, 4, 5, 6, 7, 8, 9}" by auto
  then show ?thesis by (auto simp: digit_def)
qed

lemma py_str_digits: "set (py_str n) \<subseteq> set ''0123456789''"
  unfolding py_str_def
proof (induction "10::nat" n rule: show_base.induct)
  case (1 n)
  show ?case
  proof (cases "n < 10")
    case True
    then show ?thesis using digit_decimal [of n] by (subst show_base.simps) auto
  next
    case False
    then show ?thesis using 1 digit_decimal [of "n mod 10"] by (subst show_base.simps) auto
  qed
qed

lemma py_int_str: "py_int (py_str n) = Some n"
proof -
  have "list_all (\<lambda>c. c \<in> set ''0123456789'') (py_str n)"
    unfolding list_all_iff using py_str_digits [of n] by (rule subset_code(1) [THEN iffD1])
  moreover have "py_str n \<noteq> []" by (simp only: py_str_def show_base_nonempty not_False_eq_True)
  moreover have "read_dec (py_str n) = n" by (simp only: py_str_def read_dec_show_base)
  ultimately show ?thesis by (simp only: py_int_def simp_thms if_True)
qed

lemma py_str_foreign: "c \<notin> set ''0123456789'' \<Longrightarrow> c \<notin> set (py_str n)"
  using py_str_digits [of n] by blast

text \<open>The line of a list of counts.\<close>

definition count_line :: "nat list \<Rightarrow> string" where
  "count_line xs = concat (map (\<lambda>x. py_str x @ [blank]) xs)"

lemma all_some_map: "all_some (map (\<lambda>i. if P i then Some (g i) else None) is) = (if list_all P is then Some (map g is) else None)"
  by (induction "is") simp_all

lemma out_line_eq: "out_line n xs = (if n \<le> length xs then Some (count_line (take n xs)) else None)"
proof (cases "n \<le> length xs")
  case True
  then have "map (\<lambda>i. py_str (xs ! i) @ [blank]) [0..<n] = map (\<lambda>x. py_str x @ [blank]) (take n xs)"
    by (intro nth_equalityI) simp_all
  with True show ?thesis by (simp add: out_line_def count_line_def all_some_map list_all_iff)
next
  case False
  then have "\<not> list_all (\<lambda>i. i < length xs) [0..<n]" by (auto simp: list_all_iff)
  with False show ?thesis by (simp add: out_line_def all_some_map)
qed

lemma count_line_foreign: "c \<notin> set '' 0123456789'' \<Longrightarrow> c \<notin> set (count_line xs)"
  using py_str_foreign [of c] by (auto simp: count_line_def)

lemma parse_count_line: "parse_line (count_line xs) = Some xs"
proof (induction xs)
  case Nil
  show ?case by (simp add: parse_line_def count_line_def)
next
  case (Cons x xs)
  have "split_char blank (count_line (x # xs)) = py_str x # split_char blank (count_line xs)"
    using split_char_sep [of blank "py_str x" "count_line xs"] py_str_foreign [of blank x]
    by (simp add: count_line_def)
  moreover have "py_str x \<noteq> []" by (simp add: py_str_def show_base_nonempty)
  ultimately show ?case using Cons by (simp add: parse_line_def py_int_str)
qed

lemma count_line_plain: "newline \<notin> set (count_line xs)" "CHR ''D'' \<notin> set (count_line xs)"
  using count_line_foreign [of newline xs] count_line_foreign [of "CHR ''D''" xs] by simp_all

definition count_lines :: "nat \<Rightarrow> tally \<Rightarrow> string" where
  "count_lines n t = count_line (take n (pass_list t)) @ newline # count_line (take n (fail_list t)) @ newline
     # count_line (take n (brok_list t))"

text \<open>Whether every index the output loops use is in range.\<close>

definition in_range :: "nat \<Rightarrow> tally \<Rightarrow> bool" where
  "in_range n t \<longleftrightarrow> n \<le> length (pass_list t) \<and> n \<le> length (fail_list t) \<and> n \<le> length (brok_list t)"

lemma brain_out_eq: "brain_out n t = (if in_range n t then Some (count_lines n t @ ''DIVIDER'' @ logs t) else None)"
  by (simp add: brain_out_def out_line_eq in_range_def count_lines_def)

lemma brain_out_split:
  "brain_out n t = Some s \<Longrightarrow> split_text ''DIVIDER'' s = count_lines n t # split_text ''DIVIDER'' (logs t)"
proof -
  assume "brain_out n t = Some s"
  then have s: "s = count_lines n t @ ''DIVIDER'' @ logs t" by (simp add: brain_out_eq split: if_splits)
  have "CHR ''D'' \<notin> set (count_lines n t)" by (simp add: count_lines_def count_line_plain)
  from cut_sep [OF this, of "logs t"] show ?thesis unfolding s by (subst split_text.simps) simp
qed

lemma counts_read_back:
  "Option.bind (brain_out n t) runtest_counts =
     (if in_range n t then Some (take n (pass_list t), take n (fail_list t), take n (brok_list t)) else None)"
proof (cases "brain_out n t")
  case None
  then show ?thesis by (simp add: brain_out_eq split: if_splits)
next
  case (Some s)
  moreover have "in_range n t" using Some by (simp add: brain_out_eq split: if_splits)
  ultimately show ?thesis
    by (simp add: runtest_counts_def brain_out_split count_lines_def split_char_sep split_char_none count_line_plain
      parse_count_line)
qed

lemma logs_read_back:
  "brain_out n t = Some s \<Longrightarrow> runtest_logs s = log_files (split_text ''DIVIDER'' (logs t)) Map.empty"
  by (simp add: runtest_logs_def brain_out_split)

text \<open>C17. The counts \<^verbatim>\<open>brain.py\<close> prints are the ones \<^verbatim>\<open>runtest\<close> reads back, whatever the logs after them contain; it prints
  them exactly when it has a counter for each of the \<open>n\<close> directories.\<close>

theorem counts_roundtrip:
  "Option.bind (brain_out n t) runtest_counts =
     (if n \<le> length (pass_list t) \<and> n \<le> length (fail_list t) \<and> n \<le> length (brok_list t)
      then Some (take n (pass_list t), take n (fail_list t), take n (brok_list t)) else None)"
  by (simp add: counts_read_back in_range_def)

section \<open>What the counts mean\<close>

text \<open>The result of one run, without the logs.\<close>

definition test_result :: "test_run \<Rightarrow> int" where
  "test_result e = (case tr_comp e of None \<Rightarrow> -1 | Some c \<Rightarrow>
     if \<not> tr_built e then 0 else (case tr_log e of None \<Rightarrow> -1 | Some l \<Rightarrow> if announces l then 1 else 0))"

lemma fst_runTest: "fst (runTest name e l) = test_result e"
  by (simp add: runTest_def test_result_def Let_def split: option.splits)

lemma test_result_range: "test_result e \<noteq> 0 \<Longrightarrow> test_result e \<noteq> 1 \<Longrightarrow> test_result e = -1"
  by (auto simp: test_result_def split: option.splits if_splits)

definition with_result :: "int \<Rightarrow> (string \<times> test_run) list \<Rightarrow> nat" where
  "with_result r d = length (filter (\<lambda>f. \<not> is_header (fst f) \<and> test_result (snd f) = r) d)"

text \<open>The three numbers of a directory.\<close>

definition dir_passed :: "(string \<times> test_run) list \<Rightarrow> nat" where
  "dir_passed d = (if unfinished d then 0 else with_result 1 d)"

definition dir_failed :: "(string \<times> test_run) list \<Rightarrow> nat" where
  "dir_failed d = (if unfinished d then 0 else with_result 0 d)"

definition dir_broken :: "(string \<times> test_run) list \<Rightarrow> nat" where
  "dir_broken d = (if unfinished d then length d else with_result (-1) d)"

definition add_at :: "nat \<Rightarrow> nat \<Rightarrow> nat list \<Rightarrow> nat list" where
  "add_at i k xs = xs[i := xs ! i + k]"

lemma add_at_simps [simp]:
  "length (add_at i k xs) = length xs" "add_at i 0 xs = xs" "add_at i k (add_at i m xs) = (if i < length xs then add_at i (k + m) xs else xs)"
  "j \<noteq> i \<Longrightarrow> add_at i k xs ! j = xs ! j" "i < length xs \<Longrightarrow> add_at i k xs ! i = xs ! i + k"
  by (cases "i < length xs"; simp add: add_at_def list_update_beyond ac_simps)+

lemma bump_add_at: "bump i k xs = (if i < length xs then Some (add_at i k xs) else None)"
  by (simp add: bump_def add_at_def)

text \<open>The invariant of the script: three lists of 361 counters.\<close>

definition tally_wf :: "tally \<Rightarrow> bool" where
  "tally_wf t \<longleftrightarrow> length (pass_list t) = 361 \<and> length (fail_list t) = 361 \<and> length (brok_list t) = 361"

definition added :: "nat \<Rightarrow> nat \<Rightarrow> nat \<Rightarrow> nat \<Rightarrow> tally \<Rightarrow> tally \<Rightarrow> bool" where
  "added i p f b t t' \<longleftrightarrow> pass_list t' = add_at i p (pass_list t) \<and> fail_list t' = add_at i f (fail_list t) \<and>
     brok_list t' = add_at i b (brok_list t)"

lemma added_wf: "added i p f b t t' \<Longrightarrow> tally_wf t' \<longleftrightarrow> tally_wf t"
  by (auto simp: added_def tally_wf_def)

lemma added_trans:
  "tally_wf t \<Longrightarrow> i < 361 \<Longrightarrow> added i p f b t t' \<Longrightarrow> added i p' f' b' t' u \<Longrightarrow> added i (p + p') (f + f') (b + b') t u"
  by (auto simp: added_def tally_wf_def add.commute)

lemma brain_file_counts:
  assumes "tally_wf t" and "i < 361"
  shows "\<exists>t'. brain_file i f t = Some t' \<and> added i (with_result 1 [f]) (with_result 0 [f]) (with_result (-1) [f]) t t'"
proof (cases "is_header (fst f)")
  case False
  obtain l where r: "runTest (fst f) (snd f) (logs t) = (test_result (snd f), l)"
    by (metis fst_runTest prod.collapse)
  show ?thesis
    using assms False test_result_range [of "snd f"]
    by (auto simp: brain_file_def r with_result_def bump_add_at tally_wf_def added_def)
qed (simp add: brain_file_def with_result_def added_def)

lemma with_result_Cons: "with_result r (f # fs) = with_result r [f] + with_result r fs"
  by (simp add: with_result_def)

lemma brain_files_counts:
  assumes "tally_wf t" and "i < 361"
  shows "\<exists>t'. brain_files i fs t = Some t' \<and> added i (with_result 1 fs) (with_result 0 fs) (with_result (-1) fs) t t'"
  using assms(1)
proof (induction fs arbitrary: t)
  case Nil
  show ?case by (simp add: with_result_def added_def)
next
  case (Cons f fs)
  from brain_file_counts [OF Cons.prems assms(2), of f] obtain t1 where t1: "brain_file i f t = Some t1"
    "added i (with_result 1 [f]) (with_result 0 [f]) (with_result (-1) [f]) t t1" by blast
  with Cons.IH [of t1] Cons.prems obtain t2 where "brain_files i fs t1 = Some t2"
    "added i (with_result 1 fs) (with_result 0 fs) (with_result (-1) fs) t1 t2" by (auto simp: added_wf)
  with t1 added_trans [OF Cons.prems assms(2) t1(2)] show ?case
    by (auto simp: with_result_Cons [of _ f fs])
qed

lemma brain_dir_counts:
  assumes "tally_wf t" and "i < 361"
  shows "\<exists>t'. brain_dir i d t = Some t' \<and> added i (dir_passed d) (dir_failed d) (dir_broken d) t t'"
  using brain_files_counts [OF assms, of d] assms
  by (auto simp: brain_dir_def dir_passed_def dir_failed_def dir_broken_def bump_add_at tally_wf_def added_def)

text \<open>Logs only grow, and the lists keep their lengths.\<close>

definition same_shape :: "tally \<Rightarrow> tally \<Rightarrow> bool" where
  "same_shape t t' \<longleftrightarrow> length (pass_list t') = length (pass_list t) \<and> length (fail_list t') = length (fail_list t) \<and>
     length (brok_list t') = length (brok_list t) \<and> prefix (logs t) (logs t')"

lemma same_shape_refl [simp]: "same_shape t t"
  by (simp add: same_shape_def)

lemma same_shape_trans: "same_shape t t' \<Longrightarrow> same_shape t' u \<Longrightarrow> same_shape t u"
  by (auto simp: same_shape_def intro: prefix_order.trans)

lemma runTest_logs: "runTest name e l = (res, l') \<Longrightarrow> prefix l l'"
  by (auto simp: runTest_def Let_def prefix_def split: option.splits if_splits)

lemma brain_file_shape: "brain_file i f t = Some t' \<Longrightarrow> same_shape t t'"
  by (auto simp: brain_file_def bump_def same_shape_def dest: runTest_logs split: if_splits prod.splits)

lemma brain_files_shape: "brain_files i fs t = Some t' \<Longrightarrow> same_shape t t'"
  by (induction fs arbitrary: t) (auto simp: bind_eq_Some_conv intro: same_shape_trans dest: brain_file_shape)

lemma brain_dir_shape: "brain_dir i d t = Some t' \<Longrightarrow> same_shape t t'"
  by (auto simp: brain_dir_def bump_def same_shape_def split: if_splits dest: brain_files_shape [unfolded same_shape_def])

lemma brain_dirs_shape: "brain_dirs i ds t = Some t' \<Longrightarrow> same_shape t t'"
  by (induction ds arbitrary: i t) (auto simp: bind_eq_Some_conv intro: same_shape_trans dest: brain_dir_shape)

lemma brain_out_wf: "brain dirs = Some t \<Longrightarrow> in_range n t \<longleftrightarrow> n \<le> 361"
  by (auto simp: brain_def brain_init_def in_range_def same_shape_def dest: brain_dirs_shape)

text \<open>All directories: counter \<open>j\<close> receives the counts of the directory \<open>j - i\<close>.\<close>

definition dir_at :: "nat \<Rightarrow> (string \<times> test_run) list list \<Rightarrow> nat \<Rightarrow> ((string \<times> test_run) list \<Rightarrow> nat) \<Rightarrow> nat" where
  "dir_at i ds j g = (if i \<le> j \<and> j < i + length ds then g (ds ! (j - i)) else 0)"

lemma dir_at_Cons: "dir_at i (d # ds) j g = (if j = i then g d else dir_at (Suc i) ds j g)"
  by (auto simp: dir_at_def nth_Cons')

lemma brain_dirs_counts:
  assumes "tally_wf t" and "i + length ds \<le> 361"
  shows "\<exists>t'. brain_dirs i ds t = Some t' \<and> tally_wf t' \<and> (\<forall>j<361.
     pass_list t' ! j = pass_list t ! j + dir_at i ds j dir_passed \<and>
     fail_list t' ! j = fail_list t ! j + dir_at i ds j dir_failed \<and>
     brok_list t' ! j = brok_list t ! j + dir_at i ds j dir_broken)"
  using assms
proof (induction ds arbitrary: i t)
  case Nil
  then show ?case by (simp add: dir_at_def)
next
  case (Cons d ds)
  have i: "i < 361" using Cons.prems(2) by simp
  from brain_dir_counts [OF Cons.prems(1) i, of d] obtain t1 where t1: "brain_dir i d t = Some t1"
    "added i (dir_passed d) (dir_failed d) (dir_broken d) t t1" by blast
  then have wf1: "tally_wf t1" using Cons.prems(1) by (simp add: added_wf)
  from Cons.IH [OF wf1, of "Suc i"] Cons.prems(2) obtain t2 where "brain_dirs (Suc i) ds t1 = Some t2" "tally_wf t2"
    "\<forall>j<361. pass_list t2 ! j = pass_list t1 ! j + dir_at (Suc i) ds j dir_passed \<and>
     fail_list t2 ! j = fail_list t1 ! j + dir_at (Suc i) ds j dir_failed \<and>
     brok_list t2 ! j = brok_list t1 ! j + dir_at (Suc i) ds j dir_broken" by auto
  moreover have "xs' ! j = xs ! j + (if j = i then k else 0)" if "xs' = add_at i k xs" "length xs = 361" for xs xs' :: "nat list" and j k
    using that i by auto
  ultimately show ?case
    using t1 Cons.prems(1) by (auto simp: added_def tally_wf_def dir_at_Cons) (auto simp: dir_at_def)
qed

lemma brain_counted:
  assumes "length dirs \<le> 361"
  shows "\<exists>t. brain dirs = Some t \<and> take (length dirs) (pass_list t) = map dir_passed dirs \<and>
    take (length dirs) (fail_list t) = map dir_failed dirs \<and> take (length dirs) (brok_list t) = map dir_broken dirs"
proof -
  have "tally_wf brain_init" by (simp add: tally_wf_def brain_init_def)
  from brain_dirs_counts [OF this, of 0 dirs] assms obtain t where t: "brain dirs = Some t" "tally_wf t"
    "\<forall>j<361. pass_list t ! j = dir_at 0 dirs j dir_passed \<and> fail_list t ! j = dir_at 0 dirs j dir_failed \<and>
       brok_list t ! j = dir_at 0 dirs j dir_broken"
    by (auto simp: brain_def brain_init_def)
  have "take (length dirs) xs = map g dirs" if "length xs = 361" "\<forall>j<361. xs ! j = dir_at 0 dirs j g" for xs g
    using that assms by (intro nth_equalityI) (auto simp: dir_at_def)
  with t show ?thesis by (simp add: tally_wf_def)
qed

text \<open>C1. With at most 361 directories the script does not fail, and for each of them it counts as passed the files whose run announced
  success, as failed those that did not compile or did not announce it, and as broken those it could
  not read, or all of them in an unfinished directory.\<close>

theorem brain_counts:
  assumes "length dirs \<le> 361"
  shows "map_option (\<lambda>t. (take (length dirs) (pass_list t), take (length dirs) (fail_list t), take (length dirs) (brok_list t)))
     (brain dirs) = Some (map dir_passed dirs, map dir_failed dirs, map dir_broken dirs)"
  using brain_counted [OF assms] by auto

theorem brain_counts_witness:
  "map_option (\<lambda>t. (take 1 (pass_list t), take 1 (fail_list t), take 1 (brok_list t)))
     (brain [[(''a.c'', \<lparr>tr_comp = Some [], tr_built = True, tr_log = Some ''test succeeded''\<rparr>),
              (''b.c'', \<lparr>tr_comp = Some [], tr_built = False, tr_log = None\<rparr>),
              (''incl.h'', \<lparr>tr_comp = None, tr_built = False, tr_log = None\<rparr>)]]) = Some ([1], [1], [0])"
proof -
  let ?d = "[(''a.c'', \<lparr>tr_comp = Some [], tr_built = True, tr_log = Some ''test succeeded''\<rparr>),
    (''b.c'', \<lparr>tr_comp = Some [], tr_built = False, tr_log = None\<rparr>),
    (''incl.h'', \<lparr>tr_comp = None, tr_built = False, tr_log = None\<rparr>)]"
  have "\<not> unfinished ?d" "is_header ''incl.h''" "\<not> is_header ''a.c''" "\<not> is_header ''b.c''" "announces ''test succeeded''"
    by (simp_all add: unfinished_def is_header_def announces_def sublist_code)
  then have "dir_passed ?d = 1" "dir_failed ?d = 1" "dir_broken ?d = 0"
    by (simp_all add: dir_passed_def dir_failed_def dir_broken_def with_result_def test_result_def)
  with brain_counts [of "[?d]"] show ?thesis by simp
qed

text \<open>A passing test writes no separator, so the log of the failing test after it is filed under its name.\<close>

lemma log_misfiled:
  "log_files (split_text ''DIVIDER''
     (snd (runTest ''bad.c'' \<lparr>tr_comp = Some [], tr_built = True, tr_log = Some ''wrong''\<rparr>
       (snd (runTest ''good.c'' \<lparr>tr_comp = Some [], tr_built = True, tr_log = Some ''test succeeded''\<rparr> []))))) Map.empty =
   [''./logs/good.c.log'' \<mapsto> ''\<newline>bad.c\<newline>\<newline>\<newline>wrong\<newline>'']"
proof -
  have "announces ''test succeeded''" "\<not> announces ''wrong''" by (simp_all add: announces_def sublist_code)
  then have "snd (runTest ''bad.c'' \<lparr>tr_comp = Some [], tr_built = True, tr_log = Some ''wrong''\<rparr>
       (snd (runTest ''good.c'' \<lparr>tr_comp = Some [], tr_built = True, tr_log = Some ''test succeeded''\<rparr> [])))
     = ''good.c\<newline>\<newline>bad.c\<newline>\<newline>\<newline>wrongDIVIDER''" by (simp add: runTest_def Let_def)
  then show ?thesis by (simp add: split_text.simps log_section_def Let_def)
qed

text \<open>Whether the script counts anything for a directory.\<close>

definition touched :: "(string \<times> test_run) list \<Rightarrow> bool" where
  "touched d \<longleftrightarrow> unfinished d \<or> list_ex (\<lambda>f. \<not> is_header (fst f)) d"

lemma brain_file_over:
  assumes "tally_wf t" and "361 \<le> i"
  shows "brain_file i f t = (if is_header (fst f) then Some t else None)"
  using assms by (auto simp: brain_file_def bump_def tally_wf_def split: prod.splits)

lemma brain_files_over:
  assumes "tally_wf t" and "361 \<le> i"
  shows "brain_files i fs t = (if list_ex (\<lambda>f. \<not> is_header (fst f)) fs then None else Some t)"
  by (induction fs) (auto simp: brain_file_over [OF assms])

lemma brain_dirs_fails:
  "tally_wf t \<Longrightarrow> brain_dirs i ds t = None \<longleftrightarrow> list_ex touched (drop (361 - i) ds)"
proof (induction ds arbitrary: i t)
  case (Cons d ds)
  show ?case
  proof (cases "i < 361")
    case True
    from brain_dir_counts [OF Cons.prems True, of d] obtain t1 where "brain_dir i d t = Some t1" "tally_wf t1"
      using Cons.prems by (auto simp: added_wf)
    moreover have "drop (361 - i) (d # ds) = drop (361 - Suc i) ds"
      using True by (simp add: drop_Cons' )
    ultimately show ?thesis using Cons.IH [of t1 "Suc i"] by simp
  next
    case False
    then have "brain_dir i d t = (if touched d then None else Some t)"
      using Cons.prems brain_files_over [OF Cons.prems, of i d]
      by (auto simp: brain_dir_def touched_def bump_def tally_wf_def)
    then show ?thesis using False Cons by simp
  qed
qed simp

lemma brain_fails: "brain dirs = None \<longleftrightarrow> list_ex touched (drop 361 dirs)"
  using brain_dirs_fails [of brain_init 0 dirs] by (simp add: brain_def tally_wf_def brain_init_def)

lemma brain_fails_late: "brain dirs = None \<Longrightarrow> 361 < length dirs"
  by (cases "length dirs \<le> 361") (auto simp: brain_fails)

text \<open>What \<^verbatim>\<open>runtest\<close> makes of the script's output.\<close>

lemma brain_py_counts:
  "Option.bind (brain_py dirs) runtest_counts =
     (if length dirs \<le> 361 then Some (map dir_passed dirs, map dir_failed dirs, map dir_broken dirs) else None)"
proof (cases "brain dirs")
  case None
  with brain_fails_late [OF None] show ?thesis by (simp add: brain_py_def)
next
  case (Some t)
  with brain_counted [of dirs] show ?thesis by (auto simp: brain_py_def counts_read_back brain_out_wf)
qed

text \<open>C24. The script has room for 361 directories: it ends with an exception, and writes nothing, exactly when there are more. It
  ends already while counting exactly when one of those beyond has something to count, and otherwise
  while printing. With the 360 directories of the repository it never does.\<close>

theorem brain_fails_iff:
  "(brain_py dirs = None \<longleftrightarrow> 361 < length dirs) \<and> (brain dirs = None \<longleftrightarrow> list_ex touched (drop 361 dirs))"
proof -
  have "brain_py dirs = None \<longleftrightarrow> 361 < length dirs"
  proof (cases "brain dirs")
    case None
    with brain_fails_late [OF None] show ?thesis by (simp add: brain_py_def)
  next
    case (Some t)
    then show ?thesis by (auto simp: brain_py_def brain_out_eq brain_out_wf)
  qed
  then show ?thesis by (simp add: brain_fails)
qed

end
