(* ===== verification/Charts.thy ===== *)
theory Charts
  imports Harness Complex_Main
begin

text \<open>
  The rest of \<^verbatim>\<open>independent tests/runtest\<close>, which turns the counts into percentages and sorts the
  directories for its charts, and \<^verbatim>\<open>misc/count.py\<close>, which sorts them by their number of files. Both
  sort by exchanging elements of parallel lists; the locale \<open>exchange\<close> holds what such a sort owes its
  comparison. Percentages, floating point numbers in the script, are rational here.
\<close>

section \<open>Sorting by exchanges\<close>

text \<open>\<^verbatim>\<open>aux = xs[i]; xs[i] = xs[j]; xs[j] = aux\<close>.\<close>

definition swap_at :: "nat \<Rightarrow> nat \<Rightarrow> 'a list \<Rightarrow> 'a list" where
  "swap_at i j xs = xs[i := xs ! j, j := xs ! i]"

text \<open>The double loop over a list of rows.\<close>

fun exchange_row :: "('a \<Rightarrow> 'a \<Rightarrow> bool) \<Rightarrow> nat \<Rightarrow> nat list \<Rightarrow> 'a list \<Rightarrow> 'a list" where
  "exchange_row R i [] xs = xs"
| "exchange_row R i (j # js) xs = exchange_row R i js (if R (xs ! i) (xs ! j) then swap_at i j xs else xs)"

fun exchange_rows :: "('a \<Rightarrow> 'a \<Rightarrow> bool) \<Rightarrow> nat list \<Rightarrow> 'a list \<Rightarrow> 'a list" where
  "exchange_rows R [] xs = xs"
| "exchange_rows R (i # is) xs = exchange_rows R is (exchange_row R i [Suc i..<length xs] xs)"

definition exchange_sort :: "('a \<Rightarrow> 'a \<Rightarrow> bool) \<Rightarrow> 'a list \<Rightarrow> 'a list" where
  "exchange_sort R xs = exchange_rows R [0..<length xs - 1] xs"

section \<open>The charts of runtest\<close>

text \<open>\<^verbatim>\<open>p[i] / tot * 100\<close> for each of the three lists: a directory without any counted file divides by zero, and a
  list shorter than the first is indexed out of range; either ends the script.\<close>

definition percent :: "nat \<Rightarrow> nat \<Rightarrow> rat" where
  "percent x tot = of_nat x / of_nat tot * 100"

fun percentages :: "nat list \<Rightarrow> nat list \<Rightarrow> nat list \<Rightarrow> (rat list \<times> rat list \<times> rat list) option" where
  "percentages [] f b = Some ([], [], [])"
| "percentages (p # ps) (f # fs) (b # bs) =
     (let tot = p + f + b in
      if tot = 0 then None
      else (case percentages ps fs bs of None \<Rightarrow> None
        | Some (pp, fp, bp) \<Rightarrow> Some (percent p tot # pp, percent f tot # fp, percent b tot # bp)))"
| "percentages (p # ps) _ _ = None"

text \<open>The seven parallel lists.\<close>

record bars =
  b_pp :: "rat list"
  b_fp :: "rat list"
  b_bp :: "rat list"
  b_syscalls :: "string list"
  b_p :: "nat list"
  b_f :: "nat list"
  b_b :: "nat list"

text \<open>\<^verbatim>\<open>if(bp[i] > bp[j] or pp[i] < pp[j])\<close>, and the exchange of all seven.\<close>

definition bars_before :: "bars \<Rightarrow> nat \<Rightarrow> nat \<Rightarrow> bool" where
  "bars_before t i j \<longleftrightarrow> b_bp t ! i > b_bp t ! j \<or> b_pp t ! i < b_pp t ! j"

definition swap_bars :: "nat \<Rightarrow> nat \<Rightarrow> bars \<Rightarrow> bars" where
  "swap_bars i j t = \<lparr>b_pp = swap_at i j (b_pp t), b_fp = swap_at i j (b_fp t), b_bp = swap_at i j (b_bp t),
     b_syscalls = swap_at i j (b_syscalls t), b_p = swap_at i j (b_p t), b_f = swap_at i j (b_f t), b_b = swap_at i j (b_b t)\<rparr>"

fun sort_row :: "nat \<Rightarrow> nat list \<Rightarrow> bars \<Rightarrow> bars" where
  "sort_row i [] t = t"
| "sort_row i (j # js) t = sort_row i js (if bars_before t i j then swap_bars i j t else t)"

fun sort_rows :: "nat list \<Rightarrow> bars \<Rightarrow> bars" where
  "sort_rows [] t = t"
| "sort_rows (i # is) t = sort_rows is (sort_row i [Suc i..<length (b_bp t)] t)"

definition sort_bars :: "bars \<Rightarrow> bars" where
  "sort_bars t = sort_rows [0..<length (b_bp t) - 1] t"

section \<open>count.py\<close>

record counts =
  c_count :: "nat list"
  c_names :: "string list"

definition swap_counts :: "nat \<Rightarrow> nat \<Rightarrow> counts \<Rightarrow> counts" where
  "swap_counts i j t = \<lparr>c_count = swap_at i j (c_count t), c_names = swap_at i j (c_names t)\<rparr>"

fun count_row :: "nat \<Rightarrow> nat list \<Rightarrow> counts \<Rightarrow> counts" where
  "count_row i [] t = t"
| "count_row i (j # js) t = count_row i js (if c_count t ! i > c_count t ! j then swap_counts i j t else t)"

fun count_rows :: "nat list \<Rightarrow> counts \<Rightarrow> counts" where
  "count_rows [] t = t"
| "count_rows (i # is) t = count_rows is (count_row i [Suc i..<length (c_count t)] t)"

definition count_sort :: "counts \<Rightarrow> counts" where
  "count_sort t = count_rows [0..<length (c_count t) - 1] t"

section \<open>Exchanges keep the rows\<close>

lemma length_swap_at [simp]: "length (swap_at i j xs) = length xs"
  by (simp add: swap_at_def)

lemma swap_at_nth [simp]:
  "i < length xs \<Longrightarrow> j < length xs \<Longrightarrow> swap_at i j xs ! k = (if k = j then xs ! i else if k = i then xs ! j else xs ! k)"
  by (auto simp: swap_at_def nth_list_update)

lemma mset_swap_at [simp]: "i < length xs \<Longrightarrow> j < length xs \<Longrightarrow> mset (swap_at i j xs) = mset xs"
  by (simp add: swap_at_def mset_swap)

lemma set_swap_at [simp]: "i < length xs \<Longrightarrow> j < length xs \<Longrightarrow> set (swap_at i j xs) = set xs"
  by (rule mset_eq_setD) simp

lemma length_exchange_row [simp]: "length (exchange_row R i js xs) = length xs"
  by (induction js arbitrary: xs) simp_all

lemma length_exchange_rows [simp]: "length (exchange_rows R is xs) = length xs"
  by (induction "is" arbitrary: xs) simp_all

lemma mset_exchange_row:
  "i < length xs \<Longrightarrow> set js \<subseteq> {..<length xs} \<Longrightarrow> mset (exchange_row R i js xs) = mset xs"
  by (induction js arbitrary: xs) simp_all

lemma mset_exchange_rows:
  "set is \<subseteq> {..<length xs} \<Longrightarrow> mset (exchange_rows R is xs) = mset xs"
proof (induction "is" arbitrary: xs)
  case (Cons i "is")
  then have "mset (exchange_row R i [Suc i..<length xs] xs) = mset xs"
    by (intro mset_exchange_row) auto
  with Cons show ?case by simp
qed simp

lemma mset_exchange_sort: "mset (exchange_sort R xs) = mset xs"
  unfolding exchange_sort_def by (rule mset_exchange_rows) auto

text \<open>The double loop leaves the positions before \<open>i\<close> alone.\<close>

lemma exchange_row_before:
  "k < i \<Longrightarrow> i < length xs \<Longrightarrow> set js \<subseteq> {i<..<length xs} \<Longrightarrow> exchange_row R i js xs ! k = xs ! k"
  by (induction js arbitrary: xs) auto

text \<open>What a sort by exchanges needs to leave the \<open>late\<close> rows last: a late row before another one is exchanged, and no
  exchange brings a late row forward past one that is not.\<close>

locale exchange =
  fixes R :: "'a \<Rightarrow> 'a \<Rightarrow> bool" and ok :: "'a \<Rightarrow> bool" and late :: "'a \<Rightarrow> bool"
  assumes must: "ok x \<Longrightarrow> ok y \<Longrightarrow> late x \<Longrightarrow> \<not> late y \<Longrightarrow> R x y"
    and may: "ok x \<Longrightarrow> ok y \<Longrightarrow> R x y \<Longrightarrow> late y \<Longrightarrow> late x"
begin

lemma row_late:
  assumes "i < length xs" "set js \<subseteq> {i<..<length xs}" "D \<subseteq> {i<..<length xs}" "list_all ok xs"
    and "late (xs ! i) \<Longrightarrow> \<forall>k\<in>D. late (xs ! k)" and "late (exchange_row R i js xs ! i)"
  shows "\<forall>k\<in>D \<union> set js. late (exchange_row R i js xs ! k)"
  using assms
proof (induction js arbitrary: xs D)
  case (Cons j js)
  let ?xs = "if R (xs ! i) (xs ! j) then swap_at i j xs else xs"
  have j: "i < j" "j < length xs" using Cons.prems(2) by auto
  have oks: "ok (xs ! i)" "ok (xs ! j)" using Cons.prems(1,4) j by (simp_all add: list_all_length)
  have "list_all ok ?xs"
    using Cons.prems(1,4) j by (simp add: list_all_iff)
  moreover have "\<forall>k\<in>insert j D. late (?xs ! k)" if l: "late (?xs ! i)"
  proof (cases "R (xs ! i) (xs ! j)")
    case True
    with l j Cons.prems(1) have "late (xs ! j)" by simp
    with True oks have "late (xs ! i)" by (blast intro: may)
    with Cons.prems(1,3,5) j True show ?thesis by auto
  next
    case False
    with l have "late (xs ! i)" by simp
    with False oks have "late (xs ! j)" using must by blast
    with \<open>late (xs ! i)\<close> False Cons.prems(5) show ?thesis by simp
  qed
  ultimately have "\<forall>k\<in>insert j D \<union> set js. late (exchange_row R i js ?xs ! k)"
    using Cons.prems j by (intro Cons.IH) auto
  then show ?case by simp
qed simp

definition settled :: "nat \<Rightarrow> 'a list \<Rightarrow> bool" where
  "settled a xs \<longleftrightarrow> (\<forall>i<a. late (xs ! i) \<longrightarrow> (\<forall>j. i < j \<and> j < length xs \<longrightarrow> late (xs ! j)))"

lemma settled_row:
  assumes "settled a xs" and "a < length xs" and "list_all ok xs"
  shows "settled (Suc a) (exchange_row R a [Suc a..<length xs] xs)"
proof -
  let ?ys = "exchange_row R a [Suc a..<length xs] xs"
  have before: "?ys ! k = xs ! k" if "k < a" for k
    using that assms(2) by (intro exchange_row_before) auto
  have "take a ?ys = take a xs"
    using assms(2) before by (intro nth_equalityI) auto
  moreover have "mset ?ys = mset xs" using assms(2) by (intro mset_exchange_row) auto
  ultimately have "mset (drop a ?ys) = mset (drop a xs)"
    by (metis add_left_cancel append_take_drop_id mset_append)
  then have rest: "set (drop a ?ys) = set (drop a xs)" by (rule mset_eq_setD)
  have "late (?ys ! j)" if "i < Suc a" "late (?ys ! i)" "i < j" "j < length xs" for i j
  proof (cases "i = a")
    case True
    have "\<forall>k\<in>{} \<union> set [Suc a..<length xs]. late (?ys ! k)"
      using assms that True by (intro row_late) auto
    then show ?thesis using that True by auto
  next
    case False
    with that have i: "i < a" by simp
    with that before have "late (xs ! i)" by simp
    with assms(1) i have later: "late (xs ! k)" if "i < k" "k < length xs" for k
      using that by (simp add: settled_def)
    show ?thesis
    proof (cases "j < a")
      case True
      then show ?thesis using before later that by simp
    next
      case False
      with that have "?ys ! j \<in> set (drop a ?ys)" by (force simp: in_set_conv_nth intro: exI [of _ "j - a"])
      then have "?ys ! j \<in> set (drop a xs)" by (simp only: rest)
      then obtain k where "k < length xs - a" "?ys ! j = xs ! (a + k)" by (auto simp: in_set_conv_nth)
      then show ?thesis using later [of "a + k"] i by simp
    qed
  qed
  then show ?thesis by (simp add: settled_def)
qed

lemma settled_rows:
  assumes "a \<le> m" and "m \<le> length xs" and "settled a xs" and "list_all ok xs"
  shows "settled m (exchange_rows R [a..<m] xs)"
  using assms
proof (induction "m - a" arbitrary: a xs)
  case (Suc d)
  let ?ys = "exchange_row R a [Suc a..<length xs] xs"
  have a: "a < m" using Suc.hyps(2) by simp
  have "mset ?ys = mset xs" using a Suc.prems(2) by (intro mset_exchange_row) auto
  then have "set ?ys = set xs" by (rule mset_eq_setD)
  then have "list_all ok ?ys" using Suc.prems(4) by (simp only: list_all_iff)
  moreover have "settled (Suc a) ?ys"
    using a Suc.prems(2-4) by (intro settled_row) simp_all
  ultimately have "settled m (exchange_rows R [Suc a..<m] ?ys)"
    using a Suc.hyps(2) Suc.prems(2) by (intro Suc.hyps(1)) simp_all
  then show ?case using a by (simp only: upt_conv_Cons exchange_rows.simps)
qed simp

lemma late_last:
  assumes "list_all ok xs" and "i < j" and "j < length xs" and "late (exchange_sort R xs ! i)"
  shows "late (exchange_sort R xs ! j)"
proof -
  have "settled 0 xs" by (simp add: settled_def)
  then have "settled (length xs - 1) (exchange_sort R xs)"
    unfolding exchange_sort_def using assms(1) by (intro settled_rows) auto
  moreover have "length (exchange_sort R xs) = length xs" by (simp add: exchange_sort_def)
  moreover have "i < length xs - 1" using assms(2,3) by linarith
  ultimately show ?thesis using assms(2-) unfolding settled_def by metis
qed

end

section \<open>The charts: the scripts as sorts of rows\<close>

text \<open>Row \<open>k\<close> of the seven lists, and the lists all of one length.\<close>

type_synonym bar = "rat \<times> rat \<times> rat \<times> string \<times> nat \<times> nat \<times> nat"

definition bar_row :: "bars \<Rightarrow> nat \<Rightarrow> bar" where
  "bar_row t k = (b_pp t ! k, b_fp t ! k, b_bp t ! k, b_syscalls t ! k, b_p t ! k, b_f t ! k, b_b t ! k)"

definition bars_rows :: "bars \<Rightarrow> bar list" where
  "bars_rows t = map (bar_row t) [0..<length (b_bp t)]"

definition bars_wf :: "bars \<Rightarrow> bool" where
  "bars_wf t \<longleftrightarrow> (let n = length (b_bp t) in length (b_pp t) = n \<and> length (b_fp t) = n \<and> length (b_syscalls t) = n \<and>
     length (b_p t) = n \<and> length (b_f t) = n \<and> length (b_b t) = n)"

definition bar_before :: "bar \<Rightarrow> bar \<Rightarrow> bool" where
  "bar_before x y = (case (x, y) of ((ppx, fpx, bpx, _), (ppy, fpy, bpy, _)) \<Rightarrow> bpx > bpy \<or> ppx < ppy)"

lemma length_bars_rows [simp]: "length (bars_rows t) = length (b_bp t)"
  by (simp add: bars_rows_def)

lemma bars_rows_nth [simp]: "k < length (b_bp t) \<Longrightarrow> bars_rows t ! k = bar_row t k"
  by (simp add: bars_rows_def)

lemma swap_bars_wf: "bars_wf t \<Longrightarrow> bars_wf (swap_bars i j t)"
  by (simp add: bars_wf_def swap_bars_def Let_def)

lemma swap_bars_length [simp]: "length (b_bp (swap_bars i j t)) = length (b_bp t)"
  by (simp add: swap_bars_def)

lemma swap_bars_rows:
  assumes "bars_wf t" and "i < length (b_bp t)" and "j < length (b_bp t)"
  shows "bars_rows (swap_bars i j t) = swap_at i j (bars_rows t)"
  using assms
  by (intro nth_equalityI) (auto simp: bars_wf_def Let_def bar_row_def swap_bars_def)

lemma sort_row_rows:
  assumes "bars_wf t" and "i < length (b_bp t)" and "set js \<subseteq> {..<length (b_bp t)}"
  shows "bars_rows (sort_row i js t) = exchange_row bar_before i js (bars_rows t) \<and> bars_wf (sort_row i js t) \<and>
    length (b_bp (sort_row i js t)) = length (b_bp t)"
  using assms
proof (induction js arbitrary: t)
  case (Cons j js)
  let ?t = "if bars_before t i j then swap_bars i j t else t"
  have "bars_before t i j \<longleftrightarrow> bar_before (bars_rows t ! i) (bars_rows t ! j)"
    using Cons.prems by (simp add: bars_before_def bar_before_def bar_row_def)
  moreover have "bars_wf ?t" "length (b_bp ?t) = length (b_bp t)" using Cons.prems(1) by (simp_all add: swap_bars_wf)
  ultimately show ?case
    using Cons.IH [of ?t] Cons.prems swap_bars_rows [OF Cons.prems(1,2), of j] by auto
qed simp

lemma sort_rows_rows:
  assumes "bars_wf t" and "set is \<subseteq> {..<length (b_bp t)}"
  shows "bars_rows (sort_rows is t) = exchange_rows bar_before is (bars_rows t)"
  using assms
proof (induction "is" arbitrary: t)
  case (Cons i "is")
  from Cons.prems have i: "i < length (b_bp t)" by simp
  have "set [Suc i..<length (b_bp t)] \<subseteq> {..<length (b_bp t)}" by auto
  from sort_row_rows [OF Cons.prems(1) i this] Cons.IH Cons.prems(2)
  show ?case by simp
qed simp

lemma sort_bars_rows: "bars_wf t \<Longrightarrow> bars_rows (sort_bars t) = exchange_sort bar_before (bars_rows t)"
  unfolding sort_bars_def exchange_sort_def length_bars_rows
  by (rule sort_rows_rows) auto

text \<open>C13. The exchanges of \<^verbatim>\<open>runtest\<close> on its seven parallel lists are one exchange sort of their rows: no directory gets the name
  or a number of another.\<close>

theorem charts_refine_rows:
  assumes "bars_wf t"
  shows "bars_rows (sort_bars t) = exchange_sort bar_before (bars_rows t)"
  using assms by (rule sort_bars_rows)

theorem charts_refine_rows_witness:
  "bars_rows (sort_bars \<lparr>b_pp = [0, 100], b_fp = [0, 0], b_bp = [100, 0], b_syscalls = [''a'', ''b''], b_p = [0, 1], b_f = [0, 0], b_b = [1, 0]\<rparr>)
   = [(100, 0, 0, ''b'', 1, 0, 0), (0, 0, 100, ''a'', 0, 0, 1)]"
proof -
  let ?t = "\<lparr>b_pp = [0, 100], b_fp = [0, 0], b_bp = [100, 0], b_syscalls = [''a'', ''b''], b_p = [0, 1], b_f = [0, 0], b_b = [1, 0]\<rparr> :: bars"
  have "bars_wf ?t" by (simp add: bars_wf_def)
  from charts_refine_rows [OF this] show ?thesis
    by (simp add: exchange_sort_def bars_rows_def bar_row_def bar_before_def swap_at_def)
qed

subsection \<open>Percentages\<close>

text \<open>What the percentages of a row owe each other.\<close>

definition bar_ok :: "bar \<Rightarrow> bool" where
  "bar_ok x = (case x of (pp, fp, bp, _) \<Rightarrow> 0 \<le> pp \<and> bp \<le> 100 \<and> (bp = 100 \<longrightarrow> pp = 0))"

definition bar_late :: "bar \<Rightarrow> bool" where
  "bar_late x = (case x of (pp, fp, bp, _) \<Rightarrow> bp = 100)"

interpretation charts: exchange bar_before bar_ok bar_late
  by unfold_locales (auto simp: bar_before_def bar_ok_def bar_late_def)

lemma percent_ok:
  assumes "tot = p + f + b" and "tot \<noteq> 0"
  shows "0 \<le> percent p tot" "percent b tot \<le> 100" "percent b tot = 100 \<longleftrightarrow> p = 0 \<and> f = 0"
proof -
  have pos: "0 < (of_nat tot :: rat)" using assms(2) by simp
  show "0 \<le> percent p tot" by (simp add: percent_def)
  have "of_nat b \<le> (of_nat tot :: rat)" using assms(1) by simp
  with pos show "percent b tot \<le> 100" by (simp add: percent_def pos_divide_le_eq)
  have "percent b tot = 100 \<longleftrightarrow> (of_nat b :: rat) = of_nat tot" using pos by (simp add: percent_def field_simps)
  then show "percent b tot = 100 \<longleftrightarrow> p = 0 \<and> f = 0" using assms(1) by (simp only: of_nat_eq_iff) auto
qed

lemma percentages_nth:
  "percentages p f b = Some (pp, fp, bp) \<Longrightarrow> length pp = length p \<and> length fp = length p \<and> length bp = length p \<and>
   (\<forall>k<length p. let tot = p ! k + f ! k + b ! k in tot \<noteq> 0 \<and>
      pp ! k = percent (p ! k) tot \<and> fp ! k = percent (f ! k) tot \<and> bp ! k = percent (b ! k) tot)"
proof (induction p f b arbitrary: pp fp bp rule: percentages.induct)
  case (2 p ps f fs b bs)
  let ?tot = "p + f + b"
  from "2.prems" obtain xs ys zs where tot: "?tot \<noteq> 0" and rest: "percentages ps fs bs = Some (xs, ys, zs)"
    and eqs: "pp = percent p ?tot # xs" "fp = percent f ?tot # ys" "bp = percent b ?tot # zs"
    by (auto simp: Let_def split: if_splits option.splits)
  from "2.IH" [OF refl tot rest] tot show ?case
    unfolding eqs by (auto simp: nth_Cons split: nat.splits)
qed auto

text \<open>The bars the script sorts: percentages of the counts, under the names it found.\<close>

definition make_bars :: "nat list \<Rightarrow> nat list \<Rightarrow> nat list \<Rightarrow> string list \<Rightarrow> bars option" where
  "make_bars p f b names = (case percentages p f b of None \<Rightarrow> None
     | Some (pp, fp, bp) \<Rightarrow> Some \<lparr>b_pp = pp, b_fp = fp, b_bp = bp, b_syscalls = names, b_p = p, b_f = f, b_b = b\<rparr>)"

lemma make_bars_ok:
  assumes "make_bars p f b names = Some t"
  shows "list_all bar_ok (bars_rows t)"
proof -
  from assms obtain pp fp bp where pct: "percentages p f b = Some (pp, fp, bp)"
    and t: "t = \<lparr>b_pp = pp, b_fp = fp, b_bp = bp, b_syscalls = names, b_p = p, b_f = f, b_b = b\<rparr>"
    by (auto simp: make_bars_def split: option.splits)
  show ?thesis
    using percentages_nth [OF pct] percent_ok [OF refl]
    by (auto simp: list_all_length bar_row_def bar_ok_def t Let_def percent_def)
qed

text \<open>C15. After the sort the directories with nothing but unfinished tests come last, as its comment promises, although
  its comparison is no order. The rows are the same ones.\<close>

theorem unimplemented_last:
  assumes "make_bars p f b names = Some t" and "bars_wf t"
  shows "sorted (map (\<lambda>x. x = 100) (b_bp (sort_bars t))) \<and> mset (bars_rows (sort_bars t)) = mset (bars_rows t)"
proof -
  have rows: "bars_rows (sort_bars t) = exchange_sort bar_before (bars_rows t)"
    using assms(2) by (rule sort_bars_rows)
  let ?ys = "bars_rows (sort_bars t)"
  have len: "length (b_bp (sort_bars t)) = length ?ys" by simp
  have "length ?ys = length (bars_rows t)" by (simp only: rows exchange_sort_def length_exchange_rows)
  with make_bars_ok [OF assms(1)] charts.late_last [of "bars_rows t"] rows
  have "bar_late (?ys ! i) \<Longrightarrow> bar_late (?ys ! j)" if "i < j" "j < length ?ys" for i j
    using that by metis
  then have "sorted (map (\<lambda>x. x = 100) (b_bp (sort_bars t)))"
    by (auto simp: sorted_iff_nth_mono_less bar_late_def bar_row_def)
  then show ?thesis by (simp add: rows mset_exchange_sort)
qed

theorem unimplemented_last_witness:
  "sorted (map (\<lambda>x. x = 100) (b_bp (sort_bars
     \<lparr>b_pp = [0, 100], b_fp = [0, 0], b_bp = [100, 0], b_syscalls = [''a'', ''b''], b_p = [0, 1], b_f = [0, 0], b_b = [1, 0]\<rparr>)))"
proof -
  let ?t = "\<lparr>b_pp = [0, 100], b_fp = [0, 0], b_bp = [100, 0], b_syscalls = [''a'', ''b''], b_p = [0, 1], b_f = [0, 0], b_b = [1, 0]\<rparr> :: bars"
  have "make_bars [0, 1] [0, 0] [1, 0] [''a'', ''b''] = Some ?t" by (simp add: make_bars_def percent_def)
  moreover have "bars_wf ?t" by (simp add: bars_wf_def)
  ultimately show ?thesis by (rule unimplemented_last [THEN conjunct1])
qed

text \<open>The percentages fail exactly when some directory has no counted file.\<close>

lemma percentages_fail:
  "length f = length p \<Longrightarrow> length b = length p \<Longrightarrow>
   percentages p f b = None \<longleftrightarrow> (\<exists>k<length p. p ! k + f ! k + b ! k = 0)"
proof (induction p f b rule: percentages.induct)
  case (2 p ps f fs b bs)
  show ?case
  proof (cases "p + f + b = 0")
    case True
    then show ?thesis by (auto intro: exI [of _ 0])
  next
    case False
    then have "percentages (p # ps) (f # fs) (b # bs) = None \<longleftrightarrow> percentages ps fs bs = None"
      by (simp add: Let_def split: option.split)
    moreover have "percentages ps fs bs = None \<longleftrightarrow> (\<exists>k<length ps. ps ! k + fs ! k + bs ! k = 0)"
      using "2.IH" [OF refl False] "2.prems" by simp
    moreover have "(\<exists>k<length (p # ps). (p # ps) ! k + (f # fs) ! k + (b # bs) ! k = 0) \<longleftrightarrow>
        (\<exists>k<length ps. ps ! k + fs ! k + bs ! k = 0)"
      using False by (simp only: length_Cons Ex_less_Suc2 nth_Cons_0 nth_Cons_Suc simp_thms)
    ultimately show ?thesis by (simp only:)
  qed
qed auto

lemma dir_total:
  "dir_passed d + dir_failed d + dir_broken d = length (filter (\<lambda>f. unfinished d \<or> \<not> is_header (fst f)) d)"
proof (cases "unfinished d")
  case False
  have "with_result 1 d + with_result 0 d + with_result (-1) d = length (filter (\<lambda>f. \<not> is_header (fst f)) d)"
    by (induction d) (auto simp: with_result_def dest: test_result_range)
  with False show ?thesis by (simp add: dir_passed_def dir_failed_def dir_broken_def)
qed (simp add: dir_passed_def dir_failed_def dir_broken_def)

text \<open>From the container to the charts: what \<^verbatim>\<open>brain.py\<close> prints is read back and turned into percentages.\<close>

definition charts :: "(string \<times> test_run) list list \<Rightarrow> (rat list \<times> rat list \<times> rat list) option" where
  "charts dirs = (case Option.bind (brain_py dirs) runtest_counts of None \<Rightarrow> None | Some (p, f, b) \<Rightarrow> percentages p f b)"

lemma charts_percentages:
  "charts dirs = (if length dirs \<le> 361 then percentages (map dir_passed dirs) (map dir_failed dirs) (map dir_broken dirs) else None)"
  by (simp add: charts_def brain_py_counts)

text \<open>C20. The way from the runs to the charts fails exactly when there are more than 361 directories, for which \<^verbatim>\<open>brain.py\<close> has no
  counters, or some directory has no file that counts, an empty one or one with only headers: its
  percentages divide by zero.\<close>

theorem charts_fail_iff:
  "charts dirs = None \<longleftrightarrow>
     361 < length dirs \<or> list_ex (\<lambda>d. filter (\<lambda>f. unfinished d \<or> \<not> is_header (fst f)) d = []) dirs"
proof (cases "length dirs \<le> 361")
  case True
  then have "charts dirs = None \<longleftrightarrow> (\<exists>k<length dirs. dir_passed (dirs ! k) + dir_failed (dirs ! k) + dir_broken (dirs ! k) = 0)"
    by (simp add: charts_percentages percentages_fail cong: conj_cong)
  also have "\<dots> \<longleftrightarrow> list_ex (\<lambda>d. filter (\<lambda>f. unfinished d \<or> \<not> is_header (fst f)) d = []) dirs"
    by (simp only: dir_total length_0_conv list_ex_length)
  finally show ?thesis using True by simp
qed (simp add: charts_percentages)

theorem charts_fail_iff_witness: "charts [[(''incl.h'', \<lparr>tr_comp = None, tr_built = False, tr_log = None\<rparr>)]] = None"
  using charts_fail_iff [of "[[(''incl.h'', \<lparr>tr_comp = None, tr_built = False, tr_log = None\<rparr>)]]"]
  by (simp add: unfinished_def is_header_def sublist_code)

section \<open>count.py sorts\<close>

definition count_rows_of :: "counts \<Rightarrow> (nat \<times> string) list" where
  "count_rows_of t = zip (c_count t) (c_names t)"

definition more_files :: "nat \<times> string \<Rightarrow> nat \<times> string \<Rightarrow> bool" where
  "more_files x y \<longleftrightarrow> fst x > fst y"

lemma swap_at_zip:
  "length xs = length ys \<Longrightarrow> i < length xs \<Longrightarrow> j < length xs \<Longrightarrow> zip (swap_at i j xs) (swap_at i j ys) = swap_at i j (zip xs ys)"
  by (intro nth_equalityI) auto

lemma count_row_rows:
  assumes "length (c_names t) = length (c_count t)" and "i < length (c_count t)" and "set js \<subseteq> {..<length (c_count t)}"
  shows "count_rows_of (count_row i js t) = exchange_row more_files i js (count_rows_of t) \<and>
    length (c_names (count_row i js t)) = length (c_count t) \<and> length (c_count (count_row i js t)) = length (c_count t)"
  using assms
proof (induction js arbitrary: t)
  case (Cons j js)
  let ?t = "if c_count t ! i > c_count t ! j then swap_counts i j t else t"
  have "count_rows_of ?t = (if more_files (count_rows_of t ! i) (count_rows_of t ! j) then swap_at i j (count_rows_of t) else count_rows_of t)"
    using Cons.prems by (simp add: count_rows_of_def swap_counts_def more_files_def swap_at_zip)
  moreover have "length (c_names ?t) = length (c_count ?t)" "length (c_count ?t) = length (c_count t)"
    using Cons.prems(1) by (simp_all add: swap_counts_def)
  ultimately show ?case using Cons.IH [of ?t] Cons.prems by simp
qed simp

lemma count_rows_rows:
  assumes "length (c_names t) = length (c_count t)" and "set is \<subseteq> {..<length (c_count t)}"
  shows "count_rows_of (count_rows is t) = exchange_rows more_files is (count_rows_of t) \<and>
    length (c_names (count_rows is t)) = length (c_count (count_rows is t))"
  using assms
proof (induction "is" arbitrary: t)
  case (Cons i "is")
  from Cons.prems have i: "i < length (c_count t)" by simp
  have "set [Suc i..<length (c_count t)] \<subseteq> {..<length (c_count t)}" by auto
  from count_row_rows [OF Cons.prems(1) i this] Cons.IH Cons.prems show ?case
    by (simp add: count_rows_of_def)
qed simp

text \<open>Each threshold splits the counts into early and late ones.\<close>

interpretation by_count: exchange more_files "\<lambda>x. True" "\<lambda>x. c < fst x" for c
  by unfold_locales (auto simp: more_files_def)

text \<open>C26. \<^verbatim>\<open>count.py\<close> sorts: its counts come out in the order \<open>sort\<close> gives them, and the pairs of a count and its name are the
  ones it was given. The sort is not stable: names with equal counts may change places.\<close>

theorem count_sort_sorts:
  assumes "length (c_names t) = length (c_count t)"
  shows "c_count (count_sort t) = sort (c_count t) \<and> mset (count_rows_of (count_sort t)) = mset (count_rows_of t)"
proof -
  have rows: "count_rows_of (count_sort t) = exchange_sort more_files (count_rows_of t)"
    and len: "length (c_names (count_sort t)) = length (c_count (count_sort t))"
  proof -
    have "set [0..<length (c_count t) - 1] \<subseteq> {..<length (c_count t)}" by auto
    from count_rows_rows [OF assms this] assms show
      "count_rows_of (count_sort t) = exchange_sort more_files (count_rows_of t)"
      "length (c_names (count_sort t)) = length (c_count (count_sort t))"
      by (simp_all add: count_sort_def exchange_sort_def count_rows_of_def)
  qed
  have fst_rows: "map fst (count_rows_of u) = c_count u" if "length (c_names u) = length (c_count u)" for u
    using that by (simp add: count_rows_of_def)
  let ?ys = "exchange_sort more_files (count_rows_of t)"
  have lens: "length ?ys = length (count_rows_of t)" by (simp add: exchange_sort_def)
  have "fst (?ys ! i) \<le> fst (?ys ! j)" if "i < j" "j < length ?ys" for i j
  proof (rule ccontr)
    assume "\<not> fst (?ys ! i) \<le> fst (?ys ! j)"
    then have "fst (?ys ! j) < fst (?ys ! i)" by simp
    with by_count.late_last [of "count_rows_of t" i j "fst (?ys ! j)"] that lens show False by (simp add: list_all_iff)
  qed
  then have "sorted (map fst ?ys)" by (simp add: sorted_iff_nth_mono_less)
  moreover have "mset (map fst ?ys) = mset (map fst (count_rows_of t))"
    by (simp only: mset_map mset_exchange_sort)
  ultimately have "map fst ?ys = sort (map fst (count_rows_of t))"
    by (metis properties_for_sort)
  then show ?thesis using fst_rows [OF assms] fst_rows [OF len] rows by (simp add: mset_exchange_sort)
qed

theorem count_sort_sorts_witness:
  "c_count (count_sort \<lparr>c_count = [3, 1, 2], c_names = [''mmap'', ''brk'', ''close'']\<rparr>) = [1, 2, 3]"
  using count_sort_sorts [of "\<lparr>c_count = [3, 1, 2], c_names = [''mmap'', ''brk'', ''close'']\<rparr>"] by simp

end
