(* ===== verification/Convert.thy ===== *)
theory Convert
  imports Harness
begin

text \<open>
  \<^verbatim>\<open>convert.py\<close>, which is meant to turn the tests of the Linux Test Project under \<^verbatim>\<open>original tests/\<close> into the
  standalone programs: the removal of comments, the rewriting of the library's macros, and the choice
  of a \<^verbatim>\<open>main\<close>. Reading and writing the files is left out.
\<close>

section \<open>Strings of Python\<close>

text \<open>\<^verbatim>\<open>s.find(t)\<close>, without its \<open>-1\<close>; \<^verbatim>\<open>s[:k]\<close>, where a negative \<open>k\<close> counts from the end; \<^verbatim>\<open>s.lower()\<close>, for ASCII;
  \<^verbatim>\<open>xs[i]\<close>, which may be out of range.\<close>

fun find_text :: "string \<Rightarrow> string \<Rightarrow> nat option" where
  "find_text t [] = (if t = [] then Some 0 else None)"
| "find_text t (x # xs) = (if prefix t (x # xs) then Some 0 else map_option Suc (find_text t xs))"

definition slice_to :: "int \<Rightarrow> string \<Rightarrow> string" where
  "slice_to k s = take (nat (if k < 0 then int (length s) + k else k)) s"

definition lower_char :: "char \<Rightarrow> char" where
  "lower_char c = (let n = of_char c :: nat in if 65 \<le> n \<and> n \<le> 90 then char_of (n + 32) else c)"

definition py_nth :: "nat \<Rightarrow> 'a list \<Rightarrow> 'a option" where
  "py_nth i xs = (if i < length xs then Some (xs ! i) else None)"

definition py_in :: "string \<Rightarrow> string \<Rightarrow> bool" where
  "py_in t s = sublist t s"

section \<open>Comments\<close>

text \<open>The loop \<^verbatim>\<open>while("/*" in file)\<close> drops the character before the first opening of a comment and its slash. It may
  run forever, so it has fuel; \<open>None\<close> is a loop still running.\<close>

definition rm_block :: "nat \<Rightarrow> string \<Rightarrow> string" where
  "rm_block pos src = slice_to (int pos - 1) src @ drop (pos + 1) src"

fun rm_blocks :: "nat \<Rightarrow> string \<Rightarrow> string option" where
  "rm_blocks 0 src = None"
| "rm_blocks (Suc n) src = (case find_text ''/*'' src of None \<Rightarrow> Some src | Some pos \<Rightarrow> rm_blocks n (rm_block pos src))"

text \<open>Only lines with a single line comment are kept, up to it.\<close>

definition rm_lines :: "string \<Rightarrow> string" where
  "rm_lines src = concat (map (\<lambda>line. if py_in ''//'' line then hd (split_text ''//'' line) else [])
     (split_char newline src))"

definition rmcomment :: "nat \<Rightarrow> string \<Rightarrow> string option" where
  "rmcomment n src = map_option rm_lines (rm_blocks n src)"

section \<open>Macros\<close>

definition isMain :: "string list \<Rightarrow> bool" where
  "isMain els = list_ex (py_in ''main'') els"

text \<open>\<^verbatim>\<open>aux[0] + r + aux[1]\<close> for the parts of the line around a word.\<close>

definition replace_word :: "string \<Rightarrow> string \<Rightarrow> string \<Rightarrow> string option" where
  "replace_word w r line = (if py_in w line then
     (let aux = split_text w line in map_option (\<lambda>b. hd aux @ r @ b) (py_nth 1 aux)) else Some line)"

text \<open>The rewriting of a \<^verbatim>\<open>SAFE_\<close> macro: with more than one parenthesis the rest is appended once more.\<close>

definition unsafe_line :: "string \<Rightarrow> string option" where
  "unsafe_line line = (if py_in ''SAFE_'' line then
     (let aux = split_text ''SAFE_'' line in
      Option.bind (py_nth 1 aux) (\<lambda>a. let aux1 = split_char (CHR ''('') a in
      map_option (\<lambda>b. hd aux @ map lower_char (hd aux1) @ ''('' @ b @ (if length aux1 > 2 then concat (tl aux1) else []))
        (py_nth 1 aux1))) else Some line)"

text \<open>\<^verbatim>\<open>line.split("TEST(")[1][:-2] + ";"\<close> after a prefix.\<close>

definition test_line :: "string \<Rightarrow> string \<Rightarrow> string option" where
  "test_line pre line = (if py_in ''TEST('' line then
     map_option (\<lambda>b. pre @ slice_to (-2) b @ '';'') (py_nth 1 (split_text ''TEST('' line)) else Some line)"

definition verfunc_line :: "string \<Rightarrow> string option" where
  "verfunc_line line0 = Option.bind (replace_word ''SAFE_WRITE_ALL'' ''1'' line0) (\<lambda>line1.
     Option.bind (unsafe_line line1) (\<lambda>line2.
     Option.bind (test_line ''ret = '' line2) (\<lambda>line3.
     replace_word ''TST_RET'' ''ret'' line3)))"

definition verfunc :: "string \<Rightarrow> string option" where
  "verfunc el = (let parts = split_char (CHR ''{'') el in
     Option.bind (py_nth 1 parts) (\<lambda>body.
     map_option (\<lambda>ls. hd parts @ ''{\<newline>'' @ [CHR 0x09] @ ''int ret;'' @ concat (map (\<lambda>l. l @ [newline]) ls))
       (all_some (map verfunc_line (split_char newline body)))))"

section \<open>One file\<close>

text \<open>The lines of a function that is no verification; some are skipped.\<close>

definition other_line :: "string \<Rightarrow> string option" where
  "other_line line0 = (if py_in ''#include'' line0 \<or> line0 = [] \<or> (length line0 > 1 \<and> line0 ! 1 = CHR ''*'') then Some []
     else Option.bind (unsafe_line line0) (\<lambda>line1.
     Option.bind (replace_word ''file_printf'' ''fprintf'' line1) (\<lambda>line2.
     map_option (\<lambda>l. l @ [newline]) (test_line ''int ret = '' line2))))"

definition convert_el :: "string \<Rightarrow> string option" where
  "convert_el el = (if py_in ''struct tst_test test'' el then Some []
     else if py_in ''verify'' (hd (split_char newline el)) then map_option (\<lambda>v. v @ [newline]) (verfunc el)
     else map_option (\<lambda>ls. concat ls @ [newline]) (all_some (map other_line (split_char newline el))))"

definition stub_main :: string where
  "stub_main = ''void main(){\<newline>'' @ [CHR 0x09] @ ''setup();\<newline>'' @ [CHR 0x09] @ ''cleanup();\<newline>}\<newline>''"

definition convert_body :: "string \<Rightarrow> string option" where
  "convert_body src = (let els = split_text ''static '' src in
     map_option (\<lambda>parts. ''#include '' @ [CHR 0x22] @ ''incl.h'' @ [CHR 0x22, newline] @ concat parts
       @ (if isMain els then [] else stub_main)) (all_some (map convert_el els)))"

text \<open>\<open>None\<close>: still removing comments; \<open>Some None\<close>: an index was out of range.\<close>

definition convertFile :: "nat \<Rightarrow> string \<Rightarrow> string option option" where
  "convertFile n src = map_option convert_body (rmcomment n src)"

section \<open>What the removal of comments does\<close>

lemma find_text_prefix: "prefix t s \<Longrightarrow> find_text t s = Some 0"
  by (cases s) auto

lemma find_text_none: "t \<noteq> [] \<Longrightarrow> find_text t s = None \<longleftrightarrow> \<not> sublist t s"
  by (induction s) (auto simp: sublist_Cons_right)

lemma find_text_Some: "find_text t s = Some pos \<Longrightarrow> pos + length t \<le> length s \<and> prefix t (drop pos s)"
  by (induction s arbitrary: pos) (auto split: if_splits dest: prefix_length_le)

lemma find_text_zero: "t \<noteq> [] \<Longrightarrow> find_text t s = Some 0 \<Longrightarrow> prefix t s"
  using find_text_Some [of t s 0] by simp

text \<open>At position \<open>0\<close>, \<^verbatim>\<open>file[:-1]\<close> keeps the opening; at any other, the file loses two characters.\<close>

lemma rm_block_start: "prefix ''/*'' src \<Longrightarrow> prefix ''/*'' (rm_block 0 src)"
proof -
  assume "prefix ''/*'' src"
  then obtain r where r: "src = ''/*'' @ r" by (auto simp only: prefix_def)
  show ?thesis
  proof (cases r rule: rev_cases)
    case (snoc ys y)
    have "nat (2 + int (length ys)) = Suc (Suc (length ys))" by simp
    then show ?thesis by (simp add: r snoc rm_block_def slice_to_def)
  qed (simp add: r rm_block_def slice_to_def)
qed

lemma rm_block_shorter: "find_text ''/*'' src = Some (Suc pos) \<Longrightarrow> Suc (Suc (length (rm_block (Suc pos) src))) = length src"
  by (drule find_text_Some) (auto simp: rm_block_def slice_to_def)

lemma rm_blocks_diverges: "prefix ''/*'' src \<Longrightarrow> rm_blocks n src = None"
  by (induction n arbitrary: src) (simp_all add: find_text_prefix rm_block_start)

lemma rm_blocks_enough: "length src < m \<Longrightarrow> rm_blocks n src = Some r \<Longrightarrow> rm_blocks m src = Some r"
proof (induction n arbitrary: src m)
  case (Suc n)
  from Suc.prems obtain k where m: "m = Suc k" by (cases m) auto
  show ?case
  proof (cases "find_text ''/*'' src")
    case (Some pos)
    show ?thesis
    proof (cases pos)
      case 0
      with Some have "prefix ''/*'' src" using find_text_zero by blast
      then show ?thesis using Suc.prems rm_blocks_diverges [of src "Suc n"] by simp
    next
      case (Suc q)
      with Some rm_block_shorter [of src q] Suc.prems m Suc.IH [of "rm_block pos src" k] show ?thesis by simp
    qed
  qed (use Suc.prems m in simp)
qed simp

lemma rm_blocks_decided: "(\<exists>n. rm_blocks n src \<noteq> None) \<longleftrightarrow> rm_blocks (Suc (length src)) src \<noteq> None"
  using rm_blocks_enough [of src "Suc (length src)"] by (auto simp del: rm_blocks.simps)

text \<open>C30. On a file that begins with a comment, as 306 of the 1191 original tests do, the removal of
  comments never ends: whatever the fuel, it is still running.\<close>

theorem rmcomment_diverges: "prefix ''/*'' src \<Longrightarrow> rmcomment n src = None"
  by (simp add: rmcomment_def rm_blocks_diverges)

theorem rmcomment_diverges_witness: "rmcomment 7 ''/* a */ int b;'' = None"
  by (rule rmcomment_diverges) simp

text \<open>C25. The removal of comments ends if and only if it does so within one round for each character of the
  file, and one more; in particular it ends on every file without the opening of a comment.\<close>

theorem rmcomment_decided:
  "((\<exists>n. rmcomment n src \<noteq> None) \<longleftrightarrow> rmcomment (Suc (length src)) src \<noteq> None) \<and>
   (py_in ''/*'' src \<or> rmcomment (Suc (length src)) src = Some (rm_lines src))"
proof -
  have "(\<exists>n. rmcomment n src \<noteq> None) \<longleftrightarrow> rmcomment (Suc (length src)) src \<noteq> None"
    using rm_blocks_decided [of src] by (simp add: rmcomment_def del: rm_blocks.simps)
  moreover have "py_in ''/*'' src \<or> rmcomment (Suc (length src)) src = Some (rm_lines src)"
    using find_text_none [of "''/*''" src] by (auto simp: rmcomment_def py_in_def)
  ultimately show ?thesis by blast
qed

text \<open>Only text before a single line comment is left: a file without comments becomes empty, and its conversion is an include
  and the \<^verbatim>\<open>main\<close> that calls what is no longer there.\<close>

lemma rm_lines_plain: "list_all (\<lambda>l. \<not> py_in ''//'' l) (split_char newline src) \<Longrightarrow> rm_lines src = []"
  by (simp add: rm_lines_def list_all_iff)

lemma convert_nothing: "convert_body [] = Some (''#include '' @ [CHR 0x22] @ ''incl.h'' @ [CHR 0x22, newline, newline] @ stub_main)"
  by (simp add: convert_body_def split_text.simps convert_el_def other_line_def py_in_def isMain_def)

lemma convert_plain:
  "\<not> py_in ''/*'' src \<Longrightarrow> list_all (\<lambda>l. \<not> py_in ''//'' l) (split_char newline src) \<Longrightarrow>
   convertFile (Suc (length src)) src =
     Some (Some (''#include '' @ [CHR 0x22] @ ''incl.h'' @ [CHR 0x22, newline, newline] @ stub_main))"
  using find_text_none [of "''/*''" src]
  by (simp add: convertFile_def rmcomment_def rm_lines_plain convert_nothing py_in_def)

end
