(* ===== verification/Misc_Scripts.thy ===== *)
theory Misc_Scripts
  imports Convert
begin

text \<open>
  The scripts \<^verbatim>\<open>misc/overlap.py\<close> and \<^verbatim>\<open>misc/reset.py\<close>: which lines of a list of directories are about the system calls of another
  list, and which files of the test directories are removed after a run.
\<close>

section \<open>overlap.py\<close>

text \<open>\<^verbatim>\<open>line.split(",")[0][3:]\<close>.\<close>

definition usage_name :: "string \<Rightarrow> string" where
  "usage_name line = drop 3 (hd (split_char (CHR '','') line))"

text \<open>The names are joined into one string, and the output is what is printed, without the last line break.\<close>

definition overlap_sysc :: "string \<Rightarrow> string" where
  "overlap_sysc order = concat (map usage_name (split_char newline order))"

definition overlap :: "string \<Rightarrow> string \<Rightarrow> string" where
  "overlap order order1 = concat (map (\<lambda>line. if \<not> py_in (hd (split_char (CHR '':'') line)) (overlap_sysc order) then [] else line @ [newline])
     (split_char newline order1))"

section \<open>reset.py\<close>

text \<open>A directory before and after: files with \<^verbatim>\<open>.c\<close> or \<^verbatim>\<open>.h\<close> somewhere in their name are kept, and those that cannot be removed, which
  are printed.\<close>

definition source_name :: "string \<Rightarrow> bool" where
  "source_name f \<longleftrightarrow> py_in ''.c'' f \<or> py_in ''.h'' f"

definition reset_path :: "string \<Rightarrow> string \<Rightarrow> string" where
  "reset_path dir f = ''../independent tests/syscalls/'' @ dir @ ''/'' @ f"

fun reset_files :: "(string \<Rightarrow> bool) \<Rightarrow> string \<Rightarrow> string list \<Rightarrow> string list \<times> string list" where
  "reset_files removable dir [] = ([], [])"
| "reset_files removable dir (f # fs) = (let path = reset_path dir f; (left, printed) = reset_files removable dir fs in
     if source_name f then (f # left, printed)
     else if removable path then (left, printed)
     else (f # left, path # printed))"

definition reset :: "(string \<Rightarrow> bool) \<Rightarrow> (string \<times> string list) list \<Rightarrow> (string \<times> string list) list \<times> string list" where
  "reset removable folders = (map (\<lambda>(d, fs). (d, fst (reset_files removable d fs))) folders,
     concat (map (\<lambda>(d, fs). snd (reset_files removable d fs)) folders))"

section \<open>What they do\<close>

text \<open>A line of \<^verbatim>\<open>order.txt\<close> as it is found there, and its name.\<close>

definition usage_line :: "string \<Rightarrow> string \<Rightarrow> string" where
  "usage_line n share = CHR 0x09 # ''- '' @ n @ '', used by '' @ share"

lemma usage_name_line: "CHR '','' \<notin> set n \<Longrightarrow> usage_name (usage_line n share) = n"
  using split_char_sep [of "CHR '',''" "CHR 0x09 # ''- '' @ n" "'' used by '' @ share"]
  by (simp add: usage_name_def usage_line_def)

text \<open>A text of complete lines, each with its line break: splitting it gives one empty line more.\<close>

definition text_of :: "string list \<Rightarrow> string" where
  "text_of ls = concat (map (\<lambda>l. l @ [newline]) ls)"

lemma split_text_of: "list_all (\<lambda>l. newline \<notin> set l) ls \<Longrightarrow> split_char newline (text_of ls) = ls @ [[]]"
  by (induction ls) (simp_all add: text_of_def split_char_sep)

lemma sublist_concat: "n \<in> set ns \<Longrightarrow> sublist n (concat ns)"
  by (metis concat.simps(2) concat_append split_list sublist_appendI)

text \<open>C33. On texts in the form of the two files of the repository, where every line ends with a line break, the first has lines
  \<^verbatim>\<open>\t- name, used by share\<close> with a name without comma and the second has lines \<^verbatim>\<open>name: number\<close> with a name without
  colon, \<^verbatim>\<open>overlap.py\<close> keeps exactly the lines whose name is a part of the joined names, in their order, and an empty line after
  them: all lines about a call of the list, and also a line whose name only appears across the border of two names.\<close>

theorem overlap_lines:
  assumes "list_all (\<lambda>(n, u). CHR '','' \<notin> set n \<and> newline \<notin> set n \<and> newline \<notin> set u) ns"
    and "list_all (\<lambda>(m, k). CHR '':'' \<notin> set m \<and> newline \<notin> set m \<and> newline \<notin> set k) cs"
  shows "overlap (text_of (map (\<lambda>(n, u). usage_line n u) ns)) (text_of (map (\<lambda>(m, k). m @ '': '' @ k) cs)) =
      text_of (map (\<lambda>(m, k). m @ '': '' @ k) (filter (\<lambda>(m, k). sublist m (concat (map fst ns))) cs)) @ [newline] \<and>
    list_all (\<lambda>n. sublist n (concat (map fst ns))) (map fst ns)"
proof
  let ?us = "map (\<lambda>(n, u). usage_line n u) ns" and ?ls = "map (\<lambda>(m, k). m @ '': '' @ k) cs"
  have us: "split_char newline (text_of ?us) = ?us @ [[]]"
    using assms(1) by (intro split_text_of) (auto simp: list_all_iff usage_line_def)
  have ls: "split_char newline (text_of ?ls) = ?ls @ [[]]"
    using assms(2) by (intro split_text_of) (auto simp: list_all_iff)
  have "map usage_name ?us = map fst ns"
    using assms(1) by (auto simp: list_all_iff usage_name_line)
  then have sysc: "overlap_sysc (text_of ?us) = concat (map fst ns)"
    by (simp only: overlap_sysc_def us map_append concat_append) (simp add: usage_name_def)
  have hd: "hd (split_char (CHR '':'') (m @ '': '' @ k)) = m" if "(m, k) \<in> set cs" for m k
    using assms(2) that split_char_sep [of "CHR '':''" m "'' '' @ k"] by (auto simp: list_all_iff)
  have "concat (map (\<lambda>line. if \<not> sublist (hd (split_char (CHR '':'') line)) c then [] else line @ [newline]) (map (\<lambda>(m, k). m @ '': '' @ k) ds)) =
      text_of (map (\<lambda>(m, k). m @ '': '' @ k) (filter (\<lambda>(m, k). sublist m c) ds))" if "set ds \<subseteq> set cs" for ds c
    using that by (induction ds) (auto simp: hd [simplified] text_of_def)
  then show "overlap (text_of ?us) (text_of ?ls) =
      text_of (map (\<lambda>(m, k). m @ '': '' @ k) (filter (\<lambda>(m, k). sublist m (concat (map fst ns))) cs)) @ [newline]"
    unfolding overlap_def ls sysc py_in_def map_append concat_append by simp
  show "list_all (\<lambda>n. sublist n (concat (map fst ns))) (map fst ns)"
    by (simp add: list_all_iff sublist_concat)
qed

text \<open>The name \<^verbatim>\<open>adc\<close> is kept for a list of \<^verbatim>\<open>read\<close> and \<^verbatim>\<open>close\<close>.\<close>

theorem overlap_lines_witness:
  "overlap (text_of [usage_line ''read'' ''100.0%'', usage_line ''close'' ''99.0%'']) (text_of [''close: 1'', ''brk: 2'', ''adc: 1'']) =
    ''close: 1\<newline>adc: 1\<newline>\<newline>''"
  using overlap_lines [of "[(''read'', ''100.0%''), (''close'', ''99.0%'')]" "[(''close'', ''1''), (''brk'', ''2''), (''adc'', ''1'')]"]
  by (simp add: sublist_code text_of_def)

text \<open>\<^verbatim>\<open>reset.py\<close> leaves exactly the files with such a name and those it could not remove, which it prints.\<close>

theorem reset_leaves:
  "reset removable folders = (map (\<lambda>(d, fs). (d, filter (\<lambda>f. source_name f \<or> \<not> removable (reset_path d f)) fs)) folders,
     concat (map (\<lambda>(d, fs). map (reset_path d)
       (filter (\<lambda>f. \<not> source_name f \<and> \<not> removable (reset_path d f)) fs)) folders))"
proof -
  have "reset_files removable d fs = (filter (\<lambda>f. source_name f \<or> \<not> removable (reset_path d f)) fs,
      map (reset_path d)
        (filter (\<lambda>f. \<not> source_name f \<and> \<not> removable (reset_path d f)) fs))" for d fs
    by (induction fs) (auto simp: Let_def split: prod.splits)
  then show ?thesis by (simp add: reset_def case_prod_beta)
qed

text \<open>Running it again changes nothing: what is left can still not be removed.\<close>

lemma reset_files_again: "reset_files removable d (fst (reset_files removable d fs)) = reset_files removable d fs"
  by (induction fs) (auto simp: Let_def split: prod.splits)

theorem reset_again: "reset removable (fst (reset removable folders)) = reset removable folders"
  by (simp add: reset_def comp_def split_def reset_files_again)

end
