(* ===== verification/Spec2Isabelle.thy ===== *)
theory Spec2Isabelle
  imports Close_Tests Write_Tests Read_Tests Brk_Tests Fcntl_Tests Openat_Tests Munmap_Tests Mmap_File_Tests Mmap_Tests
    Prctl_Tests Execve_Tests Signal_Tests Ppoll_Tests Sched_Tests Family Fork_Tests Prctl_Fork_Tests Memory_Fork_Tests
    Prctl06_Tests Openat02_Tests Thread_Tests Posix_Tests Posix_Fcntl01 Harness Charts Convert Misc_Scripts
begin

text \<open>
  A verification of the Unikraft system call test suite: the tests of the Linux Test Project that were
  ported to standalone C programs, and the scripts that run, count and chart them.

  \<^bold>\<open>The program.\<close> Each directory of \<^verbatim>\<open>independent tests/syscalls\<close> holds small C programs that exercise one system
  call and print \<^verbatim>\<open>test succeeded\<close> when they are satisfied. \<^verbatim>\<open>dockerfile_data/brain.py\<close> compiles and runs them in a
  container, looks for that text in the output, and prints three counts for each directory with the logs.
  \<^verbatim>\<open>independent tests/runtest\<close> reads this output back, writes log files, computes percentages and sorts them for its
  charts. \<^verbatim>\<open>convert.py\<close> made the first versions of the programs from \<^verbatim>\<open>original tests\<close>; \<^verbatim>\<open>misc/count.py\<close> lists the
  directories by size.

  \<^bold>\<open>The theories.\<close>
  \<^item> \<open>Prelude\<close>: named collections of rules, the rendering of C integers, \<open>announces\<close> (the search for the
    success text) and the automaton \<open>scan\<close> that computes it.
  \<^item> \<open>Process\<close>: the model of a C process. The kernel is a parameter, a function from the history of calls and
    the next call to an answer; a program maps a process state (\<open>errno\<close>, output, history, its globals as a
    record extension) to a control flow and a new state. Weakest-precondition style rules (\<open>runs\<close>), the
    history a program only extends (\<open>extends\<close>), programs that never announce success (\<open>quiet\<close>) or always return,
    and the locale \<open>verified_main\<close>: what a \<^verbatim>\<open>main\<close> made of setup, verification, verdict and cleanup owes its
    parts, and what its verdict then means; \<open>table_main\<close> extends it for mains over a table of cases.
  \<^item> \<open>Close_Tests\<close>, \<open>Write_Tests\<close>, \<open>Read_Tests\<close>, \<open>Brk_Tests\<close>, \<open>Fcntl_Tests\<close>, \<open>Openat_Tests\<close>, \<open>Munmap_Tests\<close> (with
    mprotect), \<open>Mmap_File_Tests\<close>, \<open>Mmap_Tests\<close>, \<open>Prctl_Tests\<close>, \<open>Execve_Tests\<close>, \<open>Signal_Tests\<close> (sigprocmask), \<open>Ppoll_Tests\<close>,
    \<open>Sched_Tests\<close> (sched\_setattr, sched\_getaffinity, set\_tid\_address): the programs of these directories, one
    record of globals per program and one definition per C function, named \<open>\<langle>program\<rangle>_\<langle>function\<rangle>\<close>;
    \<open>\<langle>program\<rangle>_init\<close> is the state before \<^verbatim>\<open>main\<close>. A loop, or the body of a large function, may be a definition of
    its own.
  \<^item> \<open>Family\<close>: programs that fork. A \<open>family\<close> maps a state to the outcomes of the processes forked on the way and
    the outcome of the process that was started; \<open>c_fork\<close>, \<open>c_waitpid\<close>, \<open>c_exec\<close>, wait statuses, the rules \<open>fruns\<close> (all
    processes) and \<open>leads\<close> (the started one), and the two verdicts: \<open>family_passes\<close>, on the joined output of all
    processes, which is order independent by \<open>logs_joined\<close>, and \<open>first_passes\<close>, on the output of the started one alone.
  \<^item> \<open>Fork_Tests\<close> (execve01, 02, 04, 05, 06, mprotect03, fcntl07, fcntl12), \<open>Prctl_Fork_Tests\<close> (prctl03, 04, 08, 10),
    \<open>Memory_Fork_Tests\<close> (mprotect02, mmap10), \<open>Prctl06_Tests\<close> and \<open>Openat02_Tests\<close> (with the programs these two execute): the
    programs that fork, or execute another image.
  \<^item> \<open>Thread_Tests\<close> (mmap11, mmap18): the programs that start threads. The thread of mmap11 is cut into its actions, and a schedule
    says how many of them happen between two calls of \<^verbatim>\<open>main\<close>; the children of mmap18 wait for their thread at once.
  \<^item> \<open>Posix\<close>: what a kernel has to answer to the calls on descriptors and plain files, as a transition function on an
    abstract file system (\<open>fs_step\<close>); \<open>posix\<close> says that a kernel answers so after every history, \<open>posix_kernel\<close> is one, and
    \<open>fs_state_ok\<close> shows that the abstract states are well formed. It is not part of the program: it is the hypothesis of \<open>Posix_Tests\<close>,
    which shows for tests of close, read, write and fcntl that such a kernel passes them, and of \<open>Posix_Fcntl01\<close>, which shows it for
    fcntl01.
  \<^item> \<open>Harness\<close>: \<^verbatim>\<open>brain.py\<close> (\<open>runTest\<close>, the counting loop \<open>brain\<close>, the output loops \<open>brain_out\<close>, the whole script \<open>brain_py\<close>) and the part of \<^verbatim>\<open>runtest\<close> that reads its output
    (\<open>runtest_counts\<close>, \<open>runtest_logs\<close>). What compiler, shell and file system do to one file is a \<open>test_run\<close>.
  \<^item> \<open>Charts\<close>: percentages and sort of \<^verbatim>\<open>runtest\<close>, and \<^verbatim>\<open>count.py\<close>, both through the locale \<open>exchange\<close>.
  \<^item> \<open>Convert\<close>: \<^verbatim>\<open>convert.py\<close> on texts. \<open>Misc_Scripts\<close>: \<^verbatim>\<open>misc/overlap.py\<close> and \<^verbatim>\<open>misc/reset.py\<close>.
  \<^item> this theory: the programs inside the container.

  \<^bold>\<open>What the theorems show.\<close> For the test programs, verdict theorems: for every kernel, the program passes if and
  only if its calls got the answers named by the theorem, in terms of the history \<open>calls\<close>. Several of these
  conditions are weaker or stronger than the test intends, and some programs pass on no kernel; the verdict is
  the one of the code. The theorems about programs that fork also say which process can announce success, and
  \<open>execve_images\<close> joins three of them to the programs they execute. \<open>posix_files_pass\<close>,
  \<open>posix_fcntl_pass\<close> and \<open>posix_fcntl01_passes\<close> are the other half: no false alarm on a kernel that answers as documented, from an empty directory
  and with the three standard descriptors open. For the harness: the counts are those of the runs, the output read back is the output
  written, the sorts refine sorts of rows and keep the rows, unfinished directories come last, and exactly
  which inputs make the scripts fail. For the converter: which files it never finishes.

  \<^bold>\<open>Conventions and bounds.\<close> C integers whose overflow does not matter are \<open>int\<close>; addresses, break values and
  attribute fields are words of their width. Header constants are those of x86-64 Linux with glibc. Loops over
  tables and ranges are recursions over lists; \<open>sched_getaffinity01\<close>, whose loop jumps back on the kernel's answer, is
  a terminating recursion on the size of its mask. Fuel is used where the code may really run forever: the
  removal of comments in \<open>Convert\<close> (\<open>rmcomment_decided\<close>: one unit for each character and one more is enough to tell), the loop of
  mprotect02 that fills a page (\<open>mprotect02_fill_rounds\<close>: 158 rounds for a page of 4096 bytes, unless writes fail), the loop of
  mmap10 that waits for children (\<open>mmap10_ends\<close>: seven rounds, if each child is reported once), and the copy in prctl06
  (\<open>prctl06_cp_copies\<close>: more than the file has bytes, if reads and writes make progress). The recursion of mmap18 has fuel too
  (\<open>mmap18_depth_ends\<close>: as many calls as there are bytes between the first frame and the limit, and two more, if the frames go down).
  Reading uninitialised objects, dereferencing pointers and calling functions without declaration ask the
  kernel for the outcome (\<open>Indet\<close>, loads and stores that may fault), so that the theorems hold whatever it is.
  A process killed by a signal loses its buffered output; otherwise what was printed counts as output, whatever the
  program did to descriptor 1 (fcntl01 closes an uninitialised descriptor number). The signals an answer lists are those with an action: a handler, or
  the death of the process; signals that are ignored by default are not listed. Results of \<^verbatim>\<open>read\<close> and \<^verbatim>\<open>write\<close> are far below the range of \<^verbatim>\<open>int\<close> here, and are
  not narrowed where the program keeps them in one. Percentages are rational numbers where Python has floating point. \<^verbatim>\<open>%d\<close> of \<^verbatim>\<open>sscanf\<close> reads as glibc
  does, a \<^verbatim>\<open>long\<close> that stops at its largest value.

  A forked process has the history of its parent so far and a mark; what processes learn of each other is part of
  the kernel's answers, so the theorems hold for all interleavings that the kernel could report. Threads share the
  state and the history of their process.

  \<^bold>\<open>Not modelled.\<close> Programs that do not compile or link (access,
  write03, pread, set\_robust\_list, mlock, fcntl11, fcntl13 to fcntl39, mprotect04), and the some 340 directories that still hold
  copies of programs written against the LTP library, which the scripts count as failed or unfinished; the
  original tests, which are vendored; and input, output, docker commands and plots of the scripts.
\<close>

section \<open>Programs in the container\<close>

text \<open>A test program that compiles, as \<^verbatim>\<open>brain.py\<close> sees it: its log is what its process left in \<^verbatim>\<open>log.txt\<close>.\<close>

definition ran :: "'a flow \<times> 'm proc_scheme \<Rightarrow> test_run" where
  "ran r = \<lparr>tr_comp = Some [], tr_built = True, tr_log = Some (log_of r)\<rparr>"

lemma ran_result: "test_result (ran (m s)) = (if passes m s then 1 else 0)"
  by (simp add: test_result_def ran_def passes_def)

lemmas directory_simps = dir_passed_def dir_failed_def dir_broken_def with_result_def unfinished_def is_header_def
  sublist_code ran_result

text \<open>C18. On every kernel \<^verbatim>\<open>brain.py\<close> counts the four programs of the directory \<^verbatim>\<open>read\<close> by their verdicts, and \<^verbatim>\<open>read02\<close> is
  always among the failed ones. Each program runs on a kernel of its own.\<close>

theorem read_directory_counts:
  "map_option (\<lambda>t. (take 1 (pass_list t), take 1 (fail_list t), take 1 (brok_list t)))
     (brain [[(''read01.c'', ran (read01_main Ka read01_init)), (''read02.c'', ran (read02_main Kb read02_init)),
       (''read03.c'', ran (read03_main Kc read03_init)), (''read04.c'', ran (read04_main Kd proc_init)), (''incl.h'', e)]]) =
   (let n = of_bool (passes (read01_main Ka) read01_init) + of_bool (passes (read03_main Kc) read03_init)
          + of_bool (passes (read04_main Kd) proc_init)
    in Some ([n], [4 - n], [0]))"
proof -
  let ?d = "[(''read01.c'', ran (read01_main Ka read01_init)), (''read02.c'', ran (read02_main Kb read02_init)),
    (''read03.c'', ran (read03_main Kc read03_init)), (''read04.c'', ran (read04_main Kd proc_init)), (''incl.h'', e)]"
  have "dir_passed ?d = of_bool (passes (read01_main Ka) read01_init) + of_bool (passes (read03_main Kc) read03_init)
      + of_bool (passes (read04_main Kd) proc_init)"
    and "dir_failed ?d = 4 - dir_passed ?d" and "dir_broken ?d = 0"
    by (simp_all add: directory_simps read02_never_passes)
  with brain_counted [of "[?d]"] show ?thesis by (auto simp: Let_def)
qed

text \<open>C19. Whatever the kernel answers and the other directories hold, the bar that \<^verbatim>\<open>runtest\<close> computes for the directory
  \<^verbatim>\<open>sched_setattr\<close> is all failed: its only program cannot pass.\<close>

theorem sched_setattr_bar:
  assumes "i < length dirs" and "length dirs \<le> 361" and "charts dirs = Some (pp, fp, bp)"
    and "dirs ! i = [(''sched_setattr01.c'', ran (sched_setattr01_main K sched_setattr01_init))]"
  shows "pp ! i = 0 \<and> fp ! i = 100 \<and> bp ! i = 0"
proof -
  have "dir_passed (dirs ! i) = 0" "dir_failed (dirs ! i) = 1" "dir_broken (dirs ! i) = 0"
    by (simp_all add: assms(4) directory_simps sched_setattr01_never_passes)
  moreover from assms(2,3)
  have "percentages (map dir_passed dirs) (map dir_failed dirs) (map dir_broken dirs) = Some (pp, fp, bp)"
    by (simp add: charts_percentages)
  ultimately show ?thesis
    using percentages_nth [of "map dir_passed dirs" "map dir_failed dirs" "map dir_broken dirs" pp fp bp] assms(1)
    by (simp add: percent_def)
qed

theorem sched_setattr_bar_witness:
  "\<exists>pp fp bp. charts [[(''sched_setattr01.c'', ran (sched_setattr01_main (\<lambda>h c. sys_ok 0) sched_setattr01_init))]] =
     Some (pp, fp, bp) \<and> pp ! 0 = 0 \<and> fp ! 0 = 100 \<and> bp ! 0 = 0"
proof -
  let ?d = "[(''sched_setattr01.c'', ran (sched_setattr01_main (\<lambda>h c. sys_ok 0) sched_setattr01_init))]"
  have "charts [?d] = percentages [dir_passed ?d] [dir_failed ?d] [dir_broken ?d]"
    by (simp add: charts_percentages)
  moreover have "dir_passed ?d + dir_failed ?d + dir_broken ?d = 1"
    by (simp only: dir_total) (simp add: is_header_def sublist_code)
  ultimately obtain pp fp bp where "charts [?d] = Some (pp, fp, bp)" by (simp add: Let_def)
  with sched_setattr_bar [of 0 "[?d]" pp fp bp] show ?thesis by simp
qed

end
